(* ===== verification/Trm_Prelude.thy ===== *)
theory Trm_Prelude
  imports Main "HOL-Library.Word" "HOL-Library.Char_ord" "HOL-Library.List_Lexorder"
begin

text \<open>
  Shared vocabulary of the development: the exceptions of \<^verbatim>\<open>common/include/trm/TRM.h\<close>,
  fallible pure queries (sums), the ordered containers \<^verbatim>\<open>std::map\<close> and \<^verbatim>\<open>QMap\<close> as sorted
  association lists, the loops of the source over lists, and the generic lemmas on them that
  the component theories use.
\<close>

named_theorems query_simps \<open>how a successful query decomposes\<close>
named_theorems inv_intros \<open>introduction rules for preservation of an invariant\<close>

type_synonym u8 = "8 word"
type_synonym u32 = "32 word"
type_synonym u64 = "64 word"

text \<open>The bytes of a C string.\<close>

definition string_bytes :: "string \<Rightarrow> u8 list" where
  "string_bytes s = map (\<lambda>c. of_nat (of_char c)) s"

section \<open>Exceptions\<close>

text \<open>
  The exception classes of \<^verbatim>\<open>TRM.h\<close>, the \<^verbatim>\<open>throw (0)\<close> of
  \<^verbatim>\<open>Manager::getReservationAttributes\<close>, and the \<^verbatim>\<open>std::logic_error\<close> of a \<^verbatim>\<open>std::string\<close> constructed
  from a null pointer (\<open>LogicError\<close>). \<open>UndefinedBehaviour\<close> is
  not an exception of the program but an outcome no handler can catch: a \<^verbatim>\<open>static_cast\<close> to a class
  the object does not have, or a read through a null pointer.
\<close>

datatype exn =
    IllegalArgumentException
  | InvalidOperationException
  | ItemNotFoundException
  | ConnectionNotFoundException
  | AssertionFailureException
  | InvalidStateException
  | IntThrown int
  | LogicError
  | UndefinedBehaviour

definition catchable :: "exn \<Rightarrow> bool" where
  "catchable e \<longleftrightarrow> e \<noteq> UndefinedBehaviour"

lemma catchable_simps [simp]:
  "catchable IllegalArgumentException" "catchable InvalidOperationException"
  "catchable ItemNotFoundException" "catchable ConnectionNotFoundException"
  "catchable AssertionFailureException" "catchable InvalidStateException"
  "catchable (IntThrown n)" "catchable LogicError" "\<not> catchable UndefinedBehaviour"
  by (simp_all add: catchable_def)

section \<open>Queries: pure functions that may throw\<close>

type_synonym 'a query = "exn + 'a"

definition ebind :: "'a query \<Rightarrow> ('a \<Rightarrow> 'b query) \<Rightarrow> 'b query" where
  "ebind q f = (case q of Inl e \<Rightarrow> Inl e | Inr x \<Rightarrow> f x)"

text \<open>The \<^verbatim>\<open>Assert\<close> macro of \<^verbatim>\<open>TRM.h\<close>.\<close>

definition eassert :: "bool \<Rightarrow> unit query" where
  "eassert b = (if b then Inr () else Inl AssertionFailureException)"

text \<open>A \<^verbatim>\<open>try\<close> block with one handler for \<^verbatim>\<open>ItemNotFoundException\<close>.\<close>

definition ecatch_notfound :: "'a query \<Rightarrow> 'a query \<Rightarrow> 'a query" where
  "ecatch_notfound q h = (if q = Inl ItemNotFoundException then h else q)"

lemma ebind_simps [simp]:
  "ebind (Inl e) f = Inl e"
  "ebind (Inr x) f = f x"
  by (simp_all add: ebind_def)

lemma ebind_assoc [simp]: "ebind (ebind q f) g = ebind q (\<lambda>x. ebind (f x) g)"
  by (cases q) simp_all

lemma ebind_eq_Inr [query_simps]: "ebind q f = Inr y \<longleftrightarrow> (\<exists>x. q = Inr x \<and> f x = Inr y)"
  by (cases q) simp_all

lemma ebind_eq_Inl [query_simps]:
  "ebind q f = Inl e \<longleftrightarrow> q = Inl e \<or> (\<exists>x. q = Inr x \<and> f x = Inl e)"
  by (cases q) auto

lemma ebind_cong [fundef_cong]:
  "q = q' \<Longrightarrow> (\<And>x. q' = Inr x \<Longrightarrow> f x = f' x) \<Longrightarrow> ebind q f = ebind q' f'"
  by (cases q') simp_all

lemma eassert_simps [simp]:
  "eassert True = Inr ()" "eassert False = Inl AssertionFailureException"
  by (simp_all add: eassert_def)

lemma eassert_eq_Inr [query_simps]: "eassert b = Inr u \<longleftrightarrow> b"
  by (simp add: eassert_def)

lemma eassert_eq_Inl [query_simps]:
  "eassert b = Inl e \<longleftrightarrow> \<not> b \<and> e = AssertionFailureException"
  by (auto simp: eassert_def)

lemma ecatch_notfound_simps [simp]:
  "ecatch_notfound (Inr x) h = Inr x"
  "ecatch_notfound (Inl ItemNotFoundException) h = h"
  "ecatch_notfound (Inl AssertionFailureException) h = Inl AssertionFailureException"
  by (simp_all add: ecatch_notfound_def)

section \<open>Ordered containers\<close>

text \<open>
  \<^verbatim>\<open>std::map\<close> and \<^verbatim>\<open>QMap\<close> iterate in the order of their keys, and the allocation policy
  takes the first candidate it meets, so the order is part of the behaviour. Keys are
  \<^verbatim>\<open>std::string\<close> (lexicographic in the unsigned bytes, as \<open>Char_ord\<close> and \<open>List_Lexorder\<close>
  order them) or \<^verbatim>\<open>uint32_t\<close>. A map is the association list of its entries in that order.
\<close>

type_synonym ('k, 'v) smap = "('k \<times> 'v) list"

text \<open>\<^verbatim>\<open>m[k] = v\<close>: overwrites.\<close>

fun smap_put :: "'k::linorder \<Rightarrow> 'v \<Rightarrow> ('k, 'v) smap \<Rightarrow> ('k, 'v) smap" where
  "smap_put k v [] = [(k, v)]"
| "smap_put k v ((k', v') # m) =
     (if k < k' then (k, v) # (k', v') # m
      else if k = k' then (k, v) # m
      else (k', v') # smap_put k v m)"

text \<open>\<^verbatim>\<open>m.insert(pair(k, v))\<close>: keeps an entry that is already there.\<close>

definition smap_insert :: "'k::linorder \<Rightarrow> 'v \<Rightarrow> ('k, 'v) smap \<Rightarrow> ('k, 'v) smap" where
  "smap_insert k v m = (case map_of m k of None \<Rightarrow> smap_put k v m | Some _ \<Rightarrow> m)"

text \<open>\<^verbatim>\<open>m.erase(k)\<close>.\<close>

definition smap_erase :: "'k \<Rightarrow> ('k, 'v) smap \<Rightarrow> ('k, 'v) smap" where
  "smap_erase k m = filter (\<lambda>p. fst p \<noteq> k) m"

text \<open>Writing through the reference that \<^verbatim>\<open>m.find(k)\<close> gives.\<close>

definition smap_update :: "'k \<Rightarrow> ('v \<Rightarrow> 'v) \<Rightarrow> ('k, 'v) smap \<Rightarrow> ('k, 'v) smap" where
  "smap_update k f m = map (\<lambda>(k', v). (k', if k' = k then f v else v)) m"

abbreviation smap_keys :: "('k, 'v) smap \<Rightarrow> 'k list" where
  "smap_keys m \<equiv> map fst m"

definition smap_ok :: "('k::linorder, 'v) smap \<Rightarrow> bool" where
  "smap_ok m \<longleftrightarrow> sorted_wrt (<) (smap_keys m)"

lemma smap_ok_Nil [simp]: "smap_ok []"
  by (simp add: smap_ok_def)

lemma smap_ok_Cons [simp]:
  "smap_ok ((k, v) # m) \<longleftrightarrow> (\<forall>k' \<in> set (smap_keys m). k < k') \<and> smap_ok m"
  by (simp add: smap_ok_def)

lemma set_keys_put [simp]: "set (smap_keys (smap_put k v m)) = insert k (set (smap_keys m))"
  by (induction k v m rule: smap_put.induct) auto

lemma set_keys_put_image [simp]: "fst ` set (smap_put k v m) = insert k (fst ` set m)"
  using set_keys_put [of k v m] by simp

lemma smap_ok_put [simp]: "smap_ok m \<Longrightarrow> smap_ok (smap_put k v m)"
proof (induction k v m rule: smap_put.induct)
  case (2 k v k' v' m)
  then show ?case by (force simp: not_less)
qed simp

lemma map_of_put [simp]: "map_of (smap_put k v m) = (map_of m)(k \<mapsto> v)"
  by (induction k v m rule: smap_put.induct) (auto simp: fun_eq_iff)

lemma smap_put_put [simp]: "smap_put k v (smap_put k v' m) = smap_put k v m"
  by (induction m) auto

lemma set_put_subset: "set (smap_put k v m) \<subseteq> insert (k, v) (set m)"
  by (induction k v m rule: smap_put.induct) auto

lemma smap_ok_distinct: "smap_ok m \<Longrightarrow> distinct (smap_keys m)"
  by (simp add: smap_ok_def strict_sorted_iff)

lemma smap_mem_map_of: "smap_ok m \<Longrightarrow> (k, v) \<in> set m \<longleftrightarrow> map_of m k = Some v"
  using smap_ok_distinct by (metis map_of_eq_Some_iff)

lemma smap_ok_insert [simp]: "smap_ok m \<Longrightarrow> smap_ok (smap_insert k v m)"
  by (simp add: smap_insert_def split: option.split)

lemma set_keys_insert [simp]:
  "set (smap_keys (smap_insert k v m)) = insert k (set (smap_keys m))"
proof (cases "map_of m k")
  case (Some v')
  then have "k \<in> fst ` set m" by (metis map_of_eq_None_iff option.distinct(1))
  with Some show ?thesis by (auto simp: smap_insert_def)
qed (simp add: smap_insert_def)

lemma map_of_insert [simp]:
  "map_of (smap_insert k v m) k' =
     (if k' = k then (case map_of m k of None \<Rightarrow> Some v | Some v' \<Rightarrow> Some v') else map_of m k')"
  by (auto simp: smap_insert_def split: option.split)

lemma map_of_erase [simp]: "map_of (smap_erase k m) = (map_of m)(k := None)"
  by (induction m) (auto simp: smap_erase_def fun_eq_iff)

lemma set_erase [simp]: "set (smap_erase k m) = {p \<in> set m. fst p \<noteq> k}"
  by (auto simp: smap_erase_def)

lemma set_keys_erase [simp]: "set (smap_keys (smap_erase k m)) = set (smap_keys m) - {k}"
  by (auto simp: smap_erase_def)

lemma keys_filter_image [simp]: "fst ` {p \<in> set m. fst p \<noteq> k} = fst ` set m - {k}"
  by auto

lemma keys_insert_image [simp]: "fst ` set (smap_insert k v m) = insert k (fst ` set m)"
  using set_keys_insert [of k v m] by simp

lemma keys_update_image [simp]: "fst ` set (smap_update k f m) = fst ` set m"
  by (force simp: smap_update_def)

lemma smap_ok_erase [simp]: "smap_ok m \<Longrightarrow> smap_ok (smap_erase k m)"
  by (induction m) (auto simp: smap_erase_def smap_ok_def)

lemma smap_keys_update [simp]: "smap_keys (smap_update k f m) = smap_keys m"
  by (induction m) (auto simp: smap_update_def)

lemma smap_ok_update [simp]: "smap_ok (smap_update k f m) = smap_ok m"
  by (simp add: smap_ok_def)

lemma map_of_update [simp]:
  "map_of (smap_update k f m) k' = (if k' = k then map_option f (map_of m k) else map_of m k')"
  by (induction m) (auto simp: smap_update_def)

lemma set_update: "set (smap_update k f m) = (\<lambda>(k', v). (k', if k' = k then f v else v)) ` set m"
  by (simp add: smap_update_def)

lemma map_of_keys: "k \<in> set (smap_keys m) \<longleftrightarrow> (\<exists>v. map_of m k = Some v)"
  by (metis domIff dom_map_of_conv_image_fst list.set_map not_None_eq)

lemma smap_ext:
  assumes "smap_ok m" "smap_ok m'" "map_of m = map_of m'"
  shows "m = m'"
proof -
  have d: "distinct (map fst m)" "distinct (map fst m')"
    using assms(1,2) smap_ok_distinct by auto
  have "set m = set m'" using map_of_inject_set [OF d] assms(3) by blast
  moreover have "sorted (map fst m)" "sorted (map fst m')"
    using assms(1,2) by (auto simp: smap_ok_def strict_sorted_iff)
  ultimately show ?thesis
    using d map_sorted_distinct_set_unique [of fst m m'] distinct_map [of fst m] by simp
qed

text \<open>Filling a map from a list of pairs with distinct keys, in any order.\<close>

lemma fold_put:
  assumes "distinct (map fst xs)" "smap_ok m"
  shows "smap_ok (fold (\<lambda>x. smap_put (fst x) (f x)) xs m) \<and>
    map_of (fold (\<lambda>x. smap_put (fst x) (f x)) xs m) = map_of m ++ map_of (map (\<lambda>x. (fst x, f x)) xs)"
  using assms
proof (induction xs arbitrary: m)
  case (Cons x xs)
  have "map_of (map (\<lambda>x. (fst x, f x)) xs) (fst x) = None"
    using Cons.prems(1) by (auto simp: map_of_eq_None_iff image_iff)
  then show ?case using Cons.IH [of "smap_put (fst x) (f x) m"] Cons.prems
    by (auto simp: fun_eq_iff map_add_def split: option.split)
qed simp

text \<open>The contract of the ordered map that the manager's tables rely on.\<close>

locale ordered_map =
  fixes find :: "'m \<Rightarrow> 'k \<Rightarrow> 'v option"
    and put :: "'k \<Rightarrow> 'v \<Rightarrow> 'm \<Rightarrow> 'm"
    and erase :: "'k \<Rightarrow> 'm \<Rightarrow> 'm"
    and ok :: "'m \<Rightarrow> bool"
  assumes find_put: "find (put k v m) k' = (if k' = k then Some v else find m k')"
    and find_erase: "find (erase k m) k' = (if k' = k then None else find m k')"
    and ok_put: "ok m \<Longrightarrow> ok (put k v m)"
    and ok_erase: "ok m \<Longrightarrow> ok (erase k m)"
begin

lemma put_erase_find: "find (erase k (put k v m)) k' = find (erase k m) k'"
  by (simp add: find_put find_erase)

lemma erase_fresh: "find m k = None \<Longrightarrow> find (erase k (put k v m)) = find m"
  by (auto simp: fun_eq_iff find_put find_erase)

lemma put_commute:
  "k1 \<noteq> k2 \<Longrightarrow> find (put k1 v1 (put k2 v2 m)) = find (put k2 v2 (put k1 v1 m))"
  by (auto simp: fun_eq_iff find_put)

end

interpretation smap: ordered_map map_of smap_put smap_erase smap_ok
  by unfold_locales auto

section \<open>Loops over lists\<close>

text \<open>
  The erase-while-iterating loop that every \<^verbatim>\<open>Filter\<close> of the source uses; the test may
  throw.
\<close>

fun filterE :: "('a \<Rightarrow> bool query) \<Rightarrow> 'a list \<Rightarrow> 'a list query" where
  "filterE p [] = Inr []"
| "filterE p (x # xs) =
     ebind (p x) (\<lambda>b. ebind (filterE p xs) (\<lambda>ys. Inr (if b then x # ys else ys)))"

text \<open>A loop that collects one value per element.\<close>

fun mapE :: "('a \<Rightarrow> 'b query) \<Rightarrow> 'a list \<Rightarrow> 'b list query" where
  "mapE f [] = Inr []"
| "mapE f (x # xs) = ebind (f x) (\<lambda>y. ebind (mapE f xs) (\<lambda>ys. Inr (y # ys)))"

text \<open>
  A loop that takes the first element its body accepts and \<^verbatim>\<open>break\<close>s; the empty string is the
  source's \<open>nothing found\<close>.
\<close>

fun find_firstE :: "(string \<Rightarrow> bool query) \<Rightarrow> string list \<Rightarrow> string query" where
  "find_firstE p [] = Inr ''''"
| "find_firstE p (x # xs) = ebind (p x) (\<lambda>b. if b then Inr x else find_firstE p xs)"

lemma filterE_Inr: "filterE p xs = Inr ys \<Longrightarrow> set ys \<subseteq> set xs"
  by (induction xs arbitrary: ys) (auto simp: query_simps split: if_splits)

lemma filterE_Inr_iff:
  "filterE p xs = Inr ys \<Longrightarrow> y \<in> set ys \<longleftrightarrow> y \<in> set xs \<and> p y = Inr True"
  by (induction xs arbitrary: ys) (auto simp: query_simps split: if_splits)

lemma filterE_Inr_total: "filterE p xs = Inr ys \<Longrightarrow> x \<in> set xs \<Longrightarrow> \<exists>b. p x = Inr b"
  by (induction xs arbitrary: ys) (auto simp: query_simps split: if_splits)

lemma filterE_total:
  "(\<And>x. x \<in> set xs \<Longrightarrow> p x = Inr (P x)) \<Longrightarrow> filterE p xs = Inr (filter P xs)"
  by (induction xs) auto

lemma mapE_total: "(\<And>x. x \<in> set xs \<Longrightarrow> f x = Inr (g x)) \<Longrightarrow> mapE f xs = Inr (map g xs)"
  by (induction xs) auto

lemma mapE_length: "mapE f xs = Inr ys \<Longrightarrow> length ys = length xs"
  by (induction xs arbitrary: ys) (auto simp: query_simps)

lemma find_firstE_Inr:
  "find_firstE p xs = Inr x \<Longrightarrow> x = '''' \<or> x \<in> set xs \<and> p x = Inr True"
  by (induction xs) (auto simp: query_simps split: if_splits)

lemma find_firstE_total:
  "(\<And>x. x \<in> set xs \<Longrightarrow> p x = Inr (P x)) \<Longrightarrow>
     find_firstE p xs = Inr (case filter P xs of [] \<Rightarrow> '''' | x # _ \<Rightarrow> x)"
  by (induction xs) auto

end
