(* ===== verification/Trm_Enum.thy ===== *)
theory Trm_Enum
  imports Trm_Prelude
begin

text \<open>
  The enumerations of \<^verbatim>\<open>common\<close>: the \<^verbatim>\<open>Enum\<close> template (\<^verbatim>\<open>Enum.h\<close>) and its four instances
  \<^verbatim>\<open>Activity\<close>, \<^verbatim>\<open>TunerState\<close>, \<^verbatim>\<open>ResponseStatus\<close> and \<^verbatim>\<open>Klass\<close>, with the tuner state
  machine of \<^verbatim>\<open>TunerState::operator +\<close>.
\<close>

section \<open>The Enum template\<close>

text \<open>
  \<^verbatim>\<open>Enum<T>::at(const char *)\<close>: the first enumerator of \<^verbatim>\<open>T::getEnums()\<close> with this name,
  or the first enumerator of all when there is none.
\<close>

fun Enum_find :: "('e \<Rightarrow> string) \<Rightarrow> string \<Rightarrow> 'e list \<Rightarrow> 'e option" where
  "Enum_find nm t [] = None"
| "Enum_find nm t (e # es) = (if nm e = t then Some e else Enum_find nm t es)"

definition Enum_at :: "('e \<Rightarrow> string) \<Rightarrow> 'e \<Rightarrow> 'e list \<Rightarrow> string \<Rightarrow> 'e" where
  "Enum_at nm e0 es t = (case Enum_find nm t (e0 # es) of Some e \<Rightarrow> e | None \<Rightarrow> e0)"

locale enum_table =
  fixes nm :: "'e \<Rightarrow> string" and e0 :: 'e and es :: "'e list"
  assumes names_distinct: "distinct (map nm (e0 # es))"
    and complete: "e \<in> set (e0 # es)"
begin

lemma find_mem: "distinct (map nm xs) \<Longrightarrow> e \<in> set xs \<Longrightarrow> Enum_find nm (nm e) xs = Some e"
  by (induction xs) (auto simp: image_iff)

lemma at_name: "Enum_at nm e0 es (nm e) = e"
  using find_mem [OF names_distinct complete] by (simp add: Enum_at_def)

lemma name_inject: "nm a = nm b \<longleftrightarrow> a = b"
  by (metis at_name)

lemma find_none: "t \<notin> nm ` set xs \<Longrightarrow> Enum_find nm t xs = None"
  by (induction xs) auto

lemma at_unknown: "t \<notin> range nm \<Longrightarrow> Enum_at nm e0 es t = e0"
  using find_none [of t "e0 # es"] by (auto simp: Enum_at_def image_iff)

end

section \<open>Activity\<close>

text \<open>The enumerators of \<^verbatim>\<open>Activity.cpp\<close>, their values, names and table.\<close>

datatype Activity_enum = kNone | kLive | kRecord | kEAS

fun Activity_name :: "Activity_enum \<Rightarrow> string" where
  "Activity_name kNone = ''None''"
| "Activity_name kLive = ''Live''"
| "Activity_name kRecord = ''Record''"
| "Activity_name kEAS = ''EAS''"

definition Activity_enums :: "Activity_enum list" where
  "Activity_enums = [kLive, kRecord, kEAS]"

definition Activity_at :: "string \<Rightarrow> Activity_enum" where
  "Activity_at = Enum_at Activity_name kNone Activity_enums"

interpretation activity_table: enum_table Activity_name kNone Activity_enums
proof
  show "e \<in> set (kNone # Activity_enums)" for e
    by (cases e) (simp_all add: Activity_enums_def)
qed (simp add: Activity_enums_def)

text \<open>
  An activity is its enumerator and the free-form details a requester attaches (such as
  \<^verbatim>\<open>recordingId\<close>, \<^verbatim>\<open>hot\<close>, \<^verbatim>\<open>ppv\<close>, \<^verbatim>\<open>eas\<close>).
\<close>

record Activity =
  a_enum :: Activity_enum
  a_details :: "(string, string) smap"

definition Activity_new :: "Activity_enum \<Rightarrow> Activity" where
  "Activity_new e = \<lparr>a_enum = e, a_details = []\<rparr>"

definition Activity_hasDetails :: "Activity \<Rightarrow> bool" where
  "Activity_hasDetails a \<longleftrightarrow> length (a_details a) \<noteq> 0"

definition Activity_getDetail :: "Activity \<Rightarrow> string \<Rightarrow> string" where
  "Activity_getDetail a k = (case map_of (a_details a) k of Some v \<Rightarrow> v | None \<Rightarrow> '''')"

definition Activity_addDetail :: "string \<Rightarrow> string \<Rightarrow> Activity \<Rightarrow> Activity" where
  "Activity_addDetail k v a = a\<lparr>a_details := smap_insert k v (a_details a)\<rparr>"

text \<open>\<^verbatim>\<open>Activity::operator ==\<close> ignores the details.\<close>

definition Activity_eq :: "Activity \<Rightarrow> Activity_enum \<Rightarrow> bool" where
  "Activity_eq a e \<longleftrightarrow> a_enum a = e"

section \<open>Tuner state\<close>

datatype TunerState = tFree | tLive | tRecord | tHybrid | tEAS

fun TunerState_name :: "TunerState \<Rightarrow> string" where
  "TunerState_name tFree = ''Free''"
| "TunerState_name tLive = ''Live''"
| "TunerState_name tRecord = ''Record''"
| "TunerState_name tHybrid = ''Hybrid''"
| "TunerState_name tEAS = ''EAS''"

definition TunerState_enums :: "TunerState list" where
  "TunerState_enums = [tLive, tRecord, tHybrid, tEAS]"

definition TunerState_at :: "string \<Rightarrow> TunerState" where
  "TunerState_at = Enum_at TunerState_name tFree TunerState_enums"

interpretation tunerstate_table: enum_table TunerState_name tFree TunerState_enums
proof
  show "e \<in> set (tFree # TunerState_enums)" for e
    by (cases e) (simp_all add: TunerState_enums_def)
qed (simp add: TunerState_enums_def)

text \<open>\<^verbatim>\<open>TunerState::operator +\<close>: the state of a tuner that takes up one more activity.\<close>

definition TunerState_plus :: "TunerState \<Rightarrow> Activity_enum \<Rightarrow> TunerState" where
  "TunerState_plus s a =
     (if s = tFree then
        (if a = kLive then tLive
         else if a = kRecord then tRecord
         else if a = kEAS then tEAS
         else s)
      else if s = tLive then (if a = kRecord then tHybrid else s)
      else if s = tRecord then (if a = kLive then tHybrid else s)
      else s)"

section \<open>Response status\<close>

datatype ResponseStatus_enum =
    sOk | sGeneralError | sMalFormedRequest | sUnRecognizedRequest
  | sInvalidToken | sInvalidState | sUserCancellation | sInsufficientResource

fun ResponseStatus_name :: "ResponseStatus_enum \<Rightarrow> string" where
  "ResponseStatus_name sOk = ''Ok''"
| "ResponseStatus_name sGeneralError = ''GeneralError''"
| "ResponseStatus_name sMalFormedRequest = ''MalFormedRequest''"
| "ResponseStatus_name sUnRecognizedRequest = ''UnRecognizedRequest''"
| "ResponseStatus_name sInvalidToken = ''InvalidToken''"
| "ResponseStatus_name sInvalidState = ''InvalidState''"
| "ResponseStatus_name sUserCancellation = ''UserCancellation''"
| "ResponseStatus_name sInsufficientResource = ''InsufficientResource''"

definition ResponseStatus_enums :: "ResponseStatus_enum list" where
  "ResponseStatus_enums =
     [sGeneralError, sMalFormedRequest, sUnRecognizedRequest,
      sInvalidToken, sInvalidState, sUserCancellation, sInsufficientResource]"

definition ResponseStatus_at :: "string \<Rightarrow> ResponseStatus_enum" where
  "ResponseStatus_at = Enum_at ResponseStatus_name sOk ResponseStatus_enums"

interpretation status_table: enum_table ResponseStatus_name sOk ResponseStatus_enums
proof
  show "e \<in> set (sOk # ResponseStatus_enums)" for e
    by (cases e) (simp_all add: ResponseStatus_enums_def)
qed (simp add: ResponseStatus_enums_def)

section \<open>Message classes\<close>

text \<open>
  The class names that appear as the single top-level key of every JSON message, in the order
  of the enumeration in \<^verbatim>\<open>Klass.cpp\<close>.
\<close>

datatype Klass =
    kUnknown
  | kDetails
  | kActivity
  | kTunerReservation
  | kTunerState
  | kResponseStatus
  | kMessageBase
  | kNoResponse
  | kRequestBase
  | kResponseBase
  | kNotificationBase
  | kSimpleTRMRequest
  | kSimpleTRMResponse
  | kReserveTuner
  | kReserveTunerResponse
  | kReleaseTunerReservation
  | kReleaseTunerReservationResponse
  | kValidateTunerReservation
  | kValidateTunerReservationResponse
  | kCancelRecording
  | kCancelRecordingResponse
  | kCancelLive
  | kCancelLiveResponse
  | kGetAllTunerIds
  | kGetAllTunerIdsResponse
  | kGetAllTunerStates
  | kGetAllTunerStatesResponse
  | kGetAllReservations
  | kGetAllReservationsResponse
  | kGetVersion
  | kGetVersionResponse
  | kGetAllConnectedDeviceIdsResponse
  | kNotifyTunerReservationUpdate
  | kNotifyTunerReservationRelease
  | kNotifyTunerReservationConflicts
  | kNotifyTunerStatesUpdate
  | kNotifyTunerPretune
  | kNotifyClientConnectionEvent
  | kGetTRMConnectionEvents
  | kUpdateTunerActivityStatus
  | kUpdateTunerActivityStatusResponse

fun Klass_name :: "Klass \<Rightarrow> string" where
  "Klass_name kUnknown = ''unknown''"
| "Klass_name kDetails = ''details''"
| "Klass_name kActivity = ''activity''"
| "Klass_name kTunerReservation = ''tunerReservation''"
| "Klass_name kTunerState = ''tunerState''"
| "Klass_name kResponseStatus = ''responseStatus''"
| "Klass_name kMessageBase = ''messageBase''"
| "Klass_name kNoResponse = ''noResponse''"
| "Klass_name kRequestBase = ''requestBase''"
| "Klass_name kResponseBase = ''responseBase''"
| "Klass_name kNotificationBase = ''notificationBase''"
| "Klass_name kSimpleTRMRequest = ''simpleTRMRequest''"
| "Klass_name kSimpleTRMResponse = ''simpleTRMResponse''"
| "Klass_name kReserveTuner = ''reserveTuner''"
| "Klass_name kReserveTunerResponse = ''reserveTunerResponse''"
| "Klass_name kReleaseTunerReservation = ''releaseTunerReservation''"
| "Klass_name kReleaseTunerReservationResponse = ''releaseTunerReservationResponse''"
| "Klass_name kValidateTunerReservation = ''validateTunerReservation''"
| "Klass_name kValidateTunerReservationResponse = ''validateTunerReservationResponse''"
| "Klass_name kCancelRecording = ''cancelRecording''"
| "Klass_name kCancelRecordingResponse = ''cancelRecordingResponse''"
| "Klass_name kCancelLive = ''cancelLive''"
| "Klass_name kCancelLiveResponse = ''cancelLiveResponse''"
| "Klass_name kGetAllTunerIds = ''getAllTunerIds''"
| "Klass_name kGetAllTunerIdsResponse = ''getAllTunerIdsResponse''"
| "Klass_name kGetAllTunerStates = ''getAllTunerStates''"
| "Klass_name kGetAllTunerStatesResponse = ''getAllTunerStatesResponse''"
| "Klass_name kGetAllReservations = ''getAllReservations''"
| "Klass_name kGetAllReservationsResponse = ''getAllReservationsResponse''"
| "Klass_name kGetVersion = ''getVersion''"
| "Klass_name kGetVersionResponse = ''getVersionResponse''"
| "Klass_name kGetAllConnectedDeviceIdsResponse = ''getAllConnectedDeviceIdsResponse''"
| "Klass_name kNotifyTunerReservationUpdate = ''notifyTunerReservationUpdate''"
| "Klass_name kNotifyTunerReservationRelease = ''notifyTunerReservationRelease''"
| "Klass_name kNotifyTunerReservationConflicts = ''notifyTunerReservationConflict''"
| "Klass_name kNotifyTunerStatesUpdate = ''notifyTunerStatesUpdate''"
| "Klass_name kNotifyTunerPretune = ''notifyTunerPretune''"
| "Klass_name kNotifyClientConnectionEvent = ''notifyClientConnectionEvent''"
| "Klass_name kGetTRMConnectionEvents = ''getTRMConnectionEvents''"
| "Klass_name kUpdateTunerActivityStatus = ''updateTunerActivityStatus''"
| "Klass_name kUpdateTunerActivityStatusResponse = ''updateTunerActivityStatusResponse''"

definition Klass_enums :: "Klass list" where
  "Klass_enums =
     [kDetails,
      kActivity,
      kTunerReservation,
      kTunerState,
      kResponseStatus,
      kMessageBase,
      kNoResponse,
      kRequestBase,
      kResponseBase,
      kNotificationBase,
      kSimpleTRMRequest,
      kSimpleTRMResponse,
      kReserveTuner,
      kReserveTunerResponse,
      kReleaseTunerReservation,
      kReleaseTunerReservationResponse,
      kValidateTunerReservation,
      kValidateTunerReservationResponse,
      kCancelRecording,
      kCancelRecordingResponse,
      kCancelLive,
      kCancelLiveResponse,
      kGetAllTunerIds,
      kGetAllTunerIdsResponse,
      kGetAllTunerStates,
      kGetAllTunerStatesResponse,
      kGetAllReservations,
      kGetAllReservationsResponse,
      kGetAllConnectedDeviceIdsResponse,
      kGetVersion,
      kGetVersionResponse,
      kNotifyTunerReservationUpdate,
      kNotifyTunerReservationRelease,
      kNotifyTunerReservationConflicts,
      kNotifyTunerStatesUpdate,
      kNotifyTunerPretune,
      kNotifyClientConnectionEvent,
      kGetTRMConnectionEvents,
      kUpdateTunerActivityStatus,
      kUpdateTunerActivityStatusResponse]"

definition Klass_at :: "string \<Rightarrow> Klass" where
  "Klass_at = Enum_at Klass_name kUnknown Klass_enums"

lemma Klass_enums_complete: "k \<in> set (kUnknown # Klass_enums)"
  by (cases k) (simp_all add: Klass_enums_def)

interpretation klass_table: enum_table Klass_name kUnknown Klass_enums
  by unfold_locales (use Klass_enums_complete in \<open>simp_all add: Klass_enums_def\<close>)

section \<open>Properties of the enumerations\<close>

lemma Activity_at_name: "Activity_at (Activity_name e) = e"
  by (simp add: Activity_at_def activity_table.at_name)

lemma TunerState_at_name: "TunerState_at (TunerState_name e) = e"
  by (simp add: TunerState_at_def tunerstate_table.at_name)

lemma ResponseStatus_at_name: "ResponseStatus_at (ResponseStatus_name e) = e"
  by (simp add: ResponseStatus_at_def status_table.at_name)

lemma Klass_at_name: "Klass_at (Klass_name e) = e"
  by (simp add: Klass_at_def klass_table.at_name)

lemma Activity_at_unknown: "s \<notin> range Activity_name \<Longrightarrow> Activity_at s = kNone"
  by (simp add: Activity_at_def activity_table.at_unknown)

lemma Klass_at_unknown: "s \<notin> range Klass_name \<Longrightarrow> Klass_at s = kUnknown"
  by (simp add: Klass_at_def klass_table.at_unknown)

text \<open>The first detail given under a key stays: \<^verbatim>\<open>addDetail\<close> inserts and never overwrites.\<close>

lemma Activity_getDetail_addDetail:
  "Activity_getDetail (Activity_addDetail k v a) k' =
     (if k' = k \<and> map_of (a_details a) k = None then v else Activity_getDetail a k')"
  by (auto simp: Activity_getDetail_def Activity_addDetail_def split: option.split)

text \<open>
  Adding \<open>Live\<close> and \<open>Record\<close> to a tuner state is commutative and idempotent, so the state a
  tuner computes from its active reservations does not depend on their order.
\<close>

lemma TunerState_plus_commute:
  "a \<in> {kLive, kRecord} \<Longrightarrow> b \<in> {kLive, kRecord} \<Longrightarrow>
     TunerState_plus (TunerState_plus s a) b = TunerState_plus (TunerState_plus s b) a"
  by (cases s) (auto simp: TunerState_plus_def)

lemma TunerState_plus_idem:
  "TunerState_plus (TunerState_plus s a) a = TunerState_plus s a"
  by (cases s; cases a) (simp_all add: TunerState_plus_def)


section \<open>Properties\<close>

text \<open>
  Reading back the name of an enumerator gives the enumerator, for activities, tuner states,
  response statuses and message classes: no two enumerators of a table share a name and none
  is missing from \<^verbatim>\<open>getEnums\<close>.
\<close>

theorem enum_names_round_trip:
  "Activity_at (Activity_name a) = a \<and> TunerState_at (TunerState_name s) = s \<and>
   ResponseStatus_at (ResponseStatus_name r) = r \<and> Klass_at (Klass_name k) = k"
  unfolding Activity_at_def TunerState_at_def ResponseStatus_at_def Klass_at_def
  using activity_table.at_name tunerstate_table.at_name status_table.at_name klass_table.at_name
  by blast

end
