(* ===== verification/Trm_Tuner.thy ===== *)
theory Trm_Tuner
  imports Trm_Enum
begin

text \<open>
  A reservation (\<^verbatim>\<open>TunerReservation.h\<close>, \<^verbatim>\<open>TunerReservation.cpp\<close>) and a tuner with the
  reservations it holds (\<^verbatim>\<open>Tuner.h\<close>, \<^verbatim>\<open>Tuner.cpp\<close>). Times are \<^verbatim>\<open>uint64_t\<close> milliseconds
  and wrap around as in the source. The clock is an argument of the operations that read it.
  Logging is left out, and so is \<^verbatim>\<open>SafeAssert\<close>, which prints and swallows its failure.
\<close>

section \<open>Reservations\<close>

text \<open>\<^verbatim>\<open>TunerReservationBase::state\<close> is an \<^verbatim>\<open>int\<close> that only ever holds these values.\<close>

datatype rstate = IDLE | ACTIVE | EXPIRED

text \<open>
  The application's custom attributes are an opaque JSON object behind a pointer; the model
  keeps the handle (\<open>None\<close> is the null pointer).
\<close>

record TunerReservation =
  r_token :: string
  r_device :: string
  r_serviceLocator :: string
  r_startTime :: u64
  r_duration :: u64
  r_activity :: Activity
  r_customAttributes :: "nat option"
  r_state :: rstate

definition TunerReservation_default :: TunerReservation where
  "TunerReservation_default =
     \<lparr>r_token = '''', r_device = '''', r_serviceLocator = '''', r_startTime = 0, r_duration = 0,
      r_activity = Activity_new kNone, r_customAttributes = None, r_state = IDLE\<rparr>"

definition TunerReservation_new ::
  "string \<Rightarrow> string \<Rightarrow> u64 \<Rightarrow> u64 \<Rightarrow> Activity \<Rightarrow> string \<Rightarrow> nat option \<Rightarrow> TunerReservation" where
  "TunerReservation_new dev loc start dur act tok attrs =
     \<lparr>r_token = tok, r_device = dev, r_serviceLocator = loc, r_startTime = start,
      r_duration = dur, r_activity = act, r_customAttributes = attrs, r_state = IDLE\<rparr>"

definition setReservationToken :: "string \<Rightarrow> TunerReservation \<Rightarrow> TunerReservation" where
  "setReservationToken t r = r\<lparr>r_token := t\<rparr>"

definition setServiceLocator :: "string \<Rightarrow> TunerReservation \<Rightarrow> TunerReservation" where
  "setServiceLocator l r = r\<lparr>r_serviceLocator := l\<rparr>"

definition setStartTime :: "u64 \<Rightarrow> TunerReservation \<Rightarrow> TunerReservation" where
  "setStartTime t r = r\<lparr>r_startTime := t\<rparr>"

definition setDuration :: "u64 \<Rightarrow> TunerReservation \<Rightarrow> TunerReservation" where
  "setDuration d r = r\<lparr>r_duration := d\<rparr>"

definition setCustomAttributes :: "nat option \<Rightarrow> TunerReservation \<Rightarrow> TunerReservation" where
  "setCustomAttributes c r = r\<lparr>r_customAttributes := c\<rparr>"

definition TunerReservation_addDetail ::
  "string \<Rightarrow> string \<Rightarrow> TunerReservation \<Rightarrow> TunerReservation" where
  "TunerReservation_addDetail k v r = r\<lparr>r_activity := Activity_addDetail k v (r_activity r)\<rparr>"

text \<open>
  \<^verbatim>\<open>getExpirationTime\<close>: the remaining time in signed 64-bit arithmetic, cut off at 0.
\<close>

definition getExpirationTime :: "u64 \<Rightarrow> TunerReservation \<Rightarrow> u64" where
  "getExpirationTime now r =
     (let e = (r_startTime r - now) + r_duration r in if sint e < 0 then 0 else e)"

lemmas reservation_set_defs =
  setReservationToken_def setServiceLocator_def setStartTime_def setDuration_def
  setCustomAttributes_def

section \<open>Tuners\<close>

record Tuner =
  internalId :: string
  reservations :: "(string, TunerReservation) smap"

definition Tuner_new :: "string \<Rightarrow> Tuner" where
  "Tuner_new i = \<lparr>internalId = i, reservations = []\<rparr>"

definition isOverlap :: "u64 \<Rightarrow> u64 \<Rightarrow> u64 \<Rightarrow> u64 \<Rightarrow> bool" where
  "isOverlap start1 dur1 start2 dur2 \<longleftrightarrow>
     \<not> (start1 + dur1 \<le> start2 \<or> start2 + dur2 \<le> start1)"

text \<open>The tokens are appended to the list the caller passes.\<close>

definition Tuner_getReservationTokens :: "Tuner \<Rightarrow> string list \<Rightarrow> string list" where
  "Tuner_getReservationTokens t tokens = tokens @ smap_keys (reservations t)"

definition Tuner_getReservation :: "Tuner \<Rightarrow> string \<Rightarrow> TunerReservation query" where
  "Tuner_getReservation t tok =
     (case map_of (reservations t) tok of
        Some r \<Rightarrow> Inr r
      | None \<Rightarrow> Inl AssertionFailureException)"

text \<open>The search by activity, state and (unless empty) locator.\<close>

definition Tuner_matches :: "Activity_enum \<Rightarrow> rstate \<Rightarrow> string \<Rightarrow> TunerReservation \<Rightarrow> bool" where
  "Tuner_matches a s loc r \<longleftrightarrow>
     r_state r = s \<and> Activity_eq (r_activity r) a \<and> (loc = '''' \<or> loc = r_serviceLocator r)"

fun Tuner_search :: "(TunerReservation \<Rightarrow> bool) \<Rightarrow> (string, TunerReservation) smap \<Rightarrow>
    TunerReservation query" where
  "Tuner_search p [] = Inl ItemNotFoundException"
| "Tuner_search p ((k, r) # m) = (if p r then Inr r else Tuner_search p m)"

definition Tuner_getReservationBy ::
  "Tuner \<Rightarrow> Activity_enum \<Rightarrow> rstate \<Rightarrow> string \<Rightarrow> TunerReservation query" where
  "Tuner_getReservationBy t a s loc = Tuner_search (Tuner_matches a s loc) (reservations t)"

text \<open>
  \<^verbatim>\<open>Tuner::getState\<close>: the state is not stored; it is computed from the active reservations.
\<close>

fun Tuner_stateLoop :: "TunerState \<Rightarrow> (string, TunerReservation) smap \<Rightarrow> TunerState" where
  "Tuner_stateLoop s [] = s"
| "Tuner_stateLoop s ((k, r) # m) =
     Tuner_stateLoop
       (if r_state r = ACTIVE then
          (if Activity_eq (r_activity r) kLive then TunerState_plus s kLive
           else if Activity_eq (r_activity r) kRecord then TunerState_plus s kRecord
           else s)
        else s) m"

definition Tuner_getState :: "Tuner \<Rightarrow> TunerState" where
  "Tuner_getState t = Tuner_stateLoop tFree (reservations t)"

fun Tuner_activeLocator :: "(string, TunerReservation) smap \<Rightarrow> string" where
  "Tuner_activeLocator [] = ''''"
| "Tuner_activeLocator ((k, r) # m) =
     (if r_state r = ACTIVE then r_serviceLocator r else Tuner_activeLocator m)"

fun Tuner_nearestLocator ::
  "u64 \<Rightarrow> string \<Rightarrow> (string, TunerReservation) smap \<Rightarrow> string" where
  "Tuner_nearestLocator start loc [] = loc"
| "Tuner_nearestLocator start loc ((k, r) # m) =
     (if r_startTime r < start then Tuner_nearestLocator (r_startTime r) (r_serviceLocator r) m
      else Tuner_nearestLocator start loc m)"

definition Tuner_getServiceLocator :: "Tuner \<Rightarrow> bool \<Rightarrow> string query" where
  "Tuner_getServiceLocator t considerFutureToken =
     (let loc = Tuner_activeLocator (reservations t) in
      if loc = '''' \<and> considerFutureToken then
        ebind (eassert (Tuner_getState t = tFree)) (\<lambda>_.
          Inr (Tuner_nearestLocator (- 1) loc (reservations t)))
      else Inr loc)"

text \<open>
  \<^verbatim>\<open>Tuner::getEndTime\<close>: the loop ends at the first reservation of another activity.
\<close>

fun Tuner_endTimeLoop ::
  "Activity_enum \<Rightarrow> u64 \<Rightarrow> (string, TunerReservation) smap \<Rightarrow> u64" where
  "Tuner_endTimeLoop a endTime [] = endTime"
| "Tuner_endTimeLoop a endTime ((k, r) # m) =
     (if Activity_eq (r_activity r) a then
        Tuner_endTimeLoop a
          (if r_startTime r + r_duration r > endTime then r_startTime r + r_duration r else endTime) m
      else endTime)"

definition Tuner_getEndTime :: "Tuner \<Rightarrow> Activity_enum \<Rightarrow> u64" where
  "Tuner_getEndTime t a = Tuner_endTimeLoop a 0 (reservations t)"

text \<open>
  \<^verbatim>\<open>Tuner::addReservation\<close>. On a tuner that is not free, an overlapping reservation of the
  same activity must have the same locator; the check precedes the insertion. The count of
  active reservations is checked after it.
\<close>

definition Tuner_compatible :: "TunerReservation \<Rightarrow> TunerReservation \<Rightarrow> bool" where
  "Tuner_compatible new r \<longleftrightarrow>
     (isOverlap (r_startTime r) (r_duration r) (r_startTime new) (r_duration new) \<and>
      Activity_eq (r_activity r) (a_enum (r_activity new)) \<longrightarrow>
      r_serviceLocator r = r_serviceLocator new)"

definition Tuner_countState :: "rstate \<Rightarrow> Tuner \<Rightarrow> nat" where
  "Tuner_countState s t = length (filter (\<lambda>p. r_state (snd p) = s) (reservations t))"

definition Tuner_addReservation :: "TunerReservation \<Rightarrow> Tuner \<Rightarrow> unit query \<times> Tuner" where
  "Tuner_addReservation r t =
     (if Tuner_getState t \<noteq> tFree \<and>
         \<not> (length (reservations t) > 0 \<and>
            list_all (\<lambda>p. Tuner_compatible r (snd p)) (reservations t))
      then (Inl AssertionFailureException, t)
      else (let t' = t\<lparr>reservations := smap_put (r_token r) r (reservations t)\<rparr> in
            (eassert (Tuner_countState ACTIVE t' \<le> 2), t')))"

definition Tuner_releaseReservation :: "string \<Rightarrow> Tuner \<Rightarrow> unit query \<times> Tuner" where
  "Tuner_releaseReservation tok t =
     (case map_of (reservations t) tok of
        None \<Rightarrow> (Inr (), t)
      | Some r \<Rightarrow>
          (if r_token r = tok then (Inr (), t\<lparr>reservations := smap_erase tok (reservations t)\<rparr>)
           else (Inl AssertionFailureException, t)))"

text \<open>\<^verbatim>\<open>Tuner::assertTunerState\<close>, used by the source in warnings only.\<close>

definition Tuner_assertTunerState :: "rstate \<Rightarrow> nat \<Rightarrow> nat \<Rightarrow> Tuner \<Rightarrow> bool" where
  "Tuner_assertTunerState s lowMark highMark t \<longleftrightarrow>
     lowMark \<le> Tuner_countState s t \<and> Tuner_countState s t \<le> highMark"

section \<open>Well-formed tuners\<close>

text \<open>The map is ordered and every reservation is filed under its own token.\<close>

definition tuner_wf :: "Tuner \<Rightarrow> bool" where
  "tuner_wf t \<longleftrightarrow> smap_ok (reservations t) \<and>
     (\<forall>(k, r) \<in> set (reservations t). r_token r = k)"

lemma tuner_wf_new [simp]: "tuner_wf (Tuner_new i)"
  by (simp add: tuner_wf_def Tuner_new_def)

lemma tuner_wf_lookup: "tuner_wf t \<Longrightarrow> map_of (reservations t) tok = Some r \<Longrightarrow> r_token r = tok"
  by (auto simp: tuner_wf_def dest: map_of_SomeD)

lemma tuner_wf_add: "tuner_wf t \<Longrightarrow> tuner_wf (snd (Tuner_addReservation r t))"
  using set_put_subset [of "r_token r" r "reservations t"]
  by (auto simp: tuner_wf_def Tuner_addReservation_def Let_def)

lemma tuner_wf_release: "tuner_wf t \<Longrightarrow> tuner_wf (snd (Tuner_releaseReservation tok t))"
  by (auto simp: tuner_wf_def Tuner_releaseReservation_def split: option.split)

lemma tuner_wf_update:
  "tuner_wf t \<Longrightarrow> (\<And>r. r_token (f r) = r_token r) \<Longrightarrow>
     tuner_wf (t\<lparr>reservations := smap_update tok f (reservations t)\<rparr>)"
  by (auto simp: tuner_wf_def set_update)

lemma internalId_add [simp]: "internalId (snd (Tuner_addReservation r t)) = internalId t"
  by (simp add: Tuner_addReservation_def Let_def)

lemma internalId_release [simp]: "internalId (snd (Tuner_releaseReservation tok t)) = internalId t"
  by (simp add: Tuner_releaseReservation_def split: option.split)

lemma Tuner_addReservation_ok:
  "Tuner_addReservation r t = (Inr (), t') \<Longrightarrow>
     t' = t\<lparr>reservations := smap_put (r_token r) r (reservations t)\<rparr>"
  by (auto simp: Tuner_addReservation_def Let_def split: if_splits)

lemma Tuner_addReservation_mono:
  "set (smap_keys (reservations t)) \<subseteq> set (smap_keys (reservations (snd (Tuner_addReservation r t))))"
  by (auto simp: Tuner_addReservation_def Let_def)

lemma Tuner_releaseReservation_ok:
  assumes "tuner_wf t"
  shows "Tuner_releaseReservation tok t =
    (Inr (), t\<lparr>reservations := smap_erase tok (reservations t)\<rparr>)"
proof (cases "map_of (reservations t) tok")
  case None
  then have "smap_erase tok (reservations t) = reservations t"
    by (auto simp: smap_erase_def map_of_eq_None_iff intro!: filter_True)
  with None show ?thesis by (simp add: Tuner_releaseReservation_def)
next
  case (Some r)
  with assms have "r_token r = tok" by (rule tuner_wf_lookup)
  with Some show ?thesis by (simp add: Tuner_releaseReservation_def)
qed

section \<open>What a tuner computes\<close>

text \<open>Whether some active reservation of the tuner has this activity.\<close>

definition has_active :: "Activity_enum \<Rightarrow> Tuner \<Rightarrow> bool" where
  "has_active a t \<longleftrightarrow>
     (\<exists>r \<in> snd ` set (reservations t). r_state r = ACTIVE \<and> a_enum (r_activity r) = a)"

text \<open>The abstract state of a tuner: what it is used for at the moment.\<close>

definition spec_state :: "bool \<Rightarrow> bool \<Rightarrow> TunerState" where
  "spec_state live rec =
     (if live \<and> rec then tHybrid else if live then tLive else if rec then tRecord else tFree)"

lemma spec_state_plus:
  "TunerState_plus (spec_state l r) kLive = spec_state True r"
  "TunerState_plus (spec_state l r) kRecord = spec_state l True"
  by (auto simp: TunerState_plus_def spec_state_def)

definition active_in :: "Activity_enum \<Rightarrow> (string, TunerReservation) smap \<Rightarrow> bool" where
  "active_in a m \<longleftrightarrow> (\<exists>r \<in> snd ` set m. r_state r = ACTIVE \<and> a_enum (r_activity r) = a)"

lemma active_in_simps [simp]:
  "\<not> active_in a []"
  "active_in a ((k, r) # m) \<longleftrightarrow> r_state r = ACTIVE \<and> a_enum (r_activity r) = a \<or> active_in a m"
  by (auto simp: active_in_def)

lemma Tuner_stateLoop_spec:
  "Tuner_stateLoop (spec_state l rc) m =
     spec_state (l \<or> active_in kLive m) (rc \<or> active_in kRecord m)"
  by (induction m arbitrary: l rc) (auto simp: Activity_eq_def spec_state_plus)

lemma Tuner_getState_spec: "Tuner_getState t = spec_state (has_active kLive t) (has_active kRecord t)"
  using Tuner_stateLoop_spec [of False False "reservations t"]
  by (simp add: Tuner_getState_def spec_state_def has_active_def active_in_def)

lemma Tuner_getState_cases:
  "Tuner_getState t = tFree \<longleftrightarrow> \<not> has_active kLive t \<and> \<not> has_active kRecord t"
  "Tuner_getState t = tLive \<longleftrightarrow> has_active kLive t \<and> \<not> has_active kRecord t"
  "Tuner_getState t = tRecord \<longleftrightarrow> \<not> has_active kLive t \<and> has_active kRecord t"
  "Tuner_getState t = tHybrid \<longleftrightarrow> has_active kLive t \<and> has_active kRecord t"
  "Tuner_getState t \<noteq> tEAS"
  by (auto simp: Tuner_getState_spec spec_state_def)

lemma Tuner_search_Inr: "Tuner_search p m = Inr r \<Longrightarrow> p r \<and> r \<in> snd ` set m"
  by (induction p m rule: Tuner_search.induct) (auto split: if_splits)

lemma Tuner_search_Inl:
  "Tuner_search p m = Inl e \<longleftrightarrow> e = ItemNotFoundException \<and> (\<forall>r \<in> snd ` set m. \<not> p r)"
  by (induction p m rule: Tuner_search.induct) auto

lemma Tuner_getReservationBy_Inr:
  "Tuner_getReservationBy t a s loc = Inr r \<Longrightarrow>
     r \<in> snd ` set (reservations t) \<and> r_state r = s \<and> a_enum (r_activity r) = a \<and>
     (loc = '''' \<or> r_serviceLocator r = loc)"
  by (auto simp: Tuner_getReservationBy_def Tuner_matches_def Activity_eq_def
      dest!: Tuner_search_Inr)

lemma Tuner_getReservationBy_active:
  "(\<exists>r. Tuner_getReservationBy t a ACTIVE '''' = Inr r) \<longleftrightarrow> has_active a t"
  "Tuner_getReservationBy t a ACTIVE '''' = Inl e \<longleftrightarrow> e = ItemNotFoundException \<and> \<not> has_active a t"
proof -
  show *: "Tuner_getReservationBy t a ACTIVE '''' = Inl e \<longleftrightarrow>
      e = ItemNotFoundException \<and> \<not> has_active a t" for e
    by (auto simp: Tuner_getReservationBy_def Tuner_search_Inl Tuner_matches_def Activity_eq_def
        has_active_def)
  then show "(\<exists>r. Tuner_getReservationBy t a ACTIVE '''' = Inr r) \<longleftrightarrow> has_active a t"
    by (metis sum.exhaust Inl_Inr_False)
qed


section \<open>Properties\<close>

text \<open>
  C22. The state \<^verbatim>\<open>Tuner::getState\<close> computes by adding up activities is the abstract state of the
  tuner: hybrid when some active reservation is live and some is a recording, live or record
  when only one of the two exists, and free otherwise, whatever the order of the reservations
  and however many there are.
\<close>

theorem tuner_state_refines:
  "Tuner_getState t =
     spec_state (\<exists>r \<in> snd ` set (reservations t). r_state r = ACTIVE \<and> a_enum (r_activity r) = kLive)
                (\<exists>r \<in> snd ` set (reservations t). r_state r = ACTIVE \<and> a_enum (r_activity r) = kRecord)"
  unfolding Tuner_getState_spec has_active_def ..

text \<open>The milliseconds a reservation occupies.\<close>

definition occupies :: "u64 \<Rightarrow> u64 \<Rightarrow> nat set" where
  "occupies start dur = {unat start ..< unat start + unat dur}"

lemma le_no_overflow:
  fixes a b c :: u64
  assumes "unat a + unat b < 2 ^ 64"
  shows "a + b \<le> c \<longleftrightarrow> unat a + unat b \<le> unat c"
  using assms by (simp add: word_le_nat_alt unat_word_ariths)

text \<open>
  C28. \<^verbatim>\<open>isOverlap\<close> decides whether two non-empty reservations have a millisecond in common, as
  long as neither end wraps around 64 bits.
\<close>

theorem isOverlap_intersects:
  assumes "unat s1 + unat d1 < 2 ^ 64" "unat s2 + unat d2 < 2 ^ 64" "d1 \<noteq> 0" "d2 \<noteq> 0"
  shows "isOverlap s1 d1 s2 d2 \<longleftrightarrow> occupies s1 d1 \<inter> occupies s2 d2 \<noteq> {}"
proof -
  have "unat d1 \<noteq> 0" "unat d2 \<noteq> 0" using assms(3,4) by (simp_all add: unat_eq_0)
  then show ?thesis
    unfolding isOverlap_def occupies_def le_no_overflow [OF assms(1)] le_no_overflow [OF assms(2)]
    by (cases "unat s1 \<le> unat s2") auto
qed

theorem isOverlap_intersects_witness:
  "isOverlap 10 5 12 9 \<longleftrightarrow> occupies 10 5 \<inter> occupies 12 9 \<noteq> {}"
  by (rule isOverlap_intersects) simp_all

text \<open>
  C23. \<^verbatim>\<open>Tuner::addReservation\<close> either files the reservation under its token and keeps all others,
  with at most two active ones and, on a tuner in use, no overlap of the same activity on
  another channel; or it throws, and then the tuner is as before unless it was the number of
  active reservations that was wrong.
\<close>

theorem tuner_add_outcome:
  assumes "tuner_wf t"
  shows "(fst (Tuner_addReservation r t) = Inr () \<and>
            map_of (reservations (snd (Tuner_addReservation r t))) =
              (map_of (reservations t))(r_token r \<mapsto> r) \<and>
            Tuner_countState ACTIVE (snd (Tuner_addReservation r t)) \<le> 2 \<and>
            (Tuner_getState t = tFree \<or>
             (\<forall>r' \<in> snd ` set (reservations t). Tuner_compatible r r'))) \<or>
         (fst (Tuner_addReservation r t) = Inl AssertionFailureException \<and>
            (snd (Tuner_addReservation r t) = t \<or>
             Tuner_countState ACTIVE (snd (Tuner_addReservation r t)) > 2))"
  using assms by (auto simp: Tuner_addReservation_def Let_def eassert_def list_all_iff)

definition sample_live :: TunerReservation where
  "sample_live = (TunerReservation_new ''box'' ''ch1'' 100 50 (Activity_new kLive) ''a'' None)
     \<lparr>r_state := ACTIVE\<rparr>"

definition sample_tuner :: Tuner where
  "sample_tuner = \<lparr>internalId = ''T'', reservations = [(''a'', sample_live)]\<rparr>"

definition sample_record :: TunerReservation where
  "sample_record = TunerReservation_new ''box'' ''ch2'' 120 50 (Activity_new kRecord) ''b'' None"

theorem tuner_add_outcome_witness:
  "map_of (reservations (snd (Tuner_addReservation sample_record sample_tuner))) =
     (map_of (reservations sample_tuner))(''b'' \<mapsto> sample_record)"
proof -
  have "tuner_wf sample_tuner" by code_simp
  moreover have "fst (Tuner_addReservation sample_record sample_tuner) \<noteq> Inl AssertionFailureException"
    by code_simp
  moreover have "r_token sample_record = ''b''" by code_simp
  ultimately show ?thesis using tuner_add_outcome [of sample_tuner sample_record] by simp
qed


lemma Tuner_endTimeLoop_prefix:
  "Tuner_endTimeLoop a e m =
     foldl max e (map (\<lambda>p. r_startTime (snd p) + r_duration (snd p))
       (takeWhile (\<lambda>p. a_enum (r_activity (snd p)) = a) m))"
  by (induction a e m rule: Tuner_endTimeLoop.induct) (auto simp: Activity_eq_def max_def)

text \<open>
  \<^verbatim>\<open>Tuner::getEndTime\<close> gives the latest end of the reservations of one activity only among
  those filed before the first reservation of another activity, in the order of the tokens; the
  reservations behind it are not looked at.
\<close>

theorem tuner_end_time_prefix:
  "Tuner_getEndTime t a =
     foldl max 0 (map (\<lambda>p. r_startTime (snd p) + r_duration (snd p))
       (takeWhile (\<lambda>p. a_enum (r_activity (snd p)) = a) (reservations t)))"
  unfolding Tuner_getEndTime_def by (rule Tuner_endTimeLoop_prefix)

end
