(* ===== verification/Trm_Messages.thy ===== *)
theory Trm_Messages
  imports Trm_Tuner
begin

text \<open>
  The messages of \<^verbatim>\<open>common/include/trm/Messages.h\<close> that the server receives and sends. A
  class is a record that extends its base class; the constructors fill the defaults of the
  source. A response carries its status code; the free-text status message, which the server
  only appends to and never reads, is left out.
\<close>

section \<open>Requests\<close>

datatype MessageType = Request | Response | Notification | Unknown

fun MessageType_value :: "MessageType \<Rightarrow> u32" where
  "MessageType_value Request = 0x1234"
| "MessageType_value Response = 0x1800"
| "MessageType_value Notification = 0x1400"
| "MessageType_value Unknown = 0x1401"

record RequestBase =
  q_uuid :: string
  q_device :: string

record SimpleTRMRequest = RequestBase +
  q_token :: string

record ReserveTuner = RequestBase +
  q_tunerReservation :: TunerReservation
  q_resurrect :: string

record CancelLive = SimpleTRMRequest +
  q_serviceLocator :: string

record GetAllReservations = SimpleTRMRequest +
  q_filterDevice :: string
  q_filters :: "(string, string) smap"

record UpdateTunerActivityStatus = RequestBase +
  q_activityStatus :: string
  q_lastActivityTimeStamp :: string
  q_lastActivityAction :: string

type_synonym ReleaseTunerReservation = SimpleTRMRequest
type_synonym ValidateTunerReservation = SimpleTRMRequest
type_synonym CancelRecording = SimpleTRMRequest
type_synonym GetAllTunerIds = SimpleTRMRequest
type_synonym GetAllTunerStates = SimpleTRMRequest
type_synonym GetVersion = SimpleTRMRequest

definition ReserveTuner_new ::
  "string \<Rightarrow> string \<Rightarrow> TunerReservation \<Rightarrow> string \<Rightarrow> ReserveTuner" where
  "ReserveTuner_new uuid dev r resurrect =
     \<lparr>q_uuid = uuid, q_device = dev, q_tunerReservation = r, q_resurrect = resurrect\<rparr>"

definition ReleaseTunerReservation_new ::
  "string \<Rightarrow> string \<Rightarrow> string \<Rightarrow> ReleaseTunerReservation" where
  "ReleaseTunerReservation_new uuid dev tok =
     \<lparr>q_uuid = uuid, q_device = dev, q_token = tok\<rparr>"

definition ValidateTunerReservation_new ::
  "string \<Rightarrow> string \<Rightarrow> string \<Rightarrow> ValidateTunerReservation" where
  "ValidateTunerReservation_new uuid dev tok =
     \<lparr>q_uuid = uuid, q_device = dev, q_token = tok\<rparr>"

definition CancelRecording_new :: "string \<Rightarrow> string \<Rightarrow> CancelRecording" where
  "CancelRecording_new uuid tok = \<lparr>q_uuid = uuid, q_device = '''', q_token = tok\<rparr>"

definition CancelLive_new :: "string \<Rightarrow> string \<Rightarrow> string \<Rightarrow> CancelLive" where
  "CancelLive_new uuid loc tok =
     \<lparr>q_uuid = uuid, q_device = '''', q_token = tok, q_serviceLocator = loc\<rparr>"

definition GetAllReservations_new ::
  "string \<Rightarrow> (string, string) smap \<Rightarrow> GetAllReservations" where
  "GetAllReservations_new uuid fs =
     \<lparr>q_uuid = uuid, q_device = '''', q_token = '''', q_filterDevice = '''', q_filters = fs\<rparr>"

definition GetAllReservations_getFilter :: "GetAllReservations \<Rightarrow> string \<Rightarrow> string" where
  "GetAllReservations_getFilter q k = (case map_of (q_filters q) k of Some v \<Rightarrow> v | None \<Rightarrow> '''')"

section \<open>Responses\<close>

record ResponseBase =
  s_uuid :: string
  s_status :: ResponseStatus_enum

record SimpleTRMResponse = ResponseBase +
  s_token :: string

record ReserveTunerResponse = ResponseBase +
  s_tunerReservation :: TunerReservation
  s_conflicts :: "TunerReservation list"

record ReleaseTunerReservationResponse = SimpleTRMResponse +
  s_released :: bool

record ValidateTunerReservationResponse = SimpleTRMResponse +
  s_valid :: bool

record CancelRecordingResponse = SimpleTRMResponse +
  s_canceled :: bool

record CancelLiveResponse = SimpleTRMResponse +
  s_liveCanceled :: bool
  s_serviceLocator :: string

record GetAllTunerIdsResponse = SimpleTRMResponse +
  s_tunerIds :: "string list"

record GetVersionResponse = SimpleTRMResponse +
  s_version :: string

type_synonym UpdateTunerActivityStatusResponse = ResponseBase

text \<open>\<^verbatim>\<open>DetailedTunerState\<close>: state, locator and owners of one tuner, as reported to clients.\<close>

record DetailedTunerState =
  d_state :: string
  d_serviceLocator :: string
  d_owners :: "(string, string) smap"
  d_reservedDeviceId :: string

definition DetailedTunerState_default :: DetailedTunerState where
  "DetailedTunerState_default =
     \<lparr>d_state = ''Free'', d_serviceLocator = '''', d_owners = [], d_reservedDeviceId = ''''\<rparr>"

definition DetailedTunerState_setState ::
  "string \<Rightarrow> string \<Rightarrow> DetailedTunerState \<Rightarrow> DetailedTunerState" where
  "DetailedTunerState_setState st loc d = d\<lparr>d_state := st, d_serviceLocator := loc\<rparr>"

definition DetailedTunerState_addTunerOwner ::
  "string \<Rightarrow> string \<Rightarrow> DetailedTunerState \<Rightarrow> DetailedTunerState" where
  "DetailedTunerState_addTunerOwner act dev d = d\<lparr>d_owners := smap_put act dev (d_owners d)\<rparr>"

record GetAllTunerStatesResponse = SimpleTRMResponse +
  s_tunerStates :: "(string, string) smap"
  s_tunerDetailedStates :: "(string, DetailedTunerState) smap"

record GetAllReservationsResponse = SimpleTRMResponse +
  s_reservations :: "(string, TunerReservation list) smap"

definition ReserveTunerResponse_new :: "string \<Rightarrow> ReserveTunerResponse" where
  "ReserveTunerResponse_new uuid =
     \<lparr>s_uuid = uuid, s_status = sOk, s_tunerReservation = TunerReservation_default,
      s_conflicts = []\<rparr>"

definition ReleaseTunerReservationResponse_new ::
  "string \<Rightarrow> string \<Rightarrow> ReleaseTunerReservationResponse" where
  "ReleaseTunerReservationResponse_new uuid tok =
     \<lparr>s_uuid = uuid, s_status = sOk, s_token = tok, s_released = False\<rparr>"

definition ValidateTunerReservationResponse_new ::
  "string \<Rightarrow> string \<Rightarrow> ValidateTunerReservationResponse" where
  "ValidateTunerReservationResponse_new uuid tok =
     \<lparr>s_uuid = uuid, s_status = sOk, s_token = tok, s_valid = True\<rparr>"

definition CancelRecordingResponse_new :: "string \<Rightarrow> string \<Rightarrow> CancelRecordingResponse" where
  "CancelRecordingResponse_new uuid tok =
     \<lparr>s_uuid = uuid, s_status = sOk, s_token = tok, s_canceled = False\<rparr>"

definition CancelLiveResponse_new ::
  "string \<Rightarrow> ResponseStatus_enum \<Rightarrow> string \<Rightarrow> string \<Rightarrow> bool \<Rightarrow> CancelLiveResponse" where
  "CancelLiveResponse_new uuid st tok loc c =
     \<lparr>s_uuid = uuid, s_status = st, s_token = tok, s_liveCanceled = c, s_serviceLocator = loc\<rparr>"

definition GetAllTunerIdsResponse_new :: "string \<Rightarrow> GetAllTunerIdsResponse" where
  "GetAllTunerIdsResponse_new uuid =
     \<lparr>s_uuid = uuid, s_status = sOk, s_token = '''', s_tunerIds = []\<rparr>"

definition GetAllTunerIdsResponse_addTunerId ::
  "string list \<Rightarrow> GetAllTunerIdsResponse \<Rightarrow> GetAllTunerIdsResponse" where
  "GetAllTunerIdsResponse_addTunerId ids s = s\<lparr>s_tunerIds := s_tunerIds s @ ids\<rparr>"

definition GetVersionResponse_new :: "string \<Rightarrow> GetVersionResponse" where
  "GetVersionResponse_new uuid =
     \<lparr>s_uuid = uuid, s_status = sOk, s_token = '''', s_version = ''''\<rparr>"

definition UpdateTunerActivityStatusResponse_new ::
  "string \<Rightarrow> UpdateTunerActivityStatusResponse" where
  "UpdateTunerActivityStatusResponse_new uuid = \<lparr>s_uuid = uuid, s_status = sOk\<rparr>"

definition GetAllTunerStatesResponse_new :: "string \<Rightarrow> GetAllTunerStatesResponse" where
  "GetAllTunerStatesResponse_new uuid =
     \<lparr>s_uuid = uuid, s_status = sOk, s_token = '''', s_tunerStates = [],
      s_tunerDetailedStates = []\<rparr>"

definition addTunerState ::
  "string \<Rightarrow> string \<Rightarrow> GetAllTunerStatesResponse \<Rightarrow> GetAllTunerStatesResponse" where
  "addTunerState tid st s = s\<lparr>s_tunerStates := smap_put tid st (s_tunerStates s)\<rparr>"

text \<open>\<^verbatim>\<open>tunerDetailedStates[tid]\<close> creates a default entry when there is none.\<close>

definition detailedState_ref ::
  "string \<Rightarrow> (DetailedTunerState \<Rightarrow> DetailedTunerState) \<Rightarrow> GetAllTunerStatesResponse \<Rightarrow>
     GetAllTunerStatesResponse" where
  "detailedState_ref tid f s =
     s\<lparr>s_tunerDetailedStates :=
         smap_put tid
           (f (case map_of (s_tunerDetailedStates s) tid of
                 Some d \<Rightarrow> d
               | None \<Rightarrow> DetailedTunerState_default))
           (s_tunerDetailedStates s)\<rparr>"

definition addTunerDetailedState ::
  "string \<Rightarrow> string \<Rightarrow> string \<Rightarrow> string \<Rightarrow> GetAllTunerStatesResponse \<Rightarrow>
     GetAllTunerStatesResponse" where
  "addTunerDetailedState tid st loc dev s =
     detailedState_ref tid
       (\<lambda>d. d\<lparr>d_state := st, d_serviceLocator := loc, d_reservedDeviceId := dev\<rparr>)
       (addTunerState tid st s)"

definition addTunerOwner ::
  "string \<Rightarrow> string \<Rightarrow> string \<Rightarrow> GetAllTunerStatesResponse \<Rightarrow> GetAllTunerStatesResponse" where
  "addTunerOwner tid act dev s =
     detailedState_ref tid (DetailedTunerState_addTunerOwner act dev) s"

definition GetAllReservationsResponse_new :: "string \<Rightarrow> GetAllReservationsResponse" where
  "GetAllReservationsResponse_new uuid =
     \<lparr>s_uuid = uuid, s_status = sOk, s_token = '''', s_reservations = []\<rparr>"

definition addTunerReservation ::
  "string \<Rightarrow> TunerReservation \<Rightarrow> GetAllReservationsResponse \<Rightarrow> GetAllReservationsResponse" where
  "addTunerReservation tid r s =
     s\<lparr>s_reservations :=
         smap_put tid
           ((case map_of (s_reservations s) tid of Some rs \<Rightarrow> rs | None \<Rightarrow> []) @ [r])
           (s_reservations s)\<rparr>"

section \<open>Notifications\<close>

record NotificationBase =
  n_uuid :: string

record NotifyTunerReservationRelease = NotificationBase +
  n_token :: string
  n_reason :: string

record NotifyTunerReservationUpdate = NotificationBase +
  n_updatedReservation :: TunerReservation

record NotifyTunerReservationConflicts = NotificationBase +
  n_requestedReservation :: TunerReservation
  n_conflicts :: "TunerReservation list"

record NotifyTunerStatesUpdate = NotificationBase +
  n_tunerDetailedStates :: "(string, DetailedTunerState) smap"

record NotifyTunerPretune = NotificationBase +
  n_serviceLocator :: string

record NotifyClientConnectionEvent = NotificationBase +
  n_eventName :: string
  n_clientIP :: string
  n_timeStamp :: u64

text \<open>Two responses that only the diagnostics client uses.\<close>

record GetTRMConnectionEvents = SimpleTRMResponse +
  s_conEventList :: "NotifyClientConnectionEvent list"

record GetAllConnectedDeviceIdsResponse = SimpleTRMResponse +
  s_conDeviceIDs :: "string list"

definition NotifyTunerReservationConflicts_new ::
  "string \<Rightarrow> TunerReservation \<Rightarrow> TunerReservation \<Rightarrow> NotifyTunerReservationConflicts" where
  "NotifyTunerReservationConflicts_new uuid live rec =
     \<lparr>n_uuid = uuid, n_requestedReservation = live, n_conflicts = [rec]\<rparr>"

definition NotifyTunerStatesUpdate_add ::
  "string \<Rightarrow> DetailedTunerState \<Rightarrow> NotifyTunerStatesUpdate \<Rightarrow> NotifyTunerStatesUpdate" where
  "NotifyTunerStatesUpdate_add tid d n =
     n\<lparr>n_tunerDetailedStates := smap_put tid d (n_tunerDetailedStates n)\<rparr>"

section \<open>All messages\<close>

datatype message =
    M_ReserveTuner ReserveTuner
  | M_ReserveTunerResponse ReserveTunerResponse
  | M_ReleaseTunerReservation ReleaseTunerReservation
  | M_ReleaseTunerReservationResponse ReleaseTunerReservationResponse
  | M_ValidateTunerReservation ValidateTunerReservation
  | M_ValidateTunerReservationResponse ValidateTunerReservationResponse
  | M_CancelRecording CancelRecording
  | M_CancelRecordingResponse CancelRecordingResponse
  | M_CancelLive CancelLive
  | M_CancelLiveResponse CancelLiveResponse
  | M_GetAllTunerIds GetAllTunerIds
  | M_GetAllTunerIdsResponse GetAllTunerIdsResponse
  | M_GetAllTunerStates GetAllTunerStates
  | M_GetAllTunerStatesResponse GetAllTunerStatesResponse
  | M_GetAllReservations GetAllReservations
  | M_GetAllReservationsResponse GetAllReservationsResponse
  | M_GetVersion GetVersion
  | M_GetVersionResponse GetVersionResponse
  | M_NotifyTunerReservationRelease NotifyTunerReservationRelease
  | M_NotifyTunerReservationUpdate NotifyTunerReservationUpdate
  | M_NotifyTunerReservationConflicts NotifyTunerReservationConflicts
  | M_NotifyTunerStatesUpdate NotifyTunerStatesUpdate
  | M_NotifyTunerPretune NotifyTunerPretune
  | M_UpdateTunerActivityStatus UpdateTunerActivityStatus
  | M_UpdateTunerActivityStatusResponse UpdateTunerActivityStatusResponse
  | M_NotifyClientConnectionEvent NotifyClientConnectionEvent
  | M_GetTRMConnectionEvents GetTRMConnectionEvents
  | M_GetAllConnectedDeviceIdsResponse GetAllConnectedDeviceIdsResponse

fun message_klass :: "message \<Rightarrow> Klass" where
  "message_klass (M_ReserveTuner _) = kReserveTuner"
| "message_klass (M_ReserveTunerResponse _) = kReserveTunerResponse"
| "message_klass (M_ReleaseTunerReservation _) = kReleaseTunerReservation"
| "message_klass (M_ReleaseTunerReservationResponse _) = kReleaseTunerReservationResponse"
| "message_klass (M_ValidateTunerReservation _) = kValidateTunerReservation"
| "message_klass (M_ValidateTunerReservationResponse _) = kValidateTunerReservationResponse"
| "message_klass (M_CancelRecording _) = kCancelRecording"
| "message_klass (M_CancelRecordingResponse _) = kCancelRecordingResponse"
| "message_klass (M_CancelLive _) = kCancelLive"
| "message_klass (M_CancelLiveResponse _) = kCancelLiveResponse"
| "message_klass (M_GetAllTunerIds _) = kGetAllTunerIds"
| "message_klass (M_GetAllTunerIdsResponse _) = kGetAllTunerIdsResponse"
| "message_klass (M_GetAllTunerStates _) = kGetAllTunerStates"
| "message_klass (M_GetAllTunerStatesResponse _) = kGetAllTunerStatesResponse"
| "message_klass (M_GetAllReservations _) = kGetAllReservations"
| "message_klass (M_GetAllReservationsResponse _) = kGetAllReservationsResponse"
| "message_klass (M_GetVersion _) = kGetVersion"
| "message_klass (M_GetVersionResponse _) = kGetVersionResponse"
| "message_klass (M_NotifyTunerReservationRelease _) = kNotifyTunerReservationRelease"
| "message_klass (M_NotifyTunerReservationUpdate _) = kNotifyTunerReservationUpdate"
| "message_klass (M_NotifyTunerReservationConflicts _) = kNotifyTunerReservationConflicts"
| "message_klass (M_NotifyTunerStatesUpdate _) = kNotifyTunerStatesUpdate"
| "message_klass (M_NotifyTunerPretune _) = kNotifyTunerPretune"
| "message_klass (M_UpdateTunerActivityStatus _) = kUpdateTunerActivityStatus"
| "message_klass (M_UpdateTunerActivityStatusResponse _) = kUpdateTunerActivityStatusResponse"
| "message_klass (M_NotifyClientConnectionEvent _) = kNotifyClientConnectionEvent"
| "message_klass (M_GetTRMConnectionEvents _) = kGetTRMConnectionEvents"
| "message_klass (M_GetAllConnectedDeviceIdsResponse _) = kGetAllConnectedDeviceIdsResponse"

end
