(* ===== verification/Trm_Timer.thy ===== *)
theory Trm_Timer
  imports Trm_Tuner
begin

text \<open>
  The timers (\<^verbatim>\<open>qtapp/srv/Timer.cpp\<close>, \<^verbatim>\<open>qtapp/srv/QtTimer.h\<close>). A timer is a single-shot
  \<^verbatim>\<open>QTimer\<close>, whose interval is a 32-bit \<^verbatim>\<open>int\<close>, with the absolute due time it stands for.
  Qt decides when a running timer fires; what a firing does is \<open>QtTimer_onExpiration\<close>.
\<close>

record QtTimer =
  qt_task :: bool
  qt_future :: u64
  qt_interval :: "u32 option"

definition QtTimer_new :: QtTimer where
  "QtTimer_new = \<lparr>qt_task = False, qt_future = 0, qt_interval = None\<rparr>"

text \<open>\<^verbatim>\<open>QTimer::start(int)\<close> takes the low 32 bits of the 64-bit argument.\<close>

definition QTimer_start :: "u64 \<Rightarrow> QtTimer \<Rightarrow> QtTimer" where
  "QTimer_start ms t = t\<lparr>qt_interval := Some (ucast ms)\<rparr>"

definition max32 :: u64 where
  "max32 = 0x7FFFFFFF"

definition QtTimer_schedule :: "u64 \<Rightarrow> u64 \<Rightarrow> QtTimer \<Rightarrow> QtTimer" where
  "QtTimer_schedule expireAt milliSecs t =
     QTimer_start (if sint milliSecs \<le> sint max32 then milliSecs else max32)
       (t\<lparr>qt_future := expireAt, qt_task := True\<rparr>)"

definition QtTimer_cancel :: "QtTimer \<Rightarrow> QtTimer" where
  "QtTimer_cancel t = t\<lparr>qt_interval := None, qt_task := False, qt_future := 0\<rparr>"

definition Timer_schedule :: "u64 \<Rightarrow> u64 \<Rightarrow> bool \<Rightarrow> QtTimer \<Rightarrow> QtTimer" where
  "Timer_schedule now milliSecs absolute t =
     (if \<not> absolute then QtTimer_schedule (now + milliSecs) milliSecs t
      else (let d = milliSecs - now
            in QtTimer_schedule milliSecs (if sint d < 0 then 0 else d) t))"

text \<open>
  The slot on the \<^verbatim>\<open>timeout\<close> signal: the first component says whether the task runs. A timer
  that fires before its due time is started again for what is left.
\<close>

definition QtTimer_onExpiration :: "u64 \<Rightarrow> QtTimer \<Rightarrow> bool \<times> QtTimer" where
  "QtTimer_onExpiration now t =
     (if sint now \<ge> sint (qt_future t)
      then (qt_task t, t\<lparr>qt_future := 0, qt_interval := None\<rparr>)
      else (let ms = qt_future t - now + 1;
                ms' = (if sint ms > 0 then ms else 0)
            in (False, QTimer_start ms' t)))"

section \<open>Properties\<close>

lemma sint_nonneg:
  fixes w :: "'a::len word"
  assumes "0 \<le> sint w"
  shows "sint w = int (unat w)"
proof -
  have "sint w < 2 ^ (LENGTH('a) - 1)" by (rule sint_lt)
  also have "(2 :: int) ^ (LENGTH('a) - 1) \<le> 2 ^ LENGTH('a)" by simp
  finally have "take_bit LENGTH('a) (sint w) = sint w" using assms by (simp add: take_bit_int_eq_self)
  then show ?thesis using uint_sint [of w] by simp
qed

lemma sint_small:
  fixes ms :: u64
  assumes "unat ms < 0x8000000000000000"
  shows "sint ms = int (unat ms)"
proof -
  have p: "(2 :: int) ^ 63 = 0x8000000000000000" by simp
  have u: "uint ms = int (unat ms)" by simp
  have "uint ms < 2 ^ 63" unfolding u using assms p by linarith
  moreover have "- (2 ^ 63) \<le> uint ms" unfolding u using p by linarith
  ultimately have "signed_take_bit 63 (uint ms) = uint ms" by (rule signed_take_bit_int_eq_self [rotated])
  moreover have "sint ms = signed_take_bit 63 (uint ms)" using sint_uint [of ms] by simp
  ultimately show ?thesis by simp
qed

lemma sint_clamp:
  fixes ms :: u64
  assumes "0 \<le> sint ms"
  shows "(ucast (if sint ms \<le> sint max32 then ms else max32) :: u32) =
    of_nat (min (unat ms) 0x7FFFFFFF)"
proof -
  have s: "sint ms = int (unat ms)" using assms by (rule sint_nonneg)
  have m: "sint max32 = 0x7FFFFFFF" by (simp add: max32_def)
  show ?thesis
  proof (cases "unat ms \<le> 0x7FFFFFFF")
    case True
    then have "sint ms \<le> sint max32" unfolding s m by linarith
    with True show ?thesis by (simp add: min_def)
  next
    case False
    then have "\<not> sint ms \<le> sint max32" unfolding s m by linarith
    with False show ?thesis by (simp add: min_def max32_def)
  qed
qed

text \<open>
  A timer scheduled for an absolute time remembers that time and is armed with the 32-bit
  interval that is left, cut off at \<open>0x7FFFFFFF\<close>, or 0 when the time has passed: it never
  sleeps past its due time and the interval is never negative as an \<^verbatim>\<open>int\<close>.
\<close>

theorem timer_interval:
  "qt_future (Timer_schedule now at True t) = at \<and> qt_task (Timer_schedule now at True t) \<and>
   qt_interval (Timer_schedule now at True t) =
     Some (of_nat (if sint (at - now) < 0 then 0 else min (unat (at - now)) 0x7FFFFFFF))"
proof -
  have z: "sint (0 :: u64) \<le> sint max32" by (simp add: max32_def)
  show ?thesis
  proof (cases "sint (at - now) < 0")
    case False
    then show ?thesis using sint_clamp [of "at - now"]
      by (auto simp: Timer_schedule_def QtTimer_schedule_def QTimer_start_def Let_def split: if_splits)
  qed (use z in \<open>simp add: Timer_schedule_def QtTimer_schedule_def QTimer_start_def Let_def\<close>)
qed

text \<open>
  A timer that fires before its due time does not run its task; it is armed again for one
  millisecond more than what is left, when that fits the 31 bits of the interval.
\<close>

theorem timer_rearm:
  assumes "sint now < sint (qt_future t)"
    and "unat (qt_future t - now) < 0x7FFFFFFF"
  shows "QtTimer_onExpiration now t =
    (False, t\<lparr>qt_interval := Some (of_nat (Suc (unat (qt_future t - now))))\<rparr>)"
proof -
  let ?ms = "qt_future t - now + 1"
  have n: "unat ?ms = Suc (unat (qt_future t - now))"
    using assms(2) by (simp add: unat_word_ariths)
  moreover have "sint ?ms > 0" using sint_small [of ?ms] assms(2) unfolding n by linarith
  moreover have "(ucast ?ms :: u32) = of_nat (unat ?ms)" by simp
  ultimately show ?thesis using assms(1)
    by (simp add: QtTimer_onExpiration_def QTimer_start_def Let_def)
qed

theorem timer_rearm_witness:
  "QtTimer_onExpiration 5 \<lparr>qt_task = True, qt_future = 9, qt_interval = Some 3\<rparr> =
     (False, \<lparr>qt_task = True, qt_future = 9, qt_interval = Some 5\<rparr>)"
  using timer_rearm [of 5 "\<lparr>qt_task = True, qt_future = 9, qt_interval = Some 3\<rparr>"] by simp

text \<open>
  When more than that is left the interval is not cut off again: for every remaining time
  from \<open>0x80000000\<close> to \<open>0xFFFFFFFF\<close> milliseconds, the \<^verbatim>\<open>int\<close> passed to \<^verbatim>\<open>QTimer::start\<close> is
  negative, so the timer is not armed for the time that is left.
\<close>

theorem timer_rearm_overflow:
  assumes "sint now < sint (qt_future t)"
    and "0x7FFFFFFF \<le> unat (qt_future t - now)" "unat (qt_future t - now) < 0xFFFFFFFF"
  shows "\<exists>i. snd (QtTimer_onExpiration now t) = t\<lparr>qt_interval := Some i\<rparr> \<and> sint i < 0"
proof -
  let ?ms = "qt_future t - now + 1"
  have n: "unat ?ms = Suc (unat (qt_future t - now))"
    using assms(3) by (simp add: unat_word_ariths)
  have pos: "sint ?ms > 0" using sint_small [of ?ms] assms(3) unfolding n by linarith
  have u: "unat (ucast ?ms :: u32) = Suc (unat (qt_future t - now))"
    unfolding unsigned_ucast_eq n using assms(3) by (simp add: take_bit_nat_eq_self)
  have "sint (ucast ?ms :: u32) < 0"
  proof (rule ccontr)
    assume "\<not> sint (ucast ?ms :: u32) < 0"
    then have "sint (ucast ?ms :: u32) = int (Suc (unat (qt_future t - now)))"
      using sint_nonneg [of "ucast ?ms :: u32"] u by simp
    moreover have "sint (ucast ?ms :: u32) < 0x80000000" using sint_lt [of "ucast ?ms :: u32"] by simp
    ultimately show False using assms(2) by linarith
  qed
  then show ?thesis using assms(1) pos
    by (auto simp: QtTimer_onExpiration_def QTimer_start_def Let_def)
qed

theorem timer_rearm_overflow_witness:
  "\<exists>i. snd (QtTimer_onExpiration 0 \<lparr>qt_task = True, qt_future = 0x80000000, qt_interval = None\<rparr>) =
     \<lparr>qt_task = True, qt_future = 0x80000000, qt_interval = Some i\<rparr> \<and> sint i < 0"
  using timer_rearm_overflow [of 0 "\<lparr>qt_task = True, qt_future = 0x80000000, qt_interval = None\<rparr>"] by simp

end
