(* ===== verification/Trm_World.thy ===== *)
theory Trm_World
  imports Trm_Messages Trm_Timer
begin

text \<open>
  The state the server process works on and the computations over it. The state is the
  manager (\<^verbatim>\<open>Manager.h\<close>), the server's connection tables (\<^verbatim>\<open>Server.h\<close>), the messages
  handed to the sockets, the queued Qt signals, and the sources of time, identifiers and the
  device id. A computation may throw; what it did before stays done. Everything runs on the
  one Qt event loop, so a slot runs to its end before the next begins.
\<close>

section \<open>Clients\<close>

definition kRecorderClientId :: u32 where "kRecorderClientId = 0xFFFFFF00"
definition kTunerAgentId :: u32 where "kTunerAgentId = 0xFFFFFF02"
definition kSDVAgentId :: u32 where "kSDVAgentId = 0xFFFFFF03"
definition kTRMMgrClientId :: u32 where "kTRMMgrClientId = 0xFFFFFF04"
definition kTrmClientId :: u32 where "kTrmClientId = 0"
definition kTrmMonitorId :: u32 where "kTrmMonitorId = 0xFFFFFFF0"

definition isTestClient :: "u32 \<Rightarrow> bool" where
  "isTestClient c \<longleftrightarrow> c \<noteq> kRecorderClientId \<and> c \<ge> kTrmMonitorId"

definition isXREClient :: "u32 \<Rightarrow> bool" where
  "isXREClient c \<longleftrightarrow> c > 0 \<and> c < 0xFFFFFF00"

definition isTunerAgentClient :: "u32 \<Rightarrow> bool" where
  "isTunerAgentClient c \<longleftrightarrow> c = kTunerAgentId"

definition isTRMDiagClient :: "u32 \<Rightarrow> bool" where
  "isTRMDiagClient c \<longleftrightarrow> c = kTRMMgrClientId"

definition isSDVAgentClient :: "u32 \<Rightarrow> bool" where
  "isSDVAgentClient c \<longleftrightarrow> c = kSDVAgentId"

lemmas client_ids =
  kRecorderClientId_def kTunerAgentId_def kSDVAgentId_def kTRMMgrClientId_def kTrmClientId_def
  kTrmMonitorId_def

section \<open>The state\<close>

text \<open>
  A request that waits for an answer or its timeout: the classes derived from
  \<^verbatim>\<open>PendingRequestProcessor\<close>. The list holds pointers, and a timeout compares them, so an
  entry has an address.
\<close>

datatype pending_kind =
    PendingCancelLive u32 CancelLive ReserveTuner string
  | PendingReserveTunerConflicts u32 NotifyTunerReservationConflicts ReserveTuner string
  | PendingCancelRecording u32 CancelRecording

record PendingRequest =
  p_addr :: nat
  p_uuid :: string
  p_kind :: pending_kind

record Manager =
  tuners :: "(string, Tuner) smap"
  expireTimers :: "(string, QtTimer) smap"
  startTimers :: "(string, QtTimer) smap"
  preStartTimers :: "(string, QtTimer) smap"
  pendingRequestTimers :: "(string, QtTimer) smap"
  attrs :: "(string, u32) smap"
  pendingRequests :: "PendingRequest list"
  localTuner :: string

text \<open>
  What the process asks the system for: the clock (\<^verbatim>\<open>gettimeofday\<close>), fresh identifiers
  (\<^verbatim>\<open>libuuid\<close>) and the device id (a script or the authentication service). Each reading has
  its index; the theorems hold for every sequence of readings.
\<close>

record env =
  e_epoch :: "nat \<Rightarrow> u64"
  e_uuid :: "nat \<Rightarrow> string"
  e_device :: "nat \<Rightarrow> string"

text \<open>The slots connected to \<^verbatim>\<open>reservationUpdated\<close> through queued connections.\<close>

datatype signal = Manager_onReservationUpdated_slot | Server_onReservationUpdated_slot

text \<open>
  What goes over a connection behind the header: nothing, a message, or bytes that are no
  message (which the server only ever copies).
\<close>

datatype payload = NoPayload | Payload message | RawPayload "u8 list"

record sent =
  o_connection :: nat
  o_clientId :: u32
  o_payload :: payload

record world =
  w_env :: env
  w_clock :: nat
  w_uuids :: nat
  w_devices :: nat
  w_deviceId :: string
  w_fresh :: nat
  w_mgr :: Manager
  w_clients :: "(u32, nat) smap"
  w_connections :: "nat list"
  w_out :: "sent list"
  w_queue :: "signal list"

section \<open>Computations\<close>

type_synonym 'a trm = "world \<Rightarrow> 'a query \<times> world"

definition ret :: "'a \<Rightarrow> 'a trm" where
  "ret x w = (Inr x, w)"

definition throw :: "exn \<Rightarrow> 'a trm" where
  "throw e w = (Inl e, w)"

definition mbind :: "'a trm \<Rightarrow> ('a \<Rightarrow> 'b trm) \<Rightarrow> 'b trm" where
  "mbind m f w = (case m w of (Inl e, w') \<Rightarrow> (Inl e, w') | (Inr x, w') \<Rightarrow> f x w')"

definition mseq :: "'a trm \<Rightarrow> 'b trm \<Rightarrow> 'b trm" where
  "mseq m n = mbind m (\<lambda>_. n)"

definition mwhen :: "bool \<Rightarrow> unit trm \<Rightarrow> unit trm" where
  "mwhen b m = (if b then m else ret ())"

definition massert :: "bool \<Rightarrow> unit trm" where
  "massert b = (if b then ret () else throw AssertionFailureException)"

text \<open>
  \<^verbatim>\<open>try { m } catch (e) { h }\<close>, where \<open>sel\<close> selects the exceptions the handler takes; what
  follows a failed cast or a null pointer is outside the program and is never caught.
\<close>

definition mcatch :: "(exn \<Rightarrow> bool) \<Rightarrow> 'a trm \<Rightarrow> 'a trm \<Rightarrow> 'a trm" where
  "mcatch sel m h w =
     (case m w of
        (Inl e, w') \<Rightarrow> (if sel e \<and> catchable e then h w' else (Inl e, w'))
      | (Inr x, w') \<Rightarrow> (Inr x, w'))"

abbreviation mcatch_all :: "'a trm \<Rightarrow> 'a trm \<Rightarrow> 'a trm" where
  "mcatch_all \<equiv> mcatch (\<lambda>_. True)"

abbreviation mcatch_exn :: "exn \<Rightarrow> 'a trm \<Rightarrow> 'a trm \<Rightarrow> 'a trm" where
  "mcatch_exn e \<equiv> mcatch ((=) e)"

text \<open>The outcome of a computation as a value, for handlers that need more than one clause.\<close>

definition attempt :: "'a trm \<Rightarrow> 'a query trm" where
  "attempt m w = (Inr (fst (m w)), snd (m w))"

fun mfor :: "'a list \<Rightarrow> ('a \<Rightarrow> unit trm) \<Rightarrow> unit trm" where
  "mfor [] f = ret ()"
| "mfor (x # xs) f = mseq (f x) (mfor xs f)"

fun mfold :: "'a list \<Rightarrow> ('a \<Rightarrow> 'b \<Rightarrow> 'b trm) \<Rightarrow> 'b \<Rightarrow> 'b trm" where
  "mfold [] f y = ret y"
| "mfold (x # xs) f y = mbind (f x y) (mfold xs f)"

text \<open>A query of the manager, and a change of it.\<close>

definition query :: "(Manager \<Rightarrow> 'a query) \<Rightarrow> 'a trm" where
  "query q w = (q (w_mgr w), w)"

definition modify :: "(Manager \<Rightarrow> Manager) \<Rightarrow> unit trm" where
  "modify f w = (Inr (), w\<lparr>w_mgr := f (w_mgr w)\<rparr>)"

lemma mbind_simps [simp]:
  "mbind (ret x) f = f x"
  "mbind (throw e) f = throw e"
  "mbind (mbind m f) g = mbind m (\<lambda>x. mbind (f x) g)"
  by (simp_all add: fun_eq_iff mbind_def ret_def throw_def split: prod.split sum.split)

lemma trm_apply [simp]:
  "ret x w = (Inr x, w)"
  "throw e w = (Inl e, w)"
  "query q w = (q (w_mgr w), w)"
  "modify f w = (Inr (), w\<lparr>w_mgr := f (w_mgr w)\<rparr>)"
  "attempt m w = (Inr (fst (m w)), snd (m w))"
  by (simp_all add: ret_def throw_def query_def modify_def attempt_def)

lemma massert_apply: "massert b w = (eassert b, w)"
  by (simp add: massert_def eassert_def)

section \<open>The system\<close>

definition GetCurrentEpoch :: "u64 trm" where
  "GetCurrentEpoch w =
     (Inr (e_epoch (w_env w) (w_clock w)), w\<lparr>w_clock := Suc (w_clock w)\<rparr>)"

definition GenerateUUID :: "string trm" where
  "GenerateUUID w = (Inr (e_uuid (w_env w) (w_uuids w)), w\<lparr>w_uuids := Suc (w_uuids w)\<rparr>)"

text \<open>\<^verbatim>\<open>GetDeviceId\<close> asks again on every call until it gets a non-empty answer, which it keeps.\<close>

definition GetDeviceId :: "string trm" where
  "GetDeviceId w =
     (if w_deviceId w \<noteq> '''' then (Inr (w_deviceId w), w)
      else (let d = e_device (w_env w) (w_devices w) in
            (Inr d, w\<lparr>w_deviceId := d, w_devices := Suc (w_devices w)\<rparr>)))"

definition new_address :: "nat trm" where
  "new_address w = (Inr (w_fresh w), w\<lparr>w_fresh := Suc (w_fresh w)\<rparr>)"

text \<open>\<^verbatim>\<open>emit reservationUpdated()\<close>: one queued call per connected slot, in connection order.\<close>

definition emit_reservationUpdated :: "unit trm" where
  "emit_reservationUpdated w =
     (Inr (), w\<lparr>w_queue := w_queue w @
                  [Manager_onReservationUpdated_slot, Server_onReservationUpdated_slot]\<rparr>)"

section \<open>Sending\<close>

text \<open>\<^verbatim>\<open>Server::getConnection\<close>.\<close>

definition getConnection :: "u32 \<Rightarrow> nat trm" where
  "getConnection cid w =
     (case map_of (w_clients w) cid of
        None \<Rightarrow> (Inl ConnectionNotFoundException, w)
      | Some c \<Rightarrow> (Inr c, w))"

text \<open>
  \<^verbatim>\<open>Connection::sendAsync\<close> emits \<^verbatim>\<open>hasMessageToSend\<close>, to which two slots are connected
  directly: the connection's own, which writes to the socket, and
  \<^verbatim>\<open>Server::onHasMessageToSend\<close>, which copies the message to the diagnostics client.
\<close>

definition Connection_send :: "nat \<Rightarrow> u32 \<Rightarrow> payload \<Rightarrow> unit trm" where
  "Connection_send c cid p w =
     (Inr (), w\<lparr>w_out := w_out w @ [\<lparr>o_connection = c, o_clientId = cid, o_payload = p\<rparr>]\<rparr>)"

definition Server_onHasMessageToSend :: "u32 \<Rightarrow> payload \<Rightarrow> unit trm" where
  "Server_onHasMessageToSend cid p w =
     (case map_of (w_clients w) kTRMMgrClientId of
        None \<Rightarrow> (Inr (), w)
      | Some c \<Rightarrow>
          if isTRMDiagClient kTRMMgrClientId then Connection_send c cid p w else (Inr (), w))"

definition sendAsync :: "nat \<Rightarrow> u32 \<Rightarrow> message \<Rightarrow> unit trm" where
  "sendAsync c cid m =
     mseq (Connection_send c cid (Payload m)) (Server_onHasMessageToSend cid (Payload m))"

text \<open>
  The recurring \<^verbatim>\<open>SerializeMessage(msg, headerClient, out);
  serverInstance->getConnection(client).sendAsync(out)\<close>.
\<close>

definition sendTo :: "u32 \<Rightarrow> u32 \<Rightarrow> message \<Rightarrow> unit trm" where
  "sendTo client headerClient m =
     mbind (getConnection client) (\<lambda>c. sendAsync c headerClient m)"

abbreviation reply :: "u32 \<Rightarrow> message \<Rightarrow> unit trm" where
  "reply cid m \<equiv> sendTo cid cid m"

section \<open>Preservation of invariants\<close>

text \<open>\<open>m\<close> keeps \<open>I\<close>, whether it returns or throws.\<close>

definition preserves :: "(world \<Rightarrow> bool) \<Rightarrow> 'a trm \<Rightarrow> bool" where
  "preserves I m \<longleftrightarrow> (\<forall>w. I w \<longrightarrow> I (snd (m w)))"

lemma preservesD: "preserves I m \<Longrightarrow> I w \<Longrightarrow> I (snd (m w))"
  by (simp add: preserves_def)

lemma preservesI: "(\<And>w. I w \<Longrightarrow> I (snd (m w))) \<Longrightarrow> preserves I m"
  by (simp add: preserves_def)

lemma preserves_ret [inv_intros]: "preserves I (ret x)"
  and preserves_throw [inv_intros]: "preserves I (throw e)"
  and preserves_query [inv_intros]: "preserves I (query q)"
  and preserves_massert [inv_intros]: "preserves I (massert b)"
  and preserves_attempt [inv_intros]: "preserves I m \<Longrightarrow> preserves I (attempt m)"
  by (simp_all add: preserves_def massert_apply)

lemma preserves_mbind [inv_intros]:
  "preserves I m \<Longrightarrow> (\<And>x. preserves I (f x)) \<Longrightarrow> preserves I (mbind m f)"
  unfolding preserves_def mbind_def by (auto split: prod.split sum.split)

lemma preserves_mseq [inv_intros]:
  "preserves I m \<Longrightarrow> preserves I n \<Longrightarrow> preserves I (mseq m n)"
  by (simp add: mseq_def preserves_mbind)

lemma preserves_mwhen [inv_intros]: "(b \<Longrightarrow> preserves I m) \<Longrightarrow> preserves I (mwhen b m)"
  by (simp add: mwhen_def preserves_ret)

lemma preserves_mcatch [inv_intros]:
  "preserves I m \<Longrightarrow> preserves I h \<Longrightarrow> preserves I (mcatch sel m h)"
  unfolding preserves_def mcatch_def by (auto split: prod.split sum.split)

lemma preserves_mfor [inv_intros]: "(\<And>x. preserves I (f x)) \<Longrightarrow> preserves I (mfor xs f)"
  by (induction xs) (simp_all add: preserves_ret preserves_mseq)

lemma preserves_mfold [inv_intros]:
  "(\<And>x y. preserves I (f x y)) \<Longrightarrow> preserves I (mfold xs f y)"
  by (induction xs arbitrary: y) (simp_all add: preserves_ret preserves_mbind)

lemma preserves_if [inv_intros]:
  "(b \<Longrightarrow> preserves I m) \<Longrightarrow> (\<not> b \<Longrightarrow> preserves I n) \<Longrightarrow> preserves I (if b then m else n)"
  by simp

lemma preserves_Let [inv_intros]: "(\<And>x. preserves I (f x)) \<Longrightarrow> preserves I (Let y f)"
  by (simp add: Let_def)

text \<open>An invariant of the manager alone is kept by whatever does not touch the manager.\<close>

definition on_mgr :: "(Manager \<Rightarrow> bool) \<Rightarrow> world \<Rightarrow> bool" where
  "on_mgr P w \<longleftrightarrow> P (w_mgr w)"

definition keeps_mgr :: "'a trm \<Rightarrow> bool" where
  "keeps_mgr m \<longleftrightarrow> (\<forall>w. w_mgr (snd (m w)) = w_mgr w)"

lemma keeps_mgr_preserves: "keeps_mgr m \<Longrightarrow> preserves (on_mgr P) m"
  by (simp add: keeps_mgr_def preserves_def on_mgr_def)

lemma keeps_mgr_system [simp]:
  "keeps_mgr GetCurrentEpoch" "keeps_mgr GenerateUUID" "keeps_mgr GetDeviceId"
  "keeps_mgr new_address" "keeps_mgr emit_reservationUpdated" "keeps_mgr (getConnection cid)"
  "keeps_mgr (Connection_send c cid m)" "keeps_mgr (Server_onHasMessageToSend cid m)"
  by (simp_all add: keeps_mgr_def GetCurrentEpoch_def GenerateUUID_def GetDeviceId_def Let_def
      new_address_def emit_reservationUpdated_def getConnection_def Connection_send_def
      Server_onHasMessageToSend_def split: option.split)

lemmas preserves_system [inv_intros] = keeps_mgr_system [THEN keeps_mgr_preserves]

lemma preserves_sendAsync [inv_intros]: "preserves (on_mgr P) (sendAsync c cid m)"
  unfolding sendAsync_def by (intro inv_intros)

lemma preserves_sendTo [inv_intros]: "preserves (on_mgr P) (sendTo c cid m)"
  unfolding sendTo_def by (intro inv_intros)

lemma preserves_modify:
  "(\<And>m. P m \<Longrightarrow> P (f m)) \<Longrightarrow> preserves (on_mgr P) (modify f)"
  by (simp add: preserves_def on_mgr_def)

end
