(* ===== verification/Trm_Manager.thy ===== *)
theory Trm_Manager
  imports Trm_World
begin

text \<open>
  The reservation tables of the manager (\<^verbatim>\<open>qtapp/srv/Manager.cpp\<close>): lookup of tuners,
  reservations and pending requests, adding and releasing a reservation with its three timers
  and its owner, the timers, and the messages the manager sends when a reservation starts.
  The timeouts of pending requests, which grant recordings, are in \<open>Trm_Execute\<close>.
\<close>

section \<open>Queries\<close>

definition getTunerIds :: "Manager \<Rightarrow> string list" where
  "getTunerIds m = smap_keys (tuners m)"

definition getTuner :: "string \<Rightarrow> Manager \<Rightarrow> Tuner query" where
  "getTuner tid m =
     (case map_of (tuners m) tid of None \<Rightarrow> Inl ItemNotFoundException | Some t \<Rightarrow> Inr t)"

text \<open>The tokens of one client, of one tuner (none for the empty id), of a list of tuners.\<close>

definition getReservationTokens_client :: "u32 \<Rightarrow> Manager \<Rightarrow> string list" where
  "getReservationTokens_client cid m = map fst (filter (\<lambda>(tok, c). c = cid) (attrs m))"

definition getReservationTokens_tuner :: "string \<Rightarrow> Manager \<Rightarrow> string list query" where
  "getReservationTokens_tuner tid m =
     (if tid = '''' then Inr []
      else ebind (getTuner tid m) (\<lambda>t. Inr (Tuner_getReservationTokens t [])))"

fun getReservationTokens :: "string list \<Rightarrow> string list \<Rightarrow> Manager \<Rightarrow> string list query" where
  "getReservationTokens [] tokens m = Inr tokens"
| "getReservationTokens (tid # tids) tokens m =
     ebind (getTuner tid m) (\<lambda>t.
       getReservationTokens tids (Tuner_getReservationTokens t tokens) m)"

text \<open>
  The search of \<^verbatim>\<open>getReservation\<close> and \<^verbatim>\<open>getParent\<close>: the first tuner that holds the token.
\<close>

fun findTuner :: "string \<Rightarrow> (string, Tuner) smap \<Rightarrow> (string \<times> Tuner) option" where
  "findTuner tok [] = None"
| "findTuner tok ((tid, t) # m) =
     (if tok \<in> set (Tuner_getReservationTokens t []) then Some (tid, t) else findTuner tok m)"

definition getReservation :: "string \<Rightarrow> Manager \<Rightarrow> TunerReservation query" where
  "getReservation tok m =
     (case findTuner tok (tuners m) of
        None \<Rightarrow> Inl ItemNotFoundException
      | Some (tid, t) \<Rightarrow> Tuner_getReservation t tok)"

definition getParent :: "string \<Rightarrow> Manager \<Rightarrow> string query" where
  "getParent tok m =
     (case findTuner tok (tuners m) of
        None \<Rightarrow> Inl ItemNotFoundException
      | Some (tid, t) \<Rightarrow> Inr (internalId t))"

definition getReservationAttributes :: "string \<Rightarrow> Manager \<Rightarrow> u32 query" where
  "getReservationAttributes tok m =
     (case map_of (attrs m) tok of None \<Rightarrow> Inl (IntThrown 0) | Some c \<Rightarrow> Inr c)"

fun conflict_tokens :: "pending_kind \<Rightarrow> string list" where
  "conflict_tokens (PendingReserveTunerConflicts cid n req parent) = map r_token (n_conflicts n)"
| "conflict_tokens _ = []"

definition isPendingConflict :: "string \<Rightarrow> Manager \<Rightarrow> bool" where
  "isPendingConflict tok m \<longleftrightarrow>
     list_ex (\<lambda>p. list_ex (\<lambda>t. t = tok) (conflict_tokens (p_kind p))) (pendingRequests m)"

definition isPendingRequest :: "string \<Rightarrow> Manager \<Rightarrow> bool" where
  "isPendingRequest uuid m \<longleftrightarrow> list_ex (\<lambda>p. p_uuid p = uuid) (pendingRequests m)"

definition getPendingRequest :: "string \<Rightarrow> Manager \<Rightarrow> PendingRequest query" where
  "getPendingRequest uuid m =
     (case List.find (\<lambda>p. p_uuid p = uuid) (pendingRequests m) of
        None \<Rightarrow> Inl ItemNotFoundException
      | Some p \<Rightarrow> Inr p)"

section \<open>Changes\<close>

text \<open>Writing through the reference \<^verbatim>\<open>getTuner\<close> or \<^verbatim>\<open>getReservation\<close> returned.\<close>

definition updTuner :: "string \<Rightarrow> (Tuner \<Rightarrow> Tuner) \<Rightarrow> Manager \<Rightarrow> Manager" where
  "updTuner tid f m = m\<lparr>tuners := smap_update tid f (tuners m)\<rparr>"

definition updReservation ::
  "string \<Rightarrow> (TunerReservation \<Rightarrow> TunerReservation) \<Rightarrow> Manager \<Rightarrow> Manager" where
  "updReservation tok f m =
     (case findTuner tok (tuners m) of
        None \<Rightarrow> m
      | Some (tid, t) \<Rightarrow>
          updTuner tid (\<lambda>t. t\<lparr>reservations := smap_update tok f (reservations t)\<rparr>) m)"

definition setLocalTuner :: "string \<Rightarrow> unit trm" where
  "setLocalTuner tid = modify (\<lambda>m. m\<lparr>localTuner := tid\<rparr>)"

text \<open>A call of a member function of the tuner \<^verbatim>\<open>getTuner\<close> finds.\<close>

definition onTuner :: "string \<Rightarrow> (Tuner \<Rightarrow> unit query \<times> Tuner) \<Rightarrow> unit trm" where
  "onTuner tid op =
     mbind (query (getTuner tid)) (\<lambda>t.
       mseq (modify (updTuner tid (\<lambda>_. snd (op t)))) (query (\<lambda>_. fst (op t))))"

subsection \<open>Timers\<close>

definition setPreStartTimer :: "string \<Rightarrow> u64 \<Rightarrow> unit trm" where
  "setPreStartTimer tok at =
     mseq (query (\<lambda>m. eassert (map_of (preStartTimers m) tok \<noteq> None)))
       (mbind GetCurrentEpoch (\<lambda>now.
          modify (\<lambda>m. m\<lparr>preStartTimers :=
            smap_update tok (Timer_schedule now at True) (preStartTimers m)\<rparr>)))"

definition setStartTimer :: "string \<Rightarrow> u64 \<Rightarrow> unit trm" where
  "setStartTimer tok at =
     mseq (query (\<lambda>m. eassert (map_of (startTimers m) tok \<noteq> None)))
       (mbind GetCurrentEpoch (\<lambda>now.
          modify (\<lambda>m. m\<lparr>startTimers :=
            smap_update tok (Timer_schedule now at True) (startTimers m)\<rparr>)))"

definition setExpireTimer :: "TunerReservation \<Rightarrow> unit trm" where
  "setExpireTimer r =
     mseq (query (\<lambda>m. eassert (map_of (expireTimers m) (r_token r) \<noteq> None)))
       (mbind GetCurrentEpoch (\<lambda>t. mbind GetCurrentEpoch (\<lambda>now.
          modify (\<lambda>m. m\<lparr>expireTimers :=
            smap_update (r_token r) (Timer_schedule now (getExpirationTime t r) False)
              (expireTimers m)\<rparr>))))"

definition setTimer :: "TunerReservation \<Rightarrow> unit trm" where
  "setTimer r =
     mseq (setPreStartTimer (r_token r) (r_startTime r - 250))
       (mseq (setStartTimer (r_token r) (r_startTime r))
         (setExpireTimer r))"

definition cancelStartTimer :: "string \<Rightarrow> unit trm" where
  "cancelStartTimer tok =
     modify (\<lambda>m. m\<lparr>startTimers := smap_update tok QtTimer_cancel (startTimers m)\<rparr>)"

definition cancelPreStartTimer :: "string \<Rightarrow> unit trm" where
  "cancelPreStartTimer tok =
     modify (\<lambda>m. m\<lparr>preStartTimers := smap_update tok QtTimer_cancel (preStartTimers m)\<rparr>)"

definition cancelExpireTimer :: "string \<Rightarrow> unit trm" where
  "cancelExpireTimer tok =
     mbind (query (\<lambda>m. Inr (map_of (expireTimers m) tok))) (\<lambda>it.
       if it \<noteq> None then
         modify (\<lambda>m. m\<lparr>expireTimers := smap_update tok QtTimer_cancel (expireTimers m)\<rparr>)
       else throw ItemNotFoundException)"

definition cancelPendingTimer :: "string \<Rightarrow> unit trm" where
  "cancelPendingTimer uuid =
     modify (\<lambda>m. m\<lparr>pendingRequestTimers :=
       smap_update uuid QtTimer_cancel (pendingRequestTimers m)\<rparr>)"

definition adjustExpireTimer :: "string \<Rightarrow> unit trm" where
  "adjustExpireTimer tok =
     mcatch_all
       (mbind (query (getReservation tok)) (\<lambda>r.
        mbind (query (\<lambda>m. Inr (map_of (expireTimers m) tok))) (\<lambda>it.
        mwhen (it \<noteq> None)
          (mseq (modify (\<lambda>m. m\<lparr>expireTimers :=
                   smap_update tok QtTimer_cancel (expireTimers m)\<rparr>))
            (mbind GetCurrentEpoch (\<lambda>t. mbind GetCurrentEpoch (\<lambda>now.
               modify (\<lambda>m. m\<lparr>expireTimers :=
                 smap_update tok (Timer_schedule now (getExpirationTime t r) False)
                   (expireTimers m)\<rparr>))))))))
       (ret ())"

subsection \<open>Reservations\<close>

definition addReservation :: "TunerReservation \<Rightarrow> string \<Rightarrow> unit trm" where
  "addReservation r tid =
     mseq (onTuner tid (Tuner_addReservation r))
    (mseq (query (\<lambda>m. eassert (map_of (preStartTimers m) (r_token r) = None)))
    (mseq (query (\<lambda>m. eassert (map_of (startTimers m) (r_token r) = None)))
    (mseq (query (\<lambda>m. eassert (map_of (expireTimers m) (r_token r) = None)))
    (mseq (modify (\<lambda>m. m\<lparr>preStartTimers := smap_insert (r_token r) QtTimer_new (preStartTimers m)\<rparr>))
    (mseq (modify (\<lambda>m. m\<lparr>startTimers := smap_insert (r_token r) QtTimer_new (startTimers m)\<rparr>))
    (mseq (modify (\<lambda>m. m\<lparr>expireTimers := smap_insert (r_token r) QtTimer_new (expireTimers m)\<rparr>))
      (setTimer r)))))))"

definition setReservationAttributes :: "string \<Rightarrow> u32 \<Rightarrow> unit trm" where
  "setReservationAttributes tok cid = modify (\<lambda>m. m\<lparr>attrs := smap_put tok cid (attrs m)\<rparr>)"

definition releaseReservation :: "string \<Rightarrow> bool \<Rightarrow> unit trm" where
  "releaseReservation tok notifyClient =
     mbind (query (getReservation tok)) (\<lambda>_.
     mseq (cancelPreStartTimer tok)
    (mseq (cancelStartTimer tok)
    (mseq (cancelExpireTimer tok)
    (mseq (modify (\<lambda>m. m\<lparr>preStartTimers := smap_erase tok (preStartTimers m)\<rparr>))
    (mseq (modify (\<lambda>m. m\<lparr>startTimers := smap_erase tok (startTimers m)\<rparr>))
    (mseq (modify (\<lambda>m. m\<lparr>expireTimers := smap_erase tok (expireTimers m)\<rparr>))
    (mbind (query (\<lambda>m. Inr (map_of (attrs m) tok))) (\<lambda>itt.
     mseq (if itt \<noteq> None then modify (\<lambda>m. m\<lparr>attrs := smap_erase tok (attrs m)\<rparr>)
           else throw ItemNotFoundException)
    (mbind (query (getParent tok)) (\<lambda>tid.
     mseq (onTuner tid (Tuner_releaseReservation tok))
       (mwhen notifyClient emit_reservationUpdated)))))))))))"

subsection \<open>Pending requests\<close>

definition addPendingRequest :: "string \<Rightarrow> pending_kind \<Rightarrow> u64 \<Rightarrow> unit trm" where
  "addPendingRequest uuid kind timeout =
     mbind new_address (\<lambda>a.
     mseq (modify (\<lambda>m. m\<lparr>pendingRequests :=
             pendingRequests m @ [\<lparr>p_addr = a, p_uuid = uuid, p_kind = kind\<rparr>]\<rparr>))
    (mbind (query (\<lambda>m. Inr (map_of (pendingRequestTimers m) uuid))) (\<lambda>it.
     mwhen (it = None)
       (mseq (modify (\<lambda>m. m\<lparr>pendingRequestTimers :=
                smap_insert uuid QtTimer_new (pendingRequestTimers m)\<rparr>))
         (mbind GetCurrentEpoch (\<lambda>now.
            modify (\<lambda>m. m\<lparr>pendingRequestTimers :=
              smap_update uuid (Timer_schedule now timeout False) (pendingRequestTimers m)\<rparr>)))))))"

fun remove_first :: "('a \<Rightarrow> bool) \<Rightarrow> 'a list \<Rightarrow> 'a list" where
  "remove_first p [] = []"
| "remove_first p (x # xs) = (if p x then xs else x # remove_first p xs)"

definition removePendingRequest :: "string \<Rightarrow> unit trm" where
  "removePendingRequest uuid =
     mbind (query (\<lambda>m. Inr (isPendingRequest uuid m))) (\<lambda>found.
     mwhen found
       (mseq (cancelPendingTimer uuid)
       (mseq (modify (\<lambda>m. m\<lparr>pendingRequestTimers := smap_erase uuid (pendingRequestTimers m)\<rparr>))
         (modify (\<lambda>m. m\<lparr>pendingRequests :=
            remove_first (\<lambda>p. p_uuid p = uuid) (pendingRequests m)\<rparr>)))))"

section \<open>Messages of the manager\<close>

text \<open>
  \<^verbatim>\<open>prepareRecordHandover\<close>, just before a recording starts on a hybrid tuner: when the live
  channel of the tuner is not the one of the recording, the recorder is told to cancel live.
\<close>

text \<open>The last active reservation of the activity in the tuner: token and locator.\<close>

fun last_active :: "Activity_enum \<Rightarrow> string list \<Rightarrow> string \<times> string \<Rightarrow> Manager \<Rightarrow>
    (string \<times> string) query" where
  "last_active a [] acc m = Inr acc"
| "last_active a (tok # toks) acc m =
     ebind (getReservation tok m) (\<lambda>r.
       last_active a toks
         (if r_state r = ACTIVE \<and> a_enum (r_activity r) = a then (tok, r_serviceLocator r) else acc) m)"

definition prepareRecordHandover :: "string \<Rightarrow> string \<Rightarrow> unit trm" where
  "prepareRecordHandover tid tok =
     mbind (query (getTuner tid)) (\<lambda>t.
     mwhen (Tuner_getState t = tHybrid)
       (mbind (query (getReservationTokens_tuner tid)) (\<lambda>tokens.
        mbind (query (last_active kRecord tokens ('''', ''''))) (\<lambda>(recordToken, recordLocator).
        mbind (query (last_active kLive tokens ('''', ''''))) (\<lambda>(liveToken, liveLocator).
        mseq (massert (recordLocator \<noteq> ''''))
       (mseq (massert (liveLocator \<noteq> ''''))
       (mseq (massert (liveLocator = recordLocator))
       (mbind (query (getReservation tok)) (\<lambda>next.
        mseq (massert (Activity_eq (r_activity next) kRecord))
       (mseq (massert (r_serviceLocator next \<noteq> ''''))
         (mwhen (liveLocator \<noteq> r_serviceLocator next)
           (mcatch_exn ConnectionNotFoundException
             (mbind GenerateUUID (\<lambda>u.
                sendTo kRecorderClientId kRecorderClientId
                  (M_CancelLive (CancelLive_new u liveLocator liveToken))))
             (ret ())))))))))))))"

text \<open>
  \<^verbatim>\<open>syncHybrid\<close>, when a reservation starts on a tuner that is now hybrid: every active live
  reservation of the tuner is moved to the channel of the active recording, and its owner told.
\<close>

fun first_active_record :: "string list \<Rightarrow> Manager \<Rightarrow> string query" where
  "first_active_record [] m = Inr ''''"
| "first_active_record (tok # toks) m =
     ebind (getReservation tok m) (\<lambda>r.
       if r_state r = ACTIVE \<and> a_enum (r_activity r) = kRecord then Inr (r_serviceLocator r)
       else first_active_record toks m)"

definition syncLive :: "string \<Rightarrow> string \<Rightarrow> unit trm" where
  "syncLive recordLocator tok =
     mbind (query (getReservation tok)) (\<lambda>r.
     mwhen (r_state r = ACTIVE \<and> a_enum (r_activity r) = kLive \<and>
            r_serviceLocator r \<noteq> recordLocator)
       (mcatch_exn ConnectionNotFoundException
         (mseq (modify (updReservation tok (setServiceLocator recordLocator)))
         (mseq (modify (updReservation tok (setCustomAttributes None)))
         (mbind GenerateUUID (\<lambda>u.
          mbind (query (getReservation tok)) (\<lambda>r'.
          mbind (query (getReservationAttributes tok)) (\<lambda>cid.
          mseq (reply cid (M_NotifyTunerReservationUpdate
                  \<lparr>n_uuid = u, n_updatedReservation = r'\<rparr>))
            emit_reservationUpdated))))))
         (ret ())))"

definition syncHybrid :: "string \<Rightarrow> unit trm" where
  "syncHybrid tid =
     mbind (query (getTuner tid)) (\<lambda>t.
     mwhen (Tuner_getState t = tHybrid)
       (mbind (query (getReservationTokens_tuner tid)) (\<lambda>tokens.
        mbind (query (first_active_record tokens)) (\<lambda>recordLocator.
        mseq (massert (recordLocator \<noteq> ''''))
          (mfor tokens (syncLive recordLocator))))))"

definition startReservation :: "string \<Rightarrow> unit trm" where
  "startReservation tok =
     mbind (query (getReservation tok)) (\<lambda>r.
     mseq (mwhen (Activity_eq (r_activity r) kLive)
            (mcatch_exn ConnectionNotFoundException
              (mwhen (Activity_getDetail (r_activity r) ''ppv'' \<noteq> ''true'')
                (mbind GenerateUUID (\<lambda>u.
                   sendTo kTunerAgentId kTunerAgentId
                     (M_NotifyTunerPretune \<lparr>n_uuid = u, n_serviceLocator = r_serviceLocator r\<rparr>))))
              (ret ())))
       emit_reservationUpdated)"

text \<open>
  \<^verbatim>\<open>getTunerStatesUpdate\<close>: the detailed state of every tuner. Only a tuner with an active
  reservation gets its state set; the reserved tuner carries the device id.
\<close>

fun detailed_owners :: "Tuner \<Rightarrow> string list \<Rightarrow> DetailedTunerState \<Rightarrow> Manager \<Rightarrow>
    DetailedTunerState query" where
  "detailed_owners t [] d m = Inr d"
| "detailed_owners t (tok # toks) d m =
     ebind (getReservation tok m) (\<lambda>r.
       if r_state r = ACTIVE then
         ebind (Tuner_getServiceLocator t True) (\<lambda>loc.
           detailed_owners t toks
             (DetailedTunerState_setState (TunerState_name (Tuner_getState t)) loc
               (DetailedTunerState_addTunerOwner
                 (Activity_name (a_enum (r_activity r))) (r_device r) d)) m)
       else detailed_owners t toks d m)"

definition getTunerStatesUpdate :: "NotifyTunerStatesUpdate trm" where
  "getTunerStatesUpdate =
     mbind GenerateUUID (\<lambda>u.
     mbind (query (\<lambda>m. Inr (getTunerIds m))) (\<lambda>tids.
     mfold tids (\<lambda>tid n.
       mbind (query (getTuner tid)) (\<lambda>t.
       mbind (query (\<lambda>_. Tuner_getServiceLocator t True)) (\<lambda>_.
       mbind (query (detailed_owners t (Tuner_getReservationTokens t [])
                DetailedTunerState_default)) (\<lambda>d.
       mbind (query (\<lambda>m. Inr (localTuner m))) (\<lambda>lt.
       mbind (if lt = tid then mbind GetDeviceId (\<lambda>i. ret (d\<lparr>d_reservedDeviceId := i\<rparr>)) else ret d)
         (\<lambda>d. ret (NotifyTunerStatesUpdate_add tid d n)))))))
       \<lparr>n_uuid = u, n_tunerDetailedStates = []\<rparr>))"

section \<open>Start-up\<close>

fun decimal :: "nat \<Rightarrow> string" where
  "decimal n =
     (if n < 10 then [char_of (48 + n)] else decimal (n div 10) @ [char_of (48 + n mod 10)])"

declare decimal.simps [simp del]

definition tunerIdOf :: "nat \<Rightarrow> string" where
  "tunerIdOf i = ''TunerId-'' @ decimal i"

definition Manager_new :: "nat \<Rightarrow> Manager" where
  "Manager_new kNumOfTuners =
     \<lparr>tuners = foldl (\<lambda>m i. smap_insert (tunerIdOf i) (Tuner_new (tunerIdOf i)) m) []
                [0..<kNumOfTuners],
      expireTimers = [], startTimers = [], preStartTimers = [], pendingRequestTimers = [],
      attrs = [], pendingRequests = [], localTuner = ''TunerId-0''\<rparr>"

end
