(* ===== verification/Trm_Tables.thy ===== *)
theory Trm_Tables
  imports Trm_Manager
begin

text \<open>
  The invariant of the manager's tables and what adding and releasing a reservation do to
  them: every reservation that was granted completely has one entry in each timer table and
  one owner, and a release either undoes all of it or changes nothing.
\<close>

section \<open>The invariant\<close>

definition tokens_of :: "Manager \<Rightarrow> string set" where
  "tokens_of m = (\<Union>p \<in> set (tuners m). set (smap_keys (reservations (snd p))))"

definition tuners_ok :: "string list \<Rightarrow> (string, Tuner) smap \<Rightarrow> bool" where
  "tuners_ok ids ts \<longleftrightarrow> smap_keys ts = ids \<and> smap_ok ts \<and>
     (\<forall>(k, t) \<in> set ts. internalId t = k \<and> tuner_wf t)"

definition mgr_ok :: "string list \<Rightarrow> Manager \<Rightarrow> bool" where
  "mgr_ok ids m \<longleftrightarrow>
     tuners_ok ids (tuners m) \<and>
     smap_ok (attrs m) \<and> smap_ok (expireTimers m) \<and> smap_ok (startTimers m) \<and>
     smap_ok (preStartTimers m) \<and> smap_ok (pendingRequestTimers m) \<and>
     set (smap_keys (expireTimers m)) = set (smap_keys (attrs m)) \<and>
     set (smap_keys (startTimers m)) = set (smap_keys (attrs m)) \<and>
     set (smap_keys (preStartTimers m)) = set (smap_keys (attrs m)) \<and>
     set (smap_keys (attrs m)) \<subseteq> tokens_of m"

text \<open>A reservation is managed when the manager knows its owner.\<close>

definition managed :: "Manager \<Rightarrow> string \<Rightarrow> bool" where
  "managed m tok \<longleftrightarrow> tok \<in> set (smap_keys (attrs m))"

section \<open>Finding a token\<close>

lemma findTuner_Some:
  "findTuner tok ts = Some (tid, t) \<Longrightarrow> (tid, t) \<in> set ts \<and> tok \<in> set (smap_keys (reservations t))"
  by (induction tok ts rule: findTuner.induct)
    (auto simp: Tuner_getReservationTokens_def split: if_splits)

lemma findTuner_None:
  "findTuner tok ts = None \<longleftrightarrow> (\<forall>p \<in> set ts. tok \<notin> set (smap_keys (reservations (snd p))))"
  by (induction tok ts rule: findTuner.induct)
    (auto simp: Tuner_getReservationTokens_def split: if_splits)

lemma tokens_of_findTuner: "tok \<in> tokens_of m \<longleftrightarrow> (\<exists>tid t. findTuner tok (tuners m) = Some (tid, t))"
  using findTuner_None [of tok "tuners m"]
  by (cases "findTuner tok (tuners m)") (auto simp: tokens_of_def)

lemma getReservation_Inr:
  "getReservation tok m = Inr r \<longleftrightarrow>
     (\<exists>tid t. findTuner tok (tuners m) = Some (tid, t) \<and> map_of (reservations t) tok = Some r)"
  by (auto simp: getReservation_def Tuner_getReservation_def split: option.splits)

lemma getReservation_Inl:
  "getReservation tok m = Inl e \<longleftrightarrow> tok \<notin> tokens_of m \<and> e = ItemNotFoundException"
proof (cases "findTuner tok (tuners m)")
  case None
  then show ?thesis by (auto simp: getReservation_def tokens_of_findTuner)
next
  case (Some p)
  obtain tid t where p: "p = (tid, t)" by fastforce
  with Some obtain r where "map_of (reservations t) tok = Some r"
    using findTuner_Some map_of_keys by metis
  with Some p show ?thesis
    by (auto simp: getReservation_def Tuner_getReservation_def tokens_of_findTuner)
qed

lemma getReservation_total: "(\<exists>r. getReservation tok m = Inr r) \<longleftrightarrow> tok \<in> tokens_of m"
  by (metis getReservation_Inl sum.exhaust Inl_Inr_False)

lemma getTuner_Inr: "getTuner tid m = Inr t \<longleftrightarrow> map_of (tuners m) tid = Some t"
  by (simp add: getTuner_def split: option.split)

lemma getTuner_Inl:
  "getTuner tid m = Inl e \<longleftrightarrow> tid \<notin> set (getTunerIds m) \<and> e = ItemNotFoundException"
  by (auto simp: getTuner_def getTunerIds_def map_of_eq_None_iff split: option.split)
    (metis (no_types, lifting) image_eqI map_of_SomeD fst_conv)

lemma tuners_okD:
  assumes "tuners_ok ids ts" "(tid, t) \<in> set ts"
  shows "map_of ts tid = Some t" "internalId t = tid" "tuner_wf t" "tid \<in> set ids"
proof -
  show "map_of ts tid = Some t" using assms smap_mem_map_of [of ts] by (simp add: tuners_ok_def)
  show "internalId t = tid" "tuner_wf t" using assms by (auto simp: tuners_ok_def)
  have "tid \<in> set (smap_keys ts)" using assms(2) by force
  then show "tid \<in> set ids" using assms(1) unfolding tuners_ok_def by blast
qed

lemma mgr_okD:
  assumes "mgr_ok ids m"
  shows "tuners_ok ids (tuners m)" "getTunerIds m = ids"
    "tok \<in> set (smap_keys (expireTimers m)) \<longleftrightarrow> managed m tok"
    "tok \<in> set (smap_keys (startTimers m)) \<longleftrightarrow> managed m tok"
    "tok \<in> set (smap_keys (preStartTimers m)) \<longleftrightarrow> managed m tok"
    "managed m tok \<Longrightarrow> tok \<in> tokens_of m"
  using assms by (auto simp: mgr_ok_def managed_def tuners_ok_def getTunerIds_def)

lemma getParent_Inr:
  assumes "mgr_ok ids m"
  shows "getParent tok m = Inr tid \<longleftrightarrow> (\<exists>t. findTuner tok (tuners m) = Some (tid, t))"
proof (cases "findTuner tok (tuners m)")
  case (Some p)
  obtain k t where p: "p = (k, t)" by fastforce
  have "internalId t = k"
    using findTuner_Some Some p tuners_okD(2) mgr_okD(1) assms by blast
  with Some p show ?thesis by (auto simp: getParent_def)
qed (simp add: getParent_def)

lemma getParent_tuner:
  assumes "mgr_ok ids m" "getParent tok m = Inr tid"
  shows "\<exists>t. getTuner tid m = Inr t \<and> tok \<in> set (smap_keys (reservations t)) \<and> tid \<in> set ids"
  using assms findTuner_Some tuners_okD mgr_okD(1) unfolding getParent_Inr [OF assms(1)] getTuner_Inr
  by metis

section \<open>Preservation\<close>

lemma tuners_ok_update:
  assumes "tuners_ok ids ts"
    and "\<And>t. map_of ts tid = Some t \<Longrightarrow> tuner_wf t \<Longrightarrow> tuner_wf (f t) \<and> internalId (f t) = internalId t"
  shows "tuners_ok ids (smap_update tid f ts)"
proof -
  have "internalId v = k \<and> tuner_wf v" if "(k, v) \<in> set (smap_update tid f ts)" for k v
  proof -
    from that obtain t where t: "(k, t) \<in> set ts" "v = (if k = tid then f t else t)"
      by (auto simp: set_update)
    with tuners_okD [OF assms(1) t(1)] assms(2) show ?thesis by auto
  qed
  with assms(1) show ?thesis by (auto simp: tuners_ok_def)
qed

lemma tokens_of_update:
  "smap_ok (tuners m) \<Longrightarrow> tok \<in> tokens_of (updTuner tid f m) \<longleftrightarrow>
     (\<exists>k t. map_of (tuners m) k = Some t \<and>
       tok \<in> set (smap_keys (reservations (if k = tid then f t else t))))"
  by (auto simp: tokens_of_def updTuner_def set_update smap_mem_map_of [symmetric] Bex_def split: if_splits)

lemma trm_run:
  "mbind m f w = (case m w of (Inl e, w') \<Rightarrow> (Inl e, w') | (Inr x, w') \<Rightarrow> f x w')"
  "mseq m n w = (case m w of (Inl e, w') \<Rightarrow> (Inl e, w') | (Inr x, w') \<Rightarrow> n w')"
  "mwhen b k w = (if b then k w else (Inr (), w))"
  "mcatch sel m h w =
     (case m w of
        (Inl e, w') \<Rightarrow> (if sel e \<and> catchable e then h w' else (Inl e, w'))
      | (Inr x, w') \<Rightarrow> (Inr x, w'))"
  "massert b w = (eassert b, w)"
  by (simp_all add: mbind_def mseq_def mwhen_def mcatch_def massert_apply)

section \<open>Releasing\<close>

text \<open>What a complete release leaves of the tables.\<close>

definition released :: "string \<Rightarrow> Manager \<Rightarrow> Manager" where
  "released tok m =
     (case findTuner tok (tuners m) of
        None \<Rightarrow> m
      | Some (tid, t) \<Rightarrow>
          m\<lparr>preStartTimers := smap_erase tok (preStartTimers m),
            startTimers := smap_erase tok (startTimers m),
            expireTimers := smap_erase tok (expireTimers m),
            attrs := smap_erase tok (attrs m),
            tuners := smap_update tid (\<lambda>t. t\<lparr>reservations := smap_erase tok (reservations t)\<rparr>)
                        (tuners m)\<rparr>)"

lemma erase_update [simp]: "smap_erase k (smap_update k f m) = smap_erase k m"
  by (induction m) (auto simp: smap_erase_def smap_update_def)

lemma update_absent: "k \<notin> set (smap_keys m) \<Longrightarrow> smap_update k f m = m"
  by (induction m) (auto simp: smap_update_def)

lemma update_cong:
  "map_of m k = Some v \<Longrightarrow> distinct (smap_keys m) \<Longrightarrow> f v = g v \<Longrightarrow> smap_update k f m = smap_update k g m"
  by (auto simp: smap_update_def split_def) (metis fst_conv map_of_is_SomeI option.sel prod.collapse)

lemma updTuner_const:
  "map_of (tuners m) tid = Some t \<Longrightarrow> smap_ok (tuners m) \<Longrightarrow> f t = t' \<Longrightarrow>
     smap_update tid (\<lambda>_. t') (tuners m) = smap_update tid f (tuners m)"
  by (rule update_cong) (auto simp: smap_ok_distinct)

lemma releaseReservation_managed:
  assumes ok: "mgr_ok ids (w_mgr w)" and tok: "managed (w_mgr w) tok"
  shows "releaseReservation tok n w =
    (Inr (), w\<lparr>w_mgr := released tok (w_mgr w),
              w_queue := w_queue w @ (if n then [Manager_onReservationUpdated_slot,
                                                 Server_onReservationUpdated_slot] else [])\<rparr>)"
proof -
  let ?m = "w_mgr w"
  from mgr_okD(6) [OF ok tok] obtain tid t where f: "findTuner tok (tuners ?m) = Some (tid, t)"
    by (auto simp: tokens_of_findTuner)
  with findTuner_Some mgr_okD(1) [OF ok] have t: "map_of (tuners ?m) tid = Some t"
    "internalId t = tid" "tuner_wf t" using tuners_okD by blast+
  from findTuner_Some [OF f] obtain r where r: "map_of (reservations t) tok = Some r"
    using map_of_keys by metis
  from ok have so: "smap_ok (tuners ?m)" by (simp add: mgr_ok_def tuners_ok_def)
  from mgr_okD(3) [OF ok] tok obtain e where e: "map_of (expireTimers ?m) tok = Some e"
    using map_of_keys by metis
  from tok obtain a where a: "map_of (attrs ?m) tok = Some a"
    unfolding managed_def using map_of_keys by metis
  have g: "getReservation tok ?m = Inr r" using f r by (auto simp: getReservation_Inr)
  have "smap_update tid (\<lambda>_. t\<lparr>reservations := smap_erase tok (reservations t)\<rparr>) (tuners ?m) =
        smap_update tid (\<lambda>t. t\<lparr>reservations := smap_erase tok (reservations t)\<rparr>) (tuners ?m)"
    by (rule updTuner_const [OF t(1) so]) simp
  then show ?thesis
    using f t g e a so
    by (simp add: releaseReservation_def trm_run cancelPreStartTimer_def cancelStartTimer_def
        cancelExpireTimer_def getParent_def onTuner_def getTuner_def Tuner_releaseReservation_ok
        released_def updTuner_def emit_reservationUpdated_def)
qed

lemma releaseReservation_unmanaged:
  assumes ok: "mgr_ok ids (w_mgr w)" and tok: "\<not> managed (w_mgr w) tok"
  shows "releaseReservation tok n w = (Inl ItemNotFoundException, w)"
proof (cases "getReservation tok (w_mgr w)")
  case (Inl e)
  moreover from this have "e = ItemNotFoundException" by (simp add: getReservation_Inl)
  ultimately show ?thesis by (simp add: releaseReservation_def trm_run)
next
  case (Inr r)
  from tok mgr_okD(3-5) [OF ok] have
    "tok \<notin> set (smap_keys (expireTimers (w_mgr w)))"
    "tok \<notin> set (smap_keys (startTimers (w_mgr w)))"
    "tok \<notin> set (smap_keys (preStartTimers (w_mgr w)))" by metis+
  then have "map_of (expireTimers (w_mgr w)) tok = None"
    "smap_update tok QtTimer_cancel (startTimers (w_mgr w)) = startTimers (w_mgr w)"
    "smap_update tok QtTimer_cancel (preStartTimers (w_mgr w)) = preStartTimers (w_mgr w)"
    by (simp_all add: update_absent map_of_eq_None_iff)
  with Inr show ?thesis
    by (simp add: releaseReservation_def trm_run cancelPreStartTimer_def cancelStartTimer_def
        cancelExpireTimer_def)
qed

lemma tokens_of_iff:
  "tok \<in> tokens_of m \<longleftrightarrow>
     (\<exists>k u. (k, u) \<in> set (tuners m) \<and> tok \<in> set (smap_keys (reservations u)))"
  by (simp add: tokens_of_def Bex_def del: list.set_map)

lemma tokens_of_released:
  assumes "mgr_ok ids m" "tok' \<in> tokens_of m" "tok' \<noteq> tok"
  shows "tok' \<in> tokens_of (released tok m)"
proof (cases "findTuner tok (tuners m)")
  case (Some p)
  obtain tid t where p: "p = (tid, t)" by fastforce
  from assms(2) obtain k u where "(k, u) \<in> set (tuners m)" "tok' \<in> set (smap_keys (reservations u))"
    unfolding tokens_of_iff by blast
  then have "(k, if k = tid then u\<lparr>reservations := smap_erase tok (reservations u)\<rparr> else u)
      \<in> set (tuners (released tok m))"
    by (force simp: released_def Some p set_update)
  moreover have "tok' \<in> set (smap_keys (reservations
      (if k = tid then u\<lparr>reservations := smap_erase tok (reservations u)\<rparr> else u)))"
    using \<open>tok' \<in> set (smap_keys (reservations u))\<close> assms(3) by simp
  ultimately show ?thesis unfolding tokens_of_iff by blast
qed (use assms in \<open>simp add: released_def\<close>)

lemma tuner_wf_erase: "tuner_wf t \<Longrightarrow> tuner_wf (t\<lparr>reservations := smap_erase tok (reservations t)\<rparr>)"
  by (auto simp: tuner_wf_def)

lemma mgr_ok_released:
  assumes ok: "mgr_ok ids m"
  shows "mgr_ok ids (released tok m)"
proof (cases "findTuner tok (tuners m)")
  case (Some p)
  obtain tid t where p: "p = (tid, t)" by fastforce
  have tun: "tuners_ok ids (tuners (released tok m))"
    using tuners_ok_update [OF mgr_okD(1) [OF ok]] tuner_wf_erase by (simp add: released_def Some p)
  have sub: "set (smap_keys (attrs (released tok m))) \<subseteq> tokens_of (released tok m)"
  proof
    fix x assume "x \<in> set (smap_keys (attrs (released tok m)))"
    then have "x \<in> set (smap_keys (attrs m))" "x \<noteq> tok"
      by (auto simp: released_def Some p)
    with ok show "x \<in> tokens_of (released tok m)"
      using tokens_of_released [OF ok] mgr_okD(6) [OF ok] by (simp add: managed_def)
  qed
  show ?thesis
    using tun sub ok
    by (simp add: mgr_ok_def released_def Some p)
qed (use ok in \<open>simp add: released_def\<close>)

lemma preserves_release [inv_intros]: "preserves (on_mgr (mgr_ok ids)) (releaseReservation tok n)"
proof (rule preservesI)
  fix w assume "on_mgr (mgr_ok ids) w"
  then have ok: "mgr_ok ids (w_mgr w)" by (simp add: on_mgr_def)
  then show "on_mgr (mgr_ok ids) (snd (releaseReservation tok n w))"
    by (cases "managed (w_mgr w) tok")
      (simp_all add: releaseReservation_managed releaseReservation_unmanaged on_mgr_def mgr_ok_released)
qed

section \<open>Granting\<close>

text \<open>A tuner may hold a reservation the manager does not manage; the reverse is excluded.\<close>

lemma tokens_of_updTuner_mono:
  assumes "\<And>t. map_of (tuners m) tid = Some t \<Longrightarrow>
    set (smap_keys (reservations t)) \<subseteq> set (smap_keys (reservations (f t)))"
    and "smap_ok (tuners m)"
  shows "tokens_of m \<subseteq> tokens_of (updTuner tid f m)"
proof
  fix x assume "x \<in> tokens_of m"
  then obtain k u where "(k, u) \<in> set (tuners m)" "x \<in> set (smap_keys (reservations u))"
    unfolding tokens_of_iff by blast
  then have "map_of (tuners m) k = Some u"
    "x \<in> set (smap_keys (reservations (if k = tid then f u else u)))"
    using assms smap_mem_map_of [OF assms(2), of k u] by (simp_all, blast)
  then show "x \<in> tokens_of (updTuner tid f m)"
    unfolding tokens_of_update [OF assms(2)] by blast
qed

lemma mgr_ok_updTuner:
  assumes ok: "mgr_ok ids m"
    and f: "\<And>t. map_of (tuners m) tid = Some t \<Longrightarrow> tuner_wf t \<Longrightarrow>
      tuner_wf (f t) \<and> internalId (f t) = internalId t \<and>
      set (smap_keys (reservations t)) \<subseteq> set (smap_keys (reservations (f t)))"
  shows "mgr_ok ids (updTuner tid f m)"
proof -
  have so: "smap_ok (tuners m)" using ok by (simp add: mgr_ok_def tuners_ok_def)
  have wf: "\<And>t. map_of (tuners m) tid = Some t \<Longrightarrow> tuner_wf t"
    using mgr_okD(1) [OF ok] so by (metis smap_mem_map_of tuners_okD(3))
  have "tuners_ok ids (tuners (updTuner tid f m))"
    using tuners_ok_update [OF mgr_okD(1) [OF ok]] f by (simp add: updTuner_def)
  moreover have "tokens_of m \<subseteq> tokens_of (updTuner tid f m)"
    using tokens_of_updTuner_mono [OF _ so] f wf by blast
  ultimately show ?thesis using ok by (auto simp: mgr_ok_def updTuner_def)
qed

lemma onTuner_run:
  "onTuner tid op w =
     (case map_of (tuners (w_mgr w)) tid of
        None \<Rightarrow> (Inl ItemNotFoundException, w)
      | Some t \<Rightarrow> (fst (op t), w\<lparr>w_mgr := updTuner tid (\<lambda>_. snd (op t)) (w_mgr w)\<rparr>))"
  by (simp add: onTuner_def trm_run getTuner_def split: option.split)

lemma smap_update_simps:
  "smap_update k f [] = []"
  "smap_update k f ((k', v) # m) = (k', if k' = k then f v else v) # smap_update k f m"
  by (simp_all add: smap_update_def)

lemma update_insert_fresh:
  "map_of m k = None \<Longrightarrow> smap_update k f (smap_insert k v m) = smap_put k (f v) m"
proof -
  assume k: "map_of m k = None"
  then have "k \<notin> fst ` set m" by (simp add: map_of_eq_None_iff)
  then have "smap_update k f (smap_put k v m) = smap_put k (f v) m"
    by (induction m) (auto simp: smap_update_simps update_absent)
  with k show ?thesis by (simp add: smap_insert_def)
qed

text \<open>
  The tables after a complete grant; \<open>c\<close> is the index of the first of the four clock readings.
\<close>

definition granted :: "env \<Rightarrow> nat \<Rightarrow> TunerReservation \<Rightarrow> string \<Rightarrow> Manager \<Rightarrow> Manager" where
  "granted e c r tid m =
     m\<lparr>tuners := smap_update tid (\<lambda>t. snd (Tuner_addReservation r t)) (tuners m),
       preStartTimers := smap_put (r_token r)
         (Timer_schedule (e_epoch e c) (r_startTime r - 250) True QtTimer_new) (preStartTimers m),
       startTimers := smap_put (r_token r)
         (Timer_schedule (e_epoch e (c + 1)) (r_startTime r) True QtTimer_new) (startTimers m),
       expireTimers := smap_put (r_token r)
         (Timer_schedule (e_epoch e (c + 3)) (getExpirationTime (e_epoch e (c + 2)) r) False
           QtTimer_new) (expireTimers m)\<rparr>"

lemma addReservation_run:
  assumes ok: "mgr_ok ids (w_mgr w)"
  shows "addReservation r tid w =
    (case map_of (tuners (w_mgr w)) tid of
       None \<Rightarrow> (Inl ItemNotFoundException, w)
     | Some t \<Rightarrow>
         if fst (Tuner_addReservation r t) \<noteq> Inr () \<or> managed (w_mgr w) (r_token r) then
           (Inl AssertionFailureException,
            w\<lparr>w_mgr := updTuner tid (\<lambda>t. snd (Tuner_addReservation r t)) (w_mgr w)\<rparr>)
         else (Inr (), w\<lparr>w_mgr := granted (w_env w) (w_clock w) r tid (w_mgr w),
                        w_clock := w_clock w + 4\<rparr>))"
proof (cases "map_of (tuners (w_mgr w)) tid")
  case None
  then show ?thesis by (simp add: addReservation_def trm_run onTuner_run)
next
  case (Some t)
  let ?m = "w_mgr w"
  have so: "smap_ok (tuners ?m)" using ok by (simp add: mgr_ok_def tuners_ok_def)
  have const: "smap_update tid (\<lambda>_. snd (Tuner_addReservation r t)) (tuners ?m) =
      smap_update tid (\<lambda>t. snd (Tuner_addReservation r t)) (tuners ?m)"
    by (rule updTuner_const [OF Some so]) simp
  show ?thesis
  proof (cases "fst (Tuner_addReservation r t)")
    case (Inl e)
    then have "e = AssertionFailureException"
      by (auto simp: Tuner_addReservation_def Let_def query_simps split: if_splits)
    with Inl Some const show ?thesis
      by (simp add: addReservation_def trm_run onTuner_run updTuner_def)
  next
    case (Inr u)
    have keys: "map_of (preStartTimers ?m) (r_token r) = None \<longleftrightarrow> \<not> managed ?m (r_token r)"
      "map_of (startTimers ?m) (r_token r) = None \<longleftrightarrow> \<not> managed ?m (r_token r)"
      "map_of (expireTimers ?m) (r_token r) = None \<longleftrightarrow> \<not> managed ?m (r_token r)"
      using ok by (auto simp: mgr_ok_def managed_def map_of_eq_None_iff)
    show ?thesis
    proof (cases "managed ?m (r_token r)")
      case True
      then obtain y where "map_of (preStartTimers ?m) (r_token r) = Some y" using keys by auto
      with True Inr Some const show ?thesis
        by (simp add: addReservation_def trm_run onTuner_run updTuner_def)
    next
      case False
      with keys Inr Some const show ?thesis
        by (simp add: addReservation_def trm_run onTuner_run updTuner_def setTimer_def
            setPreStartTimer_def setStartTimer_def setExpireTimer_def GetCurrentEpoch_def
            update_insert_fresh granted_def numeral_eq_Suc)
    qed
  qed
qed

lemma mgr_ok_added:
  assumes ok: "mgr_ok ids m"
  shows "mgr_ok ids (updTuner tid (\<lambda>t. snd (Tuner_addReservation r t)) m)"
  by (rule mgr_ok_updTuner [OF ok]) (use Tuner_addReservation_mono tuner_wf_add in auto)

lemma tokens_of_added:
  assumes ok: "mgr_ok ids m" and t: "map_of (tuners m) tid = Some t"
    and add: "fst (Tuner_addReservation r t) = Inr ()"
  shows "r_token r \<in> tokens_of (updTuner tid (\<lambda>t. snd (Tuner_addReservation r t)) m)"
proof -
  have so: "smap_ok (tuners m)" using ok by (simp add: mgr_ok_def tuners_ok_def)
  have "snd (Tuner_addReservation r t) = t\<lparr>reservations := smap_put (r_token r) r (reservations t)\<rparr>"
    using add by (intro Tuner_addReservation_ok) (metis prod.collapse)
  then have "r_token r \<in> set (smap_keys (reservations (snd (Tuner_addReservation r t))))" by simp
  with t show ?thesis unfolding tokens_of_update [OF so] by auto
qed

lemma mgr_ok_granted:
  assumes ok: "mgr_ok ids m" and t: "map_of (tuners m) tid = Some t"
    and add: "fst (Tuner_addReservation r t) = Inr ()"
  shows "mgr_ok ids ((granted e c r tid m)\<lparr>attrs := smap_put (r_token r) cid (attrs m)\<rparr>)"
proof -
  let ?m = "updTuner tid (\<lambda>t. snd (Tuner_addReservation r t)) m"
  have "tokens_of ((granted e c r tid m)\<lparr>attrs := smap_put (r_token r) cid (attrs m)\<rparr>) = tokens_of ?m"
    by (simp add: tokens_of_def granted_def updTuner_def)
  with mgr_ok_added [OF ok, of tid r] tokens_of_added [OF assms] show ?thesis
    by (simp add: mgr_ok_def granted_def updTuner_def)
qed

text \<open>
  The source always files the owner right after adding the reservation; together the two calls
  keep the invariant, and only the first can fail.
\<close>

lemma preserves_grant:
  assumes "preserves (on_mgr (mgr_ok ids)) k"
  shows "preserves (on_mgr (mgr_ok ids))
    (mseq (addReservation r tid) (mseq (setReservationAttributes (r_token r) cid) k))"
proof (rule preservesI)
  fix w assume "on_mgr (mgr_ok ids) w"
  then have ok: "mgr_ok ids (w_mgr w)" by (simp add: on_mgr_def)
  show "on_mgr (mgr_ok ids)
    (snd (mseq (addReservation r tid) (mseq (setReservationAttributes (r_token r) cid) k) w))"
  proof (cases "map_of (tuners (w_mgr w)) tid")
    case None
    with ok show ?thesis by (simp add: trm_run addReservation_run on_mgr_def)
  next
    case (Some t)
    show ?thesis
    proof (cases "fst (Tuner_addReservation r t) \<noteq> Inr () \<or> managed (w_mgr w) (r_token r)")
      case True
      with ok Some show ?thesis
        by (simp add: trm_run addReservation_run on_mgr_def mgr_ok_added)
    next
      case False
      let ?w = "w\<lparr>w_clock := w_clock w + 4,
                  w_mgr := (granted (w_env w) (w_clock w) r tid (w_mgr w))
                    \<lparr>attrs := smap_put (r_token r) cid (attrs (w_mgr w))\<rparr>\<rparr>"
      have "on_mgr (mgr_ok ids) ?w"
        using False ok Some by (simp add: on_mgr_def mgr_ok_granted)
      then have "on_mgr (mgr_ok ids) (snd (k ?w))" by (rule preservesD [OF assms])
      moreover have "attrs (granted (w_env w) (w_clock w) r tid (w_mgr w)) = attrs (w_mgr w)"
        by (simp add: granted_def)
      ultimately show ?thesis
        using ok Some False by (simp add: trm_run addReservation_run setReservationAttributes_def)
    qed
  qed
qed

section \<open>The other operations\<close>

text \<open>Any change that leaves tuners, owners and the key sets of the timer tables alone.\<close>

definition frame_eq :: "Manager \<Rightarrow> Manager \<Rightarrow> bool" where
  "frame_eq m m' \<longleftrightarrow> tuners m' = tuners m \<and> attrs m' = attrs m \<and>
     smap_keys (expireTimers m') = smap_keys (expireTimers m) \<and>
     smap_keys (startTimers m') = smap_keys (startTimers m) \<and>
     smap_keys (preStartTimers m') = smap_keys (preStartTimers m) \<and>
     (smap_ok (pendingRequestTimers m) \<longrightarrow> smap_ok (pendingRequestTimers m'))"

lemma mgr_ok_frame: "mgr_ok ids m \<Longrightarrow> frame_eq m m' \<Longrightarrow> mgr_ok ids m'"
  unfolding mgr_ok_def frame_eq_def tokens_of_def smap_ok_def by auto

lemma preserves_frame:
  "(\<And>m. frame_eq m (f m)) \<Longrightarrow> preserves (on_mgr (mgr_ok ids)) (modify f)"
  using mgr_ok_frame by (auto intro: preserves_modify)

lemma mgr_ok_updReservation:
  assumes ok: "mgr_ok ids m" and f: "\<And>r. r_token (f r) = r_token r"
  shows "mgr_ok ids (updReservation tok f m)"
proof (cases "findTuner tok (tuners m)")
  case (Some p)
  obtain tid t where "p = (tid, t)" by fastforce
  with Some show ?thesis
    using mgr_ok_updTuner [OF ok, of tid "\<lambda>t. t\<lparr>reservations := smap_update tok f (reservations t)\<rparr>"]
      tuner_wf_update [OF _ f]
    by (simp add: updReservation_def)
qed (use ok in \<open>simp add: updReservation_def\<close>)

lemma preserves_updReservation [inv_intros]:
  "(\<And>r. r_token (f r) = r_token r) \<Longrightarrow>
     preserves (on_mgr (mgr_ok ids)) (modify (updReservation tok f))"
  by (intro preserves_modify mgr_ok_updReservation)

lemma preserves_setLocalTuner [inv_intros]:
  "preserves (on_mgr (mgr_ok ids)) (setLocalTuner tid)"
  unfolding setLocalTuner_def by (intro preserves_frame) (simp add: frame_eq_def)

lemma preserves_adjustExpireTimer [inv_intros]:
  "preserves (on_mgr (mgr_ok ids)) (adjustExpireTimer tok)"
  unfolding adjustExpireTimer_def by (intro inv_intros preserves_frame) (simp_all add: frame_eq_def)

lemma preserves_addPendingRequest [inv_intros]:
  "preserves (on_mgr (mgr_ok ids)) (addPendingRequest uuid kind timeout)"
  unfolding addPendingRequest_def by (intro inv_intros preserves_frame) (simp_all add: frame_eq_def)

lemma preserves_removePendingRequest [inv_intros]:
  "preserves (on_mgr (mgr_ok ids)) (removePendingRequest uuid)"
  unfolding removePendingRequest_def cancelPendingTimer_def
  by (intro inv_intros preserves_frame) (simp_all add: frame_eq_def)

lemma preserves_case_prod [inv_intros]:
  "(\<And>x y. preserves I (f x y)) \<Longrightarrow> preserves I (case p of (x, y) \<Rightarrow> f x y)"
  by (cases p) simp

lemma preserves_prepareRecordHandover [inv_intros]:
  "preserves (on_mgr (mgr_ok ids)) (prepareRecordHandover tid tok)"
  unfolding prepareRecordHandover_def by (intro inv_intros)

lemma preserves_syncHybrid [inv_intros]: "preserves (on_mgr (mgr_ok ids)) (syncHybrid tid)"
  unfolding syncHybrid_def syncLive_def
  by (intro inv_intros) (simp_all add: reservation_set_defs)

lemma preserves_startReservation [inv_intros]:
  "preserves (on_mgr (mgr_ok ids)) (startReservation tok)"
  unfolding startReservation_def by (intro inv_intros)

lemma preserves_getTunerStatesUpdate [inv_intros]:
  "preserves (on_mgr (mgr_ok ids)) getTunerStatesUpdate"
  unfolding getTunerStatesUpdate_def by (intro inv_intros)

section \<open>Start-up\<close>

lemma foldl_insert_tuners:
  "smap_ok ts \<and> (\<forall>(k, t) \<in> set ts. internalId t = k \<and> tuner_wf t) \<Longrightarrow>
     smap_ok (foldl (\<lambda>m i. smap_insert (tunerIdOf i) (Tuner_new (tunerIdOf i)) m) ts is) \<and>
     (\<forall>(k, t) \<in> set (foldl (\<lambda>m i. smap_insert (tunerIdOf i) (Tuner_new (tunerIdOf i)) m) ts is).
        internalId t = k \<and> tuner_wf t)"
proof (induction "is" arbitrary: ts)
  case (Cons i "is")
  have "set (smap_insert (tunerIdOf i) (Tuner_new (tunerIdOf i)) ts) \<subseteq>
      insert (tunerIdOf i, Tuner_new (tunerIdOf i)) (set ts)"
    using set_put_subset [of "tunerIdOf i" "Tuner_new (tunerIdOf i)" ts]
    by (auto simp: smap_insert_def split: option.splits)
  moreover have "internalId (Tuner_new (tunerIdOf i)) = tunerIdOf i"
    by (simp add: Tuner_new_def)
  ultimately have "smap_ok (smap_insert (tunerIdOf i) (Tuner_new (tunerIdOf i)) ts) \<and>
      (\<forall>(k, t) \<in> set (smap_insert (tunerIdOf i) (Tuner_new (tunerIdOf i)) ts).
         internalId t = k \<and> tuner_wf t)"
    using Cons.prems by auto
  then show ?case using Cons.IH by simp
qed simp

lemma mgr_ok_new: "mgr_ok (getTunerIds (Manager_new n)) (Manager_new n)"
  using foldl_insert_tuners [of "[]" "[0..<n]"]
  by (simp add: mgr_ok_def tuners_ok_def getTunerIds_def Manager_new_def)

section \<open>Granting and releasing\<close>

lemma erase_put_fresh: "k \<notin> fst ` set m \<Longrightarrow> smap_erase k (smap_put k v m) = m"
  by (induction k v m rule: smap_put.induct)
    (auto simp: smap_erase_def intro!: filter_True)

lemma update_update_id:
  assumes "map_of ts k = Some v" "distinct (smap_keys ts)" "g (f v) = v"
  shows "smap_update k g (smap_update k f ts) = ts"
  using assms
proof (induction ts)
  case (Cons p ts)
  obtain k' u where p: "p = (k', u)" by fastforce
  show ?case
  proof (cases "k' = k")
    case True
    with Cons.prems have "k \<notin> set (smap_keys ts)" by (auto simp: p)
    with True Cons.prems show ?thesis by (simp add: p smap_update_simps update_absent)
  qed (use Cons p in \<open>auto simp: smap_update_simps\<close>)
qed simp

lemma findTuner_added:
  assumes "\<forall>p \<in> set ts. tok \<notin> set (smap_keys (reservations (snd p)))"
    and "map_of ts tid = Some t" "distinct (smap_keys ts)"
    and "tok \<in> set (smap_keys (reservations (f t)))"
  shows "findTuner tok (smap_update tid f ts) = Some (tid, f t)"
  using assms
proof (induction ts)
  case (Cons p ts)
  obtain k u where p: "p = (k, u)" by fastforce
  show ?case
  proof (cases "k = tid")
    case True
    with Cons.prems show ?thesis by (simp add: p smap_update_simps Tuner_getReservationTokens_def)
  next
    case False
    with Cons show ?thesis
      by (auto simp: p smap_update_simps Tuner_getReservationTokens_def split: if_splits)
  qed
qed simp

lemma released_granted:
  assumes ok: "mgr_ok ids m" and fresh: "r_token r \<notin> tokens_of m"
    and t: "map_of (tuners m) tid = Some t" and add: "fst (Tuner_addReservation r t) = Inr ()"
  shows "released (r_token r) ((granted e c r tid m)\<lparr>attrs := smap_put (r_token r) cid (attrs m)\<rparr>) = m"
proof -
  let ?tok = "r_token r"
  let ?f = "\<lambda>t. snd (Tuner_addReservation r t)"
  let ?g = "\<lambda>t. t\<lparr>reservations := smap_erase ?tok (reservations t)\<rparr>"
  have d: "distinct (smap_keys (tuners m))"
    using ok smap_ok_distinct by (auto simp: mgr_ok_def tuners_ok_def)
  have ft: "?f t = t\<lparr>reservations := smap_put ?tok r (reservations t)\<rparr>"
    using add by (intro Tuner_addReservation_ok) (metis prod.collapse)
  have un: "\<forall>p \<in> set (tuners m). ?tok \<notin> set (smap_keys (reservations (snd p)))"
    using fresh by (auto simp: tokens_of_def)
  then have "?tok \<notin> fst ` set (reservations t)" using t by (force dest: map_of_SomeD)
  then have gf: "?g (?f t) = t" by (simp add: ft erase_put_fresh)
  have find: "findTuner ?tok (smap_update tid ?f (tuners m)) = Some (tid, ?f t)"
    by (rule findTuner_added [OF un t d]) (simp add: ft)
  have upd: "smap_update tid ?g (smap_update tid ?f (tuners m)) = tuners m"
    by (rule update_update_id [OF t d]) (rule gf)
  have "\<not> managed m ?tok" using mgr_okD(6) [OF ok] fresh by blast
  then have "?tok \<notin> fst ` set (attrs m)" "?tok \<notin> fst ` set (expireTimers m)"
    "?tok \<notin> fst ` set (startTimers m)" "?tok \<notin> fst ` set (preStartTimers m)"
    using ok by (auto simp: mgr_ok_def managed_def)
  with find upd show ?thesis
    by (simp add: released_def granted_def erase_put_fresh)
qed

end
