(* ===== verification/Trm_Filter.thy ===== *)
theory Trm_Filter
  imports Trm_Tables
begin

text \<open>
  The filters of \<^verbatim>\<open>qtapp/srv/Filter.cpp\<close>: each walks a list of tuner ids or reservation
  tokens and erases the elements that fail its test. A test looks the element up in the
  manager, and the lookup may throw.
\<close>

section \<open>Filters on tuner ids\<close>

definition Filter_ByTunerId :: "string \<Rightarrow> Manager \<Rightarrow> string list \<Rightarrow> string list query" where
  "Filter_ByTunerId tunerId m tids =
     ebind (filterE (\<lambda>tid. ebind (getTuner tid m) (\<lambda>t. Inr (internalId t = tunerId))) tids)
       (\<lambda>tids'. ebind (eassert (length tids' \<le> 1)) (\<lambda>_. Inr tids'))"

definition Filter_ByTunerState :: "TunerState \<Rightarrow> Manager \<Rightarrow> string list \<Rightarrow> string list query" where
  "Filter_ByTunerState s m tids =
     filterE (\<lambda>tid. ebind (getTuner tid m) (\<lambda>t. Inr (Tuner_getState t = s))) tids"

definition Filter_ByTunerLocator :: "string \<Rightarrow> Manager \<Rightarrow> string list \<Rightarrow> string list query" where
  "Filter_ByTunerLocator loc m tids =
     filterE (\<lambda>tid. ebind (getTuner tid m) (\<lambda>t.
       ebind (Tuner_getServiceLocator t True) (\<lambda>l. Inr (l = '''' \<or> l = loc)))) tids"

definition Filter_ByTunerEndBefore :: "u64 \<Rightarrow> Manager \<Rightarrow> string list \<Rightarrow> string list query" where
  "Filter_ByTunerEndBefore endTime m tids =
     filterE (\<lambda>tid.
       ebind (getReservationTokens_tuner tid m) (\<lambda>tokens.
       ebind (mapE (\<lambda>tok. ebind (getReservation tok m) (\<lambda>r.
                Inr (Activity_eq (r_activity r) kRecord \<and>
                     r_startTime r + r_duration r > endTime))) tokens) (\<lambda>beyond.
         Inr (\<not> list_ex id beyond)))) tids"

section \<open>Filters on reservation tokens\<close>

definition Filter_token :: "(TunerReservation \<Rightarrow> bool) \<Rightarrow> Manager \<Rightarrow> string list \<Rightarrow> string list query" where
  "Filter_token p m tokens =
     filterE (\<lambda>tok. ebind (getReservation tok m) (\<lambda>r. Inr (p r))) tokens"

definition Filter_ByActivity :: "Activity_enum \<Rightarrow> Manager \<Rightarrow> string list \<Rightarrow> string list query" where
  "Filter_ByActivity a = Filter_token (\<lambda>r. a_enum (r_activity r) = a)"

definition Filter_ByStartAfter :: "u64 \<Rightarrow> Manager \<Rightarrow> string list \<Rightarrow> string list query" where
  "Filter_ByStartAfter t = Filter_token (\<lambda>r. \<not> r_startTime r \<le> t)"

definition Filter_ByReservationEndBefore :: "u64 \<Rightarrow> Manager \<Rightarrow> string list \<Rightarrow> string list query" where
  "Filter_ByReservationEndBefore t = Filter_token (\<lambda>r. \<not> r_startTime r + r_duration r > t)"

definition Filter_ReservationByToken :: "string \<Rightarrow> Manager \<Rightarrow> string list \<Rightarrow> string list query" where
  "Filter_ReservationByToken tok = Filter_token (\<lambda>r. r_token r = tok)"

definition Filter_ReservationByDevice :: "string \<Rightarrow> Manager \<Rightarrow> string list \<Rightarrow> string list query" where
  "Filter_ReservationByDevice dev = Filter_token (\<lambda>r. r_device r = dev)"

text \<open>
  \<^verbatim>\<open>Filter_ReservationByAttribute\<close>: the tokens that are (not) in an unresolved conflict.
\<close>

definition Filter_ReservationByAttribute :: "bool \<Rightarrow> Manager \<Rightarrow> string list \<Rightarrow> string list query" where
  "Filter_ReservationByAttribute inConflict m tokens =
     filterE (\<lambda>tok. Inr (\<not> (inConflict \<and> \<not> isPendingConflict tok m) \<and>
                         \<not> (\<not> inConflict \<and> isPendingConflict tok m))) tokens"

definition Filter_ByReservationLocator :: "string \<Rightarrow> Manager \<Rightarrow> string list \<Rightarrow> string list query" where
  "Filter_ByReservationLocator loc = Filter_token (\<lambda>r. r_serviceLocator r = loc)"

definition Filter_ByReservationState :: "rstate \<Rightarrow> Manager \<Rightarrow> string list \<Rightarrow> string list query" where
  "Filter_ByReservationState s = Filter_token (\<lambda>r. r_state r = s)"

section \<open>The contract of a filter\<close>

text \<open>
  A filter keeps, in order, the elements that satisfy its test, and returns whenever every
  element of the list is known (\<open>dom\<close>) to the manager. The client's lemmas follow from that.
\<close>

locale list_filter =
  fixes flt :: "Manager \<Rightarrow> string list \<Rightarrow> string list query"
    and sat :: "Manager \<Rightarrow> string \<Rightarrow> bool"
    and known :: "Manager \<Rightarrow> string \<Rightarrow> bool"
  assumes flt_known: "(\<forall>x \<in> set xs. known m x) \<Longrightarrow> flt m xs = Inr (filter (sat m) xs)"
    and flt_only: "flt m xs = Inr ys \<Longrightarrow> ys = filter (sat m) xs"
begin

lemma result_subset: "flt m xs = Inr ys \<Longrightarrow> set ys \<subseteq> set xs"
  by (auto dest!: flt_only)

lemma result_sat: "flt m xs = Inr ys \<Longrightarrow> y \<in> set ys \<Longrightarrow> sat m y"
  by (auto dest!: flt_only)

lemma idempotent: "flt m xs = Inr ys \<Longrightarrow> (\<forall>x \<in> set xs. known m x) \<Longrightarrow> flt m ys = Inr ys"
  using flt_only [of m xs ys] flt_known [of ys m] by (auto simp: filter_filter)

lemma result_distinct: "flt m xs = Inr ys \<Longrightarrow> distinct xs \<Longrightarrow> distinct ys"
  by (auto dest!: flt_only)

end

definition sat_token :: "(TunerReservation \<Rightarrow> bool) \<Rightarrow> Manager \<Rightarrow> string \<Rightarrow> bool" where
  "sat_token p m tok \<longleftrightarrow> (case getReservation tok m of Inr r \<Rightarrow> p r | Inl _ \<Rightarrow> False)"

definition sat_tuner :: "(Tuner \<Rightarrow> bool) \<Rightarrow> Manager \<Rightarrow> string \<Rightarrow> bool" where
  "sat_tuner p m tid \<longleftrightarrow> (case getTuner tid m of Inr t \<Rightarrow> p t | Inl _ \<Rightarrow> False)"

lemma filterE_sat:
  assumes "\<And>x b. p x = Inr b \<Longrightarrow> b = P x"
  shows "filterE p xs = Inr ys \<Longrightarrow> ys = filter P xs"
  using assms by (induction xs arbitrary: ys) (auto simp: query_simps split: if_splits)

lemma list_filter_token:
  "list_filter (Filter_token p) (sat_token p) (\<lambda>m tok. tok \<in> tokens_of m)"
proof
  show "Filter_token p m xs = Inr (filter (sat_token p m) xs)" if "\<forall>x \<in> set xs. x \<in> tokens_of m" for m xs
    unfolding Filter_token_def
  proof (rule filterE_total)
    fix x assume "x \<in> set xs"
    with that obtain r where "getReservation x m = Inr r" using getReservation_total by blast
    then show "ebind (getReservation x m) (\<lambda>r. Inr (p r)) = Inr (sat_token p m x)"
      by (simp add: sat_token_def)
  qed
  show "ys = filter (sat_token p m) xs" if "Filter_token p m xs = Inr ys" for m xs ys
    using that unfolding Filter_token_def
    by (rule filterE_sat [rotated]) (auto simp: query_simps sat_token_def)
qed

interpretation byActivity: list_filter "Filter_ByActivity a"
  "sat_token (\<lambda>r. a_enum (r_activity r) = a)" "\<lambda>m tok. tok \<in> tokens_of m" for a
  unfolding Filter_ByActivity_def by (rule list_filter_token)

interpretation byDevice: list_filter "Filter_ReservationByDevice d"
  "sat_token (\<lambda>r. r_device r = d)" "\<lambda>m tok. tok \<in> tokens_of m" for d
  unfolding Filter_ReservationByDevice_def by (rule list_filter_token)

interpretation byStartAfter: list_filter "Filter_ByStartAfter t"
  "sat_token (\<lambda>r. \<not> r_startTime r \<le> t)" "\<lambda>m tok. tok \<in> tokens_of m" for t
  unfolding Filter_ByStartAfter_def by (rule list_filter_token)

interpretation byReservationEndBefore: list_filter "Filter_ByReservationEndBefore t"
  "sat_token (\<lambda>r. \<not> r_startTime r + r_duration r > t)" "\<lambda>m tok. tok \<in> tokens_of m" for t
  unfolding Filter_ByReservationEndBefore_def by (rule list_filter_token)

interpretation byToken: list_filter "Filter_ReservationByToken tok"
  "sat_token (\<lambda>r. r_token r = tok)" "\<lambda>m tok. tok \<in> tokens_of m" for tok
  unfolding Filter_ReservationByToken_def by (rule list_filter_token)

interpretation byReservationLocator: list_filter "Filter_ByReservationLocator loc"
  "sat_token (\<lambda>r. r_serviceLocator r = loc)" "\<lambda>m tok. tok \<in> tokens_of m" for loc
  unfolding Filter_ByReservationLocator_def by (rule list_filter_token)

interpretation byReservationState: list_filter "Filter_ByReservationState s"
  "sat_token (\<lambda>r. r_state r = s)" "\<lambda>m tok. tok \<in> tokens_of m" for s
  unfolding Filter_ByReservationState_def by (rule list_filter_token)

interpretation byInConflict: list_filter "Filter_ReservationByAttribute b"
  "\<lambda>m tok. isPendingConflict tok m = b" "\<lambda>m tok. True" for b
proof
  have *: "Filter_ReservationByAttribute b m xs = Inr (filter (\<lambda>tok. isPendingConflict tok m = b) xs)"
    for m xs
    unfolding Filter_ReservationByAttribute_def by (rule filterE_total) auto
  show "Filter_ReservationByAttribute b m xs = Inr (filter (\<lambda>tok. isPendingConflict tok m = b) xs)"
    for m xs by (rule *)
  show "ys = filter (\<lambda>tok. isPendingConflict tok m = b) xs"
    if "Filter_ReservationByAttribute b m xs = Inr ys" for m xs ys
    using that * by simp
qed

lemma getTuner_known: "tid \<in> set (getTunerIds m) \<Longrightarrow> \<exists>t. getTuner tid m = Inr t"
  by (metis getTuner_Inl sum.exhaust)

interpretation byTunerState: list_filter "Filter_ByTunerState s"
  "sat_tuner (\<lambda>t. Tuner_getState t = s)" "\<lambda>m tid. tid \<in> set (getTunerIds m)" for s
proof
  show "Filter_ByTunerState s m xs = Inr (filter (sat_tuner (\<lambda>t. Tuner_getState t = s) m) xs)"
    if "\<forall>x \<in> set xs. x \<in> set (getTunerIds m)" for m xs
    unfolding Filter_ByTunerState_def
  proof (rule filterE_total)
    fix x assume "x \<in> set xs"
    with that obtain t where "getTuner x m = Inr t" using getTuner_known by blast
    then show "ebind (getTuner x m) (\<lambda>t. Inr (Tuner_getState t = s)) =
        Inr (sat_tuner (\<lambda>t. Tuner_getState t = s) m x)" by (simp add: sat_tuner_def)
  qed
  show "ys = filter (sat_tuner (\<lambda>t. Tuner_getState t = s) m) xs"
    if "Filter_ByTunerState s m xs = Inr ys" for m xs ys
    using that unfolding Filter_ByTunerState_def
    by (rule filterE_sat [rotated]) (auto simp: query_simps sat_tuner_def)
qed

end
