(* ===== verification/Trm_Reserve.thy ===== *)
theory Trm_Reserve
  imports Trm_Filter
begin

text \<open>
  The allocation policy (the local namespace of \<^verbatim>\<open>qtapp/srv/Executors.cpp\<close>): which tuner a
  live or a recording request gets, which reservations conflict with it when it gets none, and
  where the tuner reserved for the host device moves. The searches only read the manager and
  are queries; each stage of the long C++ functions is one definition, in source order.
\<close>

section \<open>Policy\<close>

definition Policy_RequireTokenInRequest :: bool where "Policy_RequireTokenInRequest = False"
definition Policy_allowLinearRecordSharing :: bool where "Policy_allowLinearRecordSharing = True"
definition Policy_enableConflictsForHotRecording :: bool where
  "Policy_enableConflictsForHotRecording = True"
definition Policy_allowOverlapRecordings :: bool where "Policy_allowOverlapRecordings = True"

section \<open>Shared searches\<close>

text \<open>All tuners in one state, and the tokens of a list of tuners with one activity.\<close>

definition tunersInState :: "TunerState \<Rightarrow> Manager \<Rightarrow> string list query" where
  "tunersInState s m = Filter_ByTunerState s m (getTunerIds m)"

definition tokensOn :: "Activity_enum \<Rightarrow> string list \<Rightarrow> Manager \<Rightarrow> string list query" where
  "tokensOn a tids m = ebind (getReservationTokens tids [] m) (Filter_ByActivity a m)"

definition tokensOnTuner :: "Activity_enum \<Rightarrow> string \<Rightarrow> Manager \<Rightarrow> string list query" where
  "tokensOnTuner a tid m = ebind (getReservationTokens_tuner tid m) (Filter_ByActivity a m)"

definition liveTokensOfDevice :: "string \<Rightarrow> Manager \<Rightarrow> string list query" where
  "liveTokensOfDevice dev m =
     ebind (tokensOn kLive (getTunerIds m) m) (Filter_ReservationByDevice dev m)"

text \<open>
  The \<open>security check\<close> of the source: \<^verbatim>\<open>Assert(0)\<close> when the tuner has an active reservation of
  the activity.
\<close>

definition assertNoActive :: "Activity_enum \<Rightarrow> Tuner \<Rightarrow> unit query" where
  "assertNoActive a t =
     ecatch_notfound
       (ebind (Tuner_getReservationBy t a ACTIVE '''') (\<lambda>_. eassert False)) (Inr ())"

section \<open>Conflicts\<close>

definition FindConflictsForRequestedLive ::
  "ReserveTuner \<Rightarrow> Manager \<Rightarrow> TunerReservation list query" where
  "FindConflictsForRequestedLive request m =
     ebind (tunersInState tRecord m) (\<lambda>rt.
     ebind (tokensOn kRecord rt m) (\<lambda>R_tokens_on_R_tuners.
     ebind (tunersInState tFree m) (\<lambda>ft.
     ebind (tokensOn kRecord ft m) (\<lambda>R_tokens_on_F_tuners.
     ebind (liveTokensOfDevice (q_device request) m) (\<lambda>L_tokens_on_Self_tuner.
     ebind (eassert (length L_tokens_on_Self_tuner \<le> 1)) (\<lambda>_.
     ebind (case L_tokens_on_Self_tuner of
              [] \<Rightarrow> Inr []
            | tok # _ \<Rightarrow> ebind (getParent tok m) (\<lambda>p. tokensOnTuner kRecord p m))
           (\<lambda>R_tokens_on_Self_tuner.
     ebind (Filter_ByReservationState ACTIVE m R_tokens_on_R_tuners) (\<lambda>rr.
     ebind (Filter_ByReservationState ACTIVE m R_tokens_on_F_tuners) (\<lambda>rf.
     ebind (Filter_ByReservationState ACTIVE m R_tokens_on_Self_tuner) (\<lambda>rs.
       mapE (\<lambda>tok. getReservation tok m) (rr @ rf @ rs)))))))))))"

text \<open>The loop that skips live tuners that already have a recording token.\<close>

definition skipPendingRecord :: "Manager \<Rightarrow> string list \<Rightarrow> string list query" where
  "skipPendingRecord m tokens =
     filterE (\<lambda>tok.
       ebind (getParent tok m) (\<lambda>p.
       ebind (tokensOnTuner kRecord p m) (\<lambda>rs. Inr (length rs = 0)))) tokens"

definition liveNotInConflict :: "Manager \<Rightarrow> string list query" where
  "liveNotInConflict m =
     ebind (tunersInState tLive m) (\<lambda>lt.
     ebind (tokensOn kLive lt m) (Filter_ReservationByAttribute False m))"

definition conflictOnLive :: "string \<Rightarrow> Manager \<Rightarrow> string list query" where
  "conflictOnLive dev m =
     ebind (if dev \<noteq> '''' then
              ebind (liveNotInConflict m) (\<lambda>l.
              ebind (Filter_ReservationByDevice dev m l) (\<lambda>l'.
                if length l' \<noteq> 0 then skipPendingRecord m l' else Inr l'))
            else Inr [])
       (\<lambda>own.
          if dev = '''' \<or> length own = 0
          then ebind (liveNotInConflict m) (skipPendingRecord m)
          else Inr own)"

text \<open>The tuner of the first recording that ends in time, and the live tokens on it.\<close>

definition hybridPeers :: "string list \<Rightarrow> Manager \<Rightarrow> (string list \<times> string list) query" where
  "hybridPeers ending m =
     (case ending of
        [] \<Rightarrow> Inr ([], [])
      | tok # _ \<Rightarrow>
          ebind (getParent tok m) (\<lambda>p.
          ebind (Filter_ByTunerId p m (getTunerIds m)) (\<lambda>tids.
          ebind (tokensOn kLive tids m) (\<lambda>ls. Inr (tids, ls)))))"

definition conflictOnHybrid :: "u64 \<Rightarrow> Manager \<Rightarrow> TunerReservation query" where
  "conflictOnHybrid start m =
     ebind (tunersInState tHybrid m) (\<lambda>ht.
     ebind (tokensOn kRecord ht m) (\<lambda>rs.
     ebind (Filter_ByReservationEndBefore start m rs) (\<lambda>ending.
     ebind (hybridPeers ending m) (\<lambda>(tunerIds, L_tokens_on_H_tuners).
     ebind (eassert (length tunerIds = 1)) (\<lambda>_.
     ebind (eassert (length L_tokens_on_H_tuners = 1)) (\<lambda>_.
       getReservation (hd L_tokens_on_H_tuners) m))))))"

definition FindConflictsForRequestedRecord ::
  "ReserveTuner \<Rightarrow> Manager \<Rightarrow> TunerReservation list query" where
  "FindConflictsForRequestedRecord request m =
     ebind (conflictOnLive (r_device (q_tunerReservation request)) m) (\<lambda>L_tokens_on_L_tuners.
       case L_tokens_on_L_tuners of
         tok # _ \<Rightarrow> ebind (getReservation tok m) (\<lambda>r. Inr [r])
       | [] \<Rightarrow> ebind (conflictOnHybrid (r_startTime (q_tunerReservation request)) m)
                 (\<lambda>r. Inr [r]))"

section \<open>Live\<close>

text \<open>A start time in the future is moved to just before now.\<close>

definition live_startNow :: "ReserveTuner \<Rightarrow> ReserveTuner trm" where
  "live_startNow request =
     mbind GetCurrentEpoch (\<lambda>now.
       if sint (r_startTime (q_tunerReservation request) - now) \<le> 0 then ret request
       else mbind GetCurrentEpoch (\<lambda>now'.
              ret (request\<lparr>q_tunerReservation :=
                     setStartTime (now' - 1) (q_tunerReservation request)\<rparr>)))"

text \<open>
  The existing live token of the device, the token the request must then name, and the token
  to bring back: \<open>(tokenToRelease, tokenToAddTo, tokenToResurrect)\<close>.
\<close>

definition live_existing :: "ReserveTuner \<Rightarrow> Manager \<Rightarrow> (string \<times> string \<times> string) query" where
  "live_existing request m =
     (let tokenToAddTo = r_token (q_tunerReservation request);
          isResurrect = (q_resurrect request = ''true'')
      in ebind (liveTokensOfDevice (q_device request) m) (\<lambda>tokens.
           if length tokens \<noteq> 0 then
             ebind (eassert (length tokens = 1)) (\<lambda>_. Inr (hd tokens, tokenToAddTo, ''''))
           else if isResurrect \<and> tokenToAddTo \<noteq> '''' then Inr ('''', '''', tokenToAddTo)
           else Inr ('''', tokenToAddTo, '''')))"

definition isIdle :: "string \<Rightarrow> Manager \<Rightarrow> bool query" where
  "isIdle tok m = ebind (getReservation tok m) (\<lambda>r. Inr (r_state r = IDLE))"

definition live_checkTokens :: "string \<Rightarrow> string \<Rightarrow> Manager \<Rightarrow> unit query" where
  "live_checkTokens tokenToRelease tokenToAddTo m =
     ebind (if tokenToRelease \<noteq> '''' then isIdle tokenToRelease m else Inr False) (\<lambda>idle.
       if idle then Inl InvalidStateException
       else if tokenToRelease = '''' \<and> tokenToAddTo \<noteq> '''' \<or>
               tokenToRelease \<noteq> '''' \<and> tokenToAddTo \<noteq> '''' \<and> tokenToRelease \<noteq> tokenToAddTo
       then Inl ItemNotFoundException
       else Inr ())"

text \<open>The id of the tuner that holds a token.\<close>

definition parentTuner :: "string \<Rightarrow> Manager \<Rightarrow> Tuner query" where
  "parentTuner tok m = ebind (getParent tok m) (\<lambda>p. getTuner p m)"

definition live_sameLocator :: "ReserveTuner \<Rightarrow> string \<Rightarrow> Manager \<Rightarrow> string query" where
  "live_sameLocator request tokenToRelease m =
     (if tokenToRelease \<noteq> '''' then
        ebind (getReservation tokenToRelease m) (\<lambda>r.
          if r_serviceLocator (q_tunerReservation request) = r_serviceLocator r
          then ebind (parentTuner tokenToRelease m) (\<lambda>t. Inr (internalId t))
          else Inr '''')
      else Inr '''')"

text \<open>A tuner that records the requested locator.\<close>

definition live_shareRecord :: "ReserveTuner \<Rightarrow> Manager \<Rightarrow> string query" where
  "live_shareRecord request m =
     ebind (tunersInState tRecord m)
       (find_firstE (\<lambda>tid.
          ebind (getTuner tid m) (\<lambda>t.
          ebind (assertNoActive kLive t) (\<lambda>_.
          ebind (Tuner_getReservationBy t kRecord ACTIVE '''') (\<lambda>r.
            Inr (r_serviceLocator r = r_serviceLocator (q_tunerReservation request)))))))"

text \<open>
  The device's own live tuner, when its future recording has the requested locator; otherwise
  that tuner becomes the fallback: \<open>(tunerToAddTo, fallbackTuner)\<close>.
\<close>

definition live_ownTuner ::
  "ReserveTuner \<Rightarrow> string \<Rightarrow> Manager \<Rightarrow> (string \<times> string) query" where
  "live_ownTuner request tokenToRelease m =
     (if tokenToRelease \<noteq> '''' then
        ebind (parentTuner tokenToRelease m) (\<lambda>t.
          if Tuner_getState t = tLive then
            ecatch_notfound
              (ebind (Tuner_getReservationBy t kRecord IDLE '''') (\<lambda>r.
                 if r_serviceLocator r = r_serviceLocator (q_tunerReservation request)
                 then Inr (internalId t, '''') else Inr ('''', internalId t)))
              (Inr ('''', internalId t))
          else Inr ('''', ''''))
      else Inr ('''', ''''))"

text \<open>A free tuner whose future recording has the requested locator.\<close>

definition live_freeFuture :: "ReserveTuner \<Rightarrow> Manager \<Rightarrow> string query" where
  "live_freeFuture request m =
     ebind (tunersInState tFree m)
       (find_firstE (\<lambda>tid.
          ebind (getTuner tid m) (\<lambda>t.
          ebind (assertNoActive kLive t) (\<lambda>_.
          ebind (assertNoActive kRecord t) (\<lambda>_.
            ecatch_notfound
              (ebind (Tuner_getReservationBy t kRecord IDLE '''') (\<lambda>r.
                 Inr (r_serviceLocator r = r_serviceLocator (q_tunerReservation request))))
              (Inr False))))))"

text \<open>A free tuner without any token.\<close>

definition live_freeEmpty :: "Manager \<Rightarrow> string query" where
  "live_freeEmpty m =
     ebind (tunersInState tFree m)
       (find_firstE (\<lambda>tid.
          ebind (getTuner tid m) (\<lambda>t.
          ebind (assertNoActive kLive t) (\<lambda>_.
          ebind (assertNoActive kRecord t) (\<lambda>_.
            Inr (length (Tuner_getReservationTokens t []) = 0))))))"

text \<open>
  A remote device does not get the last free tuner when that is the host's reserved tuner,
  unless the reservation can move to a recording tuner and the device has no fallback.
\<close>

definition live_guardLocal :: "ReserveTuner \<Rightarrow> string \<Rightarrow> string \<Rightarrow> string trm" where
  "live_guardLocal request tunerToAddTo fallbackTuner =
     (if tunerToAddTo = '''' then ret tunerToAddTo
      else mbind GetDeviceId (\<lambda>devId.
        if q_device request = devId then ret tunerToAddTo
        else
          mbind (query (tunersInState tFree)) (\<lambda>free.
          mbind (query (\<lambda>m. Inr (localTuner m))) (\<lambda>lt.
            if length free = 1 \<and> tunerToAddTo = lt then
              (if fallbackTuner = '''' then
                 mbind (query (tunersInState tRecord)) (\<lambda>rec.
                   if length rec \<ge> 1
                   then mseq (setLocalTuner (hd rec)) (ret tunerToAddTo)
                   else ret '''')
               else ret '''')
            else ret tunerToAddTo))))"

text \<open>A free tuner with any future recording.\<close>

definition live_anyFuture :: "Manager \<Rightarrow> string query" where
  "live_anyFuture m =
     ebind (tunersInState tFree m)
       (find_firstE (\<lambda>tid.
          ebind (getTuner tid m) (\<lambda>t.
            ecatch_notfound
              (ebind (Tuner_getReservationBy t kRecord IDLE '''') (\<lambda>_. Inr True))
              (Inr False))))"

definition live_lastResort :: "string \<Rightarrow> string \<Rightarrow> string trm" where
  "live_lastResort tunerToAddTo fallbackTuner =
     (let t = (if tunerToAddTo = '''' then fallbackTuner else tunerToAddTo) in
      if t = '''' then query live_anyFuture else ret t)"

text \<open>The whole search without side effects up to the guard: tuner and fallback.\<close>

definition orElse :: "string \<Rightarrow> string query \<Rightarrow> string query" where
  "orElse tid q = (if tid = '''' then q else Inr tid)"

definition live_search ::
  "ReserveTuner \<Rightarrow> string \<Rightarrow> Manager \<Rightarrow> (string \<times> string) query" where
  "live_search request tokenToRelease m =
     ebind (live_sameLocator request tokenToRelease m) (\<lambda>t1.
     ebind (orElse t1 (live_shareRecord request m)) (\<lambda>t2.
     ebind (if t2 = '''' then live_ownTuner request tokenToRelease m else Inr (t2, ''''))
       (\<lambda>(t3, fallbackTuner).
     ebind (orElse t3 (live_freeFuture request m)) (\<lambda>t4.
     ebind (orElse t4 (live_freeEmpty m)) (\<lambda>t5. Inr (t5, fallbackTuner))))))"

text \<open>A new place for the host's reserved tuner, which a remote device is about to take.\<close>

definition live_relocate :: "string \<Rightarrow> string trm" where
  "live_relocate tunerToAddTo =
     mbind (query (tunersInState tFree)) (\<lambda>free.
       let free' = filter (\<lambda>t. t \<noteq> tunerToAddTo) free in
       if length free \<noteq> 0 \<and> length free' \<noteq> 0
       then mseq (setLocalTuner (hd free')) (ret tunerToAddTo)
       else
         mbind (query (tunersInState tRecord)) (\<lambda>rec.
           let rec' = filter (\<lambda>t. t \<noteq> tunerToAddTo) rec in
           if length rec \<noteq> 0 \<and> length rec' \<noteq> 0
           then mseq (setLocalTuner (hd rec')) (ret tunerToAddTo)
           else ret ''''))"

definition live_reserveLocal :: "ReserveTuner \<Rightarrow> string \<Rightarrow> string \<Rightarrow> string trm" where
  "live_reserveLocal request tunerToAddTo fallbackTuner =
     (if tunerToAddTo = '''' then ret tunerToAddTo
      else if tunerToAddTo = fallbackTuner then
        mbind GetDeviceId (\<lambda>devId.
        mbind (query (\<lambda>m. Inr (localTuner m))) (\<lambda>lt.
          mseq (mwhen (q_device request = devId \<and> lt = '''') (setLocalTuner tunerToAddTo))
            (ret tunerToAddTo)))
      else
        mbind GetDeviceId (\<lambda>devId.
          if devId \<noteq> '''' then
            mseq (query (getTuner tunerToAddTo))
              (if q_device request = devId
               then mseq (setLocalTuner tunerToAddTo) (ret tunerToAddTo)
               else mbind (query (\<lambda>m. Inr (localTuner m))) (\<lambda>lt.
                      if tunerToAddTo = lt then live_relocate tunerToAddTo else ret tunerToAddTo))
          else mseq (setLocalTuner '''') (ret tunerToAddTo)))"

text \<open>The grant: the token is the released, the resurrected or a fresh one.\<close>

definition live_grant ::
  "ReserveTuner \<Rightarrow> string \<Rightarrow> string \<Rightarrow> string \<Rightarrow> u32 \<Rightarrow> ReserveTunerResponse \<Rightarrow>
     ReserveTunerResponse trm" where
  "live_grant request tunerToAddTo tokenToRelease tokenToResurrect clientId response =
     mbind (if tokenToRelease \<noteq> '''' then
              mseq (releaseReservation tokenToRelease False) (ret tokenToRelease)
            else if q_resurrect request = ''true'' \<and> tokenToResurrect \<noteq> '''' then ret tokenToResurrect
            else GenerateUUID) (\<lambda>tok.
     mbind (query (getTuner tunerToAddTo)) (\<lambda>t.
     mbind (query (\<lambda>_. Tuner_getServiceLocator t False)) (\<lambda>loc.
       let new = setReservationToken tok (q_tunerReservation request);
           new' = (if loc \<noteq> '''' \<and> r_serviceLocator new \<noteq> loc then setServiceLocator loc new else new)
       in mseq (addReservation new' tunerToAddTo)
            (mseq (setReservationAttributes (r_token new') clientId)
              (ret (response\<lparr>s_tunerReservation := new', s_status := sOk\<rparr>))))))"

definition live_conflicts :: "ReserveTuner \<Rightarrow> ReserveTunerResponse \<Rightarrow> ReserveTunerResponse trm" where
  "live_conflicts request response =
     mbind (query (FindConflictsForRequestedLive request)) (\<lambda>cs.
       let conflicts = s_conflicts response @ cs in
       ret (response\<lparr>s_conflicts := conflicts,
                     s_status := (if length conflicts = 0 then sInsufficientResource else sOk)\<rparr>))"

definition reserveLive ::
  "ReserveTuner \<Rightarrow> ReserveTunerResponse \<Rightarrow> u32 \<Rightarrow> ReserveTunerResponse trm" where
  "reserveLive request0 response clientId =
     mbind (live_startNow request0) (\<lambda>request.
     mbind (query (live_existing request)) (\<lambda>(tokenToRelease, tokenToAddTo, tokenToResurrect).
     mseq (query (live_checkTokens tokenToRelease tokenToAddTo))
    (mbind (query (live_search request tokenToRelease)) (\<lambda>(t5, fallbackTuner).
     mbind (live_guardLocal request t5 fallbackTuner) (\<lambda>t6.
     mbind (live_lastResort t6 fallbackTuner) (\<lambda>t8.
     mbind (live_reserveLocal request t8 fallbackTuner) (\<lambda>tunerToAddTo.
       if tunerToAddTo \<noteq> ''''
       then live_grant request tunerToAddTo tokenToRelease tokenToResurrect clientId response
       else live_conflicts request response)))))))"

section \<open>Recording\<close>

definition renewRecord ::
  "ReserveTuner \<Rightarrow> ReserveTunerResponse \<Rightarrow> u32 \<Rightarrow> ReserveTunerResponse trm" where
  "renewRecord request response clientId =
     (let r = q_tunerReservation request in
      mbind (query (\<lambda>m.
        ebind (getReservationTokens (getTunerIds m) [] m) (\<lambda>all.
        ebind (Filter_ReservationByDevice (r_device r) m all) (\<lambda>dev.
        ebind (Filter_ByReservationLocator (r_serviceLocator r) m dev) (Filter_ByActivity kRecord m)))))
      (\<lambda>tokens.
        if length tokens \<noteq> 0 then
          mbind (if r_token r \<noteq> '''' then mseq (massert (hd tokens = r_token r)) (ret (hd tokens))
                 else ret '''') (\<lambda>tokenToRenew.
          mbind (query (getParent tokenToRenew)) (\<lambda>tid.
            if tokenToRenew \<noteq> '''' then
              mseq (releaseReservation tokenToRenew False)
             (mseq (addReservation r tid)
             (mseq (setReservationAttributes (r_token r) clientId)
                (ret (response\<lparr>s_tunerReservation := r\<rparr>))))
            else ret response))
        else ret (response\<lparr>s_status := sInvalidToken\<rparr>)))"

text \<open>How many tuners record the locator now; the count only feeds a check the policy disables.\<close>

fun record_activeCount :: "string \<Rightarrow> string list \<Rightarrow> Manager \<Rightarrow> nat query" where
  "record_activeCount loc [] m = Inr 0"
| "record_activeCount loc (tid # tids) m =
     ebind (ecatch_notfound
              (ebind (getTuner tid m) (\<lambda>t.
                 ebind (Tuner_getReservationBy t kRecord ACTIVE loc) (\<lambda>_. Inr 1))) (Inr 0)) (\<lambda>n.
     ebind (record_activeCount loc tids m) (\<lambda>k. Inr (n + k)))"

text \<open>
  The last tuner with a pending recording of the locator that ends before the new one starts,
  and the number of tuners with a pending recording of the locator.
\<close>

fun record_pending ::
  "string \<Rightarrow> u64 \<Rightarrow> string list \<Rightarrow> string \<times> nat \<Rightarrow> Manager \<Rightarrow> (string \<times> nat) query" where
  "record_pending loc start [] acc m = Inr acc"
| "record_pending loc start (tid # tids) acc m =
     ebind (ecatch_notfound
              (ebind (getTuner tid m) (\<lambda>t.
                 ebind (Tuner_getReservationBy t kRecord IDLE loc) (\<lambda>_.
                   Inr (if Tuner_getEndTime t kRecord \<le> start then tid else fst acc, Suc (snd acc)))))
              (Inr acc))
       (\<lambda>acc'. record_pending loc start tids acc' m)"

definition record_hybrid :: "string \<Rightarrow> u64 \<Rightarrow> Manager \<Rightarrow> string query" where
  "record_hybrid loc endTime m =
     ebind (tunersInState tHybrid m) (\<lambda>h.
     ebind (Filter_ByTunerEndBefore endTime m h) (\<lambda>h'.
     ebind (Filter_ByTunerLocator loc m h') (\<lambda>tunerIds.
       if length tunerIds \<noteq> 0
       then ebind (eassert (length tunerIds = 1)) (\<lambda>_. Inr (hd tunerIds))
       else Inr '''')))"

definition record_live :: "string \<Rightarrow> Manager \<Rightarrow> string query" where
  "record_live loc m =
     ebind (tunersInState tLive m) (\<lambda>l.
     ebind (Filter_ByTunerLocator loc m l)
       (find_firstE (\<lambda>tid.
          ebind (getTuner tid m) (\<lambda>t.
            if length (Tuner_getReservationTokens t []) = 1
            then ebind (Tuner_getServiceLocator t False) (\<lambda>l. Inr (l = loc))
            else Inr False))))"

definition record_sameRecord :: "string \<Rightarrow> u64 \<Rightarrow> Manager \<Rightarrow> string query" where
  "record_sameRecord loc endTime m =
     ebind (tunersInState tRecord m) (\<lambda>r.
     ebind (Filter_ByTunerEndBefore endTime m r) (\<lambda>r'.
     ebind (Filter_ByTunerLocator loc m r') (\<lambda>tunerIds.
     ebind (eassert (Policy_allowOverlapRecordings \<or> length tunerIds \<le> 1)) (\<lambda>_.
       Inr (if length tunerIds \<noteq> 0 then hd tunerIds else '''')))))"

definition record_otherRecord :: "u64 \<Rightarrow> Manager \<Rightarrow> string query" where
  "record_otherRecord endTime m =
     ebind (tunersInState tRecord m) (\<lambda>r.
     ebind (Filter_ByTunerEndBefore endTime m r) (\<lambda>tunerIds.
       Inr (if length tunerIds \<noteq> 0 then hd tunerIds else '''')))"

text \<open>
  A free tuner without tokens, or with one idle live token of the same locator whose start has
  passed. The clock is read only when such a token is met.
\<close>

fun record_free :: "string \<Rightarrow> string list \<Rightarrow> string trm" where
  "record_free loc [] = ret ''''"
| "record_free loc (tid # tids) =
     mbind (query (getTuner tid)) (\<lambda>t.
     mseq (query (\<lambda>_. assertNoActive kLive t))
    (mseq (query (\<lambda>_. assertNoActive kRecord t))
       (case Tuner_getReservationTokens t [] of
          [] \<Rightarrow> ret tid
        | [tok] \<Rightarrow>
            mbind (query (getReservation tok)) (\<lambda>r.
              if Activity_eq (r_activity r) kLive then
                mbind (query (\<lambda>_. Tuner_getReservationBy t kLive IDLE '''')) (\<lambda>r'.
                  if r_serviceLocator r' = loc then
                    mbind GetCurrentEpoch (\<lambda>now.
                      if r_startTime r' \<le> now then ret tid else record_free loc tids)
                  else record_free loc tids)
              else record_free loc tids)
        | _ \<Rightarrow> record_free loc tids)))"

definition morElse :: "string \<Rightarrow> string trm \<Rightarrow> string trm" where
  "morElse tid m = (if tid = '''' then m else ret tid)"

definition record_search :: "ReserveTuner \<Rightarrow> string trm" where
  "record_search request =
     (let loc = r_serviceLocator (q_tunerReservation request);
          start = r_startTime (q_tunerReservation request)
      in mbind (query (\<lambda>m. record_pending loc start (getTunerIds m) ('''', 0) m)) (\<lambda>(t1, count).
         mseq (massert (Policy_allowOverlapRecordings \<or> count \<le> 1))
        (mbind (morElse t1 (query (record_hybrid loc start))) (\<lambda>t2.
         mbind (morElse t2 (query (record_live loc))) (\<lambda>t3.
         mbind (morElse t3 (query (record_sameRecord loc start))) (\<lambda>t4.
         mbind (morElse t4 (query (record_otherRecord start))) (\<lambda>t5.
           morElse t5 (mbind (query (tunersInState tFree)) (record_free loc)))))))))"

text \<open>When the recording takes the host's free tuner, the reservation moves to another free one.\<close>

definition record_reserveLocal :: "string \<Rightarrow> unit trm" where
  "record_reserveLocal tunerToAddTo =
     mbind (query (getTuner tunerToAddTo)) (\<lambda>t.
     mbind (query (\<lambda>m. Inr (localTuner m))) (\<lambda>lt.
       mwhen (Tuner_getState t = tFree \<and> tunerToAddTo = lt)
         (mbind (query (tunersInState tFree)) (\<lambda>free.
            let free' = filter (\<lambda>t. t \<noteq> tunerToAddTo) free in
            mwhen (length free \<noteq> 0 \<and> length free' \<noteq> 0)
              (mseq GetDeviceId (setLocalTuner (hd free')))))))"

definition record_grant ::
  "ReserveTuner \<Rightarrow> string \<Rightarrow> u32 \<Rightarrow> ReserveTunerResponse \<Rightarrow> ReserveTunerResponse trm" where
  "record_grant request tunerToAddTo clientId response =
     mbind GenerateUUID (\<lambda>tok.
       let r = setReservationToken tok (q_tunerReservation request) in
       mseq (addReservation r tunerToAddTo)
      (mseq (setReservationAttributes (r_token r) clientId)
         (ret (response\<lparr>s_tunerReservation := r\<rparr>))))"

definition record_conflicts ::
  "ReserveTuner \<Rightarrow> ReserveTunerResponse \<Rightarrow> ReserveTunerResponse trm" where
  "record_conflicts request response =
     mbind (if Policy_enableConflictsForHotRecording \<or>
               Activity_getDetail (r_activity (q_tunerReservation request)) ''hot'' \<noteq> ''true''
            then query (FindConflictsForRequestedRecord request)
            else ret []) (\<lambda>cs.
       let conflicts = s_conflicts response @ cs in
       mseq (massert (length conflicts \<le> 1))
         (ret (response\<lparr>s_conflicts := conflicts, s_status := sInsufficientResource\<rparr>)))"

definition reserveRecord ::
  "ReserveTuner \<Rightarrow> ReserveTunerResponse \<Rightarrow> u32 \<Rightarrow> ReserveTunerResponse trm" where
  "reserveRecord request response clientId =
     mbind GetCurrentEpoch (\<lambda>now.
       let r = q_tunerReservation request; hasStarted = (r_startTime r < now) in
       if r_token r \<noteq> '''' then renewRecord request response clientId
       else
         mbind (query (\<lambda>m. record_activeCount (r_serviceLocator r) (getTunerIds m) m)) (\<lambda>count.
         mseq (massert (Policy_allowOverlapRecordings \<or>
                        (if hasStarted then count = 0 else count \<le> 1)))
        (mbind (record_search request) (\<lambda>tunerToAddTo.
           if tunerToAddTo \<noteq> '''' then
             mseq (record_reserveLocal tunerToAddTo)
               (record_grant request tunerToAddTo clientId response)
           else record_conflicts request response))))"

end
