(* ===== verification/Trm_Execute.thy ===== *)
theory Trm_Execute
  imports Trm_Reserve
begin

text \<open>
  The executors of the requests (\<^verbatim>\<open>Execute\<close> of \<^verbatim>\<open>qtapp/srv/Executors.cpp\<close>), the timeouts of
  pending requests and the re-evaluation of pending conflicts (\<^verbatim>\<open>Manager.cpp\<close>), and the
  tasks of the timers (\<^verbatim>\<open>ReservationTimerTask.cpp\<close>). \<open>clientId\<close> is the client whose message
  is executed; \<open>messageOut\<close> of the source starts as a default response for the request's uuid.
\<close>

section \<open>Reserving\<close>

text \<open>The live branch of \<^verbatim>\<open>Execute(Executor<ReserveTuner>&)\<close>.\<close>

definition Execute_ReserveLive :: "ReserveTuner \<Rightarrow> u32 \<Rightarrow> unit trm" where
  "Execute_ReserveLive request clientId =
     (let messageOut = ReserveTunerResponse_new (q_uuid request) in
      mbind (attempt (reserveLive request messageOut clientId)) (\<lambda>res.
      mbind (case res of
               Inr response \<Rightarrow> ret response
             | Inl InvalidStateException \<Rightarrow> ret (messageOut\<lparr>s_status := sInvalidState\<rparr>)
             | Inl ItemNotFoundException \<Rightarrow> ret (messageOut\<lparr>s_status := sInvalidToken\<rparr>)
             | Inl IllegalArgumentException \<Rightarrow> ret (messageOut\<lparr>s_status := sMalFormedRequest\<rparr>)
             | Inl e \<Rightarrow> throw e)
        (\<lambda>out. reply clientId (M_ReserveTunerResponse out))))"

definition CONFLICT_RESOLUTION_TIMEOUT_MS :: u64 where "CONFLICT_RESOLUTION_TIMEOUT_MS = 53500"
definition CANCEL_RECORDING_TIMEOUT_MS :: u64 where "CANCEL_RECORDING_TIMEOUT_MS = 15000"
definition CANCEL_LIVE_TIMEOUT_MS :: u64 where "CANCEL_LIVE_TIMEOUT_MS = 10000"

text \<open>
  A recording that conflicts with one live reservation: the owner of the live reservation is
  asked, and the request waits under a temporary token.
\<close>

definition startConflict :: "ReserveTuner \<Rightarrow> TunerReservation \<Rightarrow> u32 \<Rightarrow> unit trm" where
  "startConflict request conflict clientId =
     mbind GenerateUUID (\<lambda>temporaryToken.
     mbind (query (getReservationAttributes (r_token conflict))) (\<lambda>owner.
     mbind GenerateUUID (\<lambda>u.
       let notification = NotifyTunerReservationConflicts_new u conflict
             (setReservationToken temporaryToken (q_tunerReservation request)) in
       mbind (query (getParent (r_token conflict))) (\<lambda>parentId.
       mseq (addPendingRequest temporaryToken
               (PendingReserveTunerConflicts clientId notification request parentId)
               CONFLICT_RESOLUTION_TIMEOUT_MS)
         (reply owner (M_NotifyTunerReservationConflicts notification))))))"

definition Execute_ReserveRecord :: "ReserveTuner \<Rightarrow> u32 \<Rightarrow> unit trm" where
  "Execute_ReserveRecord request clientId =
     (let messageOut = ReserveTunerResponse_new (q_uuid request);
          fail = (\<lambda>out. reply clientId (M_ReserveTunerResponse (out\<lparr>s_status := sGeneralError\<rparr>)))
      in mbind (attempt (reserveRecord request messageOut clientId)) (\<lambda>res.
           case res of
             Inl AssertionFailureException \<Rightarrow> fail messageOut
           | Inl e \<Rightarrow> throw e
           | Inr out \<Rightarrow>
               mcatch_exn AssertionFailureException
                 (if length (s_conflicts out) = 1
                  then startConflict request (hd (s_conflicts out)) clientId
                  else reply clientId (M_ReserveTunerResponse out))
                 (fail out)))"

definition Execute_ReserveTuner :: "ReserveTuner \<Rightarrow> u32 \<Rightarrow> unit trm" where
  "Execute_ReserveTuner request clientId =
     mcatch_all
       (mcatch_exn ConnectionNotFoundException
         (if Activity_eq (r_activity (q_tunerReservation request)) kLive
          then Execute_ReserveLive request clientId
          else mwhen (Activity_eq (r_activity (q_tunerReservation request)) kRecord)
                 (Execute_ReserveRecord request clientId))
         (ret ()))
       (throw AssertionFailureException)"

text \<open>
  \<^verbatim>\<open>Execute(Executor<ReserveTuner>&, parentTunerId)\<close>: the recording is granted on this tuner
  unconditionally. On a tuner that does not record yet it starts now, and so does one whose
  start has passed; the end stays where it was.
\<close>

definition grantStart :: "TunerState \<Rightarrow> TunerReservation \<Rightarrow> TunerReservation trm" where
  "grantStart st r =
     mbind (if st = tFree \<or> st = tLive
            then mbind GetCurrentEpoch (\<lambda>now. ret (setStartTime (now - 1) r)) else ret r) (\<lambda>r1.
     mbind GetCurrentEpoch (\<lambda>now.
       if r_startTime r < now
       then mbind GetCurrentEpoch (\<lambda>now'. ret (setStartTime now' r1)) else ret r1))"

definition grantDuration :: "u64 \<Rightarrow> u64 \<Rightarrow> TunerReservation \<Rightarrow> TunerReservation" where
  "grantDuration origStartTime origDuration r =
     (if r_startTime r > origStartTime then
        (if r_startTime r > origStartTime + origDuration then setDuration 0 r
         else setDuration (origStartTime + origDuration - r_startTime r) r)
      else setDuration (origDuration + origStartTime - r_startTime r) r)"

definition grantTimes :: "TunerState \<Rightarrow> TunerReservation \<Rightarrow> TunerReservation trm" where
  "grantTimes st r =
     mbind (grantStart st r) (\<lambda>r'. ret (grantDuration (r_startTime r) (r_duration r) r'))"

definition Execute_GrantRecord :: "ReserveTuner \<Rightarrow> u32 \<Rightarrow> string \<Rightarrow> unit trm" where
  "Execute_GrantRecord request clientId parentTunerId =
     mcatch_all
       (if Activity_eq (r_activity (q_tunerReservation request)) kLive then massert False
        else mwhen (Activity_eq (r_activity (q_tunerReservation request)) kRecord)
          (mbind (if r_token (q_tunerReservation request) = '''' then GenerateUUID
                  else ret (r_token (q_tunerReservation request))) (\<lambda>tok.
             let rec = setReservationToken tok (q_tunerReservation request);
                 response = (ReserveTunerResponse_new (q_uuid request))
                   \<lparr>s_status := sOk, s_tunerReservation := rec\<rparr> in
             mbind (query (getTuner parentTunerId)) (\<lambda>t.
             mbind (grantTimes (Tuner_getState t) rec) (\<lambda>rec'.
             mseq (addReservation rec' parentTunerId)
            (mseq (setReservationAttributes (r_token rec') clientId)
               (mcatch_all (reply clientId (M_ReserveTunerResponse response)) (ret ()))))))))
       (throw AssertionFailureException)"

section \<open>Timeouts of pending requests\<close>

definition Manager_onCancelLiveResponse ::
  "CancelLiveResponse \<Rightarrow> ReserveTuner \<Rightarrow> string \<Rightarrow> unit trm" where
  "Manager_onCancelLiveResponse response request parentId =
     Execute_GrantRecord request kRecorderClientId parentId"

definition PendingCancelLive_timeout :: "CancelLive \<Rightarrow> ReserveTuner \<Rightarrow> string \<Rightarrow> unit trm" where
  "PendingCancelLive_timeout cancelLive request parentId =
     Manager_onCancelLiveResponse
       (CancelLiveResponse_new (q_uuid cancelLive) sOk (q_token cancelLive)
          (q_serviceLocator cancelLive) True) request parentId"

definition PendingCancelRecording_timeout :: "u32 \<Rightarrow> CancelRecording \<Rightarrow> unit trm" where
  "PendingCancelRecording_timeout clientId request =
     reply clientId (M_CancelRecordingResponse
       ((CancelRecordingResponse_new (q_uuid request) (q_token request))
          \<lparr>s_status := sOk, s_canceled := False\<rparr>))"

text \<open>The only reservation of the tuner is live: the recorder is told to cancel it.\<close>

definition conflict_cancelLive ::
  "NotifyTunerReservationConflicts \<Rightarrow> ReserveTuner \<Rightarrow> string \<Rightarrow> TunerReservation \<Rightarrow> unit trm" where
  "conflict_cancelLive notification request parentId live =
     (if Activity_eq (r_activity live) kLive then
        mseq (massert (length (n_conflicts notification) = 1))
          (mcatch_exn ConnectionNotFoundException
            (mbind GenerateUUID (\<lambda>u.
               let cancelLive =
                 (if r_serviceLocator live \<noteq> r_serviceLocator (q_tunerReservation request)
                  then CancelLive_new u (r_serviceLocator live) (r_token live)
                  else CancelLive_new u (r_serviceLocator (n_requestedReservation notification))
                         (r_token (n_requestedReservation notification))) in
               mseq (sendTo kRecorderClientId kRecorderClientId (M_CancelLive cancelLive))
                 (addPendingRequest u (PendingCancelLive kTrmClientId cancelLive request parentId)
                    CANCEL_LIVE_TIMEOUT_MS)))
            (ret ()))
      else massert False)"

definition conflict_oneToken ::
  "NotifyTunerReservationConflicts \<Rightarrow> ReserveTuner \<Rightarrow> string \<Rightarrow> string \<Rightarrow> unit trm" where
  "conflict_oneToken notification request parentId tok =
     mbind (query (getReservation tok)) (\<lambda>live.
       if Activity_getDetail (r_activity live) ''eas'' = ''true'' \<and>
          r_serviceLocator (q_tunerReservation request) \<noteq> r_serviceLocator live
       then reply kRecorderClientId (M_ReserveTunerResponse
              ((ReserveTunerResponse_new (q_uuid request))\<lparr>s_status := sInsufficientResource\<rparr>))
       else conflict_cancelLive notification request parentId live)"

text \<open>The timeout of a pending conflict: the user did not cancel the recording, so it is granted.\<close>

definition PendingReserveTunerConflict_timeout ::
  "nat \<Rightarrow> string \<Rightarrow> NotifyTunerReservationConflicts \<Rightarrow> ReserveTuner \<Rightarrow> string \<Rightarrow> unit trm" where
  "PendingReserveTunerConflict_timeout addr uuid notification request parentId =
     mbind (query (getPendingRequest uuid)) (\<lambda>p.
     mseq (massert (addr = p_addr p))
    (mseq (massert (a_enum (r_activity (q_tunerReservation request)) = kRecord))
    (mseq (massert (length (n_conflicts notification) = 1))
    (mseq (massert (a_enum (r_activity (hd (n_conflicts notification))) = kRecord))
    (mseq (massert (a_enum (r_activity (n_requestedReservation notification)) = kLive))
    (mbind (query (getReservationTokens_tuner parentId)) (\<lambda>tokens.
       case tokens of
         [tok] \<Rightarrow> conflict_oneToken notification request parentId tok
       | [tok, tok2] \<Rightarrow>
           mbind (query (getTuner parentId)) (\<lambda>t.
           mseq (massert (Tuner_getState t = tHybrid))
          (mbind GenerateUUID (\<lambda>u.
           mbind (query (getReservation tok)) (\<lambda>r.
             PendingCancelLive_timeout (CancelLive_new u (r_serviceLocator r) (r_token r))
               request parentId))))
       | [] \<Rightarrow>
           mbind (query (getTuner parentId)) (\<lambda>t.
           mseq (massert (Tuner_getState t = tFree))
          (mbind GenerateUUID (\<lambda>u.
             PendingCancelLive_timeout
               (CancelLive_new u (r_serviceLocator (q_tunerReservation request)) '''')
               request parentId)))
       | _ \<Rightarrow> massert False)))))))"

definition PendingRequest_timeout :: "PendingRequest \<Rightarrow> unit trm" where
  "PendingRequest_timeout p =
     (case p_kind p of
        PendingCancelLive cid cl req parent \<Rightarrow> PendingCancelLive_timeout cl req parent
      | PendingReserveTunerConflicts cid n req parent \<Rightarrow>
          PendingReserveTunerConflict_timeout (p_addr p) (p_uuid p) n req parent
      | PendingCancelRecording cid req \<Rightarrow> PendingCancelRecording_timeout cid req)"

text \<open>
  \<^verbatim>\<open>Manager::onReservationUpdated\<close>: a pending conflict is settled early when its live
  reservation is gone or already on the channel of the recording. The loop runs over the list
  while its body may append to it; what it appends are pending cancellations of live, which the
  loop passes over, so it is a loop over the entries present at its start.
\<close>

definition conflictSettled :: "NotifyTunerReservationConflicts \<Rightarrow> Manager \<Rightarrow> bool" where
  "conflictSettled n m =
     (case getReservation (r_token (n_requestedReservation n)) m of
        Inr liveNow \<Rightarrow>
          length (n_conflicts n) = 1 \<and>
          r_serviceLocator liveNow = r_serviceLocator (hd (n_conflicts n))
      | Inl e \<Rightarrow> True)"

definition reevaluate :: "PendingRequest \<Rightarrow> string list \<Rightarrow> string list trm" where
  "reevaluate p timedout =
     (case p_kind p of
        PendingReserveTunerConflicts cid n req parent \<Rightarrow>
          mbind (query (\<lambda>m. Inr (conflictSettled n m))) (\<lambda>grantConflict.
            if grantConflict
            then mcatch_all (mseq (PendingRequest_timeout p) (ret (timedout @ [p_uuid p])))
                   (ret timedout)
            else ret timedout)
      | _ \<Rightarrow> ret timedout)"

definition Manager_onReservationUpdated :: "unit trm" where
  "Manager_onReservationUpdated =
     mbind (query (\<lambda>m. Inr (pendingRequests m))) (\<lambda>ps.
     mbind (mfold ps reevaluate []) (\<lambda>timedout.
       mfor timedout (\<lambda>uuid.
         mseq (query (getPendingRequest uuid)) (removePendingRequest uuid))))"

section \<open>The other requests\<close>

definition Execute_ReleaseTunerReservation :: "ReleaseTunerReservation \<Rightarrow> u32 \<Rightarrow> unit trm" where
  "Execute_ReleaseTunerReservation request clientId =
     mbind (attempt (releaseReservation (q_token request) True)) (\<lambda>res.
     mbind (case res of
              Inr _ \<Rightarrow>
                ret ((ReleaseTunerReservationResponse_new (q_uuid request) (q_token request))
                       \<lparr>s_released := True, s_status := sOk\<rparr>)
            | Inl ItemNotFoundException \<Rightarrow>
                ret ((ReleaseTunerReservationResponse_new (q_uuid request) '''')
                       \<lparr>s_released := False, s_status := sInvalidToken\<rparr>)
            | Inl e \<Rightarrow> throw e)
       (\<lambda>out. reply clientId (M_ReleaseTunerReservationResponse out)))"

definition Execute_ValidateTunerReservation :: "ValidateTunerReservation \<Rightarrow> u32 \<Rightarrow> unit trm" where
  "Execute_ValidateTunerReservation request clientId =
     mbind (mcatch_all
              (mbind (query (getReservation (q_token request))) (\<lambda>r.
               mbind (query (getReservationAttributes (r_token r))) (\<lambda>owner.
                 if owner = clientId
                 then ret ((ValidateTunerReservationResponse_new (q_uuid request) (q_token request))
                             \<lparr>s_status := sOk\<rparr>)
                 else throw ItemNotFoundException)))
              (ret ((ValidateTunerReservationResponse_new (q_uuid request) '''')
                      \<lparr>s_valid := False, s_status := sOk\<rparr>)))
       (\<lambda>out. reply clientId (M_ValidateTunerReservationResponse out))"

text \<open>
  The \<^verbatim>\<open>static_cast\<close>s of the source: a pending request of another class makes the program
  continue with an object it does not have.
\<close>

fun as_conflict :: "pending_kind \<Rightarrow> (u32 \<times> ReserveTuner) query" where
  "as_conflict (PendingReserveTunerConflicts cid n req parent) = Inr (cid, req)"
| "as_conflict _ = Inl UndefinedBehaviour"

fun as_cancelRecording :: "pending_kind \<Rightarrow> (u32 \<times> CancelRecording) query" where
  "as_cancelRecording (PendingCancelRecording cid req) = Inr (cid, req)"
| "as_cancelRecording _ = Inl UndefinedBehaviour"

fun as_cancelLive :: "pending_kind \<Rightarrow> (ReserveTuner \<times> string) query" where
  "as_cancelLive (PendingCancelLive cid cl req parent) = Inr (req, parent)"
| "as_cancelLive _ = Inl UndefinedBehaviour"

definition cancelPendingConflict :: "CancelRecording \<Rightarrow> u32 \<Rightarrow> unit trm" where
  "cancelPendingConflict request clientId =
     mbind (query (getPendingRequest (q_token request))) (\<lambda>p.
     mbind (query (\<lambda>_. as_conflict (p_kind p))) (\<lambda>(owner, pendingReserve).
     mseq (massert (p_uuid p = q_token request))
    (mseq (reply owner (M_ReserveTunerResponse
             ((ReserveTunerResponse_new (q_uuid pendingReserve))\<lparr>s_status := sUserCancellation\<rparr>)))
    (mseq (removePendingRequest (p_uuid p))
       (reply clientId (M_CancelRecordingResponse
          ((CancelRecordingResponse_new (q_uuid request) (q_token request))
             \<lparr>s_status := sOk, s_canceled := True\<rparr>)))))))"

definition forwardCancelRecording :: "CancelRecording \<Rightarrow> u32 \<Rightarrow> unit trm" where
  "forwardCancelRecording request clientId =
     mbind (query (getReservation (q_token request))) (\<lambda>r.
     mseq (mwhen (\<not> Activity_eq (r_activity r) kRecord) (throw IllegalArgumentException))
    (mseq (addPendingRequest (q_uuid request) (PendingCancelRecording clientId request)
             CANCEL_RECORDING_TIMEOUT_MS)
       (sendTo kRecorderClientId clientId (M_CancelRecording request))))"

definition Execute_CancelRecording :: "CancelRecording \<Rightarrow> u32 \<Rightarrow> unit trm" where
  "Execute_CancelRecording request clientId =
     (let fail = (\<lambda>st. reply clientId (M_CancelRecordingResponse
            ((CancelRecordingResponse_new (q_uuid request) '''')
               \<lparr>s_status := st, s_canceled := False\<rparr>)))
      in mbind (attempt
           (mbind (query (\<lambda>m. Inr (isPendingConflict (q_token request) m))) (\<lambda>pending.
              if pending then cancelPendingConflict request clientId
              else forwardCancelRecording request clientId))) (\<lambda>res.
           case res of
             Inr _ \<Rightarrow> ret ()
           | Inl ConnectionNotFoundException \<Rightarrow> fail sGeneralError
           | Inl IllegalArgumentException \<Rightarrow> fail sGeneralError
           | Inl ItemNotFoundException \<Rightarrow> fail sInvalidToken
           | Inl e \<Rightarrow> throw e))"

text \<open>The answer goes to the client that asked for the cancellation.\<close>

definition forwardCancelRecordingResponse :: "CancelRecordingResponse \<Rightarrow> unit trm" where
  "forwardCancelRecordingResponse response =
     mbind (query (getPendingRequest (s_uuid response))) (\<lambda>p.
     mbind (query (\<lambda>_. as_cancelRecording (p_kind p))) (\<lambda>(owner, cancelRequest).
     mseq (massert (q_token cancelRequest = s_token response))
    (mseq (removePendingRequest (s_uuid response))
    (mseq (query (\<lambda>m. eassert (\<not> isPendingRequest (s_uuid response) m)))
       (reply owner (M_CancelRecordingResponse response))))))"

definition Execute_CancelRecordingResponse :: "CancelRecordingResponse \<Rightarrow> u32 \<Rightarrow> unit trm" where
  "Execute_CancelRecordingResponse response clientId =
     mcatch_all
       (mbind (query (getReservation (s_token response))) (\<lambda>r.
        mseq (mwhen (\<not> Activity_eq (r_activity r) kRecord) (throw IllegalArgumentException))
       (mseq (if clientId = kTrmClientId then massert False
              else forwardCancelRecordingResponse response)
          (releaseReservation (s_token response) True))))
       (ret ())"

definition Execute_GetAllTunerIds :: "GetAllTunerIds \<Rightarrow> u32 \<Rightarrow> unit trm" where
  "Execute_GetAllTunerIds request clientId =
     mbind (query (\<lambda>m. Inr (getTunerIds m))) (\<lambda>tunerIds.
       reply clientId (M_GetAllTunerIdsResponse
         ((GetAllTunerIdsResponse_addTunerId tunerIds (GetAllTunerIdsResponse_new (q_uuid request)))
            \<lparr>s_status := sOk\<rparr>)))"

text \<open>The owners of one tuner: activity and device of every active reservation.\<close>

fun addOwners ::
  "string \<Rightarrow> string list \<Rightarrow> GetAllTunerStatesResponse \<Rightarrow> Manager \<Rightarrow> GetAllTunerStatesResponse query" where
  "addOwners tid [] resp m = Inr resp"
| "addOwners tid (tok # toks) resp m =
     ebind (getReservation tok m) (\<lambda>r.
       addOwners tid toks
         (if r_state r = ACTIVE
          then addTunerOwner tid (Activity_name (a_enum (r_activity r))) (r_device r) resp
          else resp) m)"

definition addDetailedState ::
  "string \<Rightarrow> GetAllTunerStatesResponse \<Rightarrow> GetAllTunerStatesResponse trm" where
  "addDetailedState tid resp =
     mbind (query (getTuner tid)) (\<lambda>t.
     mbind (query (\<lambda>_. Tuner_getServiceLocator t True)) (\<lambda>loc.
     mbind (query (\<lambda>m. Inr (localTuner m))) (\<lambda>lt.
     mbind (if lt = tid then GetDeviceId else ret '''') (\<lambda>reservedDeviceId.
     mbind (query (getReservationTokens_tuner tid)) (\<lambda>tokens.
       query (addOwners tid tokens
         (addTunerDetailedState tid (TunerState_name (Tuner_getState t)) loc reservedDeviceId resp)))))))"

definition Execute_GetAllTunerStates :: "GetAllTunerStates \<Rightarrow> u32 \<Rightarrow> unit trm" where
  "Execute_GetAllTunerStates request clientId =
     (let messageOut = GetAllTunerStatesResponse_new (q_uuid request) in
      mbind (mcatch_all
               (mbind (query (\<lambda>m. Inr (getTunerIds m))) (\<lambda>tunerIds.
                mbind (mfold tunerIds (\<lambda>tid resp.
                         mbind (query (getTuner tid)) (\<lambda>t.
                           ret (addTunerState tid (TunerState_name (Tuner_getState t)) resp)))
                       messageOut) (\<lambda>resp.
                mbind (mfold tunerIds addDetailedState resp) (\<lambda>resp'.
                  ret (resp'\<lparr>s_status := sOk\<rparr>)))))
               (ret (messageOut\<lparr>s_status := sGeneralError\<rparr>)))
        (\<lambda>out. reply clientId (M_GetAllTunerStatesResponse out)))"

text \<open>
  \<^verbatim>\<open>Execute(Executor<GetAllReservations>&)\<close>. The third filter is \<^verbatim>\<open>Filter<ByTunerState>\<close>,
  which takes the reservation tokens for tuner ids.
\<close>

definition applyFilters :: "GetAllReservations \<Rightarrow> Manager \<Rightarrow> string list \<Rightarrow> string list query" where
  "applyFilters request m tokens =
     ebind (if GetAllReservations_getFilter request ''device'' \<noteq> ''''
            then Filter_ReservationByDevice (GetAllReservations_getFilter request ''device'') m tokens
            else Inr tokens) (\<lambda>t1.
     ebind (if GetAllReservations_getFilter request ''activity'' \<noteq> ''''
            then Filter_ByActivity (Activity_at (GetAllReservations_getFilter request ''activity'')) m t1
            else Inr t1) (\<lambda>t2.
       if GetAllReservations_getFilter request ''state'' \<noteq> ''''
       then Filter_ByTunerState (TunerState_at (GetAllReservations_getFilter request ''state'')) m t2
       else Inr t2))"

fun collectReservations ::
  "GetAllReservations \<Rightarrow> string list \<Rightarrow> GetAllReservationsResponse \<Rightarrow> Manager \<Rightarrow>
     GetAllReservationsResponse query" where
  "collectReservations request [] resp m = Inr resp"
| "collectReservations request (tid # tids) resp m =
     ebind (getReservationTokens_tuner tid m) (\<lambda>tokens.
     ebind (applyFilters request m tokens) (\<lambda>tokens'.
     ebind (mapE (\<lambda>tok. getReservation tok m) tokens') (\<lambda>rs.
       collectReservations request tids (foldl (\<lambda>resp r. addTunerReservation tid r resp) resp rs) m)))"

definition Execute_GetAllReservations :: "GetAllReservations \<Rightarrow> u32 \<Rightarrow> unit trm" where
  "Execute_GetAllReservations request clientId =
     (let messageOut = GetAllReservationsResponse_new (q_uuid request) in
      mbind (mcatch_all
               (mbind (query (\<lambda>m. collectReservations request (getTunerIds m) messageOut m)) (\<lambda>resp.
                  ret (resp\<lparr>s_status := sOk\<rparr>)))
               (ret (messageOut\<lparr>s_status := sGeneralError\<rparr>)))
        (\<lambda>out. reply clientId (M_GetAllReservationsResponse out)))"

text \<open>The version is the one \<^verbatim>\<open>common/src/Makefile\<close> compiles in.\<close>

definition SpecVersion_toString :: "nat \<Rightarrow> nat \<Rightarrow> string" where
  "SpecVersion_toString major minor = decimal major @ ''.'' @ decimal minor"

definition GetSpecVersion :: string where
  "GetSpecVersion = SpecVersion_toString 2 3"

definition Execute_GetVersion :: "GetVersion \<Rightarrow> u32 \<Rightarrow> unit trm" where
  "Execute_GetVersion request clientId =
     reply clientId (M_GetVersionResponse
       ((GetVersionResponse_new (q_uuid request))\<lparr>s_version := GetSpecVersion, s_status := sOk\<rparr>))"

definition Execute_UpdateTunerActivityStatus :: "UpdateTunerActivityStatus \<Rightarrow> u32 \<Rightarrow> unit trm" where
  "Execute_UpdateTunerActivityStatus request clientId =
     mcatch_all
       (mseq (sendTo kTunerAgentId kTunerAgentId (M_UpdateTunerActivityStatus request))
         (reply clientId (M_UpdateTunerActivityStatusResponse
            (UpdateTunerActivityStatusResponse_new (q_uuid request)))))
       (ret ())"

definition Execute_CancelLive :: "CancelLive \<Rightarrow> u32 \<Rightarrow> unit trm" where
  "Execute_CancelLive request clientId =
     mcatch_all (sendTo kRecorderClientId clientId (M_CancelLive request)) (ret ())"

definition Execute_CancelLiveResponse :: "CancelLiveResponse \<Rightarrow> u32 \<Rightarrow> unit trm" where
  "Execute_CancelLiveResponse response clientId =
     mbind (query (\<lambda>m. Inr (isPendingRequest (s_uuid response) m))) (\<lambda>pending.
     mwhen pending
       (mbind (query (getPendingRequest (s_uuid response))) (\<lambda>p.
        mbind (query (\<lambda>_. as_cancelLive (p_kind p))) (\<lambda>(reserveRequest, parentId).
        mseq (Manager_onCancelLiveResponse response reserveRequest parentId)
          (removePendingRequest (s_uuid response))))))"

section \<open>Timer tasks\<close>

definition ReservationExpirationTimerTask_run :: "string \<Rightarrow> unit trm" where
  "ReservationExpirationTimerTask_run tok =
     mbind (query (getReservation tok)) (\<lambda>expired.
     mseq (mcatch_all
             (mseq (massert (r_state expired = ACTIVE))
               (mbind (query (getReservationAttributes tok)) (\<lambda>owner.
                  mcatch_all
                    (mbind (getConnection owner) (\<lambda>c.
                     mbind GenerateUUID (\<lambda>u.
                       sendAsync c owner (M_NotifyTunerReservationRelease
                         \<lparr>n_uuid = u, n_token = tok, n_reason = ''expired''\<rparr>))))
                    (ret ()))))
             (ret ()))
    (mseq (modify (updReservation tok (\<lambda>r. r\<lparr>r_state := EXPIRED\<rparr>)))
       (releaseReservation tok True)))"

definition ReservationStartTimerTask_run :: "string \<Rightarrow> unit trm" where
  "ReservationStartTimerTask_run tok =
     mbind (query (getReservation tok)) (\<lambda>started.
       mcatch_all
         (mseq (massert (r_state started = IDLE))
         (mbind (query (parentTuner tok)) (\<lambda>tuner.
          mseq (modify (updReservation tok (\<lambda>r. r\<lparr>r_state := ACTIVE\<rparr>)))
         (mbind (query (getTuner (internalId tuner))) (\<lambda>tuner'.
          mseq (mwhen (Tuner_getState tuner' = tHybrid) (syncHybrid (internalId tuner')))
         (mseq (startReservation tok)
            (adjustExpireTimer tok)))))))
         (ret ()))"

definition ReservationPreStartTimerTask_run :: "string \<Rightarrow> unit trm" where
  "ReservationPreStartTimerTask_run tok =
     mbind (query (getReservation tok)) (\<lambda>started.
       mcatch_all
         (mseq (massert (r_state started = IDLE))
         (mbind (query (parentTuner tok)) (\<lambda>tuner.
            mwhen (a_enum (r_activity started) = kRecord \<and> Tuner_getState tuner = tHybrid)
              (prepareRecordHandover (internalId tuner) tok))))
         (ret ()))"

definition PendingRequestTimeoutTimerTask_run :: "string \<Rightarrow> unit trm" where
  "PendingRequestTimeoutTimerTask_run uuid =
     mcatch_all
       (mbind (query (getPendingRequest uuid)) (\<lambda>p.
        mseq (PendingRequest_timeout p) (removePendingRequest (p_uuid p))))
       (ret ())"

end
