(* ===== verification/Trm_Server.thy ===== *)
theory Trm_Server
  imports Trm_Execute
begin

text \<open>
  The server (\<^verbatim>\<open>qtapp/srv/Server.cpp\<close>, \<^verbatim>\<open>ServerMessageProcessor.cpp\<close>): connections and
  clients, the dispatch of a message to its executor, the broadcast of tuner states, and the
  event loop as a step relation: a new connection, a received message, a lost connection, a
  timer that fires, a queued signal that is delivered.
\<close>

section \<open>Dispatch\<close>

text \<open>
  \<^verbatim>\<open>ServerMessageProcessor\<close> overrides \<^verbatim>\<open>operator()\<close> for these messages; for the others
  \<^verbatim>\<open>MessageProcessor\<close> only prints.
\<close>

fun ServerMessageProcessor_process :: "u32 \<Rightarrow> message \<Rightarrow> unit trm" where
  "ServerMessageProcessor_process cid (M_ReserveTuner q) = Execute_ReserveTuner q cid"
| "ServerMessageProcessor_process cid (M_ReleaseTunerReservation q) =
     Execute_ReleaseTunerReservation q cid"
| "ServerMessageProcessor_process cid (M_ValidateTunerReservation q) =
     Execute_ValidateTunerReservation q cid"
| "ServerMessageProcessor_process cid (M_CancelRecording q) = Execute_CancelRecording q cid"
| "ServerMessageProcessor_process cid (M_CancelRecordingResponse s) =
     Execute_CancelRecordingResponse s cid"
| "ServerMessageProcessor_process cid (M_GetAllTunerIds q) = Execute_GetAllTunerIds q cid"
| "ServerMessageProcessor_process cid (M_GetAllTunerStates q) = Execute_GetAllTunerStates q cid"
| "ServerMessageProcessor_process cid (M_GetAllReservations q) = Execute_GetAllReservations q cid"
| "ServerMessageProcessor_process cid (M_GetVersion q) = Execute_GetVersion q cid"
| "ServerMessageProcessor_process cid (M_CancelLive q) = Execute_CancelLive q cid"
| "ServerMessageProcessor_process cid (M_CancelLiveResponse s) = Execute_CancelLiveResponse s cid"
| "ServerMessageProcessor_process cid (M_UpdateTunerActivityStatus q) =
     Execute_UpdateTunerActivityStatus q cid"
| "ServerMessageProcessor_process cid _ = ret ()"

section \<open>Connections\<close>

definition setClients :: "((u32, nat) smap \<Rightarrow> (u32, nat) smap) \<Rightarrow> unit trm" where
  "setClients f w = (Inr (), w\<lparr>w_clients := f (w_clients w)\<rparr>)"

definition Server_onNewConnection :: "unit trm" where
  "Server_onNewConnection =
     mbind new_address (\<lambda>c w. (Inr (), w\<lparr>w_connections := w_connections w @ [c]\<rparr>))"

text \<open>Releases every reservation of a client, as both disconnection paths do.\<close>

definition releaseClient :: "u32 \<Rightarrow> unit trm" where
  "releaseClient cid =
     mbind (query (\<lambda>m. Inr (getReservationTokens_client cid m))) (\<lambda>tokens.
       mfor tokens (\<lambda>tok. releaseReservation tok True))"

fun dropClients :: "nat \<Rightarrow> (u32, nat) smap \<Rightarrow> unit trm" where
  "dropClients c [] = ret ()"
| "dropClients c ((cid, c') # cs) =
     mseq (mwhen (c' = c) (mseq (releaseClient cid) (setClients (smap_erase cid))))
       (dropClients c cs)"

definition Server_onDisconnected :: "nat \<Rightarrow> unit trm" where
  "Server_onDisconnected c w =
     mseq (dropClients c (w_clients w))
       (\<lambda>w. if c \<in> set (w_connections w)
            then (Inr (), w\<lparr>w_connections := remove1 c (w_connections w)\<rparr>)
            else (Inl AssertionFailureException, w)) w"

text \<open>
  \<^verbatim>\<open>Server::onMessageReceived\<close>: the message is copied to the diagnostics client, the first
  message of a client binds the client to the connection, an empty message unbinds it.
\<close>

definition processPayload :: "nat \<Rightarrow> u32 \<Rightarrow> payload \<Rightarrow> unit trm" where
  "processPayload c cid p =
     (case p of
        Payload m \<Rightarrow> ServerMessageProcessor_process cid m
      | RawPayload bytes \<Rightarrow> ret ()
      | NoPayload \<Rightarrow>
          (\<lambda>w. if map_of (w_clients w) cid = Some c
               then mseq (releaseClient cid) (setClients (smap_erase cid)) w
               else (Inr (), w)))"

definition bindClient :: "nat \<Rightarrow> u32 \<Rightarrow> unit trm" where
  "bindClient c cid =
     setClients (\<lambda>cs. case map_of cs cid of None \<Rightarrow> smap_put cid c cs | Some _ \<Rightarrow> cs)"

definition Server_onMessageReceived :: "nat \<Rightarrow> u32 \<Rightarrow> payload \<Rightarrow> unit trm" where
  "Server_onMessageReceived c cid p =
     mcatch_all
       (mseq (Server_onHasMessageToSend cid p)
       (mseq (bindClient c cid)
          (processPayload c cid p)))
       (ret ())"

definition notifyClient :: "u32 \<times> nat \<Rightarrow> unit trm" where
  "notifyClient e =
     mwhen (isXREClient (fst e) \<or> isSDVAgentClient (fst e) \<or> isTestClient (fst e))
       (mcatch_all
         (mbind getTunerStatesUpdate (\<lambda>n. sendAsync (snd e) (fst e) (M_NotifyTunerStatesUpdate n)))
         (ret ()))"

definition Server_onReservationUpdated :: "unit trm" where
  "Server_onReservationUpdated w = mfor (w_clients w) notifyClient w"

section \<open>Timers that fire\<close>

datatype timer = PreStartTimer string | StartTimer string | ExpireTimer string | PendingTimer string

fun timer_lookup :: "timer \<Rightarrow> Manager \<Rightarrow> QtTimer option" where
  "timer_lookup (PreStartTimer tok) m = map_of (preStartTimers m) tok"
| "timer_lookup (StartTimer tok) m = map_of (startTimers m) tok"
| "timer_lookup (ExpireTimer tok) m = map_of (expireTimers m) tok"
| "timer_lookup (PendingTimer uuid) m = map_of (pendingRequestTimers m) uuid"

fun timer_update :: "timer \<Rightarrow> (QtTimer \<Rightarrow> QtTimer) \<Rightarrow> Manager \<Rightarrow> Manager" where
  "timer_update (PreStartTimer tok) f m = m\<lparr>preStartTimers := smap_update tok f (preStartTimers m)\<rparr>"
| "timer_update (StartTimer tok) f m = m\<lparr>startTimers := smap_update tok f (startTimers m)\<rparr>"
| "timer_update (ExpireTimer tok) f m = m\<lparr>expireTimers := smap_update tok f (expireTimers m)\<rparr>"
| "timer_update (PendingTimer uuid) f m =
     m\<lparr>pendingRequestTimers := smap_update uuid f (pendingRequestTimers m)\<rparr>"

fun timer_run :: "timer \<Rightarrow> unit trm" where
  "timer_run (PreStartTimer tok) = ReservationPreStartTimerTask_run tok"
| "timer_run (StartTimer tok) = ReservationStartTimerTask_run tok"
| "timer_run (ExpireTimer tok) = ReservationExpirationTimerTask_run tok"
| "timer_run (PendingTimer uuid) = PendingRequestTimeoutTimerTask_run uuid"

text \<open>
  \<^verbatim>\<open>QtTimer::onExpiration\<close> of a timer in one of the manager's tables. The timer's own fields
  are reset after its task has run, in the table entry if the task left it there.
\<close>

definition timer_fired :: "timer \<Rightarrow> unit trm" where
  "timer_fired k =
     mbind (query (\<lambda>m. Inr (timer_lookup k m))) (\<lambda>it.
       case it of
         None \<Rightarrow> ret ()
       | Some t \<Rightarrow>
           if qt_interval t = None then ret ()
           else mbind GetCurrentEpoch (\<lambda>now.
             let (due, t') = QtTimer_onExpiration now t in
             if due then mseq (timer_run k)
                           (modify (timer_update k (\<lambda>t. t\<lparr>qt_future := 0, qt_interval := None\<rparr>)))
             else modify (timer_update k (\<lambda>_. t'))))"

section \<open>The event loop\<close>

datatype event =
    NewConnection
  | Received nat u32 payload
  | Disconnected nat
  | Fired timer
  | Deliver

definition slot :: "signal \<Rightarrow> unit trm" where
  "slot s = (case s of
     Manager_onReservationUpdated_slot \<Rightarrow> Manager_onReservationUpdated
   | Server_onReservationUpdated_slot \<Rightarrow> Server_onReservationUpdated)"

definition deliver :: "unit trm" where
  "deliver w =
     (case w_queue w of [] \<Rightarrow> (Inr (), w) | s # q \<Rightarrow> slot s (w\<lparr>w_queue := q\<rparr>))"

fun handle :: "event \<Rightarrow> unit trm" where
  "handle NewConnection = Server_onNewConnection"
| "handle (Received c cid p) = Server_onMessageReceived c cid p"
| "handle (Disconnected c) = Server_onDisconnected c"
| "handle (Fired k) = timer_fired k"
| "handle Deliver = deliver"

text \<open>Messages and disconnections come from open connections.\<close>

fun enabled :: "event \<Rightarrow> world \<Rightarrow> bool" where
  "enabled (Received c cid p) w \<longleftrightarrow> c \<in> set (w_connections w)"
| "enabled (Disconnected c) w \<longleftrightarrow> c \<in> set (w_connections w)"
| "enabled _ w \<longleftrightarrow> True"

definition initial :: "env \<Rightarrow> nat \<Rightarrow> world" where
  "initial e kNumOfTuners =
     snd (GetDeviceId
       \<lparr>w_env = e, w_clock = 0, w_uuids = 0, w_devices = 0, w_deviceId = '''', w_fresh = 0,
        w_mgr = Manager_new kNumOfTuners, w_clients = [], w_connections = [], w_out = [],
        w_queue = []\<rparr>)"

inductive step :: "world \<Rightarrow> world \<Rightarrow> bool" where
  step_event: "enabled ev w \<Longrightarrow> step w (snd (handle ev w))"

inductive reachable :: "env \<Rightarrow> nat \<Rightarrow> world \<Rightarrow> bool" for e n where
  reachable_initial: "reachable e n (initial e n)"
| reachable_step: "reachable e n w \<Longrightarrow> step w w' \<Longrightarrow> reachable e n w'"

inductive_cases step_cases: "step w w'"

end
