(* ===== verification/Trm_Invariant.thy ===== *)
theory Trm_Invariant
  imports Trm_Server
begin

text \<open>
  What every event of the event loop keeps, on every branch and whatever it throws. The locale
  \<open>handler_invariant\<close> states what a property of the server's state must tolerate of the tables
  and the system, and derives once that all executors, timeouts and timer tasks keep it;
  \<open>server_invariant\<close> adds the connections and covers the whole event loop. The invariant of the
  manager's tables is an instance, so it holds in every reachable state.
\<close>

section \<open>Case distinctions\<close>

lemma preserves_case_sum [inv_intros]:
  "(\<And>e. preserves I (f e)) \<Longrightarrow> (\<And>x. preserves I (g x)) \<Longrightarrow>
     preserves I (case s of Inl e \<Rightarrow> f e | Inr x \<Rightarrow> g x)"
  by (cases s) simp_all

lemma preserves_case_option [inv_intros]:
  "preserves I f \<Longrightarrow> (\<And>x. preserves I (g x)) \<Longrightarrow>
     preserves I (case s of None \<Rightarrow> f | Some x \<Rightarrow> g x)"
  by (cases s) simp_all

lemma preserves_case_list [inv_intros]:
  "preserves I f \<Longrightarrow> (\<And>x xs. preserves I (g x xs)) \<Longrightarrow>
     preserves I (case s of [] \<Rightarrow> f | x # xs \<Rightarrow> g x xs)"
  by (cases s) simp_all

lemma preserves_case_exn [inv_intros]:
  assumes "preserves I a" "preserves I b" "preserves I c" "preserves I d" "preserves I e"
    "preserves I f" "\<And>n. preserves I (g n)" "preserves I h" "preserves I k"
  shows "preserves I (case x of
      IllegalArgumentException \<Rightarrow> a | InvalidOperationException \<Rightarrow> b | ItemNotFoundException \<Rightarrow> c
    | ConnectionNotFoundException \<Rightarrow> d | AssertionFailureException \<Rightarrow> e
    | InvalidStateException \<Rightarrow> f | IntThrown n \<Rightarrow> g n | LogicError \<Rightarrow> h | UndefinedBehaviour \<Rightarrow> k)"
  using assms by (cases x) simp_all

lemma preserves_case_pending [inv_intros]:
  assumes "\<And>a b c d. preserves I (f a b c d)" "\<And>a b c d. preserves I (g a b c d)"
    "\<And>a b. preserves I (h a b)"
  shows "preserves I (case k of
      PendingCancelLive a b c d \<Rightarrow> f a b c d
    | PendingReserveTunerConflicts a b c d \<Rightarrow> g a b c d
    | PendingCancelRecording a b \<Rightarrow> h a b)"
  using assms by (cases k) simp_all

lemma mseq_ret: "mseq m (ret ()) = m"
  by (auto simp: fun_eq_iff trm_run split: prod.split sum.split)

section \<open>Invariants of the executors\<close>

text \<open>
  \<open>grantee\<close> are the clients to which reservations may be granted without breaking \<open>I\<close>; the
  recorder, to which settled conflicts are granted, is one of them.
\<close>

locale handler_invariant =
  fixes I :: "world \<Rightarrow> bool" and grantee :: "u32 \<Rightarrow> bool"
  assumes system: "preserves I GetCurrentEpoch" "preserves I GenerateUUID" "preserves I GetDeviceId"
      "preserves I new_address" "preserves I emit_reservationUpdated"
      "preserves I (Connection_send c cid p)"
    and release: "preserves I (releaseReservation tok n)"
    and granting: "grantee cid \<Longrightarrow>
      preserves I (mseq (addReservation r tid) (setReservationAttributes (r_token r) cid))"
    and recorder: "grantee kRecorderClientId"
    and update: "(\<And>r. r_token (f r) = r_token r) \<Longrightarrow> preserves I (modify (updReservation tok f))"
    and frame: "(\<And>m. frame_eq m (g m)) \<Longrightarrow> preserves I (modify g)"
begin

lemmas base = system release update

lemma grant:
  assumes "grantee cid" "preserves I k"
  shows "preserves I (mseq (addReservation r tid) (mseq (setReservationAttributes (r_token r) cid) k))"
proof -
  have "mseq (addReservation r tid) (mseq (setReservationAttributes (r_token r) cid) k) =
      mseq (mseq (addReservation r tid) (setReservationAttributes (r_token r) cid)) k"
    by (simp add: mseq_def)
  then show ?thesis using preserves_mseq [OF granting assms(2)] assms(1) by simp
qed

lemma sending:
  "preserves I (getConnection cid)" "preserves I (Server_onHasMessageToSend cid p)"
  "preserves I (sendAsync c cid m)" "preserves I (sendTo client cid m)"
proof -
  show 1: "preserves I (getConnection cid)" for cid
    by (simp add: preserves_def getConnection_def split: option.split)
  show 2: "preserves I (Server_onHasMessageToSend cid p)" for cid p
    using system(6) by (simp add: preserves_def Server_onHasMessageToSend_def split: option.split)
  show 3: "preserves I (sendAsync c cid m)" for c cid m
    unfolding sendAsync_def by (rule inv_intros system 2)+
  show "preserves I (sendTo client cid m)"
    unfolding sendTo_def by (rule inv_intros 1 3)+
qed

lemma tables:
  "preserves I (setLocalTuner tid)" "preserves I (adjustExpireTimer tok)"
  "preserves I (addPendingRequest uuid kind timeout)" "preserves I (removePendingRequest uuid)"
  unfolding setLocalTuner_def adjustExpireTimer_def addPendingRequest_def removePendingRequest_def
    cancelPendingTimer_def
  by (rule inv_intros system frame | simp add: frame_eq_def)+

lemma manager_messages:
  "preserves I (prepareRecordHandover tid tok)" "preserves I (syncHybrid tid)"
  "preserves I (startReservation tok)" "preserves I getTunerStatesUpdate"
  unfolding prepareRecordHandover_def syncHybrid_def syncLive_def startReservation_def
    getTunerStatesUpdate_def
  by (rule inv_intros base sending | simp add: reservation_set_defs)+

lemma reserveLive: "grantee cid \<Longrightarrow> preserves I (reserveLive request response cid)"
  unfolding reserveLive_def live_startNow_def live_guardLocal_def live_reserveLocal_def
    live_relocate_def live_lastResort_def live_grant_def live_conflicts_def
  by (rule grant inv_intros base tables | assumption)+

lemma record_free: "preserves I (record_free loc tids)"
  by (induction tids) (unfold record_free.simps, (rule inv_intros base | assumption)+)

lemma reserveRecord: "grantee cid \<Longrightarrow> preserves I (reserveRecord request response cid)"
  unfolding reserveRecord_def renewRecord_def record_search_def morElse_def
    record_reserveLocal_def record_grant_def record_conflicts_def
  by (rule grant inv_intros base tables record_free | assumption | simp add: reservation_set_defs)+

lemma Execute_ReserveTuner: "grantee cid \<Longrightarrow> preserves I (Execute_ReserveTuner request cid)"
  unfolding Execute_ReserveTuner_def Execute_ReserveLive_def Execute_ReserveRecord_def
    startConflict_def Let_def
  by (rule inv_intros base sending tables reserveLive reserveRecord | assumption)+

lemma Execute_GrantRecord: "grantee cid \<Longrightarrow> preserves I (Execute_GrantRecord request cid parent)"
  unfolding Execute_GrantRecord_def grantTimes_def grantStart_def
  by (rule grant inv_intros base sending | assumption)+

lemma PendingRequest_timeout: "preserves I (PendingRequest_timeout p)"
  unfolding PendingRequest_timeout_def PendingCancelLive_timeout_def
    PendingReserveTunerConflict_timeout_def PendingCancelRecording_timeout_def
    Manager_onCancelLiveResponse_def conflict_oneToken_def conflict_cancelLive_def
  by (rule inv_intros base sending tables Execute_GrantRecord recorder)+

lemma Manager_onReservationUpdated: "preserves I Manager_onReservationUpdated"
  unfolding Manager_onReservationUpdated_def reevaluate_def
  by (rule inv_intros tables PendingRequest_timeout)+

lemma other_executors:
  "preserves I (Execute_ReleaseTunerReservation q1 cid)"
  "preserves I (Execute_ValidateTunerReservation q2 cid)"
  "preserves I (Execute_CancelRecording q3 cid)"
  "preserves I (Execute_CancelRecordingResponse s4 cid)"
  "preserves I (Execute_CancelLive q5 cid)"
  "preserves I (Execute_CancelLiveResponse s6 cid)"
  "preserves I (Execute_GetAllTunerIds q7 cid)"
  "preserves I (Execute_GetAllTunerStates q8 cid)"
  "preserves I (Execute_GetAllReservations q9 cid)"
  "preserves I (Execute_GetVersion q10 cid)"
  "preserves I (Execute_UpdateTunerActivityStatus q11 cid)"
  unfolding Execute_ReleaseTunerReservation_def Execute_ValidateTunerReservation_def
    Execute_CancelRecording_def cancelPendingConflict_def forwardCancelRecording_def
    Execute_CancelRecordingResponse_def forwardCancelRecordingResponse_def
    Execute_CancelLive_def Execute_CancelLiveResponse_def Manager_onCancelLiveResponse_def
    Execute_GetAllTunerIds_def Execute_GetAllTunerStates_def addDetailedState_def
    Execute_GetAllReservations_def Execute_GetVersion_def Execute_UpdateTunerActivityStatus_def
    Let_def
  by (rule inv_intros base sending tables Execute_GrantRecord recorder)+

lemma process: "grantee cid \<Longrightarrow> preserves I (ServerMessageProcessor_process cid m)"
  by (cases m) (simp_all add: preserves_ret Execute_ReserveTuner other_executors)

lemma timer_run: "preserves I (timer_run k)"
  by (cases k; simp only: timer_run.simps; unfold ReservationPreStartTimerTask_run_def
      ReservationStartTimerTask_run_def ReservationExpirationTimerTask_run_def
      PendingRequestTimeoutTimerTask_run_def)
    (rule inv_intros base sending tables manager_messages PendingRequest_timeout | simp)+

lemma timer_fired: "preserves I (timer_fired k)"
proof -
  have "preserves I (modify (timer_update k f))" for f
    by (rule frame) (cases k; simp add: frame_eq_def)
  then show ?thesis unfolding timer_fired_def by (intro inv_intros system timer_run)
qed

lemma releaseClient: "preserves I (releaseClient cid)"
  unfolding releaseClient_def by (rule inv_intros release)+

lemma Server_onReservationUpdated: "preserves I Server_onReservationUpdated"
proof -
  have "preserves I (mfor cs notifyClient)" for cs
    unfolding notifyClient_def by (rule inv_intros manager_messages sending)+
  then show ?thesis by (simp add: preserves_def Server_onReservationUpdated_def)
qed

lemma slot: "preserves I (slot s)"
  by (cases s) (simp_all add: slot_def Manager_onReservationUpdated Server_onReservationUpdated)

end

section \<open>Invariants of the event loop\<close>

text \<open>A property that does not depend on the connections, the clients or the signal queue.\<close>

locale server_invariant = handler_invariant I "\<lambda>_. True" for I +
  assumes connections: "I (w\<lparr>w_connections := cs\<rparr>) = I w" "I (w\<lparr>w_clients := cl\<rparr>) = I w"
    "I (w\<lparr>w_queue := sq\<rparr>) = I w"
begin

lemma setClients: "preserves I (setClients f)"
  by (simp add: preserves_def setClients_def connections)

lemma dropClients: "preserves I (dropClients c cs)"
  by (induction c cs rule: dropClients.induct)
    (unfold dropClients.simps, (rule inv_intros releaseClient setClients | assumption)+)

lemma Server_onDisconnected: "preserves I (Server_onDisconnected c)"
proof (rule preservesI)
  fix w assume w: "I w"
  have "preserves I
      (mseq (dropClients c (w_clients w))
       (\<lambda>w. if c \<in> set (w_connections w)
            then (Inr (), w\<lparr>w_connections := remove1 c (w_connections w)\<rparr>)
            else (Inl AssertionFailureException, w)))"
    by (intro preserves_mseq dropClients) (simp add: preserves_def connections)
  then show "I (snd (Server_onDisconnected c w))"
    unfolding Server_onDisconnected_def by (rule preservesD) (rule w)
qed

lemma processPayload: "preserves I (processPayload c cid p)"
proof (cases p)
  case NoPayload
  have "preserves I (mseq (releaseClient cid) (setClients (smap_erase cid)))"
    by (rule inv_intros releaseClient setClients)+
  with NoPayload show ?thesis by (simp add: preserves_def processPayload_def)
qed (simp_all add: processPayload_def preserves_ret process)

lemma Server_onMessageReceived: "preserves I (Server_onMessageReceived c cid p)"
  unfolding Server_onMessageReceived_def bindClient_def
  by (rule inv_intros sending processPayload setClients)+

lemma Server_onNewConnection: "preserves I Server_onNewConnection"
  unfolding Server_onNewConnection_def
  by (rule inv_intros system)+ (simp add: preserves_def connections)

lemma deliver: "preserves I deliver"
  using slot by (simp add: preserves_def deliver_def connections split: list.split)

lemma handle: "preserves I (handle ev)"
  by (cases ev) (simp_all add: Server_onNewConnection Server_onMessageReceived Server_onDisconnected
      timer_fired deliver)

lemma step: "step w w' \<Longrightarrow> I w \<Longrightarrow> I w'"
  using preservesD [OF handle] by (auto elim!: step_cases)

lemma reachable: "I (initial e n) \<Longrightarrow> reachable e n w \<Longrightarrow> I w"
  by (rotate_tac, induction rule: reachable.induct) (auto intro: step)

end

section \<open>The tables\<close>

interpretation tables: server_invariant "on_mgr (mgr_ok ids)" for ids
proof
  show "preserves (on_mgr (mgr_ok ids))
      (mseq (addReservation r tid) (setReservationAttributes (r_token r) cid))" for r tid cid
    using preserves_grant [OF preserves_ret, of ids r tid cid "()"] by (simp add: mseq_ret)
qed (auto intro: inv_intros preserves_frame simp: on_mgr_def)

lemma initial_mgr: "w_mgr (initial e n) = Manager_new n"
  by (simp add: initial_def GetDeviceId_def Let_def)

lemma reachable_mgr_ok:
  "reachable e n w \<Longrightarrow> mgr_ok (getTunerIds (Manager_new n)) (w_mgr w)"
  using tables.reachable [of "getTunerIds (Manager_new n)" e n w]
  by (simp add: on_mgr_def initial_mgr mgr_ok_new)

section \<open>The system's answers\<close>

text \<open>The sources of time, ids and device id are fixed for a run.\<close>

definition env_is :: "env \<Rightarrow> world \<Rightarrow> bool" where
  "env_is e w \<longleftrightarrow> w_env w = e"

lemma env_base [inv_intros]:
  "preserves (env_is e) (modify f)" "preserves (env_is e) GetCurrentEpoch"
  "preserves (env_is e) GenerateUUID" "preserves (env_is e) GetDeviceId"
  "preserves (env_is e) new_address" "preserves (env_is e) emit_reservationUpdated"
  "preserves (env_is e) (Connection_send c cid p)"
  by (simp_all add: preserves_def env_is_def GetCurrentEpoch_def GenerateUUID_def GetDeviceId_def
      Let_def new_address_def emit_reservationUpdated_def Connection_send_def)

interpretation environment: server_invariant "env_is e" for e
proof
  show "preserves (env_is e) (releaseReservation tok n)" for tok n
    unfolding releaseReservation_def onTuner_def cancelPreStartTimer_def cancelStartTimer_def
      cancelExpireTimer_def
    by (rule inv_intros)+
  show "preserves (env_is e) (mseq (addReservation r tid) (setReservationAttributes (r_token r) cid))"
    for r tid cid
    unfolding addReservation_def setReservationAttributes_def setTimer_def setPreStartTimer_def
      setStartTimer_def setExpireTimer_def onTuner_def
    by (rule inv_intros)+
qed (auto intro: inv_intros simp: env_is_def)

lemma handle_env: "w_env (snd (handle ev w)) = w_env w"
  using preservesD [OF environment.handle] by (simp add: env_is_def)

end
