(* ===== verification/Trm_Live.thy ===== *)
theory Trm_Live
  imports Trm_Invariant
begin

text \<open>
  What the live allocation guarantees: where a live reservation may be placed, that a refused
  request changes no reservation, and who holds the tuner reserved for the host afterwards.
\<close>

section \<open>Successful computations\<close>

named_theorems run_simps \<open>how a computation that returns decomposes\<close>
named_theorems returns_intros \<open>introduction rules for the value a computation returns\<close>

lemma mbind_Inr [run_simps]:
  "mbind m f w = (Inr y, w') \<longleftrightarrow> (\<exists>x w1. m w = (Inr x, w1) \<and> f x w1 = (Inr y, w'))"
  by (auto simp: mbind_def split: prod.splits sum.splits)

lemma mseq_Inr [run_simps]:
  "mseq m n w = (Inr y, w') \<longleftrightarrow> (\<exists>x w1. m w = (Inr x, w1) \<and> n w1 = (Inr y, w'))"
  by (simp add: mseq_def mbind_Inr)

lemma ret_Inr [run_simps]: "ret x w = (Inr y, w') \<longleftrightarrow> y = x \<and> w' = w"
  by auto

lemma throw_Inr [run_simps]: "throw e w = (Inr y, w') \<longleftrightarrow> False"
  by simp

lemma query_Inr [run_simps]: "query q w = (Inr y, w') \<longleftrightarrow> q (w_mgr w) = Inr y \<and> w' = w"
  by auto

definition returns :: "('a \<Rightarrow> bool) \<Rightarrow> 'a trm \<Rightarrow> bool" where
  "returns P m \<longleftrightarrow> (\<forall>w x w'. m w = (Inr x, w') \<longrightarrow> P x)"

lemma returnsD: "returns P m \<Longrightarrow> m w = (Inr x, w') \<Longrightarrow> P x"
  by (auto simp: returns_def)

lemma returns_ret [returns_intros]: "P x \<Longrightarrow> returns P (ret x)"
  by (simp add: returns_def)

lemma returns_throw [returns_intros]: "returns P (throw e)"
  by (simp add: returns_def)

lemma returns_mbind [returns_intros]: "(\<And>x. returns P (f x)) \<Longrightarrow> returns P (mbind m f)"
  by (auto simp: returns_def mbind_Inr)

lemma returns_mseq [returns_intros]: "returns P n \<Longrightarrow> returns P (mseq m n)"
  by (auto simp: returns_def mseq_Inr)

lemma returns_if [returns_intros]:
  "(b \<Longrightarrow> returns P m) \<Longrightarrow> (\<not> b \<Longrightarrow> returns P n) \<Longrightarrow> returns P (if b then m else n)"
  by simp

lemma returns_Let [returns_intros]: "(\<And>x. returns P (f x)) \<Longrightarrow> returns P (Let y f)"
  by (simp add: Let_def)

section \<open>The searches\<close>

text \<open>The manager up to the tuner reserved for the host.\<close>

definition upto_local :: "Manager \<Rightarrow> Manager \<Rightarrow> bool" where
  "upto_local m m' \<longleftrightarrow> (\<exists>l. m' = m\<lparr>localTuner := l\<rparr>)"

lemma upto_local_refl [simp]: "upto_local m m"
  by (simp add: upto_local_def) (metis Manager.surjective Manager.update_convs(8))

lemma upto_localD:
  assumes "upto_local m m'"
  shows "tuners m' = tuners m" "attrs m' = attrs m" "pendingRequests m' = pendingRequests m"
  using assms by (auto simp: upto_local_def)

lemma upto_local_getTuner: "upto_local m m' \<Longrightarrow> getTuner tid m' = getTuner tid m"
  by (auto simp: upto_local_def getTuner_def)

lemma upto_local_mgr_ok: "upto_local m m' \<Longrightarrow> mgr_ok ids m \<Longrightarrow> mgr_ok ids m'"
  by (rule mgr_ok_frame) (auto simp: upto_local_def frame_eq_def)

lemma upto_local_getReservation: "upto_local m m' \<Longrightarrow> getReservation tok m' = getReservation tok m"
  by (auto simp: upto_local_def getReservation_def)

lemma preserves_upto_setLocalTuner [inv_intros]:
  "preserves (on_mgr (upto_local m)) (setLocalTuner tid)"
  unfolding setLocalTuner_def by (rule preserves_modify) (auto simp: upto_local_def)

lemma preserves_upto_live [inv_intros]:
  "preserves (on_mgr (upto_local m)) (live_startNow request)"
  "preserves (on_mgr (upto_local m)) (live_guardLocal request tid fb)"
  "preserves (on_mgr (upto_local m)) (live_reserveLocal request tid fb)"
  "preserves (on_mgr (upto_local m)) (live_conflicts request response)"
  unfolding live_startNow_def live_guardLocal_def live_reserveLocal_def live_relocate_def
    live_conflicts_def
  by (rule inv_intros)+

lemma run_upto:
  assumes "preserves (on_mgr (upto_local m)) c" "upto_local m (w_mgr w)" "c w = (r, w')"
  shows "upto_local m (w_mgr w')"
  using preservesD [OF assms(1), of w] assms(2,3) by (simp add: on_mgr_def)

lemma tunersInState_mem:
  assumes "tunersInState s m = Inr tids" "tid \<in> set tids"
  shows "\<exists>t. getTuner tid m = Inr t \<and> Tuner_getState t = s \<and> tid \<in> set (getTunerIds m)"
  using byTunerState.result_sat [OF assms(1) [unfolded tunersInState_def] assms(2)]
    byTunerState.result_subset [OF assms(1) [unfolded tunersInState_def]] assms(2)
  by (auto simp: sat_tuner_def split: sum.splits)

lemma tunersInState_total:
  "tunersInState s m = Inr (filter (sat_tuner (\<lambda>t. Tuner_getState t = s) m) (getTunerIds m))"
  unfolding tunersInState_def by (rule byTunerState.flt_known) simp

text \<open>Where a live reservation of this request may go.\<close>

definition is_own :: "ReserveTuner \<Rightarrow> Manager \<Rightarrow> string \<Rightarrow> bool" where
  "is_own request m tid \<longleftrightarrow>
     (\<exists>tok r. getParent tok m = Inr tid \<and> getReservation tok m = Inr r \<and>
        a_enum (r_activity r) = kLive \<and> r_device r = q_device request)"

definition live_place :: "ReserveTuner \<Rightarrow> Manager \<Rightarrow> string \<Rightarrow> bool" where
  "live_place request m tid \<longleftrightarrow>
     (\<exists>t. getTuner tid m = Inr t \<and>
        (Tuner_getState t = tFree \<or>
         Tuner_getState t = tRecord \<and>
           (\<exists>r. r \<in> snd ` set (reservations t) \<and> r_state r = ACTIVE \<and>
              a_enum (r_activity r) = kRecord \<and>
              r_serviceLocator r = r_serviceLocator (q_tunerReservation request)) \<or>
         is_own request m tid))"

lemma liveTokens_mem:
  assumes "liveTokensOfDevice dev m = Inr toks" "tok \<in> set toks"
  shows "\<exists>r. getReservation tok m = Inr r \<and> a_enum (r_activity r) = kLive \<and> r_device r = dev"
proof -
  from assms(1) obtain ts ls where ls: "Filter_ByActivity kLive m ts = Inr ls"
    "Filter_ReservationByDevice dev m ls = Inr toks"
    by (auto simp: liveTokensOfDevice_def tokensOn_def query_simps)
  have "tok \<in> set ls" using byDevice.result_subset [OF ls(2)] assms(2) by auto
  from byActivity.result_sat [OF ls(1) this] byDevice.result_sat [OF ls(2) assms(2)] show ?thesis
    by (auto simp: sat_token_def split: sum.splits)
qed

lemma live_existing_own:
  assumes "live_existing request m = Inr (rel, add, res)" "rel \<noteq> ''''"
  shows "\<exists>r. getReservation rel m = Inr r \<and> a_enum (r_activity r) = kLive \<and>
    r_device r = q_device request"
  using assms liveTokens_mem [of "q_device request" m _ rel]
  by (auto simp: live_existing_def Let_def query_simps split: if_splits)

lemma parentTuner_Inr:
  assumes "mgr_ok ids m" "parentTuner tok m = Inr t"
  shows "getParent tok m = Inr (internalId t) \<and> getTuner (internalId t) m = Inr t"
proof -
  from assms obtain p where p: "getParent tok m = Inr p" "getTuner p m = Inr t"
    by (auto simp: parentTuner_def query_simps)
  then have "internalId t = p"
    using tuners_okD(2) [OF mgr_okD(1) [OF assms(1)], of p t] by (auto simp: getTuner_Inr map_of_SomeD)
  with p show ?thesis by simp
qed

lemma live_place_state:
  "getTuner tid m = Inr t \<Longrightarrow> Tuner_getState t = tFree \<Longrightarrow> live_place request m tid"
  by (auto simp: live_place_def)

lemma is_own_place:
  "mgr_ok ids m \<Longrightarrow> is_own request m tid \<Longrightarrow> live_place request m tid"
  using getParent_tuner by (auto simp: live_place_def is_own_def) blast

lemma live_shareRecord_place:
  assumes "live_shareRecord request m = Inr tid" "tid \<noteq> ''''"
  shows "live_place request m tid"
proof -
  from assms obtain tids where t: "tunersInState tRecord m = Inr tids" "tid \<in> set tids"
    and "\<exists>t r. getTuner tid m = Inr t \<and> Tuner_getReservationBy t kRecord ACTIVE '''' = Inr r \<and>
      r_serviceLocator r = r_serviceLocator (q_tunerReservation request)"
    by (auto simp: live_shareRecord_def query_simps dest!: find_firstE_Inr)
  with tunersInState_mem [OF t] show ?thesis
    by (auto simp: live_place_def dest!: Tuner_getReservationBy_Inr)
qed

lemma live_free_place:
  assumes "ebind (tunersInState tFree m) (find_firstE p) = Inr tid" "tid \<noteq> ''''"
  shows "live_place request m tid"
  using assms tunersInState_mem [of tFree m]
  by (auto simp: query_simps dest!: find_firstE_Inr intro: live_place_state)

lemma live_ownTuner_own:
  assumes "mgr_ok ids m" "live_ownTuner request rel m = Inr (t, fb)"
  shows "(t \<noteq> '''' \<longrightarrow> rel \<noteq> '''' \<and> getParent rel m = Inr t) \<and>
    (fb \<noteq> '''' \<longrightarrow> rel \<noteq> '''' \<and> getParent rel m = Inr fb)"
  using assms(2) parentTuner_Inr [OF assms(1)]
  by (auto simp: live_ownTuner_def query_simps ecatch_notfound_def split: if_splits)

lemma live_sameLocator_own:
  assumes "mgr_ok ids m" "live_sameLocator request rel m = Inr t" "t \<noteq> ''''"
  shows "rel \<noteq> '''' \<and> getParent rel m = Inr t"
  using assms(2,3) parentTuner_Inr [OF assms(1)]
  by (auto simp: live_sameLocator_def query_simps split: if_splits)

lemma live_search_place:
  assumes ok: "mgr_ok ids m" and own: "\<And>tid. rel \<noteq> '''' \<Longrightarrow> getParent rel m = Inr tid \<Longrightarrow> is_own request m tid"
    and s: "live_search request rel m = Inr (t, fb)"
  shows "(t \<noteq> '''' \<longrightarrow> live_place request m t) \<and> (fb \<noteq> '''' \<longrightarrow> is_own request m fb)"
proof -
  from s obtain t1 t2 t3 t4 where
    t1: "live_sameLocator request rel m = Inr t1" and
    t2: "orElse t1 (live_shareRecord request m) = Inr t2" and
    t3: "(if t2 = '''' then live_ownTuner request rel m else Inr (t2, '''')) = Inr (t3, fb)" and
    t4: "orElse t3 (live_freeFuture request m) = Inr t4" and
    t: "orElse t4 (live_freeEmpty m) = Inr t"
    by (auto simp: live_search_def query_simps)
  have own': "getParent rel m = Inr tid \<Longrightarrow> rel \<noteq> '''' \<Longrightarrow> live_place request m tid" for tid
    using own is_own_place [OF ok] by blast
  have p1: "t1 \<noteq> '''' \<longrightarrow> live_place request m t1"
    using live_sameLocator_own [OF ok t1] own' by blast
  have p2: "t2 \<noteq> '''' \<longrightarrow> live_place request m t2"
    using t2 p1 live_shareRecord_place by (auto simp: orElse_def split: if_splits)
  have p3: "(t3 \<noteq> '''' \<longrightarrow> live_place request m t3) \<and> (fb \<noteq> '''' \<longrightarrow> is_own request m fb)"
  proof (cases "t2 = ''''")
    case True
    with t3 live_ownTuner_own [OF ok] own own' show ?thesis by auto
  qed (use t3 p2 in auto)
  have p4: "t4 \<noteq> '''' \<longrightarrow> live_place request m t4"
    using t4 p3 live_free_place [of m] by (auto simp: orElse_def live_freeFuture_def split: if_splits)
  have "t \<noteq> '''' \<longrightarrow> live_place request m t"
    using t p4 live_free_place [of m] by (auto simp: orElse_def live_freeEmpty_def split: if_splits)
  with p3 show ?thesis by blast
qed

section \<open>The grant\<close>

lemma live_guardLocal_returns: "returns (\<lambda>t. t = '''' \<or> t = tid) (live_guardLocal request tid fb)"
  unfolding live_guardLocal_def by (rule returns_intros | simp)+

lemma live_reserveLocal_returns: "returns (\<lambda>t. t = '''' \<or> t = tid) (live_reserveLocal request tid fb)"
  unfolding live_reserveLocal_def live_relocate_def by (rule returns_intros | simp)+

lemma live_startNow_request:
  "returns (\<lambda>r'. q_device r' = q_device r \<and> q_uuid r' = q_uuid r \<and> q_resurrect r' = q_resurrect r \<and>
     (\<exists>t. q_tunerReservation r' = setStartTime t (q_tunerReservation r))) (live_startNow r)"
proof -
  have "\<exists>t. q_tunerReservation r = setStartTime t (q_tunerReservation r)"
    by (simp add: setStartTime_def) (metis TunerReservation.surjective TunerReservation.update_convs(4))
  then show ?thesis unfolding live_startNow_def by - (rule returns_intros | force)+
qed

text \<open>The reservation is on the tuner, owned by the client.\<close>

definition holds_reservation :: "Manager \<Rightarrow> string \<Rightarrow> TunerReservation \<Rightarrow> u32 \<Rightarrow> bool" where
  "holds_reservation m tid r cid \<longleftrightarrow>
     (\<exists>t. getTuner tid m = Inr t \<and> map_of (reservations t) (r_token r) = Some r) \<and>
     map_of (attrs m) (r_token r) = Some cid"

lemma grant_holds:
  assumes ok: "mgr_ok ids (w_mgr w)"
    and run: "mseq (addReservation r tid) (mseq (setReservationAttributes (r_token r) cid) (ret x)) w
      = (Inr y, w')"
  shows "holds_reservation (w_mgr w') tid r cid \<and> y = x \<and>
    localTuner (w_mgr w') = localTuner (w_mgr w)"
proof -
  from run obtain w1 where w1: "addReservation r tid w = (Inr (), w1)"
    and w': "w' = w1\<lparr>w_mgr := (w_mgr w1)\<lparr>attrs := smap_put (r_token r) cid (attrs (w_mgr w1))\<rparr>\<rparr>" "y = x"
    by (auto simp: run_simps setReservationAttributes_def)
  from w1 obtain t where t: "map_of (tuners (w_mgr w)) tid = Some t"
    and add: "fst (Tuner_addReservation r t) = Inr ()"
    and w1': "w1 = w\<lparr>w_mgr := granted (w_env w) (w_clock w) r tid (w_mgr w),
                    w_clock := w_clock w + 4\<rparr>"
    by (auto simp: addReservation_run [OF ok] split: option.splits if_splits)
  have "snd (Tuner_addReservation r t) = t\<lparr>reservations := smap_put (r_token r) r (reservations t)\<rparr>"
    using add by (intro Tuner_addReservation_ok) (metis prod.collapse)
  with t w' w1' show ?thesis
    by (auto simp: holds_reservation_def granted_def getTuner_def)
qed

lemma run_mgr_ok:
  assumes "preserves (on_mgr (mgr_ok ids)) c" "mgr_ok ids (w_mgr w)" "c w = (r, w')"
  shows "mgr_ok ids (w_mgr w')"
  using preservesD [OF assms(1), of w] assms(2,3) by (simp add: on_mgr_def)

lemma releaseReservation_localTuner:
  assumes "mgr_ok ids (w_mgr w)" "releaseReservation tok n w = (r, w')"
  shows "localTuner (w_mgr w') = localTuner (w_mgr w)"
  using assms releaseReservation_managed [OF assms(1)] releaseReservation_unmanaged [OF assms(1)]
  by (cases "managed (w_mgr w) tok") (auto simp: released_def split: option.splits)

lemma live_grant_holds:
  assumes ok: "mgr_ok ids (w_mgr w)"
    and run: "live_grant request tid rel res cid resp w = (Inr resp', w')"
  shows "holds_reservation (w_mgr w') tid (s_tunerReservation resp') cid \<and>
    s_conflicts resp' = s_conflicts resp \<and> s_status resp' = sOk \<and> s_uuid resp' = s_uuid resp \<and>
    localTuner (w_mgr w') = localTuner (w_mgr w)"
proof -
  let ?tok = "if rel \<noteq> '''' then mseq (releaseReservation rel False) (ret rel)
     else if q_resurrect request = ''true'' \<and> res \<noteq> '''' then ret res else GenerateUUID"
  have pres: "preserves (on_mgr (mgr_ok ids)) ?tok" by (rule inv_intros)+
  from run obtain tok w1 new where w1: "?tok w = (Inr tok, w1)"
    and g: "mseq (addReservation new tid) (mseq (setReservationAttributes (r_token new) cid)
        (ret (resp\<lparr>s_tunerReservation := new, s_status := sOk\<rparr>))) w1 = (Inr resp', w')"
    unfolding live_grant_def Let_def mbind_Inr query_Inr by blast
  have "localTuner (w_mgr w1) = localTuner (w_mgr w)"
    using w1 releaseReservation_localTuner [OF ok]
    by (auto simp: run_simps GenerateUUID_def split: if_splits)
  with grant_holds [OF run_mgr_ok [OF pres ok w1] g] show ?thesis by auto
qed

lemma live_place_cong:
  assumes "q_device r' = q_device r"
    and "r_serviceLocator (q_tunerReservation r') = r_serviceLocator (q_tunerReservation r)"
  shows "live_place r' = live_place r" "is_own r' = is_own r"
  using assms by (simp_all add: live_place_def is_own_def fun_eq_iff)

lemma live_place_upto:
  assumes "upto_local m m'"
  shows "live_place r m' = live_place r m" "is_own r m' = is_own r m"
  using assms
  by (auto simp: upto_local_def live_place_def is_own_def getTuner_def getParent_def
      getReservation_def fun_eq_iff)

text \<open>Who holds the reserved tuner after a grant on a tuner the device did not own.\<close>

lemma live_reserveLocal_local:
  assumes run: "live_reserveLocal req t fb w = (Inr tid, w')"
    and dev: "w_deviceId w \<noteq> ''''" and tid: "tid \<noteq> ''''" "tid \<noteq> fb"
  shows "if q_device req = w_deviceId w then localTuner (w_mgr w') = tid
    else localTuner (w_mgr w') \<noteq> tid"
proof -
  have hd_filter: "filter (\<lambda>x. x \<noteq> t) xs \<noteq> [] \<Longrightarrow> hd (filter (\<lambda>x. x \<noteq> t) xs) \<noteq> t" for t and xs :: "string list"
    using hd_in_set [of "filter (\<lambda>x. x \<noteq> t) xs"] by auto
  have t: "t = tid" using returnsD [OF live_reserveLocal_returns run] tid by simp
  with run dev tid have
    "(if q_device req = w_deviceId w then mseq (setLocalTuner tid) (ret tid)
      else mbind (query (\<lambda>m. Inr (localTuner m))) (\<lambda>lt.
        if tid = lt then live_relocate tid else ret tid)) w = (Inr tid, w')"
    by (auto simp: live_reserveLocal_def run_simps GetDeviceId_def split: if_splits)
  moreover have "localTuner (w_mgr w') \<noteq> tid" if rel: "live_relocate tid w = (Inr tid, w')"
  proof -
    obtain F where F: "tunersInState tFree (w_mgr w) = Inr F" using tunersInState_total by blast
    obtain R where R: "tunersInState tRecord (w_mgr w) = Inr R" using tunersInState_total by blast
    consider (free) "filter (\<lambda>x. x \<noteq> tid) F \<noteq> []" "F \<noteq> []"
      | (rec) "\<not> (F \<noteq> [] \<and> filter (\<lambda>x. x \<noteq> tid) F \<noteq> [])" "filter (\<lambda>x. x \<noteq> tid) R \<noteq> []" "R \<noteq> []"
      | (none) "\<not> (F \<noteq> [] \<and> filter (\<lambda>x. x \<noteq> tid) F \<noteq> [])" "\<not> (R \<noteq> [] \<and> filter (\<lambda>x. x \<noteq> tid) R \<noteq> [])"
      by blast
    then show ?thesis
    proof cases
      case free
      then have "localTuner (w_mgr w') = hd (filter (\<lambda>x. x \<noteq> tid) F)"
        using rel F by (auto simp: live_relocate_def trm_run Let_def setLocalTuner_def)
      with hd_filter [OF free(1)] show ?thesis by simp
    next
      case rec
      then have "localTuner (w_mgr w') = hd (filter (\<lambda>x. x \<noteq> tid) R)"
        using rel F R by (auto simp: live_relocate_def trm_run Let_def setLocalTuner_def)
      with hd_filter [OF rec(2)] show ?thesis by simp
    next
      case none
      then show ?thesis using rel F R tid(1)
        by (auto simp: live_relocate_def trm_run Let_def split: if_splits)
    qed
  qed
  ultimately show ?thesis
    by (cases "q_device req = w_deviceId w"; cases "tid = localTuner (w_mgr w)")
      (auto simp: trm_run setLocalTuner_def)
qed

lemma preserves_deviceId:
  assumes "d \<noteq> ''''"
  shows "preserves (\<lambda>w. w_deviceId w = d) (live_startNow request)"
    "preserves (\<lambda>w. w_deviceId w = d) (live_guardLocal request tid fb)"
proof -
  have base: "preserves (\<lambda>w. w_deviceId w = d) GetCurrentEpoch"
    "preserves (\<lambda>w. w_deviceId w = d) GetDeviceId"
    "preserves (\<lambda>w. w_deviceId w = d) (setLocalTuner t)" for t
    using assms by (auto simp: preserves_def GetCurrentEpoch_def GetDeviceId_def setLocalTuner_def)
  show "preserves (\<lambda>w. w_deviceId w = d) (live_startNow request)"
    "preserves (\<lambda>w. w_deviceId w = d) (live_guardLocal request tid fb)"
    unfolding live_startNow_def live_guardLocal_def by (rule base inv_intros)+
qed

lemma live_conflicts_status:
  assumes "live_conflicts request resp w = (Inr resp', w')"
  shows "w' = w \<and> s_tunerReservation resp' = s_tunerReservation resp \<and> s_uuid resp' = s_uuid resp \<and>
    (s_status resp' = (if s_conflicts resp' = [] then sInsufficientResource else sOk))"
  using assms by (auto simp: live_conflicts_def run_simps Let_def)

text \<open>The stages of \<^verbatim>\<open>reserveLive\<close> that returned.\<close>

lemma reserveLive_stages:
  assumes "reserveLive request resp cid w = (Inr resp', w')"
  obtains req rel add res w1 t5 fb t6 w2 t8 tid w3
  where "live_startNow request w = (Inr req, w1)"
    "live_existing req (w_mgr w1) = Inr (rel, add, res)"
    "live_checkTokens rel add (w_mgr w1) = Inr ()"
    "live_search req rel (w_mgr w1) = Inr (t5, fb)"
    "live_guardLocal req t5 fb w1 = (Inr t6, w2)"
    "live_lastResort t6 fb w2 = (Inr t8, w2)"
    "live_reserveLocal req t8 fb w2 = (Inr tid, w3)"
    "(if tid \<noteq> '''' then live_grant req tid rel res cid resp else live_conflicts req resp) w3 = (Inr resp', w')"
proof -
  have last: "live_lastResort t6 fb w2 = (Inr t8, w3) \<Longrightarrow> w3 = w2" for t6 fb w2 t8 w3
    by (auto simp: live_lastResort_def Let_def split: if_splits)
  from assms obtain req w1 x where 1: "live_startNow request w = (Inr req, w1)"
    "live_existing req (w_mgr w1) = Inr x"
    and r: "(case x of (rel, add, res) \<Rightarrow> mseq (query (live_checkTokens rel add))
       (mbind (query (live_search req rel)) (\<lambda>(t5, fb).
        mbind (live_guardLocal req t5 fb) (\<lambda>t6.
        mbind (live_lastResort t6 fb) (\<lambda>t8.
        mbind (live_reserveLocal req t8 fb) (\<lambda>tid.
          if tid \<noteq> '''' then live_grant req tid rel res cid resp
          else live_conflicts req resp)))))) w1 = (Inr resp', w')"
    unfolding reserveLive_def mbind_Inr query_Inr by auto
  obtain rel add res where x: "x = (rel, add, res)" by (cases x)
  from r x obtain y where 2: "live_checkTokens rel add (w_mgr w1) = Inr ()"
    "live_search req rel (w_mgr w1) = Inr y"
    and r2: "(case y of (t5, fb) \<Rightarrow>
        mbind (live_guardLocal req t5 fb) (\<lambda>t6.
        mbind (live_lastResort t6 fb) (\<lambda>t8.
        mbind (live_reserveLocal req t8 fb) (\<lambda>tid.
          if tid \<noteq> '''' then live_grant req tid rel res cid resp
          else live_conflicts req resp)))) w1 = (Inr resp', w')"
    unfolding x prod.case mseq_Inr mbind_Inr query_Inr by auto
  obtain t5 fb where y: "y = (t5, fb)" by (cases y)
  from r2 that 1 2 show thesis
    unfolding x y prod.case mbind_Inr by (metis last)
qed

text \<open>Every tuner that the stages before the last one come up with may be used.\<close>

lemma live_stages_place:
  assumes ok: "mgr_ok ids (w_mgr w)"
    and st: "live_startNow request w = (Inr req, w1)" "live_existing req (w_mgr w1) = Inr (rel, add, res)"
      "live_search req rel (w_mgr w1) = Inr (t5, fb)" "live_guardLocal req t5 fb w1 = (Inr t6, w2)"
      "live_lastResort t6 fb w2 = (Inr t8, w2)"
  shows "fb \<noteq> '''' \<Longrightarrow> is_own request (w_mgr w) fb" "t8 \<noteq> '''' \<Longrightarrow> live_place request (w_mgr w) t8"
proof -
  let ?m = "w_mgr w"
  have u1: "upto_local ?m (w_mgr w1)" using run_upto [OF preserves_upto_live(1) upto_local_refl st(1)] .
  have u2: "upto_local ?m (w_mgr w2)" using run_upto [OF preserves_upto_live(2) u1 st(4)] .
  have ok1: "mgr_ok ids (w_mgr w1)" using upto_local_mgr_ok ok u1 by blast
  from returnsD [OF live_startNow_request st(1)]
  have place: "live_place req = live_place request" "is_own req = is_own request"
    using live_place_cong [of req request] by (auto simp: setStartTime_def)
  have own: "rel \<noteq> '''' \<Longrightarrow> getParent rel (w_mgr w1) = Inr t \<Longrightarrow> is_own req (w_mgr w1) t" for t
    using live_existing_own [OF st(2)] by (auto simp: is_own_def)
  show "is_own request ?m fb" if "fb \<noteq> ''''"
    using that live_search_place [OF ok1 own st(3)] live_place_upto [OF u1] place by auto
  have p5: "(t5 \<noteq> '''' \<longrightarrow> live_place req (w_mgr w1) t5) \<and> (fb \<noteq> '''' \<longrightarrow> live_place req (w_mgr w1) fb)"
    using live_search_place [OF ok1 own st(3)] is_own_place [OF ok1] by blast
  have last: "t8 = t6 \<or> t8 = fb \<or> live_anyFuture (w_mgr w2) = Inr t8"
    using st(5) by (auto simp: live_lastResort_def Let_def split: if_splits)
  show "live_place request ?m t8" if "t8 \<noteq> ''''"
    using that last p5 returnsD [OF live_guardLocal_returns st(4)] live_free_place [of "w_mgr w2"]
      live_place_upto [OF u1] live_place_upto [OF u2]
    by (auto simp: place live_anyFuture_def)
qed

lemma reserveLive_outcome:
  assumes ok: "mgr_ok ids (w_mgr w)"
    and run: "reserveLive request resp cid w = (Inr resp', w')"
  shows "(\<exists>tid. live_place request (w_mgr w) tid \<and>
            holds_reservation (w_mgr w') tid (s_tunerReservation resp') cid \<and>
            s_conflicts resp' = s_conflicts resp \<and> s_status resp' = sOk \<and>
            (w_deviceId w \<noteq> '''' \<longrightarrow> is_own request (w_mgr w) tid \<or>
               (localTuner (w_mgr w') = tid \<longleftrightarrow> q_device request = w_deviceId w))) \<or>
         (upto_local (w_mgr w) (w_mgr w') \<and>
            s_tunerReservation resp' = s_tunerReservation resp \<and>
            s_status resp' = (if s_conflicts resp' = [] then sInsufficientResource else sOk))"
proof -
  from run obtain req rel add res w1 t5 fb t6 w2 t8 tid w3
    where st: "live_startNow request w = (Inr req, w1)"
      "live_existing req (w_mgr w1) = Inr (rel, add, res)"
      "live_search req rel (w_mgr w1) = Inr (t5, fb)"
      "live_guardLocal req t5 fb w1 = (Inr t6, w2)"
      "live_lastResort t6 fb w2 = (Inr t8, w2)"
      "live_reserveLocal req t8 fb w2 = (Inr tid, w3)"
      "(if tid \<noteq> '''' then live_grant req tid rel res cid resp else live_conflicts req resp) w3 = (Inr resp', w')"
    by (rule reserveLive_stages)
  let ?m = "w_mgr w"
  note pre = preserves_upto_live
  have u3: "upto_local ?m (w_mgr w3)"
    using run_upto [OF pre(3) run_upto [OF pre(2) run_upto [OF pre(1) upto_local_refl st(1)] st(4)] st(6)] .
  have ok3: "mgr_ok ids (w_mgr w3)" using upto_local_mgr_ok ok u3 by blast
  have dreq: "q_device req = q_device request"
    using returnsD [OF live_startNow_request st(1)] by (auto simp: setStartTime_def)
  note place = live_stages_place [OF ok st(1-5)]
  show ?thesis
  proof (cases "tid = ''''")
    case True
    with st(7) live_conflicts_status u3 show ?thesis by fastforce
  next
    case False
    with returnsD [OF live_reserveLocal_returns st(6)] place(2) have "live_place request ?m tid" by auto
    moreover have "is_own request ?m tid \<or>
        (localTuner (w_mgr w3) = tid \<longleftrightarrow> q_device request = w_deviceId w)" if d: "w_deviceId w \<noteq> ''''"
    proof -
      have "w_deviceId w1 = w_deviceId w"
        using preservesD [OF preserves_deviceId(1) [OF d], of w request] st(1) by simp
      then have "w_deviceId w2 = w_deviceId w"
        using preservesD [OF preserves_deviceId(2) [OF d], of w1 req t5 fb] st(4) by simp
      with live_reserveLocal_local [OF st(6)] False d place(1) dreq show ?thesis
        by (cases "tid = fb") (auto split: if_splits)
    qed
    ultimately show ?thesis using False st(7) live_grant_holds [OF ok3] by fastforce
  qed
qed

lemma new_response:
  "s_conflicts (ReserveTunerResponse_new u) = []" "s_status (ReserveTunerResponse_new u) = sOk"
  by (simp_all add: ReserveTunerResponse_new_def)

end
