(* ===== verification/Trm_Safety.thy ===== *)
theory Trm_Safety
  imports Trm_Live
begin

text \<open>
  Which computations can end in a failed cast, which send nothing, and what follows for the
  executors: a received message is always answered or dropped inside the server, and a live
  request gets exactly one response.
\<close>

section \<open>No failed cast\<close>

named_theorems nocast_intros \<open>introduction rules for the absence of failed casts\<close>

text \<open>
  A computation avoids failed casts, and with \<open>B\<close> also the lookup of a missing connection.
\<close>

definition bad :: "bool \<Rightarrow> exn \<Rightarrow> bool" where
  "bad B e \<longleftrightarrow> e = UndefinedBehaviour \<or> B \<and> e = ConnectionNotFoundException"

lemma bad_simps [simp]:
  "\<not> bad B IllegalArgumentException" "\<not> bad B InvalidOperationException"
  "\<not> bad B ItemNotFoundException" "\<not> bad B AssertionFailureException"
  "\<not> bad B InvalidStateException" "\<not> bad B (IntThrown n)" "\<not> bad B LogicError" "bad B UndefinedBehaviour"
  "bad B ConnectionNotFoundException = B" "bad False e \<longleftrightarrow> e = UndefinedBehaviour"
  by (auto simp: bad_def)

definition qnocast :: "bool \<Rightarrow> 'a query \<Rightarrow> bool" where
  "qnocast B q \<longleftrightarrow> (\<forall>e. q = Inl e \<longrightarrow> \<not> bad B e)"

definition nocast :: "bool \<Rightarrow> 'a trm \<Rightarrow> bool" where
  "nocast B m \<longleftrightarrow> (\<forall>w. qnocast B (fst (m w)))"

lemma qnocast_base [nocast_intros]:
  "qnocast B (Inr x)" "\<not> bad B e \<Longrightarrow> qnocast B (Inl e)"
  "qnocast B (eassert b)"
  by (simp_all add: qnocast_def eassert_def)

lemma qnocast_ebind [nocast_intros]:
  "qnocast B q \<Longrightarrow> (\<And>x. qnocast B (f x)) \<Longrightarrow> qnocast B (ebind q f)"
  by (cases q) (simp_all add: qnocast_def)

lemma qnocast_catch [nocast_intros]:
  "qnocast B q \<Longrightarrow> qnocast B h \<Longrightarrow> qnocast B (ecatch_notfound q h)"
  by (simp add: qnocast_def ecatch_notfound_def)

lemma qnocast_loops [nocast_intros]:
  "(\<And>x. qnocast B (p x)) \<Longrightarrow> qnocast B (filterE p xs)"
  "(\<And>x. qnocast B (f x)) \<Longrightarrow> qnocast B (mapE f ys)"
  "(\<And>x. qnocast B (g x)) \<Longrightarrow> qnocast B (find_firstE g zs)"
proof -
  show "(\<And>x. qnocast B (p x)) \<Longrightarrow> qnocast B (filterE p xs)"
    by (induction xs) (simp_all add: nocast_intros)
  show "(\<And>x. qnocast B (f x)) \<Longrightarrow> qnocast B (mapE f ys)"
    by (induction ys) (simp_all add: nocast_intros)
  show "(\<And>x. qnocast B (g x)) \<Longrightarrow> qnocast B (find_firstE g zs)"
    by (induction zs) (simp_all add: nocast_intros)
qed

lemma qnocast_cases [nocast_intros]:
  "(b \<Longrightarrow> qnocast B q1) \<Longrightarrow> (\<not> b \<Longrightarrow> qnocast B q2) \<Longrightarrow> qnocast B (if b then q1 else q2)"
  "qnocast B c1 \<Longrightarrow> (\<And>x xs. qnocast B (c2 x xs)) \<Longrightarrow> qnocast B (case l of [] \<Rightarrow> c1 | x # xs \<Rightarrow> c2 x xs)"
  "qnocast B c3 \<Longrightarrow> (\<And>x. qnocast B (c4 x)) \<Longrightarrow> qnocast B (case opt of None \<Rightarrow> c3 | Some x \<Rightarrow> c4 x)"
  "(\<And>x y. qnocast B (c5 x y)) \<Longrightarrow> qnocast B (case pr of (x, y) \<Rightarrow> c5 x y)"
  "(\<And>x. qnocast B (c6 x)) \<Longrightarrow> qnocast B (Let z c6)"
  by (auto split: list.split option.split prod.split)

lemma qnocast_tuner [nocast_intros]:
  "qnocast B (Tuner_getReservation t tok)" "qnocast B (Tuner_search p m)"
  "qnocast B (Tuner_getReservationBy t a s loc)" "qnocast B (Tuner_getServiceLocator t b)"
  "qnocast B (fst (Tuner_addReservation r t))" "qnocast B (fst (Tuner_releaseReservation tok t))"
proof -
  show s: "qnocast B (Tuner_search p m)" for p m
    by (induction p m rule: Tuner_search.induct) (auto simp: qnocast_def)
  show "qnocast B (Tuner_getReservationBy t a s loc)"
    unfolding Tuner_getReservationBy_def by (rule s)
qed (auto simp: qnocast_def Tuner_getReservation_def Tuner_getServiceLocator_def Let_def
    Tuner_addReservation_def Tuner_releaseReservation_def query_simps eassert_def
    split: option.splits)

lemma qnocast_manager [nocast_intros]:
  "qnocast B (getTuner tid m)" "qnocast B (getReservation tok m)" "qnocast B (getParent tok m)"
  "qnocast B (getReservationAttributes tok m)" "qnocast B (getPendingRequest uuid m)"
  by (auto simp: qnocast_def getTuner_def getReservation_def getParent_def
      Tuner_getReservation_def getReservationAttributes_def getPendingRequest_def split: option.splits)

lemma qnocast_tokens [nocast_intros]:
  "qnocast B (getReservationTokens_tuner tid m)" "qnocast B (getReservationTokens tids acc m)"
proof -
  show "qnocast B (getReservationTokens_tuner tid m)"
    unfolding getReservationTokens_tuner_def by (rule nocast_intros)+
  show "qnocast B (getReservationTokens tids acc m)"
    by (induction tids arbitrary: acc) (simp_all add: nocast_intros)
qed

lemma qnocast_filters [nocast_intros]:
  "qnocast B (Filter_ByTunerId p m xs)" "qnocast B (Filter_ByTunerState s m xs)"
  "qnocast B (Filter_ByTunerLocator l m xs)" "qnocast B (Filter_ByTunerEndBefore e m xs)"
  "qnocast B (Filter_ByActivity a m xs)" "qnocast B (Filter_ByStartAfter st m xs)"
  "qnocast B (Filter_ByReservationEndBefore e m xs)" "qnocast B (Filter_ReservationByToken tok m xs)"
  "qnocast B (Filter_ReservationByDevice d m xs)" "qnocast B (Filter_ReservationByAttribute b m xs)"
  "qnocast B (Filter_ByReservationLocator l m xs)" "qnocast B (Filter_ByReservationState rs m xs)"
  unfolding Filter_ByTunerId_def Filter_ByTunerState_def Filter_ByTunerLocator_def
    Filter_ByTunerEndBefore_def Filter_ByActivity_def Filter_ByStartAfter_def
    Filter_ByReservationEndBefore_def Filter_ReservationByToken_def
    Filter_ReservationByDevice_def Filter_ReservationByAttribute_def
    Filter_ByReservationLocator_def Filter_ByReservationState_def Filter_token_def
  by (rule nocast_intros)+

lemmas search_defs =
  tunersInState_def tokensOn_def tokensOnTuner_def liveTokensOfDevice_def assertNoActive_def
  FindConflictsForRequestedLive_def skipPendingRecord_def liveNotInConflict_def
  conflictOnLive_def hybridPeers_def conflictOnHybrid_def FindConflictsForRequestedRecord_def
  live_existing_def isIdle_def live_checkTokens_def parentTuner_def live_sameLocator_def
  live_shareRecord_def live_ownTuner_def live_freeFuture_def live_freeEmpty_def
  live_anyFuture_def orElse_def live_search_def record_hybrid_def record_live_def
  record_sameRecord_def record_otherRecord_def

lemma qnocast_searches [nocast_intros]:
  "qnocast B (tunersInState s m)" "qnocast B (live_existing q m)" "qnocast B (live_checkTokens t1 t2 m)"
  "qnocast B (live_search q tok m)" "qnocast B (live_anyFuture m)"
  "qnocast B (FindConflictsForRequestedLive q m)" "qnocast B (FindConflictsForRequestedRecord q m)"
  "qnocast B (record_hybrid loc e m)" "qnocast B (record_live loc m)"
  "qnocast B (record_sameRecord loc e m)" "qnocast B (record_otherRecord e m)"
  "qnocast B (assertNoActive a t)" "qnocast B (parentTuner tok m)"
  unfolding search_defs by (rule nocast_intros | simp)+

lemma qnocast_counts [nocast_intros]:
  "qnocast B (record_activeCount loc tids m)" "qnocast B (record_pending loc st tids acc m)"
  "qnocast B (last_active a toks acc' m)" "qnocast B (first_active_record toks m)"
  "qnocast B (detailed_owners t toks d m)" "qnocast B (addOwners tid toks resp m)"
proof -
  show "qnocast B (record_activeCount loc tids m)"
    by (induction tids) (simp_all add: nocast_intros)
  show "qnocast B (record_pending loc st tids acc m)"
    by (induction tids arbitrary: acc) (simp_all add: nocast_intros)
  show "qnocast B (last_active a toks acc' m)"
    by (induction toks arbitrary: acc') (simp_all add: nocast_intros)
  show "qnocast B (first_active_record toks m)"
    by (induction toks) (simp_all add: nocast_intros)
  show "qnocast B (detailed_owners t toks d m)"
    by (induction toks arbitrary: d) (simp_all add: nocast_intros)
  show "qnocast B (addOwners tid toks resp m)"
    by (induction toks arbitrary: resp) (simp_all add: nocast_intros)
qed

lemma qnocast_reservations [nocast_intros]:
  "qnocast B (applyFilters q m toks)" "qnocast B (collectReservations q tids resp m)"
proof -
  show a: "qnocast B (applyFilters q m toks)" for toks
    unfolding applyFilters_def by (rule nocast_intros)+
  show "qnocast B (collectReservations q tids resp m)"
    by (induction tids arbitrary: resp) (simp_all add: nocast_intros a)
qed

lemma nocast_base [nocast_intros]:
  "nocast B (ret x)" "\<not> bad B e \<Longrightarrow> nocast B (throw e)" "nocast B (massert b)" "nocast B (modify f)"
  "nocast B GetCurrentEpoch" "nocast B GenerateUUID" "nocast B GetDeviceId" "nocast B new_address"
  "nocast B emit_reservationUpdated" "nocast False (getConnection cid)"
  "nocast B (Connection_send c cid p)" "nocast B (Server_onHasMessageToSend cid p)"
  "nocast B (setClients g)"
  by (auto simp: nocast_def qnocast_def massert_apply eassert_def GetCurrentEpoch_def
      GenerateUUID_def GetDeviceId_def Let_def new_address_def emit_reservationUpdated_def
      getConnection_def Connection_send_def Server_onHasMessageToSend_def setClients_def
      split: option.split)

lemma nocast_query [nocast_intros]: "(\<And>m. qnocast B (q m)) \<Longrightarrow> nocast B (query q)"
  by (simp add: nocast_def)

lemma nocast_mbind [nocast_intros]: "nocast B m \<Longrightarrow> (\<And>x. nocast B (f x)) \<Longrightarrow> nocast B (mbind m f)"
  by (auto simp: nocast_def qnocast_def mbind_def split: prod.split sum.split) (metis fst_conv)

lemma nocast_mseq [nocast_intros]: "nocast B m \<Longrightarrow> nocast B n \<Longrightarrow> nocast B (mseq m n)"
  by (simp add: mseq_def nocast_mbind)

lemma nocast_control [nocast_intros]:
  "nocast B m \<Longrightarrow> nocast B (mwhen b m)"
  "(b \<Longrightarrow> nocast B m1) \<Longrightarrow> (\<not> b \<Longrightarrow> nocast B m2) \<Longrightarrow> nocast B (if b then m1 else m2)"
  "(\<And>x. nocast B (f x)) \<Longrightarrow> nocast B (Let y f)"
  "(\<And>x y. nocast B (g x y)) \<Longrightarrow> nocast B (case p of (x, y) \<Rightarrow> g x y)"
  "nocast B c1 \<Longrightarrow> (\<And>x xs. nocast B (c2 x xs)) \<Longrightarrow> nocast B (case l of [] \<Rightarrow> c1 | x # xs \<Rightarrow> c2 x xs)"
  "nocast B c3 \<Longrightarrow> (\<And>x. nocast B (c4 x)) \<Longrightarrow> nocast B (case opt of None \<Rightarrow> c3 | Some x \<Rightarrow> c4 x)"
  by (auto simp: mwhen_def nocast_base(1) split: prod.split list.split option.split)

lemma nocast_mcatch [nocast_intros]: "nocast B m \<Longrightarrow> nocast B h \<Longrightarrow> nocast B (mcatch sel m h)"
  by (auto simp: nocast_def qnocast_def mcatch_def split: prod.split sum.split) (metis fst_conv)+

lemma nocast_loops [nocast_intros]:
  "(\<And>x. nocast B (f x)) \<Longrightarrow> nocast B (mfor xs f)"
  "(\<And>x y. nocast B (g x y)) \<Longrightarrow> nocast B (mfold ys g z)"
proof -
  show "(\<And>x. nocast B (f x)) \<Longrightarrow> nocast B (mfor xs f)"
    by (induction xs) (simp_all add: nocast_intros)
  show "(\<And>x y. nocast B (g x y)) \<Longrightarrow> nocast B (mfold ys g z)"
    by (induction ys arbitrary: z) (simp_all add: nocast_intros)
qed

text \<open>A handler that inspects the outcome of a computation that cannot fail in a cast.\<close>

lemma nocast_attempt [nocast_intros]:
  assumes "nocast B m" "\<And>x. nocast B (f (Inr x))" "\<And>e. \<not> bad B e \<Longrightarrow> nocast B (f (Inl e))"
  shows "nocast B (mbind (attempt m) f)"
  unfolding nocast_def
proof
  fix w
  have "fst (m w) = Inl e \<Longrightarrow> \<not> bad B e" for e
    using assms(1) by (simp add: nocast_def qnocast_def)
  then have "nocast B (f (fst (m w)))"
    using assms(2,3) by (cases "fst (m w)") auto
  then show "qnocast B (fst (mbind (attempt m) f w))"
    by (simp add: mbind_def nocast_def)
qed

lemma nocast_send [nocast_intros]: "nocast B (sendAsync c cid m)" "nocast False (sendTo c' cid m)"
  unfolding sendAsync_def sendTo_def by (rule nocast_intros)+

lemma nocast_tables [nocast_intros]:
  "nocast B (setLocalTuner tid)" "nocast B (setTimer r)" "nocast B (adjustExpireTimer tok)"
  "nocast B (addReservation r tid)" "nocast B (setReservationAttributes tok cid)"
  "nocast B (releaseReservation tok n)" "nocast B (addPendingRequest uuid k ms)"
  "nocast B (removePendingRequest uuid)" "nocast False (prepareRecordHandover tid tok)"
  "nocast False (syncHybrid tid)" "nocast False (startReservation tok)" "nocast B getTunerStatesUpdate"
  unfolding setLocalTuner_def setTimer_def setPreStartTimer_def setStartTimer_def
    setExpireTimer_def adjustExpireTimer_def addReservation_def setReservationAttributes_def
    releaseReservation_def cancelPreStartTimer_def cancelStartTimer_def cancelExpireTimer_def
    cancelPendingTimer_def addPendingRequest_def removePendingRequest_def
    prepareRecordHandover_def syncHybrid_def syncLive_def startReservation_def
    getTunerStatesUpdate_def onTuner_def
  by (rule nocast_intros | simp)+

lemma nocast_reserve [nocast_intros]:
  "nocast B (reserveLive q resp cid)" "nocast B (reserveRecord q resp cid)"
proof -
  have free: "nocast B (record_free loc tids)" for loc tids
    by (induction tids) (unfold record_free.simps, (rule nocast_intros | assumption)+)
  show "nocast B (reserveLive q resp cid)"
    unfolding reserveLive_def live_startNow_def live_guardLocal_def live_reserveLocal_def
      live_relocate_def live_lastResort_def live_grant_def live_conflicts_def
    by (rule nocast_intros)+
  show "nocast B (reserveRecord q resp cid)"
    unfolding reserveRecord_def renewRecord_def record_search_def morElse_def
      record_reserveLocal_def record_grant_def record_conflicts_def
    by (rule nocast_intros free)+
qed

lemma nocast_case_sum [nocast_intros]:
  "nocast B (f e) \<Longrightarrow> nocast B (case Inl e of Inl e \<Rightarrow> f e | Inr x \<Rightarrow> g x)"
  "nocast B (g x) \<Longrightarrow> nocast B (case Inr x of Inl e \<Rightarrow> f e | Inr x \<Rightarrow> g x)"
  by simp_all

lemma nocast_case_exn [nocast_intros]:
  assumes "x \<noteq> UndefinedBehaviour" "nocast False a" "nocast False b" "nocast False c" "nocast False d" "nocast False e"
    "nocast False f" "\<And>n. nocast False (g n)" "nocast False i"
  shows "nocast False (case x of
      IllegalArgumentException \<Rightarrow> a | InvalidOperationException \<Rightarrow> b | ItemNotFoundException \<Rightarrow> c
    | ConnectionNotFoundException \<Rightarrow> d | AssertionFailureException \<Rightarrow> e
    | InvalidStateException \<Rightarrow> f | IntThrown n \<Rightarrow> g n | LogicError \<Rightarrow> i | UndefinedBehaviour \<Rightarrow> h)"
  using assms by (cases x) simp_all

lemma nocast_executors [nocast_intros]:
  "nocast False (Execute_ReserveTuner q1 cid)" "nocast False (Execute_ReleaseTunerReservation q2 cid)"
  "nocast False (Execute_ValidateTunerReservation q3 cid)" "nocast False (Execute_GetAllTunerIds q4 cid)"
  "nocast False (Execute_GetAllTunerStates q5 cid)" "nocast False (Execute_GetAllReservations q6 cid)"
  "nocast False (Execute_GetVersion q7 cid)" "nocast False (Execute_CancelLive q8 cid)"
  "nocast False (Execute_UpdateTunerActivityStatus q9 cid)"
  unfolding Execute_ReserveTuner_def Execute_ReserveLive_def Execute_ReserveRecord_def
    startConflict_def Execute_ReleaseTunerReservation_def Execute_ValidateTunerReservation_def
    Execute_GetAllTunerIds_def Execute_GetAllTunerStates_def addDetailedState_def
    Execute_GetAllReservations_def Execute_GetVersion_def Execute_CancelLive_def
    Execute_UpdateTunerActivityStatus_def Let_def
  by (rule nocast_attempt nocast_intros | assumption | (simp; fail))+

lemma nocast_grant [nocast_intros]: "nocast False (Execute_GrantRecord q cid tid)"
  unfolding Execute_GrantRecord_def grantTimes_def grantStart_def
  by (rule nocast_intros | (simp; fail))+

lemma nocastD: "nocast False m \<Longrightarrow> fst (m w) \<noteq> Inl UndefinedBehaviour"
  by (auto simp: nocast_def qnocast_def)

lemma nocast_exn: "nocast B m \<Longrightarrow> m w = (Inl e, w') \<Longrightarrow> \<not> bad B e"
  unfolding nocast_def qnocast_def by (metis fst_conv)

text \<open>
  A message that names a pending request of another class than the one its executor casts to.
\<close>

fun confusable :: "Manager \<Rightarrow> message \<Rightarrow> bool" where
  "confusable m (M_CancelRecording q) \<longleftrightarrow>
     isPendingConflict (q_token q) m \<and>
     (\<exists>p. getPendingRequest (q_token q) m = Inr p \<and> as_conflict (p_kind p) = Inl UndefinedBehaviour)"
| "confusable m (M_CancelRecordingResponse s) \<longleftrightarrow>
     (\<exists>p. getPendingRequest (s_uuid s) m = Inr p \<and> as_cancelRecording (p_kind p) = Inl UndefinedBehaviour)"
| "confusable m (M_CancelLiveResponse s) \<longleftrightarrow>
     (\<exists>p. getPendingRequest (s_uuid s) m = Inr p \<and> as_cancelLive (p_kind p) = Inl UndefinedBehaviour)"
| "confusable m _ \<longleftrightarrow> False"

lemma mbind_query_nocast:
  assumes "qnocast False (q (w_mgr w))" "\<And>x. q (w_mgr w) = Inr x \<Longrightarrow> fst (f x w) \<noteq> Inl UndefinedBehaviour"
  shows "fst (mbind (query q) f w) \<noteq> Inl UndefinedBehaviour"
  using assms by (cases "q (w_mgr w)") (auto simp: trm_run qnocast_def)

lemma mcatch_nocast:
  "fst (m w) \<noteq> Inl UndefinedBehaviour \<Longrightarrow> nocast False h \<Longrightarrow> fst (mcatch sel m h w) \<noteq> Inl UndefinedBehaviour"
  using nocastD [of h] by (auto simp: trm_run split: prod.splits sum.splits)

lemma attempt_nocast:
  assumes "fst (m w) \<noteq> Inl UndefinedBehaviour" "\<And>x. nocast False (f (Inr x))" "\<And>e. e \<noteq> UndefinedBehaviour \<Longrightarrow> nocast False (f (Inl e))"
  shows "fst (mbind (attempt m) f w) \<noteq> Inl UndefinedBehaviour"
  using assms nocastD by (cases "fst (m w)") (auto simp: trm_run)

lemma pending_cast_nocast:
  assumes "\<not> (\<exists>p. getPendingRequest u (w_mgr w) = Inr p \<and> c (p_kind p) = Inl UndefinedBehaviour)"
    and "\<And>p x. nocast False (f p x)"
  shows "fst (mbind (query (getPendingRequest u)) (\<lambda>p.
    mbind (query (\<lambda>_. c (p_kind p))) (f p)) w) \<noteq> Inl UndefinedBehaviour"
proof (rule mbind_query_nocast)
  fix p assume "getPendingRequest u (w_mgr w) = Inr p"
  with assms(1) have "qnocast False (c (p_kind p))" by (auto simp: qnocast_def)
  then show "fst (mbind (query (\<lambda>_. c (p_kind p))) (f p) w) \<noteq> Inl UndefinedBehaviour"
    by (rule mbind_query_nocast) (rule nocastD [OF assms(2)])
qed (rule nocast_intros)

lemma Execute_CancelLiveResponse_nocast:
  assumes "\<not> confusable (w_mgr w) (M_CancelLiveResponse s)"
  shows "fst (Execute_CancelLiveResponse s cid w) \<noteq> Inl UndefinedBehaviour"
proof -
  have "nocast False (case x of (q, t) \<Rightarrow>
      mseq (Manager_onCancelLiveResponse s q t) (removePendingRequest u))" for x u
    unfolding Manager_onCancelLiveResponse_def by (rule nocast_intros)+
  note inner = pending_cast_nocast [where c = as_cancelLive, OF assms [unfolded confusable.simps] this]
  show ?thesis
    unfolding Execute_CancelLiveResponse_def
    by (intro mbind_query_nocast nocast_intros) (simp add: trm_run(3) inner)
qed

lemma mseq_nocast:
  "fst (m w) \<noteq> Inl UndefinedBehaviour \<Longrightarrow> nocast False n \<Longrightarrow> fst (mseq m n w) \<noteq> Inl UndefinedBehaviour"
  using nocastD [of n] by (auto simp: trm_run split: prod.splits sum.splits)

lemma mwhen_throw: "mseq (mwhen b (throw e)) n w = (if b then (Inl e, w) else n w)"
  by (simp add: trm_run)

lemma Execute_CancelRecordingResponse_nocast:
  assumes "\<not> confusable (w_mgr w) (M_CancelRecordingResponse s)"
  shows "fst (Execute_CancelRecordingResponse s cid w) \<noteq> Inl UndefinedBehaviour"
proof -
  have "nocast False (case x of (owner, q) \<Rightarrow>
      mseq (massert (q_token q = s_token s))
     (mseq (removePendingRequest u)
     (mseq (query (\<lambda>m. eassert (\<not> isPendingRequest u m)))
        (reply owner (M_CancelRecordingResponse s)))))" for x u
    by (rule nocast_intros)+
  from pending_cast_nocast
    [where c = as_cancelRecording, OF assms [unfolded confusable.simps] this]
  have "fst (forwardCancelRecordingResponse s w) \<noteq> Inl UndefinedBehaviour"
    unfolding forwardCancelRecordingResponse_def .
  then have "fst (mseq (if cid = kTrmClientId then massert False
      else forwardCancelRecordingResponse s) (releaseReservation (s_token s) True) w) \<noteq> Inl UndefinedBehaviour"
    by (intro mseq_nocast nocast_intros) (simp add: trm_run)
  then show ?thesis
    unfolding Execute_CancelRecordingResponse_def
    by (intro mcatch_nocast mbind_query_nocast nocast_intros) (simp add: mwhen_throw)
qed

lemma Execute_CancelRecording_nocast:
  assumes "\<not> confusable (w_mgr w) (M_CancelRecording q)"
  shows "fst (Execute_CancelRecording q cid w) \<noteq> Inl UndefinedBehaviour"
proof -
  have pend: "fst (cancelPendingConflict q cid w) \<noteq> Inl UndefinedBehaviour"
    if "isPendingConflict (q_token q) (w_mgr w)"
    unfolding cancelPendingConflict_def
  proof (rule pending_cast_nocast [where c = as_conflict])
    show "\<not> (\<exists>p. getPendingRequest (q_token q) (w_mgr w) = Inr p \<and> as_conflict (p_kind p) = Inl UndefinedBehaviour)"
      using assms that by simp
  qed (rule nocast_intros)+
  have fwd: "nocast False (forwardCancelRecording q cid)"
    unfolding forwardCancelRecording_def by (rule nocast_intros | simp)+
  have "fst (mbind (query (\<lambda>m. Inr (isPendingConflict (q_token q) m))) (\<lambda>pending.
      if pending then cancelPendingConflict q cid else forwardCancelRecording q cid) w) \<noteq> Inl UndefinedBehaviour"
    using pend nocastD [OF fwd] by (simp add: trm_run)
  then show ?thesis
    unfolding Execute_CancelRecording_def Let_def
    by (rule attempt_nocast) (rule nocast_intros | assumption | (simp; fail))+
qed

lemma process_nocast:
  "\<not> confusable (w_mgr w) m \<Longrightarrow> fst (ServerMessageProcessor_process cid m w) \<noteq> Inl UndefinedBehaviour"
  using nocast_executors [THEN nocastD] Execute_CancelRecordingResponse_nocast
    Execute_CancelRecording_nocast Execute_CancelLiveResponse_nocast
  by (cases m) auto

section \<open>Receiving\<close>

lemma onMessageReceived_run:
  "\<exists>w1. w_mgr w1 = w_mgr w \<and>
     Server_onMessageReceived c cid p w = mcatch_all (processPayload c cid p) (ret ()) w1"
proof -
  obtain w1 where w1: "mseq (Server_onHasMessageToSend cid p) (bindClient c cid) w = (Inr (), w1)"
    "w_mgr w1 = w_mgr w"
    by (cases "map_of (w_clients w) kTRMMgrClientId")
      (auto simp: trm_run Server_onHasMessageToSend_def bindClient_def setClients_def
        Connection_send_def isTRMDiagClient_def)
  then have "Server_onMessageReceived c cid p w = mcatch_all (processPayload c cid p) (ret ()) w1"
    by (auto simp: Server_onMessageReceived_def trm_run split: prod.splits sum.splits)
  with w1(2) show ?thesis by blast
qed

lemma releaseClient_nocast: "nocast False (releaseClient cid)"
  unfolding releaseClient_def by (rule nocast_intros)+

lemma processPayload_nocast:
  assumes "\<And>m. p = Payload m \<Longrightarrow> \<not> confusable (w_mgr w) m"
  shows "fst (processPayload c cid p w) \<noteq> Inl UndefinedBehaviour"
proof (cases p)
  case NoPayload
  have "nocast False (mseq (releaseClient cid) (setClients (smap_erase cid)))"
    by (rule nocast_intros releaseClient_nocast)+
  with NoPayload nocastD show ?thesis by (auto simp: processPayload_def)
qed (use assms process_nocast in \<open>auto simp: processPayload_def\<close>)

lemma onMessageReceived_returns:
  assumes "\<And>m. p = Payload m \<Longrightarrow> \<not> confusable (w_mgr w) m"
  shows "fst (Server_onMessageReceived c cid p w) = Inr ()"
proof -
  obtain w1 where w1: "w_mgr w1 = w_mgr w"
    "Server_onMessageReceived c cid p w = mcatch_all (processPayload c cid p) (ret ()) w1"
    using onMessageReceived_run by blast
  have "fst (processPayload c cid p w1) \<noteq> Inl UndefinedBehaviour"
    using processPayload_nocast assms w1(1) by simp
  with w1(2) show ?thesis
    by (auto simp: trm_run catchable_def split: prod.splits sum.splits)
qed

end
