(* ===== verification/Trm_Clients.thy ===== *)
theory Trm_Clients
  imports Trm_Safety
begin

text \<open>
  What a client sees: the responses its requests get, and what happens to its reservations
  when it disconnects.
\<close>

section \<open>Computations that send nothing\<close>

definition quiet :: "sent list \<Rightarrow> (u32, nat) smap \<Rightarrow> world \<Rightarrow> bool" where
  "quiet sent clients w \<longleftrightarrow> w_out w = sent \<and> w_clients w = clients"

lemma quiet_base [inv_intros]:
  "preserves (quiet s cs) (modify f)" "preserves (quiet s cs) GetCurrentEpoch"
  "preserves (quiet s cs) GenerateUUID" "preserves (quiet s cs) GetDeviceId"
  "preserves (quiet s cs) new_address" "preserves (quiet s cs) emit_reservationUpdated"
  by (simp_all add: preserves_def quiet_def GetCurrentEpoch_def GenerateUUID_def GetDeviceId_def
      Let_def new_address_def emit_reservationUpdated_def)

lemma quiet_tables [inv_intros]:
  "preserves (quiet s cs) (setLocalTuner tid)" "preserves (quiet s cs) (addReservation r tid)"
  "preserves (quiet s cs) (setReservationAttributes tok cid)"
  "preserves (quiet s cs) (releaseReservation tok n)"
  "preserves (quiet s cs) (addPendingRequest uuid k ms)"
  "preserves (quiet s cs) (removePendingRequest uuid)"
  unfolding setLocalTuner_def addReservation_def setReservationAttributes_def setTimer_def
    setPreStartTimer_def setStartTimer_def setExpireTimer_def releaseReservation_def
    cancelPreStartTimer_def cancelStartTimer_def cancelExpireTimer_def cancelPendingTimer_def
    addPendingRequest_def removePendingRequest_def onTuner_def
  by (rule inv_intros)+

lemma quiet_reserve [inv_intros]:
  "preserves (quiet s cs) (reserveLive q resp cid)" "preserves (quiet s cs) (reserveRecord q resp cid)"
proof -
  have free: "preserves (quiet s cs) (record_free loc tids)" for loc tids
    by (induction tids) (unfold record_free.simps, (rule inv_intros | assumption)+)
  show "preserves (quiet s cs) (reserveLive q resp cid)"
    unfolding reserveLive_def live_startNow_def live_guardLocal_def live_reserveLocal_def
      live_relocate_def live_lastResort_def live_grant_def live_conflicts_def
    by (rule inv_intros)+
  show "preserves (quiet s cs) (reserveRecord q resp cid)"
    unfolding reserveRecord_def renewRecord_def record_search_def morElse_def
      record_reserveLocal_def record_grant_def record_conflicts_def
    by (rule inv_intros free)+
qed

lemma quiet_run:
  assumes "\<And>s cs. preserves (quiet s cs) m" "m w = (r, w')"
  shows "w_out w' = w_out w \<and> w_clients w' = w_clients w"
  using preservesD [OF assms(1) [of "w_out w" "w_clients w"], of w] assms(2) by (simp add: quiet_def)

text \<open>A message to a connected client, with the copy for a diagnostics client.\<close>

definition delivered :: "world \<Rightarrow> nat \<Rightarrow> u32 \<Rightarrow> message \<Rightarrow> sent list" where
  "delivered w c cid m =
     \<lparr>o_connection = c, o_clientId = cid, o_payload = Payload m\<rparr> #
     (case map_of (w_clients w) kTRMMgrClientId of
        None \<Rightarrow> []
      | Some d \<Rightarrow> [\<lparr>o_connection = d, o_clientId = cid, o_payload = Payload m\<rparr>])"

lemma sendAsync_run: "sendAsync c cid m w = (Inr (), w\<lparr>w_out := w_out w @ delivered w c cid m\<rparr>)"
  by (simp add: sendAsync_def trm_run Connection_send_def Server_onHasMessageToSend_def
      isTRMDiagClient_def delivered_def split: option.split)

lemma sendTo_run:
  "sendTo client cid m w =
     (case map_of (w_clients w) client of
        None \<Rightarrow> (Inl ConnectionNotFoundException, w)
      | Some c \<Rightarrow> (Inr (), w\<lparr>w_out := w_out w @ delivered w c cid m\<rparr>))"
  by (simp add: sendTo_def trm_run getConnection_def sendAsync_run split: option.split)

section \<open>The response to a live request\<close>

lemma returns_case_prod [returns_intros]:
  "(\<And>x y. returns P (f x y)) \<Longrightarrow> returns P (case p of (x, y) \<Rightarrow> f x y)"
  by (cases p) simp

lemma reserveLive_uuid: "returns (\<lambda>r. s_uuid r = s_uuid resp) (reserveLive q resp cid)"
  unfolding reserveLive_def live_grant_def live_conflicts_def Let_def
  by (rule returns_intros | simp)+

text \<open>The search for a tuner ended in an exception that has no status of its own.\<close>

definition live_refused :: "ReserveTuner \<Rightarrow> u32 \<Rightarrow> world \<Rightarrow> exn \<Rightarrow> bool" where
  "live_refused q cid w e \<longleftrightarrow>
     fst (reserveLive q (ReserveTunerResponse_new (q_uuid q)) cid w) = Inl e \<and>
     e \<notin> {InvalidStateException, ItemNotFoundException, IllegalArgumentException}"

lemma Execute_ReserveLive_response:
  assumes c: "map_of (w_clients w) cid = Some c"
    and run: "Execute_ReserveLive q cid w = (r, w')"
  shows "(r = Inr () \<and> (\<exists>resp. s_uuid resp = q_uuid q \<and>
            w_out w' = w_out w @ delivered w c cid (M_ReserveTunerResponse resp))) \<or>
         ((\<exists>e. r = Inl e \<and> \<not> bad True e \<and> live_refused q cid w e) \<and> w_out w' = w_out w)"
proof -
  let ?out = "ReserveTunerResponse_new (q_uuid q)"
  obtain res w1 where w1: "reserveLive q ?out cid w = (res, w1)" by fastforce
  have q1: "w_out w1 = w_out w" "w_clients w1 = w_clients w"
    using quiet_run [OF quiet_reserve(1) w1] by auto
  have send: "sendTo cid cid m w1 = (Inr (), w1\<lparr>w_out := w_out w @ delivered w c cid m\<rparr>)" for m
    using c q1 by (simp add: sendTo_run delivered_def)
  have answered: ?thesis
    if "Execute_ReserveLive q cid w = sendTo cid cid (M_ReserveTunerResponse resp) w1"
      "s_uuid resp = q_uuid q" for resp
    using that run send by auto
  have uuid: "s_uuid (?out\<lparr>s_status := st\<rparr>) = q_uuid q" for st
    by (simp add: ReserveTunerResponse_new_def)
  show ?thesis
  proof (cases res)
    case (Inr resp)
    have "s_uuid resp = q_uuid q"
      using returnsD [OF reserveLive_uuid] w1 Inr by (fastforce simp: ReserveTunerResponse_new_def)
    then show ?thesis
      by (rule answered [rotated]) (simp add: Execute_ReserveLive_def Let_def trm_run w1 Inr)
  next
    case (Inl e)
    note ex = Execute_ReserveLive_def Let_def trm_run w1 Inl
    consider (a) st where "Execute_ReserveLive q cid w =
          sendTo cid cid (M_ReserveTunerResponse (?out\<lparr>s_status := st\<rparr>)) w1"
      | (b) "Execute_ReserveLive q cid w = (Inl e, w1)" "live_refused q cid w e"
      by (cases e) (simp_all add: ex live_refused_def)
    then show ?thesis
    proof cases
      case a
      then show ?thesis using uuid by (rule answered)
    next
      case b
      have "\<not> bad True e" using nocast_exn [OF nocast_reserve(1)] w1 Inl by blast
      with b run q1 show ?thesis by simp
    qed
  qed
qed

lemma Execute_ReserveTuner_live_response:
  assumes "a_enum (r_activity (q_tunerReservation q)) = kLive"
    and c: "map_of (w_clients w) cid = Some c"
    and run: "Execute_ReserveTuner q cid w = (r, w')"
  shows "(r = Inr () \<and> (\<exists>resp. s_uuid resp = q_uuid q \<and>
            w_out w' = w_out w @ delivered w c cid (M_ReserveTunerResponse resp))) \<or>
         (r = Inl AssertionFailureException \<and> w_out w' = w_out w \<and> (\<exists>e. live_refused q cid w e))"
proof -
  obtain r1 w1 where w1: "Execute_ReserveLive q cid w = (r1, w1)" by fastforce
  from Execute_ReserveLive_response [OF c w1] run assms(1) show ?thesis
    unfolding Execute_ReserveTuner_def
    by (auto simp: trm_run Activity_eq_def w1 catchable_def split: if_splits)
qed

section \<open>Disconnecting\<close>

lemma attrs_released:
  "mgr_ok ids m \<Longrightarrow> managed m tok \<Longrightarrow> attrs (released tok m) = smap_erase tok (attrs m)"
  using mgr_okD(6) [of ids m tok] by (auto simp: released_def tokens_of_findTuner split: option.splits)

lemma findTuner_erase_other:
  "tok' \<noteq> tok \<Longrightarrow>
     findTuner tok' (smap_update tid (\<lambda>t. t\<lparr>reservations := smap_erase tok (reservations t)\<rparr>) ts) =
     map_option (\<lambda>(k, t). (k, if k = tid then t\<lparr>reservations := smap_erase tok (reservations t)\<rparr> else t))
       (findTuner tok' ts)"
  by (induction ts) (auto simp: smap_update_simps Tuner_getReservationTokens_def)

lemma released_other:
  assumes "tok' \<noteq> tok"
  shows "getReservation tok' (released tok m) = getReservation tok' m"
  using assms
  by (auto simp: released_def getReservation_def findTuner_erase_other Tuner_getReservation_def
      split: option.split)

lemma release_all:
  assumes "mgr_ok ids (w_mgr w)" "distinct toks" "\<forall>tok \<in> set toks. managed (w_mgr w) tok"
  shows "\<exists>w'. mfor toks (\<lambda>tok. releaseReservation tok True) w = (Inr (), w') \<and>
    attrs (w_mgr w') = filter (\<lambda>p. fst p \<notin> set toks) (attrs (w_mgr w)) \<and>
    w_clients w' = w_clients w \<and> w_connections w' = w_connections w \<and>
    mgr_ok ids (w_mgr w') \<and>
    (\<forall>tok. tok \<notin> set toks \<longrightarrow> getReservation tok (w_mgr w') = getReservation tok (w_mgr w))"
  using assms
proof (induction toks arbitrary: w)
  case (Cons tok toks)
  obtain w1 where w1: "releaseReservation tok True w = (Inr (), w1)"
    "w_mgr w1 = released tok (w_mgr w)" "w_clients w1 = w_clients w"
    "w_connections w1 = w_connections w"
    using releaseReservation_managed [OF Cons.prems(1)] Cons.prems(3) by simp
  have a1: "attrs (w_mgr w1) = filter (\<lambda>p. fst p \<noteq> tok) (attrs (w_mgr w))"
    using w1(2) attrs_released [OF Cons.prems(1)] Cons.prems(3) by (simp add: smap_erase_def)
  have "\<forall>t \<in> set toks. managed (w_mgr w1) t"
    using Cons.prems(2,3) a1 by (auto simp: managed_def)
  with Cons.IH [of w1] Cons.prems(1,2) obtain w' where w':
    "mfor toks (\<lambda>tok. releaseReservation tok True) w1 = (Inr (), w')"
    "attrs (w_mgr w') = filter (\<lambda>p. fst p \<notin> set toks) (attrs (w_mgr w1))"
    "w_clients w' = w_clients w1" "w_connections w' = w_connections w1" "mgr_ok ids (w_mgr w')"
    "\<forall>t. t \<notin> set toks \<longrightarrow> getReservation t (w_mgr w') = getReservation t (w_mgr w1)"
    using w1(2) mgr_ok_released by (metis distinct.simps(2))
  show ?case
    using w1 w' a1 released_other [of _ tok "w_mgr w"] by (auto simp: trm_run conj_commute)
qed simp

text \<open>The reservations of one client are released, and no others.\<close>

lemma releaseClient_run:
  assumes ok: "mgr_ok ids (w_mgr w)"
  shows "\<exists>w'. releaseClient cid w = (Inr (), w') \<and>
    attrs (w_mgr w') = filter (\<lambda>p. snd p \<noteq> cid) (attrs (w_mgr w)) \<and>
    w_clients w' = w_clients w \<and> w_connections w' = w_connections w \<and>
    mgr_ok ids (w_mgr w') \<and>
    (\<forall>tok. map_of (attrs (w_mgr w)) tok \<noteq> Some cid \<longrightarrow>
       getReservation tok (w_mgr w') = getReservation tok (w_mgr w))"
proof -
  let ?toks = "getReservationTokens_client cid (w_mgr w)"
  have so: "smap_ok (attrs (w_mgr w))" using ok by (simp add: mgr_ok_def)
  have mem: "tok \<in> set ?toks \<longleftrightarrow> map_of (attrs (w_mgr w)) tok = Some cid" for tok
    unfolding smap_mem_map_of [OF so, symmetric]
    by (force simp: getReservationTokens_client_def)
  have d: "distinct ?toks"
    using smap_ok_distinct [OF so] unfolding getReservationTokens_client_def
    by (simp add: distinct_map inj_on_def)
  have m: "\<forall>tok \<in> set ?toks. managed (w_mgr w) tok"
    unfolding managed_def map_of_keys using mem by blast
  have f: "filter (\<lambda>p. fst p \<notin> set ?toks) (attrs (w_mgr w)) = filter (\<lambda>p. snd p \<noteq> cid) (attrs (w_mgr w))"
    by (rule filter_cong) (auto simp: mem smap_mem_map_of [OF so])
  from release_all [OF ok d m] f show ?thesis
    by (auto simp: releaseClient_def trm_run mem [symmetric])
qed

text \<open>The clients bound to a connection, in the order of the table.\<close>

definition clients_of :: "nat \<Rightarrow> (u32, nat) smap \<Rightarrow> u32 set" where
  "clients_of c cs = {cid. (cid, c) \<in> set cs}"

text \<open>
  What is left when a set of clients goes: their reservations and entries are removed, all others stay.
\<close>

definition cleared :: "string list \<Rightarrow> u32 set \<Rightarrow> world \<Rightarrow> world \<Rightarrow> bool" where
  "cleared ids S w w' \<longleftrightarrow>
     attrs (w_mgr w') = filter (\<lambda>p. snd p \<notin> S) (attrs (w_mgr w)) \<and>
     w_clients w' = filter (\<lambda>p. fst p \<notin> S) (w_clients w) \<and>
     w_connections w' = w_connections w \<and> mgr_ok ids (w_mgr w') \<and>
     (\<forall>tok. (\<forall>cid \<in> S. map_of (attrs (w_mgr w)) tok \<noteq> Some cid) \<longrightarrow>
        getReservation tok (w_mgr w') = getReservation tok (w_mgr w))"

lemma cleared_none: "mgr_ok ids (w_mgr w) \<Longrightarrow> cleared ids {} w w"
  by (simp add: cleared_def)

lemma cleared_Un:
  assumes ok: "mgr_ok ids (w_mgr w)" and 1: "cleared ids S w w1" and 2: "cleared ids T w1 w2"
  shows "cleared ids (S \<union> T) w w2"
proof -
  have so: "smap_ok (attrs (w_mgr w))" using ok by (simp add: mgr_ok_def)
  have "map_of (attrs (w_mgr w)) tok = Some x" if "map_of (attrs (w_mgr w1)) tok = Some x" for tok x
    using map_of_SomeD [OF that] 1 by (auto simp: cleared_def smap_mem_map_of [OF so])
  then have "\<forall>cid \<in> T. map_of (attrs (w_mgr w1)) tok \<noteq> Some cid"
    if "\<forall>cid \<in> S \<union> T. map_of (attrs (w_mgr w)) tok \<noteq> Some cid" for tok using that by blast
  then show ?thesis using 1 2 by (auto simp: cleared_def conj_commute)
qed

lemma releaseClient_cleared:
  assumes "mgr_ok ids (w_mgr w)"
  shows "\<exists>w'. mseq (releaseClient cid) (setClients (smap_erase cid)) w = (Inr (), w') \<and> cleared ids {cid} w w'"
proof -
  obtain w1 where "releaseClient cid w = (Inr (), w1)"
    "attrs (w_mgr w1) = filter (\<lambda>p. snd p \<noteq> cid) (attrs (w_mgr w))"
    "w_clients w1 = w_clients w" "w_connections w1 = w_connections w" "mgr_ok ids (w_mgr w1)"
    "\<forall>tok. map_of (attrs (w_mgr w)) tok \<noteq> Some cid \<longrightarrow>
      getReservation tok (w_mgr w1) = getReservation tok (w_mgr w)"
    using releaseClient_run [OF assms] by blast
  then show ?thesis by (simp add: trm_run setClients_def cleared_def smap_erase_def)
qed

lemma dropClients_run:
  assumes "mgr_ok ids (w_mgr w)"
  shows "\<exists>w'. dropClients c cs w = (Inr (), w') \<and> cleared ids (clients_of c cs) w w'"
  using assms
proof (induction cs arbitrary: w)
  case Nil
  then show ?case using cleared_none by (simp add: clients_of_def)
next
  case (Cons e cs)
  obtain cid c' where e: "e = (cid, c')" by fastforce
  show ?case
  proof (cases "c' = c")
    case False
    then have "clients_of c (e # cs) = clients_of c cs" by (auto simp: clients_of_def e)
    with Cons.IH [OF Cons.prems] False show ?thesis by (simp add: e trm_run)
  next
    case True
    obtain w1 where w1: "mseq (releaseClient cid) (setClients (smap_erase cid)) w = (Inr (), w1)" "cleared ids {cid} w w1"
      using releaseClient_cleared [OF Cons.prems] by blast
    obtain w' where w': "dropClients c cs w1 = (Inr (), w')" "cleared ids (clients_of c cs) w1 w'"
      using Cons.IH [of w1] w1(2) by (auto simp: cleared_def)
    have "clients_of c (e # cs) = {cid} \<union> clients_of c cs" using True by (auto simp: clients_of_def e)
    moreover have "dropClients c (e # cs) w = (Inr (), w')" using True w1(1) w'(1) by (simp add: e trm_run)
    ultimately show ?thesis using cleared_Un [OF Cons.prems w1(2) w'(2)] by auto
  qed
qed

lemma Server_onDisconnected_run:
  assumes ok: "mgr_ok ids (w_mgr w)" and c: "c \<in> set (w_connections w)"
  shows "\<exists>w'. Server_onDisconnected c w = (Inr (), w') \<and>
    attrs (w_mgr w') = filter (\<lambda>p. snd p \<notin> clients_of c (w_clients w)) (attrs (w_mgr w)) \<and>
    w_clients w' = filter (\<lambda>p. fst p \<notin> clients_of c (w_clients w)) (w_clients w) \<and>
    w_connections w' = remove1 c (w_connections w) \<and>
    (\<forall>tok. (\<forall>cid \<in> clients_of c (w_clients w). map_of (attrs (w_mgr w)) tok \<noteq> Some cid) \<longrightarrow>
       getReservation tok (w_mgr w') = getReservation tok (w_mgr w))"
  using dropClients_run [OF ok, of c "w_clients w"] c
  by (auto simp: Server_onDisconnected_def trm_run cleared_def)

end
