(* ===== verification/Trm_Record.thy ===== *)
theory Trm_Record
  imports Trm_Clients
begin

text \<open>
  What the recording allocation guarantees: on which tuner a recording may be placed, what a
  conflict consists of, how an unconditional grant adjusts the times, and the life of a pending
  conflict and of a reservation from its start to its expiry.
\<close>

section \<open>Adjusted times\<close>

text \<open>The end of the recording is kept, unless it has passed already.\<close>

definition same_end :: "TunerReservation \<Rightarrow> TunerReservation \<Rightarrow> bool" where
  "same_end r r' \<longleftrightarrow>
     r_startTime r' + r_duration r' = r_startTime r + r_duration r \<or>
     r_duration r' = 0 \<and> r_startTime r' > r_startTime r + r_duration r"

definition same_but_times :: "TunerReservation \<Rightarrow> TunerReservation \<Rightarrow> bool" where
  "same_but_times r r' \<longleftrightarrow> (\<exists>s d. r' = setDuration d (setStartTime s r))"

lemma grantDuration_same_end:
  "same_end r (grantDuration (r_startTime r) (r_duration r) (setStartTime s r))"
  "\<exists>d. grantDuration (r_startTime r) (r_duration r) (setStartTime s r) = setDuration d (setStartTime s r)"
  by (auto simp: same_end_def grantDuration_def setDuration_def setStartTime_def)

lemma setStartTime_id: "setStartTime (r_startTime r) r = r"
  by (simp add: setStartTime_def)

lemma setStartTime_twice: "setStartTime a (setStartTime b r) = setStartTime a r"
  by (simp add: setStartTime_def)

lemma grantStart_returns: "returns (\<lambda>r'. \<exists>s. r' = setStartTime s r) (grantStart st r)"
  unfolding grantStart_def returns_def
  using setStartTime_id [of r, symmetric]
  by (auto simp: run_simps setStartTime_twice split: if_splits)

lemma grantTimes_returns:
  "returns (\<lambda>r'. same_end r r' \<and> same_but_times r r') (grantTimes st r)"
  unfolding grantTimes_def returns_def
  using returnsD [OF grantStart_returns] grantDuration_same_end
  by (fastforce simp: run_simps same_but_times_def)

section \<open>Conflicts of a recording\<close>

lemma filterE_mem: "filterE p xs = Inr ys \<Longrightarrow> y \<in> set ys \<Longrightarrow> y \<in> set xs"
  using filterE_Inr by blast

lemma tokensOn_live:
  "tokensOn a tids m = Inr toks \<Longrightarrow> tok \<in> set toks \<Longrightarrow>
     \<exists>r. getReservation tok m = Inr r \<and> a_enum (r_activity r) = a"
  unfolding tokensOn_def query_simps
  by (auto simp: sat_token_def dest!: byActivity.result_sat split: sum.splits)

lemma liveNotInConflict_mem:
  assumes "liveNotInConflict m = Inr toks" "tok \<in> set toks"
  shows "(\<exists>r. getReservation tok m = Inr r \<and> a_enum (r_activity r) = kLive) \<and>
    \<not> isPendingConflict tok m"
proof -
  from assms(1) obtain lt ls where ls: "tokensOn kLive lt m = Inr ls"
    "Filter_ReservationByAttribute False m ls = Inr toks"
    by (auto simp: liveNotInConflict_def query_simps)
  have "tok \<in> set ls" using byInConflict.result_subset [OF ls(2)] assms(2) by auto
  with tokensOn_live [OF ls(1)] byInConflict.result_sat [OF ls(2) assms(2)] show ?thesis by auto
qed

lemma conflictOnLive_mem:
  assumes "conflictOnLive dev m = Inr toks" "tok \<in> set toks"
  shows "\<exists>r. getReservation tok m = Inr r \<and> a_enum (r_activity r) = kLive"
proof -
  have "\<exists>l. liveNotInConflict m = Inr l \<and> tok \<in> set l"
    using assms
    by (auto simp: conflictOnLive_def query_simps skipPendingRecord_def split: if_splits
        dest!: filterE_mem dest: byDevice.result_subset [THEN subsetD])
  then show ?thesis using liveNotInConflict_mem by blast
qed

lemma conflictOnHybrid_live:
  assumes "conflictOnHybrid start m = Inr r"
  shows "a_enum (r_activity r) = kLive"
proof -
  from assms obtain ending tids ls where e: "hybridPeers ending m = Inr (tids, ls)"
    and ls: "length ls = 1" "getReservation (hd ls) m = Inr r"
    by (auto simp: conflictOnHybrid_def query_simps)
  have "tokensOn kLive tids m = Inr ls"
    using e ls(1) by (cases ending) (auto simp: hybridPeers_def query_simps)
  with ls tokensOn_live [of kLive tids m ls "hd ls"] show ?thesis by (cases ls) auto
qed

text \<open>A recording conflicts with exactly one live reservation, or the search throws.\<close>

lemma FindConflictsForRequestedRecord_one:
  assumes "FindConflictsForRequestedRecord request m = Inr cs"
  shows "\<exists>r. cs = [r] \<and> a_enum (r_activity r) = kLive"
proof -
  from assms obtain toks where toks: "conflictOnLive (r_device (q_tunerReservation request)) m = Inr toks"
    by (auto simp: FindConflictsForRequestedRecord_def query_simps)
  show ?thesis
  proof (cases toks)
    case Nil
    with assms toks conflictOnHybrid_live show ?thesis
      by (auto simp: FindConflictsForRequestedRecord_def query_simps)
  next
    case (Cons tok rest)
    with assms toks conflictOnLive_mem [OF toks, of tok] show ?thesis
      by (auto simp: FindConflictsForRequestedRecord_def query_simps)
  qed
qed

section \<open>Where a recording may go\<close>

text \<open>Every recording the tuner holds ends before the given time.\<close>

definition recordings_end :: "Manager \<Rightarrow> Tuner \<Rightarrow> u64 \<Rightarrow> bool" where
  "recordings_end m t time \<longleftrightarrow>
     (\<forall>tok \<in> set (smap_keys (reservations t)). \<forall>r. getReservation tok m = Inr r \<longrightarrow>
        a_enum (r_activity r) = kRecord \<longrightarrow> r_startTime r + r_duration r \<le> time)"

definition record_place :: "ReserveTuner \<Rightarrow> Manager \<Rightarrow> string \<Rightarrow> bool" where
  "record_place request m tid \<longleftrightarrow>
     (let loc = r_serviceLocator (q_tunerReservation request);
          start = r_startTime (q_tunerReservation request) in
      \<exists>t. getTuner tid m = Inr t \<and>
        ((\<exists>r. Tuner_getReservationBy t kRecord IDLE loc = Inr r) \<and>
           Tuner_getEndTime t kRecord \<le> start \<or>
         Tuner_getState t = tHybrid \<and> recordings_end m t start \<and>
           (\<exists>l. Tuner_getServiceLocator t True = Inr l \<and> (l = '''' \<or> l = loc)) \<or>
         Tuner_getState t = tLive \<and> length (reservations t) = 1 \<and>
           Tuner_getServiceLocator t False = Inr loc \<or>
         Tuner_getState t = tRecord \<and> recordings_end m t start \<or>
         Tuner_getState t = tFree))"

lemma record_pending_place:
  assumes "record_pending loc start tids acc m = Inr (tid, n)"
  shows "tid = fst acc \<or> (\<exists>t r. getTuner tid m = Inr t \<and>
    Tuner_getReservationBy t kRecord IDLE loc = Inr r \<and> Tuner_getEndTime t kRecord \<le> start)"
  using assms
proof (induction tids arbitrary: acc)
  case (Cons x tids)
  then obtain acc' where acc': "ecatch_notfound
      (ebind (getTuner x m) (\<lambda>t. ebind (Tuner_getReservationBy t kRecord IDLE loc) (\<lambda>_.
         Inr (if Tuner_getEndTime t kRecord \<le> start then x else fst acc, Suc (snd acc))))) (Inr acc) = Inr acc'"
    and rest: "record_pending loc start tids acc' m = Inr (tid, n)"
    by (auto simp: query_simps)
  from acc' have "fst acc' = fst acc \<or> (\<exists>t r. fst acc' = x \<and> getTuner x m = Inr t \<and>
      Tuner_getReservationBy t kRecord IDLE loc = Inr r \<and> Tuner_getEndTime t kRecord \<le> start)"
    by (auto simp: ecatch_notfound_def query_simps split: if_splits)
  with Cons.IH [OF rest] show ?case by auto
qed simp

lemma mapE_sat:
  "mapE f xs = Inr ys \<Longrightarrow> x \<in> set xs \<Longrightarrow> \<exists>y \<in> set ys. f x = Inr y"
  by (induction xs arbitrary: ys) (auto simp: query_simps)

lemma Filter_ByTunerEndBefore_mem:
  assumes "Filter_ByTunerEndBefore time m tids = Inr tids'" "tid \<in> set tids'" "tid \<noteq> ''''"
    "getTuner tid m = Inr t"
  shows "recordings_end m t time"
proof -
  from assms have "ebind (getReservationTokens_tuner tid m) (\<lambda>tokens.
       ebind (mapE (\<lambda>tok. ebind (getReservation tok m) (\<lambda>r.
                Inr (Activity_eq (r_activity r) kRecord \<and>
                     r_startTime r + r_duration r > time))) tokens) (\<lambda>beyond.
         Inr (\<not> list_ex id beyond))) = Inr True"
    by (auto simp: Filter_ByTunerEndBefore_def filterE_Inr_iff)
  then obtain beyond where b: "mapE (\<lambda>tok. ebind (getReservation tok m) (\<lambda>r.
                Inr (Activity_eq (r_activity r) kRecord \<and>
                     r_startTime r + r_duration r > time))) (smap_keys (reservations t)) = Inr beyond"
      "\<not> list_ex id beyond"
    using assms(3,4) by (auto simp: query_simps getReservationTokens_tuner_def Tuner_getReservationTokens_def)
  show ?thesis
    unfolding recordings_end_def
  proof (intro ballI allI impI)
    fix tok r
    assume "tok \<in> set (smap_keys (reservations t))" "getReservation tok m = Inr r"
      "a_enum (r_activity r) = kRecord"
    with mapE_sat [OF b(1), of tok] have "(r_startTime r + r_duration r > time) \<in> set beyond"
      by (auto simp: Activity_eq_def)
    with b(2) have "\<not> r_startTime r + r_duration r > time" by (auto simp: list_ex_iff)
    then show "r_startTime r + r_duration r \<le> time" by simp
  qed
qed

lemma Filter_ByTunerEndBefore_subset:
  "Filter_ByTunerEndBefore time m tids = Inr tids' \<Longrightarrow> set tids' \<subseteq> set tids"
  unfolding Filter_ByTunerEndBefore_def by (rule filterE_Inr)

lemma Filter_ByTunerLocator_mem:
  assumes "Filter_ByTunerLocator loc m tids = Inr tids'" "tid \<in> set tids'" "getTuner tid m = Inr t"
  shows "tid \<in> set tids \<and> (\<exists>l. Tuner_getServiceLocator t True = Inr l \<and> (l = '''' \<or> l = loc))"
  using assms by (auto simp: Filter_ByTunerLocator_def filterE_Inr_iff query_simps)

lemma record_hybrid_place:
  assumes "record_hybrid loc start m = Inr tid" "tid \<noteq> ''''"
  shows "\<exists>t. getTuner tid m = Inr t \<and> Tuner_getState t = tHybrid \<and> recordings_end m t start \<and>
    (\<exists>l. Tuner_getServiceLocator t True = Inr l \<and> (l = '''' \<or> l = loc))"
proof -
  from assms obtain h h' hs where h: "tunersInState tHybrid m = Inr h"
    "Filter_ByTunerEndBefore start m h = Inr h'" "Filter_ByTunerLocator loc m h' = Inr hs"
    "tid \<in> set hs"
    by (auto simp: record_hybrid_def query_simps split: if_splits)
  have "tid \<in> set h'" using h(3,4) filterE_Inr unfolding Filter_ByTunerLocator_def by blast
  with Filter_ByTunerEndBefore_subset [OF h(2)] tunersInState_mem [OF h(1)]
  obtain t where t: "getTuner tid m = Inr t" "Tuner_getState t = tHybrid" by blast
  with Filter_ByTunerEndBefore_mem [OF h(2) \<open>tid \<in> set h'\<close> assms(2)]
    Filter_ByTunerLocator_mem [OF h(3,4)] show ?thesis by blast
qed

lemma record_records_place:
  assumes "tunersInState tRecord m = Inr rs" "Filter_ByTunerEndBefore start m rs = Inr rs'"
    "tid \<in> set rs'" "tid \<noteq> ''''"
  shows "\<exists>t. getTuner tid m = Inr t \<and> Tuner_getState t = tRecord \<and> recordings_end m t start"
proof -
  obtain t where "getTuner tid m = Inr t" "Tuner_getState t = tRecord"
    using Filter_ByTunerEndBefore_subset [OF assms(2)] tunersInState_mem [OF assms(1)] assms(3) by blast
  with Filter_ByTunerEndBefore_mem [OF assms(2-4)] show ?thesis by blast
qed

lemma record_otherRecord_place:
  assumes "record_otherRecord start m = Inr tid" "tid \<noteq> ''''"
  shows "\<exists>t. getTuner tid m = Inr t \<and> Tuner_getState t = tRecord \<and> recordings_end m t start"
proof -
  from assms obtain rs rs' where r: "tunersInState tRecord m = Inr rs"
    "Filter_ByTunerEndBefore start m rs = Inr rs'" "tid \<in> set rs'"
    by (auto simp: record_otherRecord_def query_simps split: if_splits)
  then show ?thesis using assms(2) by (rule record_records_place)
qed

lemma record_sameRecord_place:
  assumes "record_sameRecord loc start m = Inr tid" "tid \<noteq> ''''"
  shows "\<exists>t. getTuner tid m = Inr t \<and> Tuner_getState t = tRecord \<and> recordings_end m t start"
proof -
  from assms obtain rs rs' ts where r: "tunersInState tRecord m = Inr rs"
    "Filter_ByTunerEndBefore start m rs = Inr rs'" "Filter_ByTunerLocator loc m rs' = Inr ts" "tid \<in> set ts"
    by (auto simp: record_sameRecord_def query_simps split: if_splits)
  have "tid \<in> set rs'" using r(3,4) filterE_Inr unfolding Filter_ByTunerLocator_def by blast
  with r(1,2) show ?thesis using assms(2) by (rule record_records_place)
qed

lemma record_live_place:
  assumes "record_live loc m = Inr tid" "tid \<noteq> ''''"
  shows "\<exists>t. getTuner tid m = Inr t \<and> Tuner_getState t = tLive \<and> length (reservations t) = 1 \<and>
    Tuner_getServiceLocator t False = Inr loc"
proof -
  from assms obtain l ls where l: "tunersInState tLive m = Inr l"
    "Filter_ByTunerLocator loc m l = Inr ls" "tid \<in> set ls"
    and t: "\<exists>t. getTuner tid m = Inr t \<and> length (reservations t) = 1 \<and>
      Tuner_getServiceLocator t False = Inr loc"
    by (auto simp: record_live_def query_simps Tuner_getReservationTokens_def split: if_splits
        dest!: find_firstE_Inr)
  have "tid \<in> set l" using l(2,3) filterE_Inr unfolding Filter_ByTunerLocator_def by blast
  with tunersInState_mem [OF l(1), of tid] t show ?thesis by auto
qed

lemma record_free_returns: "returns (\<lambda>t. t = '''' \<or> t \<in> set tids) (record_free loc tids)"
proof (induction tids)
  case (Cons tid tids)
  then have "returns (\<lambda>t. t = '''' \<or> t \<in> set (tid # tids)) (record_free loc tids)"
    by (auto simp: returns_def)
  then show ?case
    unfolding record_free.simps
    by (intro returns_intros) (auto split: list.split intro!: returns_intros)
qed (simp add: returns_def)

lemma record_search_keeps: "preserves (on_mgr ((=) m)) (record_search request)"
proof -
  have "preserves (on_mgr ((=) m)) (record_free loc tids)" for loc tids
    by (induction tids) (unfold record_free.simps, (rule inv_intros | assumption)+)
  then show ?thesis
    unfolding record_search_def morElse_def by - (rule inv_intros | assumption)+
qed

lemma record_search_place:
  assumes run: "record_search request w = (Inr tid, w')" and tid: "tid \<noteq> ''''"
  shows "record_place request (w_mgr w) tid"
proof -
  let ?loc = "r_serviceLocator (q_tunerReservation request)"
  let ?start = "r_startTime (q_tunerReservation request)"
  let ?m = "w_mgr w"
  from run obtain t1 n t2 t3 t4 t5 where
    t1: "record_pending ?loc ?start (getTunerIds ?m) ('''', 0) ?m = Inr (t1, n)" and
    t2: "(if t1 = '''' then record_hybrid ?loc ?start ?m else Inr t1) = Inr t2" and
    t3: "(if t2 = '''' then record_live ?loc ?m else Inr t2) = Inr t3" and
    t4: "(if t3 = '''' then record_sameRecord ?loc ?start ?m else Inr t3) = Inr t4" and
    t5: "(if t4 = '''' then record_otherRecord ?start ?m else Inr t4) = Inr t5" and
    t: "morElse t5 (mbind (query (tunersInState tFree)) (record_free ?loc)) w = (Inr tid, w')"
    unfolding record_search_def Let_def
    by (auto simp: run_simps morElse_def massert_def Policy_allowOverlapRecordings_def
        split: if_splits prod.splits)
  have p1: "t1 \<noteq> '''' \<longrightarrow> record_place request ?m t1"
    using record_pending_place [OF t1] by (auto simp: record_place_def Let_def)
  have p2: "t2 \<noteq> '''' \<longrightarrow> record_place request ?m t2"
    using t2 p1 record_hybrid_place [of ?loc ?start ?m t2]
    by (auto simp: record_place_def Let_def split: if_splits)
  have p3: "t3 \<noteq> '''' \<longrightarrow> record_place request ?m t3"
    using t3 p2 record_live_place [of ?loc ?m t3]
    by (auto simp: record_place_def Let_def split: if_splits)
  have p4: "t4 \<noteq> '''' \<longrightarrow> record_place request ?m t4"
    using t4 p3 record_sameRecord_place [of ?loc ?start ?m t4]
    by (auto simp: record_place_def Let_def split: if_splits)
  have p5: "t5 \<noteq> '''' \<longrightarrow> record_place request ?m t5"
    using t5 p4 record_otherRecord_place [of ?start ?m t5]
    by (auto simp: record_place_def Let_def split: if_splits)
  show ?thesis
  proof (cases "t5 = ''''")
    case True
    with t obtain free where f: "tunersInState tFree ?m = Inr free"
      "record_free ?loc free w = (Inr tid, w')"
      by (auto simp: morElse_def run_simps)
    with returnsD [OF record_free_returns] tid have "tid \<in> set free" by blast
    with tunersInState_mem [OF f(1), of tid] show ?thesis by (auto simp: record_place_def Let_def)
  next
    case False
    with t p5 show ?thesis by (auto simp: morElse_def)
  qed
qed

lemma record_reserveLocal_keeps: "preserves (on_mgr (upto_local m)) (record_reserveLocal tid)"
  unfolding record_reserveLocal_def by (rule inv_intros)+

lemma record_grant_holds:
  assumes ok: "mgr_ok ids (w_mgr w)" and run: "record_grant request tid cid resp w = (Inr resp', w')"
  shows "holds_reservation (w_mgr w') tid (s_tunerReservation resp') cid \<and>
    s_conflicts resp' = s_conflicts resp \<and> s_status resp' = s_status resp"
proof -
  from run obtain tok w1 r where w1: "GenerateUUID w = (Inr tok, w1)"
    and g: "mseq (addReservation r tid) (mseq (setReservationAttributes (r_token r) cid)
        (ret (resp\<lparr>s_tunerReservation := r\<rparr>))) w1 = (Inr resp', w')"
    unfolding record_grant_def Let_def mbind_Inr by blast
  have "mgr_ok ids (w_mgr w1)" using ok w1 by (auto simp: GenerateUUID_def)
  from grant_holds [OF this g] show ?thesis by auto
qed

lemma reserveRecord_outcome:
  assumes ok: "mgr_ok ids (w_mgr w)"
    and new: "r_token (q_tunerReservation request) = ''''" "s_conflicts resp = []"
    and run: "reserveRecord request resp cid w = (Inr resp', w')"
  shows "(\<exists>tid. record_place request (w_mgr w) tid \<and>
            holds_reservation (w_mgr w') tid (s_tunerReservation resp') cid \<and>
            s_conflicts resp' = [] \<and> s_status resp' = s_status resp) \<or>
         (w_mgr w' = w_mgr w \<and> s_status resp' = sInsufficientResource \<and>
            (\<exists>live. s_conflicts resp' = [live] \<and> a_enum (r_activity live) = kLive))"
proof -
  from run new(1) obtain now w1 tid w2 where w1: "GetCurrentEpoch w = (Inr now, w1)"
    and s: "record_search request w1 = (Inr tid, w2)"
    and r: "(if tid \<noteq> '''' then mseq (record_reserveLocal tid) (record_grant request tid cid resp)
             else record_conflicts request resp) w2 = (Inr resp', w')"
    by (auto simp: reserveRecord_def run_simps Let_def massert_def Policy_allowOverlapRecordings_def)
  have m1: "w_mgr w1 = w_mgr w" using w1 by (auto simp: GetCurrentEpoch_def)
  have m2: "w_mgr w2 = w_mgr w"
    using preservesD [OF record_search_keeps, of "w_mgr w1" w1 request] s m1 by (simp add: on_mgr_def)
  show ?thesis
  proof (cases "tid = ''''")
    case False
    with record_search_place [OF s] m1 have place: "record_place request (w_mgr w) tid" by simp
    from r False obtain w3 where w3: "record_reserveLocal tid w2 = (Inr (), w3)"
      "record_grant request tid cid resp w3 = (Inr resp', w')"
      by (auto simp: run_simps)
    have "mgr_ok ids (w_mgr w3)"
      using run_upto [OF record_reserveLocal_keeps upto_local_refl w3(1)] upto_local_mgr_ok ok m2 by metis
    with record_grant_holds [OF _ w3(2)] place new(2) show ?thesis by metis
  next
    case True
    with r m2 new(2) FindConflictsForRequestedRecord_one [of request "w_mgr w"] show ?thesis
      by (auto simp: record_conflicts_def run_simps Let_def massert_def
          Policy_enableConflictsForHotRecording_def split: if_splits)
  qed
qed

section \<open>The life of a reservation\<close>

lemma findTuner_updated:
  assumes "distinct (smap_keys ts)" "findTuner tok2 ts = Some (tid, t)"
    and keys: "\<And>t. set (smap_keys (reservations (f t))) = set (smap_keys (reservations t))"
  shows "findTuner tok (smap_update tid f ts) =
    map_option (\<lambda>(k, t). (k, if k = tid then f t else t)) (findTuner tok ts)"
  using keys by (induction ts) (auto simp: smap_update_simps Tuner_getReservationTokens_def)

lemma getReservation_upd:
  assumes ok: "mgr_ok ids m"
  shows "getReservation tok (updReservation tok2 f m) =
    (if tok = tok2 then map_sum id f (getReservation tok m) else getReservation tok m)"
proof (cases "findTuner tok2 (tuners m)")
  case None
  then show ?thesis by (auto simp: updReservation_def getReservation_def)
next
  case (Some p)
  obtain tid t where p: "p = (tid, t)" by fastforce
  let ?g = "\<lambda>t. t\<lparr>reservations := smap_update tok2 f (reservations t)\<rparr>"
  have d: "distinct (smap_keys (tuners m))"
    using ok smap_ok_distinct by (auto simp: mgr_ok_def tuners_ok_def)
  have "findTuner tok (smap_update tid ?g (tuners m)) =
      map_option (\<lambda>(k, t). (k, if k = tid then ?g t else t)) (findTuner tok (tuners m))"
    by (rule findTuner_updated [OF d Some [unfolded p]]) simp
  then show ?thesis
    using Some p
    by (auto simp: updReservation_def updTuner_def getReservation_def Tuner_getReservation_def
        split: option.splits)
qed

definition is_active :: "string \<Rightarrow> Manager \<Rightarrow> bool" where
  "is_active tok m \<longleftrightarrow> (\<exists>r. getReservation tok m = Inr r \<and> r_state r = ACTIVE)"

definition ok_active :: "string list \<Rightarrow> string \<Rightarrow> Manager \<Rightarrow> bool" where
  "ok_active ids tok m \<longleftrightarrow> mgr_ok ids m \<and> is_active tok m"

lemma preserves_ok_active_upd [inv_intros]:
  assumes "\<And>r. r_token (f r) = r_token r" "\<And>r. r_state (f r) = r_state r"
  shows "preserves (on_mgr (ok_active ids tok)) (modify (updReservation tok2 f))"
  using mgr_ok_updReservation [of ids _ f tok2] assms
  by (intro preserves_modify)
    (auto simp: ok_active_def is_active_def getReservation_upd [where ids = ids])

lemma preserves_ok_active_timers [inv_intros]:
  assumes "\<And>m. frame_eq m (f m)"
  shows "preserves (on_mgr (ok_active ids tok)) (modify f)"
  using assms mgr_ok_frame
  by (intro preserves_modify)
    (auto simp: ok_active_def is_active_def getReservation_def frame_eq_def)

lemma preserves_ok_active_start [inv_intros]:
  "preserves (on_mgr (ok_active ids tok)) (syncHybrid tid)"
  "preserves (on_mgr (ok_active ids tok)) (startReservation tok')"
  "preserves (on_mgr (ok_active ids tok)) (adjustExpireTimer tok')"
proof -
  show "preserves (on_mgr (ok_active ids tok)) (syncHybrid tid)"
    unfolding syncHybrid_def syncLive_def
    by (rule preserves_ok_active_upd inv_intros | (simp add: reservation_set_defs; fail))+
  show "preserves (on_mgr (ok_active ids tok)) (startReservation tok')"
    unfolding startReservation_def by (rule inv_intros)+
  show "preserves (on_mgr (ok_active ids tok)) (adjustExpireTimer tok')"
    unfolding adjustExpireTimer_def
    by (rule preserves_ok_active_timers inv_intros | (simp add: frame_eq_def; fail))+
qed

lemma start_activates:
  assumes ok: "mgr_ok ids (w_mgr w)" and r: "getReservation tok (w_mgr w) = Inr r" "r_state r = IDLE"
  shows "\<exists>w'. ReservationStartTimerTask_run tok w = (Inr (), w') \<and> is_active tok (w_mgr w') \<and>
    mgr_ok ids (w_mgr w')"
proof -
  let ?w1 = "w\<lparr>w_mgr := updReservation tok (\<lambda>r. r\<lparr>r_state := ACTIVE\<rparr>) (w_mgr w)\<rparr>"
  have act: "ok_active ids tok (w_mgr ?w1)"
    using r mgr_ok_updReservation [OF ok]
    by (simp add: ok_active_def is_active_def getReservation_upd [OF ok])
  obtain tid where tid: "getParent tok (w_mgr w) = Inr tid"
    using r(1) by (auto simp: getReservation_Inr getParent_Inr [OF ok])
  then obtain t where t: "getTuner tid (w_mgr w) = Inr t" using getParent_tuner [OF ok] by blast
  have pt: "parentTuner tok (w_mgr w) = Inr t" using tid t by (simp add: parentTuner_def)
  let ?rest = "mbind (query (getTuner (internalId t))) (\<lambda>tuner'.
      mseq (mwhen (Tuner_getState tuner' = tHybrid) (syncHybrid (internalId tuner')))
        (mseq (startReservation tok) (adjustExpireTimer tok)))"
  have pres: "preserves (on_mgr (ok_active ids tok)) ?rest" by (rule inv_intros)+
  have nc: "nocast False ?rest" by (rule nocast_intros)+
  have run: "ReservationStartTimerTask_run tok w = mcatch_all ?rest (ret ()) ?w1"
    using r pt by (simp add: ReservationStartTimerTask_run_def trm_run)
  have "on_mgr (ok_active ids tok) (snd (?rest ?w1))"
    using preservesD [OF pres, of ?w1] act by (simp add: on_mgr_def)
  moreover obtain res w' where res: "?rest ?w1 = (res, w')"
    using surj_pair [of "?rest ?w1"] by blast
  moreover have "res \<noteq> Inl UndefinedBehaviour" using nocastD [OF nc, of ?w1] res by simp
  then have "mcatch_all ?rest (ret ()) ?w1 = (Inr (), w')"
    unfolding trm_run(4) res by (auto simp: catchable_def split: sum.split)
  ultimately show ?thesis
    unfolding run by (simp add: on_mgr_def ok_active_def)
qed

text \<open>What the owner of an expiring reservation is sent.\<close>

definition expiry_notice :: "string \<Rightarrow> world \<Rightarrow> sent list" where
  "expiry_notice tok w =
     (case map_of (attrs (w_mgr w)) tok of
        None \<Rightarrow> []
      | Some owner \<Rightarrow>
          (case map_of (w_clients w) owner of
             None \<Rightarrow> []
           | Some c \<Rightarrow>
               if is_active tok (w_mgr w) then
                 delivered w c owner (M_NotifyTunerReservationRelease
                   \<lparr>n_uuid = e_uuid (w_env w) (w_uuids w), n_token = tok, n_reason = ''expired''\<rparr>)
               else []))"

lemma expire_notifies:
  assumes r: "getReservation tok (w_mgr w) = Inr r" and own: "map_of (attrs (w_mgr w)) tok = Some owner"
  shows "\<exists>w1. mcatch_all
             (mseq (massert (r_state r = ACTIVE))
               (mbind (query (getReservationAttributes tok)) (\<lambda>owner.
                  mcatch_all
                    (mbind (getConnection owner) (\<lambda>c.
                     mbind GenerateUUID (\<lambda>u.
                       sendAsync c owner (M_NotifyTunerReservationRelease
                         \<lparr>n_uuid = u, n_token = tok, n_reason = ''expired''\<rparr>))))
                    (ret ()))))
             (ret ()) w = (Inr (), w1) \<and> w_mgr w1 = w_mgr w \<and>
    w_out w1 = w_out w @ expiry_notice tok w"
proof (cases "r_state r = ACTIVE")
  case True
  then have "is_active tok (w_mgr w)" using r by (simp add: is_active_def)
  then show ?thesis
    using True own
    by (cases "map_of (w_clients w) owner")
      (simp_all add: trm_run getReservationAttributes_def getConnection_def GenerateUUID_def
        sendAsync_run expiry_notice_def delivered_def)
next
  case False
  then have "\<not> is_active tok (w_mgr w)" using r by (simp add: is_active_def)
  with False show ?thesis by (simp add: trm_run expiry_notice_def split: option.split)
qed

lemma expire_releases:
  assumes ok: "mgr_ok ids (w_mgr w)" and man: "managed (w_mgr w) tok"
  shows "\<exists>w'. ReservationExpirationTimerTask_run tok w = (Inr (), w') \<and>
    \<not> managed (w_mgr w') tok \<and> mgr_ok ids (w_mgr w') \<and>
    (\<forall>tok'. tok' \<noteq> tok \<longrightarrow> getReservation tok' (w_mgr w') = getReservation tok' (w_mgr w)) \<and>
    w_out w' = w_out w @ expiry_notice tok w"
proof -
  from mgr_okD(6) [OF ok man] obtain r where r: "getReservation tok (w_mgr w) = Inr r"
    using getReservation_total by blast
  from man obtain owner where own: "map_of (attrs (w_mgr w)) tok = Some owner"
    unfolding managed_def using map_of_keys by metis
  from expire_notifies [OF r own] obtain w1 where w1: "mcatch_all
             (mseq (massert (r_state r = ACTIVE))
               (mbind (query (getReservationAttributes tok)) (\<lambda>owner.
                  mcatch_all
                    (mbind (getConnection owner) (\<lambda>c.
                     mbind GenerateUUID (\<lambda>u.
                       sendAsync c owner (M_NotifyTunerReservationRelease
                         \<lparr>n_uuid = u, n_token = tok, n_reason = ''expired''\<rparr>))))
                    (ret ()))))
             (ret ()) w = (Inr (), w1)"
    "w_mgr w1 = w_mgr w" "w_out w1 = w_out w @ expiry_notice tok w" by blast
  let ?m2 = "updReservation tok (\<lambda>r. r\<lparr>r_state := EXPIRED\<rparr>) (w_mgr w)"
  have ok2: "mgr_ok ids ?m2" by (rule mgr_ok_updReservation [OF ok]) simp
  have man2: "managed ?m2 tok"
    using man by (auto simp: managed_def updReservation_def updTuner_def split: option.split)
  let ?w2 = "w1\<lparr>w_mgr := ?m2\<rparr>"
  have "ReservationExpirationTimerTask_run tok w = releaseReservation tok True ?w2"
    unfolding ReservationExpirationTimerTask_run_def
    using r w1(2) by (simp add: trm_run(1,2) w1(1))
  also have "\<dots> = (Inr (), ?w2\<lparr>w_mgr := released tok ?m2, w_queue := w_queue ?w2 @
      [Manager_onReservationUpdated_slot, Server_onReservationUpdated_slot]\<rparr>)"
    using releaseReservation_managed [of ids ?w2 tok True] ok2 man2 by simp
  finally show ?thesis
    using mgr_ok_released [OF ok2] attrs_released [OF ok2 man2] w1(3)
    by (auto simp: managed_def released_other getReservation_upd [OF ok])
qed

section \<open>The user cancels a conflicting recording\<close>

lemma getPendingRequest_uuid: "getPendingRequest uuid m = Inr p \<Longrightarrow> p_uuid p = uuid"
  by (auto simp: getPendingRequest_def find_Some_iff split: option.splits)

lemma getPendingRequest_pending: "getPendingRequest uuid m = Inr p \<Longrightarrow> isPendingRequest uuid m"
  by (auto simp: getPendingRequest_def isPendingRequest_def list_ex_iff find_Some_iff split: option.splits)

lemma removePendingRequest_run:
  "isPendingRequest uuid (w_mgr w) \<Longrightarrow>
   removePendingRequest uuid w = (Inr (), w\<lparr>w_mgr := (w_mgr w)
     \<lparr>pendingRequestTimers := smap_erase uuid (pendingRequestTimers (w_mgr w)),
      pendingRequests := remove_first (\<lambda>p. p_uuid p = uuid) (pendingRequests (w_mgr w))\<rparr>\<rparr>)"
  by (simp add: removePendingRequest_def trm_run cancelPendingTimer_def)

lemma cancelPendingConflict_run:
  assumes p: "getPendingRequest (q_token q) (w_mgr w) = Inr p"
    "p_kind p = PendingReserveTunerConflicts owner n req parent"
    and c: "map_of (w_clients w) owner = Some co" "map_of (w_clients w) cid = Some c"
  shows "\<exists>w'. cancelPendingConflict q cid w = (Inr (), w') \<and>
    pendingRequests (w_mgr w') = remove_first (\<lambda>p. p_uuid p = q_token q) (pendingRequests (w_mgr w)) \<and>
    tuners (w_mgr w') = tuners (w_mgr w) \<and>
    w_out w' = w_out w @
      delivered w co owner (M_ReserveTunerResponse
        ((ReserveTunerResponse_new (q_uuid req))\<lparr>s_status := sUserCancellation\<rparr>)) @
      delivered w c cid (M_CancelRecordingResponse
        ((CancelRecordingResponse_new (q_uuid q) (q_token q))\<lparr>s_status := sOk, s_canceled := True\<rparr>))"
  using p c getPendingRequest_uuid [OF p(1)] getPendingRequest_pending [OF p(1)]
  by (simp add: cancelPendingConflict_def trm_run sendTo_run removePendingRequest_run
      delivered_def)

end
