(* ===== verification/Trm_Scenario.thy ===== *)
theory Trm_Scenario
  imports Trm_Invariant
begin

text \<open>
  A concrete run of the server on a box with two tuners, on which the general theorems are
  instantiated: two viewers watch live television, the recorder asks for a recording, the
  timers fire. Every state is computed from the model's own definitions.
\<close>

section \<open>Running a list of events\<close>

fun run_events :: "event list \<Rightarrow> world \<Rightarrow> world" where
  "run_events [] w = w"
| "run_events (ev # evs) w = run_events evs (snd (handle ev w))"

fun all_enabled :: "event list \<Rightarrow> world \<Rightarrow> bool" where
  "all_enabled [] w \<longleftrightarrow> True"
| "all_enabled (ev # evs) w \<longleftrightarrow> enabled ev w \<and> all_enabled evs (snd (handle ev w))"

lemma reachable_run:
  "reachable e n w \<Longrightarrow> all_enabled evs w \<Longrightarrow> reachable e n (run_events evs w)"
  by (induction evs arbitrary: w) (auto intro: reachable_step step_event)

lemma run_env: "w_env (run_events evs w) = w_env w"
  by (induction evs arbitrary: w) (simp_all add: handle_env)

text \<open>Everything of a state but its environment, for comparing states by evaluation.\<close>

definition fields_of :: "world \<Rightarrow>
    (nat \<times> nat \<times> nat \<times> string \<times> nat) \<times> Manager \<times> (u32, nat) smap \<times> nat list \<times> sent list \<times> signal list" where
  "fields_of w =
     ((w_clock w, w_uuids w, w_devices w, w_deviceId w, w_fresh w), w_mgr w, w_clients w,
      w_connections w, w_out w, w_queue w)"

lemma world_eq: "w_env w = w_env w' \<Longrightarrow> fields_of w = fields_of w' \<Longrightarrow> w = w'"
  by (simp add: fields_of_def)

section \<open>The box\<close>

text \<open>The clock runs on by a millisecond per reading, and a minute passes once.\<close>

definition box_env :: env where
  "box_env = \<lparr>e_epoch = (\<lambda>i. 1000000 + of_nat i + (if i < 18 then 0 else 60000)), e_uuid = (\<lambda>i. replicate (Suc i) (CHR ''u'')),
              e_device = (\<lambda>i. ''host'')\<rparr>"

definition live_on :: "string \<Rightarrow> string \<Rightarrow> ReserveTuner" where
  "live_on dev loc = ReserveTuner_new ''q'' dev
     (TunerReservation_new dev loc 1000000 600000 (Activity_new kLive) '''' None) ''''"

definition record_on :: "string \<Rightarrow> ReserveTuner" where
  "record_on loc = ReserveTuner_new ''r'' ''host''
     (TunerReservation_new ''host'' loc 1000000 600000 (Activity_new kRecord) '''' None) ''''"

text \<open>
  The states of the run. Each is computed once and its value taken for further evaluation.
\<close>

lemma initial_env: "w_env (initial e n) = e"
  by (simp add: initial_def GetDeviceId_def Let_def)

text \<open>
  Connections 0, 1 and 2 are the two viewers 7 and 8 and the recorder. Viewer 7 gets token
  \<open>u\<close>; viewer 8 gets token \<open>uu\<close>.
\<close>

definition box_start :: world where
  "box_start = run_events [NewConnection, NewConnection, NewConnection] (initial box_env 2)"

lemma box_start_env: "w_env box_start = box_env"
  by (simp only: box_start_def run_env initial_env)

lemma box_start_eval [code]: "box_start =
     \<lparr>w_env = box_env, w_clock = 0, w_uuids = 0, w_devices = 1, w_deviceId =
     ''host'', w_fresh = 3, w_mgr = \<lparr>tuners = [(''TunerId-0'', \<lparr>internalId =
     ''TunerId-0'', reservations = []\<rparr>), (''TunerId-1'', \<lparr>internalId =
     ''TunerId-1'', reservations = []\<rparr>)], expireTimers = [], startTimers = [],
     preStartTimers = [], pendingRequestTimers = [], attrs = [], pendingRequests = [],
     localTuner = ''TunerId-0''\<rparr>, w_clients = [], w_connections = [0, 1, 2], w_out =
     [], w_queue = []\<rparr>"
  by (rule world_eq, simp only: box_start_env world.simps, code_simp)

lemma box_start_reachable: "reachable box_env 2 box_start"
  unfolding box_start_def by (rule reachable_run [OF reachable_initial]) code_simp

definition box_one :: world where
  "box_one = run_events [Received 0 7 (Payload (M_ReserveTuner (live_on ''host'' ''ch1'')))] box_start"

lemma box_one_env: "w_env box_one = box_env"
  by (simp only: box_one_def run_env box_start_env)

lemma box_one_eval [code]: "box_one =
     \<lparr>w_env = box_env, w_clock = 5, w_uuids = 1, w_devices = 1, w_deviceId =
     ''host'', w_fresh = 3, w_mgr = \<lparr>tuners = [(''TunerId-0'', \<lparr>internalId =
     ''TunerId-0'', reservations = [(''u'', \<lparr>r_token = ''u'', r_device = ''host'',
     r_serviceLocator = ''ch1'', r_startTime = 1000000, r_duration = 600000, r_activity =
     \<lparr>a_enum = kLive, a_details = []\<rparr>, r_customAttributes = None, r_state =
     IDLE\<rparr>)]\<rparr>), (''TunerId-1'', \<lparr>internalId = ''TunerId-1'',
     reservations = []\<rparr>)], expireTimers = [(''u'', \<lparr>qt_task = True, qt_future
     = 1600001, qt_interval = Some 599997\<rparr>)], startTimers = [(''u'', \<lparr>qt_task
     = True, qt_future = 1000000, qt_interval = Some 0\<rparr>)], preStartTimers = [(''u'',
     \<lparr>qt_task = True, qt_future = 999750, qt_interval = Some 0\<rparr>)],
     pendingRequestTimers = [], attrs = [(''u'', 7)], pendingRequests = [], localTuner =
     ''TunerId-0''\<rparr>, w_clients = [(7, 0)], w_connections = [0, 1, 2], w_out =
     [\<lparr>o_connection = 0, o_clientId = 7, o_payload = Payload (M_ReserveTunerResponse
     \<lparr>s_uuid = ''q'', s_status = sOk, s_tunerReservation = \<lparr>r_token = ''u'',
     r_device = ''host'', r_serviceLocator = ''ch1'', r_startTime = 1000000, r_duration =
     600000, r_activity = \<lparr>a_enum = kLive, a_details = []\<rparr>, r_customAttributes
     = None, r_state = IDLE\<rparr>, s_conflicts = []\<rparr>)\<rparr>], w_queue =
     []\<rparr>"
  by (rule world_eq, simp only: box_one_env world.simps, code_simp)

lemma box_one_reachable: "reachable box_env 2 box_one"
  unfolding box_one_def by (rule reachable_run [OF box_start_reachable]) code_simp

definition box_live :: world where
  "box_live = run_events [Fired (StartTimer ''u'')] box_one"

lemma box_live_env: "w_env box_live = box_env"
  by (simp only: box_live_def run_env box_one_env)

lemma box_live_eval [code]: "box_live =
     \<lparr>w_env = box_env, w_clock = 8, w_uuids = 2, w_devices = 1, w_deviceId =
     ''host'', w_fresh = 3, w_mgr = \<lparr>tuners = [(''TunerId-0'', \<lparr>internalId =
     ''TunerId-0'', reservations = [(''u'', \<lparr>r_token = ''u'', r_device = ''host'',
     r_serviceLocator = ''ch1'', r_startTime = 1000000, r_duration = 600000, r_activity =
     \<lparr>a_enum = kLive, a_details = []\<rparr>, r_customAttributes = None, r_state =
     ACTIVE\<rparr>)]\<rparr>), (''TunerId-1'', \<lparr>internalId = ''TunerId-1'',
     reservations = []\<rparr>)], expireTimers = [(''u'', \<lparr>qt_task = True, qt_future
     = 1600001, qt_interval = Some 599994\<rparr>)], startTimers = [(''u'', \<lparr>qt_task
     = True, qt_future = 0, qt_interval = None\<rparr>)], preStartTimers = [(''u'',
     \<lparr>qt_task = True, qt_future = 999750, qt_interval = Some 0\<rparr>)],
     pendingRequestTimers = [], attrs = [(''u'', 7)], pendingRequests = [], localTuner =
     ''TunerId-0''\<rparr>, w_clients = [(7, 0)], w_connections = [0, 1, 2], w_out =
     [\<lparr>o_connection = 0, o_clientId = 7, o_payload = Payload (M_ReserveTunerResponse
     \<lparr>s_uuid = ''q'', s_status = sOk, s_tunerReservation = \<lparr>r_token = ''u'',
     r_device = ''host'', r_serviceLocator = ''ch1'', r_startTime = 1000000, r_duration =
     600000, r_activity = \<lparr>a_enum = kLive, a_details = []\<rparr>, r_customAttributes
     = None, r_state = IDLE\<rparr>, s_conflicts = []\<rparr>)\<rparr>], w_queue =
     [Manager_onReservationUpdated_slot, Server_onReservationUpdated_slot]\<rparr>"
  by (rule world_eq, simp only: box_live_env world.simps, code_simp)

lemma box_live_reachable: "reachable box_env 2 box_live"
  unfolding box_live_def by (rule reachable_run [OF box_one_reachable]) code_simp


text \<open>
  Viewer 8 on another device gets the second tuner, with token \<open>uuu\<close>; then the recorder
  wants a third channel, which conflicts with a live reservation.
\<close>

definition box_full :: world where
  "box_full = run_events
     [Received 1 8 (Payload (M_ReserveTuner (live_on ''tab'' ''ch2''))), Fired (StartTimer ''uuu'')]
     box_live"

lemma box_full_env: "w_env box_full = box_env"
  by (simp only: box_full_def run_env box_live_env)

lemma box_full_eval [code]: "box_full =
     \<lparr>w_env = box_env, w_clock = 16, w_uuids = 4, w_devices = 1, w_deviceId =
     ''host'', w_fresh = 3, w_mgr = \<lparr>tuners = [(''TunerId-0'', \<lparr>internalId =
     ''TunerId-0'', reservations = [(''u'', \<lparr>r_token = ''u'', r_device = ''host'',
     r_serviceLocator = ''ch1'', r_startTime = 1000000, r_duration = 600000, r_activity =
     \<lparr>a_enum = kLive, a_details = []\<rparr>, r_customAttributes = None, r_state =
     ACTIVE\<rparr>)]\<rparr>), (''TunerId-1'', \<lparr>internalId = ''TunerId-1'',
     reservations = [(''uuu'', \<lparr>r_token = ''uuu'', r_device = ''tab'',
     r_serviceLocator = ''ch2'', r_startTime = 1000000, r_duration = 600000, r_activity =
     \<lparr>a_enum = kLive, a_details = []\<rparr>, r_customAttributes = None, r_state =
     ACTIVE\<rparr>)]\<rparr>)], expireTimers = [(''u'', \<lparr>qt_task = True, qt_future =
     1600001, qt_interval = Some 599994\<rparr>), (''uuu'', \<lparr>qt_task = True,
     qt_future = 1600001, qt_interval = Some 599986\<rparr>)], startTimers = [(''u'',
     \<lparr>qt_task = True, qt_future = 0, qt_interval = None\<rparr>), (''uuu'',
     \<lparr>qt_task = True, qt_future = 0, qt_interval = None\<rparr>)], preStartTimers =
     [(''u'', \<lparr>qt_task = True, qt_future = 999750, qt_interval = Some 0\<rparr>),
     (''uuu'', \<lparr>qt_task = True, qt_future = 999750, qt_interval = Some 0\<rparr>)],
     pendingRequestTimers = [], attrs = [(''u'', 7), (''uuu'', 8)], pendingRequests = [],
     localTuner = ''TunerId-0''\<rparr>, w_clients = [(7, 0), (8, 1)], w_connections = [0,
     1, 2], w_out = [\<lparr>o_connection = 0, o_clientId = 7, o_payload = Payload
     (M_ReserveTunerResponse \<lparr>s_uuid = ''q'', s_status = sOk, s_tunerReservation =
     \<lparr>r_token = ''u'', r_device = ''host'', r_serviceLocator = ''ch1'', r_startTime =
     1000000, r_duration = 600000, r_activity = \<lparr>a_enum = kLive, a_details =
     []\<rparr>, r_customAttributes = None, r_state = IDLE\<rparr>, s_conflicts =
     []\<rparr>)\<rparr>, \<lparr>o_connection = 1, o_clientId = 8, o_payload = Payload
     (M_ReserveTunerResponse \<lparr>s_uuid = ''q'', s_status = sOk, s_tunerReservation =
     \<lparr>r_token = ''uuu'', r_device = ''tab'', r_serviceLocator = ''ch2'', r_startTime
     = 1000000, r_duration = 600000, r_activity = \<lparr>a_enum = kLive, a_details =
     []\<rparr>, r_customAttributes = None, r_state = IDLE\<rparr>, s_conflicts =
     []\<rparr>)\<rparr>], w_queue = [Manager_onReservationUpdated_slot,
     Server_onReservationUpdated_slot, Manager_onReservationUpdated_slot,
     Server_onReservationUpdated_slot]\<rparr>"
  by (rule world_eq, simp only: box_full_env world.simps, code_simp)

lemma box_full_reachable: "reachable box_env 2 box_full"
  unfolding box_full_def by (rule reachable_run [OF box_live_reachable]) code_simp

definition box_conflict :: world where
  "box_conflict = run_events
     [Received 2 kRecorderClientId (Payload (M_ReserveTuner (record_on ''ch3'')))] box_full"

lemma box_conflict_env: "w_env box_conflict = box_env"
  by (simp only: box_conflict_def run_env box_full_env)

lemma box_conflict_eval [code]: "box_conflict =
     \<lparr>w_env = box_env, w_clock = 18, w_uuids = 6, w_devices = 1, w_deviceId =
     ''host'', w_fresh = 4, w_mgr = \<lparr>tuners = [(''TunerId-0'', \<lparr>internalId =
     ''TunerId-0'', reservations = [(''u'', \<lparr>r_token = ''u'', r_device = ''host'',
     r_serviceLocator = ''ch1'', r_startTime = 1000000, r_duration = 600000, r_activity =
     \<lparr>a_enum = kLive, a_details = []\<rparr>, r_customAttributes = None, r_state =
     ACTIVE\<rparr>)]\<rparr>), (''TunerId-1'', \<lparr>internalId = ''TunerId-1'',
     reservations = [(''uuu'', \<lparr>r_token = ''uuu'', r_device = ''tab'',
     r_serviceLocator = ''ch2'', r_startTime = 1000000, r_duration = 600000, r_activity =
     \<lparr>a_enum = kLive, a_details = []\<rparr>, r_customAttributes = None, r_state =
     ACTIVE\<rparr>)]\<rparr>)], expireTimers = [(''u'', \<lparr>qt_task = True, qt_future =
     1600001, qt_interval = Some 599994\<rparr>), (''uuu'', \<lparr>qt_task = True,
     qt_future = 1600001, qt_interval = Some 599986\<rparr>)], startTimers = [(''u'',
     \<lparr>qt_task = True, qt_future = 0, qt_interval = None\<rparr>), (''uuu'',
     \<lparr>qt_task = True, qt_future = 0, qt_interval = None\<rparr>)], preStartTimers =
     [(''u'', \<lparr>qt_task = True, qt_future = 999750, qt_interval = Some 0\<rparr>),
     (''uuu'', \<lparr>qt_task = True, qt_future = 999750, qt_interval = Some 0\<rparr>)],
     pendingRequestTimers = [(''uuuuu'', \<lparr>qt_task = True, qt_future = 1053517,
     qt_interval = Some 53500\<rparr>)], attrs = [(''u'', 7), (''uuu'', 8)], pendingRequests
     = [\<lparr>p_addr = 3, p_uuid = ''uuuuu'', p_kind = PendingReserveTunerConflicts
     4294967040 \<lparr>n_uuid = ''uuuuuu'', n_requestedReservation = \<lparr>r_token =
     ''u'', r_device = ''host'', r_serviceLocator = ''ch1'', r_startTime = 1000000,
     r_duration = 600000, r_activity = \<lparr>a_enum = kLive, a_details = []\<rparr>,
     r_customAttributes = None, r_state = ACTIVE\<rparr>, n_conflicts = [\<lparr>r_token =
     ''uuuuu'', r_device = ''host'', r_serviceLocator = ''ch3'', r_startTime = 1000000,
     r_duration = 600000, r_activity = \<lparr>a_enum = kRecord, a_details = []\<rparr>,
     r_customAttributes = None, r_state = IDLE\<rparr>]\<rparr> \<lparr>q_uuid = ''r'',
     q_device = ''host'', q_tunerReservation = \<lparr>r_token = [], r_device = ''host'',
     r_serviceLocator = ''ch3'', r_startTime = 1000000, r_duration = 600000, r_activity =
     \<lparr>a_enum = kRecord, a_details = []\<rparr>, r_customAttributes = None, r_state =
     IDLE\<rparr>, q_resurrect = []\<rparr> ''TunerId-0''\<rparr>], localTuner =
     ''TunerId-0''\<rparr>, w_clients = [(7, 0), (8, 1), (4294967040, 2)], w_connections =
     [0, 1, 2], w_out = [\<lparr>o_connection = 0, o_clientId = 7, o_payload = Payload
     (M_ReserveTunerResponse \<lparr>s_uuid = ''q'', s_status = sOk, s_tunerReservation =
     \<lparr>r_token = ''u'', r_device = ''host'', r_serviceLocator = ''ch1'', r_startTime =
     1000000, r_duration = 600000, r_activity = \<lparr>a_enum = kLive, a_details =
     []\<rparr>, r_customAttributes = None, r_state = IDLE\<rparr>, s_conflicts =
     []\<rparr>)\<rparr>, \<lparr>o_connection = 1, o_clientId = 8, o_payload = Payload
     (M_ReserveTunerResponse \<lparr>s_uuid = ''q'', s_status = sOk, s_tunerReservation =
     \<lparr>r_token = ''uuu'', r_device = ''tab'', r_serviceLocator = ''ch2'', r_startTime
     = 1000000, r_duration = 600000, r_activity = \<lparr>a_enum = kLive, a_details =
     []\<rparr>, r_customAttributes = None, r_state = IDLE\<rparr>, s_conflicts =
     []\<rparr>)\<rparr>, \<lparr>o_connection = 0, o_clientId = 7, o_payload = Payload
     (M_NotifyTunerReservationConflicts \<lparr>n_uuid = ''uuuuuu'', n_requestedReservation
     = \<lparr>r_token = ''u'', r_device = ''host'', r_serviceLocator = ''ch1'', r_startTime
     = 1000000, r_duration = 600000, r_activity = \<lparr>a_enum = kLive, a_details =
     []\<rparr>, r_customAttributes = None, r_state = ACTIVE\<rparr>, n_conflicts =
     [\<lparr>r_token = ''uuuuu'', r_device = ''host'', r_serviceLocator = ''ch3'',
     r_startTime = 1000000, r_duration = 600000, r_activity = \<lparr>a_enum = kRecord,
     a_details = []\<rparr>, r_customAttributes = None, r_state =
     IDLE\<rparr>]\<rparr>)\<rparr>], w_queue = [Manager_onReservationUpdated_slot,
     Server_onReservationUpdated_slot, Manager_onReservationUpdated_slot,
     Server_onReservationUpdated_slot]\<rparr>"
  by (rule world_eq, simp only: box_conflict_env world.simps, code_simp)

lemma box_conflict_reachable: "reachable box_env 2 box_conflict"
  unfolding box_conflict_def by (rule reachable_run [OF box_full_reachable]) code_simp

text \<open>The value and the state of a computation that returns.\<close>

lemma run_value: "\<not> isl (fst (m w)) \<Longrightarrow> m w = (Inr (projr (fst (m w))), snd (m w))"
  by (cases "fst (m w)") (auto simp: prod_eq_iff)

lemma box_live_client: "map_of (w_clients box_live) 7 = Some 0"
  by (simp add: box_live_eval)

text \<open>The viewer does not answer in time.\<close>

definition box_cancel :: world where
  "box_cancel = run_events [Fired (PendingTimer ''uuuuu'')] box_conflict"

lemma box_cancel_reachable: "reachable box_env 2 box_cancel"
  unfolding box_cancel_def by (rule reachable_run [OF box_conflict_reachable]) simp

end
