(* ===== verification/Trm_Inventory.thy ===== *)
theory Trm_Inventory
  imports Trm_Record Trm_Scenario
begin

text \<open>
  What the inventory requests report: the reservations of every tuner that match the filters
  of a \<^verbatim>\<open>GetAllReservations\<close>, compared with the tables of the manager.
\<close>

definition reservation_of :: "Manager \<Rightarrow> string \<Rightarrow> TunerReservation" where
  "reservation_of m tok =
     (case getReservation tok m of Inr r \<Rightarrow> r | Inl e \<Rightarrow> TunerReservation_default)"

definition tuner_reservations :: "Manager \<Rightarrow> string \<Rightarrow> TunerReservation list" where
  "tuner_reservations m tid =
     (case map_of (tuners m) tid of
        None \<Rightarrow> []
      | Some t \<Rightarrow> map (reservation_of m) (smap_keys (reservations t)))"

definition matches_request :: "GetAllReservations \<Rightarrow> TunerReservation \<Rightarrow> bool" where
  "matches_request q r \<longleftrightarrow>
     (GetAllReservations_getFilter q ''device'' = '''' \<or>
      r_device r = GetAllReservations_getFilter q ''device'') \<and>
     (GetAllReservations_getFilter q ''activity'' = '''' \<or>
      a_enum (r_activity r) = Activity_at (GetAllReservations_getFilter q ''activity''))"

definition reported :: "GetAllReservationsResponse \<Rightarrow> string \<Rightarrow> TunerReservation list" where
  "reported resp tid = (case map_of (s_reservations resp) tid of Some rs \<Rightarrow> rs | None \<Rightarrow> [])"

lemma getReservation_of: "tok \<in> tokens_of m \<Longrightarrow> getReservation tok m = Inr (reservation_of m tok)"
  using getReservation_total [of tok m] by (auto simp: reservation_of_def)

lemma filter_sat_token:
  "set toks \<subseteq> tokens_of m \<Longrightarrow>
     filter (sat_token p m) toks = filter (\<lambda>tok. p (reservation_of m tok)) toks"
  by (auto simp: sat_token_def getReservation_of intro!: filter_cong)

lemma filters_known:
  assumes "set toks \<subseteq> tokens_of m"
  shows "Filter_ReservationByDevice d m toks = Inr (filter (\<lambda>tok. r_device (reservation_of m tok) = d) toks)"
    and "Filter_ByActivity a m toks =
      Inr (filter (\<lambda>tok. a_enum (r_activity (reservation_of m tok)) = a) toks)"
  using assms byDevice.flt_known [of toks m d] byActivity.flt_known [of toks m a]
  by (auto simp: filter_sat_token)

lemma applyFilters_known:
  assumes "set toks \<subseteq> tokens_of m"
  shows "applyFilters q m toks =
    (let toks' = filter (\<lambda>tok. matches_request q (reservation_of m tok)) toks in
     if GetAllReservations_getFilter q ''state'' \<noteq> ''''
     then Filter_ByTunerState (TunerState_at (GetAllReservations_getFilter q ''state'')) m toks'
     else Inr toks')"
proof -
  let ?d = "GetAllReservations_getFilter q ''device''"
  let ?a = "GetAllReservations_getFilter q ''activity''"
  let ?p = "\<lambda>tok. ?d = '''' \<or> r_device (reservation_of m tok) = ?d"
  let ?f = "\<lambda>tok. ?a = '''' \<or> a_enum (r_activity (reservation_of m tok)) = Activity_at ?a"
  have 1: "(if ?d \<noteq> '''' then Filter_ReservationByDevice ?d m toks else Inr toks) = Inr (filter ?p toks)"
    by (simp add: filters_known(1) [OF assms])
  have "set (filter ?p toks) \<subseteq> tokens_of m" using assms by auto
  then have 2: "(if ?a \<noteq> '''' then Filter_ByActivity (Activity_at ?a) m (filter ?p toks)
      else Inr (filter ?p toks)) = Inr (filter ?f (filter ?p toks))"
    by (simp only: filters_known(2)) simp
  have 3: "filter ?f (filter ?p toks) = filter (\<lambda>tok. matches_request q (reservation_of m tok)) toks"
    by (simp add: matches_request_def)
  show ?thesis
    unfolding applyFilters_def 1 by (simp only: ebind_simps 2 3 Let_def)
qed

lemma mapE_reservations:
  "set toks \<subseteq> tokens_of m \<Longrightarrow>
     mapE (\<lambda>tok. getReservation tok m) toks = Inr (map (reservation_of m) toks)"
  by (induction toks) (auto simp: getReservation_of)

lemma reported_add:
  "reported (foldl (\<lambda>resp r. addTunerReservation tid r resp) resp rs) tid' =
     reported resp tid' @ (if tid' = tid then rs else [])"
  by (induction rs arbitrary: resp) (auto simp: reported_def addTunerReservation_def)

lemma tuner_tokens_known:
  "map_of (tuners m) tid = Some t \<Longrightarrow> set (smap_keys (reservations t)) \<subseteq> tokens_of m"
  by (force simp: tokens_of_def dest: map_of_SomeD)

lemma collectReservations_run:
  assumes "set tids \<subseteq> set (getTunerIds m)" "'''' \<notin> set tids" "distinct tids"
    and "GetAllReservations_getFilter q ''state'' = ''''"
  shows "\<exists>resp'. collectReservations q tids resp m = Inr resp' \<and> s_uuid resp' = s_uuid resp \<and>
    (\<forall>tid. reported resp' tid = reported resp tid @
       (if tid \<in> set tids then filter (matches_request q) (tuner_reservations m tid) else []))"
  using assms
proof (induction tids arbitrary: resp)
  case (Cons tid tids)
  obtain t where t: "map_of (tuners m) tid = Some t" "getTuner tid m = Inr t"
    using Cons.prems(1) getTuner_known [of tid m] getTuner_Inr by auto
  let ?toks = "smap_keys (reservations t)"
  let ?toks' = "filter (\<lambda>tok. matches_request q (reservation_of m tok)) ?toks"
  let ?rs = "map (reservation_of m) ?toks'"
  let ?resp = "foldl (\<lambda>resp r. addTunerReservation tid r resp) resp ?rs"
  have known: "set ?toks \<subseteq> tokens_of m" by (rule tuner_tokens_known [OF t(1)])
  then have known': "set ?toks' \<subseteq> tokens_of m" by auto
  have rs: "?rs = filter (matches_request q) (tuner_reservations m tid)"
    by (simp add: tuner_reservations_def t filter_map comp_def)
  have uuid: "s_uuid (foldl (\<lambda>resp r. addTunerReservation tid r resp) resp rs) = s_uuid resp" for rs resp
    by (induction rs arbitrary: resp) (auto simp: addTunerReservation_def)
  obtain resp' where "collectReservations q tids ?resp m = Inr resp'" "s_uuid resp' = s_uuid ?resp"
    "\<forall>tid. reported resp' tid = reported ?resp tid @
       (if tid \<in> set tids then filter (matches_request q) (tuner_reservations m tid) else [])"
    using Cons.IH [of ?resp] Cons.prems by auto
  moreover have "applyFilters q m ?toks = Inr ?toks'"
    unfolding applyFilters_known [OF known] using Cons.prems(4) by simp
  then have "collectReservations q (tid # tids) resp m = collectReservations q tids ?resp m"
    using Cons.prems(2) t(2) mapE_reservations [OF known']
    by (auto simp: getReservationTokens_tuner_def Tuner_getReservationTokens_def)
  ultimately show ?case using Cons.prems(3) uuid rs by (auto simp: reported_add)
qed simp

lemma foldl_insert_keys:
  "set (smap_keys (foldl (\<lambda>m i. smap_insert (f i) (g i) m) ts is)) = set (smap_keys ts) \<union> f ` set is"
  by (induction "is" arbitrary: ts) auto

lemma tunerIds_new: "set (getTunerIds (Manager_new n)) = tunerIdOf ` {..<n}"
  using foldl_insert_keys [of tunerIdOf "\<lambda>i. Tuner_new (tunerIdOf i)" "[]" "[0..<n]"]
  by (simp add: getTunerIds_def Manager_new_def atLeast0LessThan)

lemma tunerIds_nonempty: "'''' \<notin> set (getTunerIds (Manager_new n))"
  unfolding tunerIds_new by (auto simp: tunerIdOf_def)

lemma mgr_ids:
  assumes "mgr_ok (getTunerIds (Manager_new n)) m"
  shows "getTunerIds m = getTunerIds (Manager_new n)" "distinct (getTunerIds m)" "'''' \<notin> set (getTunerIds m)"
proof -
  show ids: "getTunerIds m = getTunerIds (Manager_new n)" by (rule mgr_okD(2) [OF assms])
  show "distinct (getTunerIds m)"
    using mgr_okD(1) [OF assms] smap_ok_distinct unfolding tuners_ok_def getTunerIds_def by blast
  show "'''' \<notin> set (getTunerIds m)" unfolding ids by (rule tunerIds_nonempty)
qed

lemmas reachable_ids = mgr_ids [OF reachable_mgr_ok]

lemma Execute_GetAllReservations_run:
  assumes "map_of (w_clients w) cid = Some c"
    and "collectReservations q (getTunerIds (w_mgr w)) (GetAllReservationsResponse_new (q_uuid q)) (w_mgr w) = res"
    and "res \<noteq> Inl UndefinedBehaviour"
  shows "Execute_GetAllReservations q cid w =
    (Inr (), w\<lparr>w_out := w_out w @ delivered w c cid (M_GetAllReservationsResponse
       (case res of
          Inr resp \<Rightarrow> resp\<lparr>s_status := sOk\<rparr>
        | Inl e \<Rightarrow> (GetAllReservationsResponse_new (q_uuid q))\<lparr>s_status := sGeneralError\<rparr>))\<rparr>)"
  using assms by (auto simp: Execute_GetAllReservations_def trm_run catchable_def sendTo_run Let_def
      split: sum.split exn.splits)

text \<open>What a request lists: for each tuner, in order, its matching reservations; tuners without any are left out.\<close>

definition listed :: "GetAllReservations \<Rightarrow> Manager \<Rightarrow> (string, TunerReservation list) smap" where
  "listed q m =
     filter (\<lambda>x. snd x \<noteq> []) (map (\<lambda>tid. (tid, filter (matches_request q) (tuner_reservations m tid))) (getTunerIds m))"

definition tight :: "GetAllReservationsResponse \<Rightarrow> bool" where
  "tight resp \<longleftrightarrow> smap_ok (s_reservations resp) \<and> (\<forall>tid. map_of (s_reservations resp) tid \<noteq> Some [])"

lemma tight_add:
  assumes "tight resp"
  shows "tight (foldl (\<lambda>resp r. addTunerReservation tid r resp) resp rs) \<and>
    s_status (foldl (\<lambda>resp r. addTunerReservation tid r resp) resp rs) = s_status resp \<and>
    s_token (foldl (\<lambda>resp r. addTunerReservation tid r resp) resp rs) = s_token resp"
  using assms
proof (induction rs arbitrary: resp)
  case (Cons r rs)
  have "tight (addTunerReservation tid r resp)" using Cons.prems by (auto simp: tight_def addTunerReservation_def)
  then show ?case using Cons.IH by (auto simp: addTunerReservation_def)
qed simp

lemma collectReservations_tight:
  assumes "collectReservations q tids resp m = Inr resp'" "tight resp"
  shows "tight resp' \<and> s_status resp' = s_status resp \<and> s_token resp' = s_token resp"
  using assms
proof (induction q tids resp m rule: collectReservations.induct)
  case (2 request tid tids resp m)
  then obtain tokens tokens' rs where "getReservationTokens_tuner tid m = Inr tokens" "applyFilters request m tokens = Inr tokens'"
    "mapE (\<lambda>tok. getReservation tok m) tokens' = Inr rs"
    "collectReservations request tids (foldl (\<lambda>resp r. addTunerReservation tid r resp) resp rs) m = Inr resp'"
    by (auto simp: query_simps)
  then show ?case using "2.IH" tight_add [OF "2.prems"(2), of tid rs] by auto
qed simp

lemma map_of_listed:
  assumes "distinct (getTunerIds m)"
  shows "map_of (listed q m) tid =
    (let rs = filter (matches_request q) (tuner_reservations m tid)
     in if tid \<in> set (getTunerIds m) \<and> rs \<noteq> [] then Some rs else None)"
proof -
  have "map_of (filter (\<lambda>x. snd x \<noteq> []) (map (\<lambda>tid. (tid, f tid)) tids)) tid =
      (if tid \<in> set tids \<and> f tid \<noteq> [] then Some (f tid) else None)" for f :: "string \<Rightarrow> TunerReservation list" and tids
    by (induction tids) auto
  then show ?thesis by (simp add: listed_def Let_def)
qed

lemma smap_ok_listed:
  assumes "smap_ok (tuners m)"
  shows "smap_ok (listed q m)"
proof -
  have "map fst (filter (\<lambda>x. snd x \<noteq> []) (map (\<lambda>tid. (tid, f tid)) tids)) = filter (\<lambda>tid. f tid \<noteq> []) tids"
    for f :: "string \<Rightarrow> TunerReservation list" and tids by (induction tids) auto
  then show ?thesis using assms unfolding smap_ok_def listed_def getTunerIds_def by (simp only: sorted_wrt_filter)
qed

lemma all_reservations_run:
  assumes r: "mgr_ok (getTunerIds (Manager_new n)) (w_mgr w)" and c: "map_of (w_clients w) cid = Some c"
    and f: "GetAllReservations_getFilter q ''state'' = ''''"
  shows "Execute_GetAllReservations q cid w =
    (Inr (), w\<lparr>w_out := w_out w @ delivered w c cid (M_GetAllReservationsResponse
       \<lparr>s_uuid = q_uuid q, s_status = sOk, s_token = '''', s_reservations = listed q (w_mgr w)\<rparr>)\<rparr>)"
proof -
  let ?m = "w_mgr w" and ?new = "GetAllReservationsResponse_new (q_uuid q)"
  obtain resp where run: "collectReservations q (getTunerIds ?m) ?new ?m = Inr resp" "s_uuid resp = q_uuid q"
    and rep: "\<And>tid. reported resp tid = (if tid \<in> set (getTunerIds ?m)
       then filter (matches_request q) (tuner_reservations ?m tid) else [])"
    using collectReservations_run [of "getTunerIds ?m" ?m q ?new] mgr_ids(2,3) [OF r] f
    by (auto simp: GetAllReservationsResponse_new_def reported_def)
  have t: "tight resp" "s_token resp = ''''"
    using collectReservations_tight [OF run(1)] by (simp_all add: tight_def GetAllReservationsResponse_new_def)
  have "smap_ok (tuners ?m)" using mgr_okD(1) [OF r] by (simp add: tuners_ok_def)
  moreover have "map_of (s_reservations resp) tid = map_of (listed q ?m) tid" for tid
  proof -
    have "map_of (s_reservations resp) tid = (if reported resp tid = [] then None else Some (reported resp tid))"
      using t(1) by (auto simp: tight_def reported_def split: option.split)
    then show ?thesis using rep [of tid] by (simp add: map_of_listed [OF mgr_ids(2) [OF r]] Let_def)
  qed
  ultimately have "s_reservations resp = listed q ?m"
    using t(1) by (intro smap_ext smap_ok_listed) (auto simp: tight_def)
  then have "resp\<lparr>s_status := sOk\<rparr> = \<lparr>s_uuid = q_uuid q, s_status = sOk, s_token = [], s_reservations = listed q ?m\<rparr>"
    using run(2) t(2) by (cases resp) simp
  then show ?thesis using Execute_GetAllReservations_run [OF c run(1)] by simp
qed

text \<open>
  C24. A client that asks for all reservations without a state filter gets one response with
  status Ok that lists, for every tuner with any, exactly the reservations of that tuner that match the
  device and activity filters, tuners and reservations in the order of their ids; nothing else in the server
  changes.
\<close>

theorem get_all_reservations:
  assumes "reachable e n w" "map_of (w_clients w) cid = Some c" "GetAllReservations_getFilter q ''state'' = ''''"
  shows "Execute_GetAllReservations q cid w =
    (Inr (), w\<lparr>w_out := w_out w @ delivered w c cid (M_GetAllReservationsResponse
       \<lparr>s_uuid = q_uuid q, s_status = sOk, s_token = '''',
         s_reservations = filter (\<lambda>x. snd x \<noteq> [])
           (map (\<lambda>tid. (tid, filter (matches_request q) (tuner_reservations (w_mgr w) tid))) (getTunerIds (w_mgr w)))\<rparr>)\<rparr>)"
  using all_reservations_run [OF reachable_mgr_ok [OF assms(1)] assms(2,3)] by (simp only: listed_def)

lemma collect_state_fails:
  assumes "set tids \<subseteq> set (getTunerIds m)" "'''' \<notin> set tids"
    and f: "GetAllReservations_getFilter q ''state'' \<noteq> ''''"
    and no: "\<forall>tok \<in> tokens_of m. tok \<notin> set (getTunerIds m)"
    and some: "\<exists>tid \<in> set tids. filter (matches_request q) (tuner_reservations m tid) \<noteq> []"
  shows "collectReservations q tids resp m = Inl ItemNotFoundException"
  using assms(1,2) some
proof (induction tids arbitrary: resp)
  case (Cons tid tids)
  obtain t where t: "map_of (tuners m) tid = Some t" "getTuner tid m = Inr t"
    using Cons.prems(1) getTuner_known [of tid m] getTuner_Inr by auto
  let ?toks = "smap_keys (reservations t)"
  let ?toks' = "filter (\<lambda>tok. matches_request q (reservation_of m tok)) ?toks"
  have known: "set ?toks \<subseteq> tokens_of m" by (rule tuner_tokens_known [OF t(1)])
  have app: "applyFilters q m ?toks = (if ?toks' = [] then Inr [] else Inl ItemNotFoundException)"
  proof (cases "?toks'")
    case Nil
    then show ?thesis unfolding applyFilters_known [OF known] using f by (simp add: Filter_ByTunerState_def)
  next
    case (Cons tok toks)
    then have "tok \<in> set ?toks'" by simp
    then have "tok \<in> tokens_of m" using known by auto
    then have "getTuner tok m = Inl ItemNotFoundException" using no getTuner_Inl by blast
    then show ?thesis unfolding applyFilters_known [OF known] using f Cons
      by (simp add: Filter_ByTunerState_def)
  qed
  have rs: "filter (matches_request q) (tuner_reservations m tid) = map (reservation_of m) ?toks'"
    by (simp add: tuner_reservations_def t filter_map comp_def)
  show ?case
    using Cons t app rs by (auto simp: getReservationTokens_tuner_def Tuner_getReservationTokens_def)
qed simp

text \<open>
  C31. A \<^verbatim>\<open>GetAllReservations\<close> with a state filter is answered with GeneralError as soon as one
  reservation passes the other filters: the filter looks the reservation tokens up as tuner
  ids. (Tokens are uuids, so no token is a tuner id.)
\<close>

theorem state_filter_fails:
  assumes r: "reachable e n w" and c: "map_of (w_clients w) cid = Some c"
    and f: "GetAllReservations_getFilter q ''state'' \<noteq> ''''"
    and no: "\<forall>tok \<in> tokens_of (w_mgr w). tok \<notin> set (getTunerIds (w_mgr w))"
    and some: "filter (matches_request q) (tuner_reservations (w_mgr w) tid) \<noteq> []"
  shows "Execute_GetAllReservations q cid w =
    (Inr (), w\<lparr>w_out := w_out w @ delivered w c cid (M_GetAllReservationsResponse
       ((GetAllReservationsResponse_new (q_uuid q))\<lparr>s_status := sGeneralError\<rparr>))\<rparr>)"
proof -
  have "map_of (tuners (w_mgr w)) tid \<noteq> None" using some by (auto simp: tuner_reservations_def split: option.splits)
  then have "tid \<in> set (getTunerIds (w_mgr w))" by (simp add: getTunerIds_def map_of_eq_None_iff)
  then have "collectReservations q (getTunerIds (w_mgr w)) (GetAllReservationsResponse_new (q_uuid q))
      (w_mgr w) = Inl ItemNotFoundException"
    using collect_state_fails [OF _ _ f no] reachable_ids(3) [OF r] some by blast
  then show ?thesis using Execute_GetAllReservations_run [OF c] by auto
qed

section \<open>Tuner ids\<close>


lemma decimal_digits: "decimal n \<noteq> []"
  by (subst decimal.simps) simp

lemma digit_char: "k < 10 \<Longrightarrow> of_char (char_of (48 + k) :: char) = (48 + k :: nat)"
  by simp

definition read_decimal :: "string \<Rightarrow> nat" where
  "read_decimal s = foldl (\<lambda>a c. 10 * a + (of_char c - 48)) 0 s"

lemma read_decimal_inverse: "read_decimal (decimal n) = n"
proof (induction n rule: decimal.induct)
  case (1 n)
  then show ?case
    by (subst decimal.simps) (auto simp: read_decimal_def)
qed

lemma tunerIdOf_inject: "tunerIdOf i = tunerIdOf j \<longleftrightarrow> i = j"
  unfolding tunerIdOf_def by (metis read_decimal_inverse same_append_eq)

lemma tunerIds_length:
  assumes "reachable e n w"
  shows "length (getTunerIds (w_mgr w)) = n"
proof -
  have "set (getTunerIds (w_mgr w)) = tunerIdOf ` {..<n}" unfolding reachable_ids(1) [OF assms] by (rule tunerIds_new)
  then show ?thesis using distinct_card [OF reachable_ids(2) [OF assms]] card_image [of tunerIdOf "{..<n}"]
    by (simp add: inj_on_def tunerIdOf_inject)
qed

text \<open>
  At every moment the manager has the tuners it was started with: as many as configured, with
  distinct ids \<^verbatim>\<open>TunerId-0\<close> and so on.
\<close>

theorem tuner_ids_fixed:
  assumes "reachable e n w"
  shows "distinct (getTunerIds (w_mgr w)) \<and> length (getTunerIds (w_mgr w)) = n \<and>
    set (getTunerIds (w_mgr w)) = tunerIdOf ` {..<n} \<and> getTunerIds (w_mgr w) = getTunerIds (Manager_new n)"
proof -
  note ids = reachable_ids [OF assms]
  have "set (getTunerIds (w_mgr w)) = tunerIdOf ` {..<n}" unfolding ids(1) by (rule tunerIds_new)
  then show ?thesis using ids tunerIds_length [OF assms] by simp
qed

section \<open>States\<close>

definition reported_state :: "GetAllTunerStatesResponse \<Rightarrow> string \<Rightarrow> string option" where
  "reported_state resp tid = map_of (s_tunerStates resp) tid"












section \<open>Validating and releasing\<close>

lemma getReservation_token:
  assumes "mgr_ok ids m" "getReservation tok m = Inr r"
  shows "r_token r = tok"
proof -
  obtain tid t where "findTuner tok (tuners m) = Some (tid, t)" "map_of (reservations t) tok = Some r"
    using assms(2) getReservation_Inr by blast
  then show ?thesis
    using findTuner_Some tuners_okD(3) mgr_okD(1) [OF assms(1)] tuner_wf_lookup by blast
qed

lemma attrs_known:
  assumes ok: "mgr_ok ids m" and "map_of (attrs m) tok = Some x"
  shows "\<exists>r. getReservation tok m = Inr r \<and> r_token r = tok"
proof -
  have "managed m tok" using assms(2) by (force simp: managed_def dest: map_of_SomeD)
  then show ?thesis using mgr_okD(6) [OF ok] getReservation_total getReservation_token [OF ok] by metis
qed

text \<open>
  C26. A reservation validates exactly for its owner: the response says valid if the token is
  granted to the asking client, and not valid for an unknown token or the token of another
  client.
\<close>

theorem validate_answer:
  assumes r: "reachable e n w" and c: "map_of (w_clients w) cid = Some c"
  shows "Execute_ValidateTunerReservation q cid w =
    (Inr (), w\<lparr>w_out := w_out w @ delivered w c cid (M_ValidateTunerReservationResponse
       (if map_of (attrs (w_mgr w)) (q_token q) = Some cid
        then \<lparr>s_uuid = q_uuid q, s_status = sOk, s_token = q_token q, s_valid = True\<rparr>
        else \<lparr>s_uuid = q_uuid q, s_status = sOk, s_token = [], s_valid = False\<rparr>))\<rparr>)"
proof (cases "getReservation (q_token q) (w_mgr w)")
  case (Inl e)
  then have "map_of (attrs (w_mgr w)) (q_token q) = None"
    using attrs_known [OF reachable_mgr_ok [OF r]] by (cases "map_of (attrs (w_mgr w)) (q_token q)") fastforce+
  moreover have "e = ItemNotFoundException" using Inl getReservation_Inl by blast
  ultimately show ?thesis using Inl c
    by (simp add: Execute_ValidateTunerReservation_def trm_run sendTo_run
        ValidateTunerReservationResponse_new_def)
next
  case (Inr x)
  then show ?thesis
    using c getReservation_token [OF reachable_mgr_ok [OF r] Inr]
    by (auto simp: Execute_ValidateTunerReservation_def trm_run sendTo_run getReservationAttributes_def
        ValidateTunerReservationResponse_new_def split: option.split)
qed

text \<open>
  C25. Releasing a managed token removes the reservation, its owner and its three timers, queues
  the notification of the clients and answers Ok; any other token is answered with
  InvalidToken and nothing changes.
\<close>

theorem release_answer:
  assumes r: "reachable e n w" and c: "map_of (w_clients w) cid = Some c"
  shows "Execute_ReleaseTunerReservation q cid w =
    (if managed (w_mgr w) (q_token q) then
       (Inr (), w\<lparr>w_mgr := released (q_token q) (w_mgr w),
          w_queue := w_queue w @ [Manager_onReservationUpdated_slot, Server_onReservationUpdated_slot],
          w_out := w_out w @ delivered w c cid (M_ReleaseTunerReservationResponse
            \<lparr>s_uuid = q_uuid q, s_status = sOk, s_token = q_token q, s_released = True\<rparr>)\<rparr>)
     else
       (Inr (), w\<lparr>w_out := w_out w @ delivered w c cid (M_ReleaseTunerReservationResponse
            \<lparr>s_uuid = q_uuid q, s_status = sInvalidToken, s_token = [], s_released = False\<rparr>)\<rparr>))"
  using c releaseReservation_managed [OF reachable_mgr_ok [OF r], of "q_token q" True]
    releaseReservation_unmanaged [OF reachable_mgr_ok [OF r], of "q_token q" True]
  by (auto simp: Execute_ReleaseTunerReservation_def trm_run sendTo_run delivered_def
      ReleaseTunerReservationResponse_new_def)

section \<open>On the box\<close>


theorem get_all_reservations_witness:
  "Execute_GetAllReservations (GetAllReservations_new ''x'' []) 7 box_live =
    (Inr (), box_live\<lparr>w_out := w_out box_live @ delivered box_live 0 7 (M_GetAllReservationsResponse
       \<lparr>s_uuid = ''x'', s_status = sOk, s_token = [],
         s_reservations = [(''TunerId-0'', [reservation_of (w_mgr box_live) ''u''])]\<rparr>)\<rparr>)"
proof -
  let ?q = "GetAllReservations_new ''x'' []"
  have "filter (\<lambda>x. snd x \<noteq> []) (map (\<lambda>tid. (tid, filter (matches_request ?q) (tuner_reservations (w_mgr box_live) tid)))
      (getTunerIds (w_mgr box_live))) = [(''TunerId-0'', [reservation_of (w_mgr box_live) ''u''])]" by code_simp
  moreover have "GetAllReservations_getFilter ?q ''state'' = []" "q_uuid ?q = ''x''" by code_simp+
  ultimately show ?thesis using get_all_reservations [OF box_live_reachable box_live_client, of ?q] by simp
qed

theorem state_filter_fails_witness:
  "fst (Execute_GetAllReservations (GetAllReservations_new ''x'' [(''state'', ''Live'')]) 7 box_live) = Inr ()"
proof -
  have "GetAllReservations_getFilter (GetAllReservations_new ''x'' [(''state'', ''Live'')]) ''state'' \<noteq> ''''"
    by code_simp
  moreover have "\<forall>tok \<in> tokens_of (w_mgr box_live). tok \<notin> set (getTunerIds (w_mgr box_live))"
    by code_simp
  moreover have "filter (matches_request (GetAllReservations_new ''x'' [(''state'', ''Live'')]))
      (tuner_reservations (w_mgr box_live) ''TunerId-0'') \<noteq> []" by code_simp
  ultimately show ?thesis
    using state_filter_fails [OF box_live_reachable box_live_client] by simp
qed

theorem tuner_ids_fixed_witness: "distinct (getTunerIds (w_mgr box_live)) \<and> length (getTunerIds (w_mgr box_live)) = 2"
  using tuner_ids_fixed [OF box_live_reachable] by blast


theorem validate_answer_witness:
  "fst (Execute_ValidateTunerReservation (ValidateTunerReservation_new ''x'' ''host'' ''u'') 7 box_live) = Inr ()"
  using validate_answer [OF box_live_reachable box_live_client] by simp

theorem release_answer_witness:
  "managed (w_mgr box_live) ''u'' \<and>
   w_mgr (snd (Execute_ReleaseTunerReservation (ReleaseTunerReservation_new ''x'' ''host'' ''u'') 7 box_live)) =
     released ''u'' (w_mgr box_live)"
proof -
  have "managed (w_mgr box_live) ''u''" by code_simp
  moreover have "q_token (ReleaseTunerReservation_new ''x'' ''host'' ''u'') = ''u''"
    by (simp add: ReleaseTunerReservation_new_def)
  ultimately show ?thesis using release_answer [OF box_live_reachable box_live_client] by simp
qed

end
