(* ===== verification/Trm_Json.thy ===== *)
theory Trm_Json
  imports Trm_World "HOL-Library.AList"
begin

text \<open>
  The jansson library as the codec uses it. The library is not part of the sources: its
  operations are the fields of a record the codec takes as an argument, and what its
  documentation promises of them are the laws of the locale \<open>jansson_laws\<close>. A value stands for
  a \<^verbatim>\<open>json_t\<close>, \<open>None\<close> for a null pointer. The order in which an object gives its members is left
  open.
\<close>

unbundle bit_operations_syntax

section \<open>Operations\<close>

record 'j jansson =
  j_object :: 'j
  j_array :: 'j
  j_null :: 'j
  j_integer :: "u64 \<Rightarrow> 'j"
  j_utf8 :: "string \<Rightarrow> bool"
  j_string :: "string \<Rightarrow> 'j option"
  j_set :: "'j \<Rightarrow> string \<Rightarrow> 'j option \<Rightarrow> 'j"
  j_append :: "'j \<Rightarrow> 'j option \<Rightarrow> 'j"
  j_is_object :: "'j \<Rightarrow> bool"
  j_is_array :: "'j \<Rightarrow> bool"
  j_is_null :: "'j \<Rightarrow> bool"
  j_get :: "'j \<Rightarrow> string \<Rightarrow> 'j option"
  j_items :: "'j \<Rightarrow> (string \<times> 'j) list"
  j_elems :: "'j \<Rightarrow> 'j list"
  j_string_value :: "'j \<Rightarrow> string option"
  j_integer_value :: "'j \<Rightarrow> u64"
  j_dump :: "'j \<Rightarrow> u8 list"
  j_load :: "u8 list \<Rightarrow> 'j option"
  j_handle :: "'j \<Rightarrow> nat"
  j_at :: "nat \<Rightarrow> 'j"

text \<open>
  The operations on pointers that may be null: \<^verbatim>\<open>json_object_get\<close>, \<^verbatim>\<open>json_object_foreach\<close>,
  \<^verbatim>\<open>json_array_get\<close>, \<^verbatim>\<open>json_string_value\<close>, \<^verbatim>\<open>json_integer_value\<close>.
\<close>

definition jget :: "'j jansson \<Rightarrow> 'j option \<Rightarrow> string \<Rightarrow> 'j option" where
  "jget J o' k = (case o' of None \<Rightarrow> None | Some v \<Rightarrow> j_get J v k)"

definition jitems :: "'j jansson \<Rightarrow> 'j option \<Rightarrow> (string \<times> 'j) list" where
  "jitems J o' = (case o' of None \<Rightarrow> [] | Some v \<Rightarrow> j_items J v)"

definition jelems :: "'j jansson \<Rightarrow> 'j option \<Rightarrow> 'j list" where
  "jelems J o' = (case o' of None \<Rightarrow> [] | Some v \<Rightarrow> j_elems J v)"

definition jtext :: "'j jansson \<Rightarrow> 'j option \<Rightarrow> string option" where
  "jtext J o' = (case o' of None \<Rightarrow> None | Some v \<Rightarrow> j_string_value J v)"

definition jint :: "'j jansson \<Rightarrow> 'j option \<Rightarrow> u64" where
  "jint J o' = (case o' of None \<Rightarrow> 0 | Some v \<Rightarrow> j_integer_value J v)"

text \<open>
  \<^verbatim>\<open>json_object_get(o, k)\<close> followed by changes through the returned pointer: the member \<open>k\<close> of
  \<open>o\<close> is changed in place.
\<close>

definition jedit :: "'j jansson \<Rightarrow> string \<Rightarrow> ('j \<Rightarrow> 'j) \<Rightarrow> 'j \<Rightarrow> 'j" where
  "jedit J k f o' = (case j_get J o' k of None \<Rightarrow> o' | Some v \<Rightarrow> j_set J o' k (Some (f v)))"

text \<open>\<^verbatim>\<open>c_str()\<close>: what a C function sees of a string ends at the first NUL.\<close>

definition c_str :: "string \<Rightarrow> string" where
  "c_str s = takeWhile (\<lambda>c. c \<noteq> CHR 0x00) s"

definition jstr :: "'j jansson \<Rightarrow> string \<Rightarrow> 'j option" where
  "jstr J s = j_string J (c_str s)"

definition jsets :: "'j jansson \<Rightarrow> string \<Rightarrow> string \<Rightarrow> 'j \<Rightarrow> 'j" where
  "jsets J k s o' = j_set J o' k (jstr J s)"

section \<open>Laws\<close>

definition clean :: "'j jansson \<Rightarrow> string \<Rightarrow> bool" where
  "clean J s \<longleftrightarrow> j_utf8 J s \<and> CHR 0x00 \<notin> set s"

definition ascii :: "string \<Rightarrow> bool" where
  "ascii s \<longleftrightarrow> (\<forall>c \<in> set s. (of_char c :: nat) < 128 \<and> c \<noteq> CHR 0x00)"

locale jansson_laws =
  fixes J :: "'j jansson"
  assumes get_object: "j_get J (j_object J) k = None"
    and is_object: "j_is_object J (j_object J)"
    and is_object_set: "j_is_object J v \<Longrightarrow> j_is_object J (j_set J v k y)"
    and get_set: "j_is_object J v \<Longrightarrow> j_utf8 J k \<Longrightarrow>
      j_get J (j_set J v k (Some x)) k' = (if k' = k then Some x else j_get J v k')"
    and get_no_object: "\<not> j_is_object J v \<Longrightarrow> j_get J v k = None"
    and string_no_object: "j_string J s = Some x \<Longrightarrow> \<not> j_is_object J x"
    and set_null: "j_set J v k None = v"
    and items_get: "map_of (j_items J v) = j_get J v"
    and items_distinct: "distinct (map fst (j_items J v))"
    and is_array: "j_is_array J (j_array J)"
    and is_array_append: "j_is_array J v \<Longrightarrow> j_is_array J (j_append J v y)"
    and elems_array: "j_elems J (j_array J) = []"
    and elems_append: "j_is_array J v \<Longrightarrow> j_elems J (j_append J v (Some x)) = j_elems J v @ [x]"
    and string_utf8: "j_utf8 J s \<Longrightarrow> \<exists>v. j_string J s = Some v \<and> j_string_value J v = Some s"
    and utf8_ascii: "ascii s \<Longrightarrow> j_utf8 J s"
    and integer_value: "j_integer_value J (j_integer J n) = n"
    and is_null: "j_is_null J (j_null J)"
    and load_dump: "j_is_object J v \<Longrightarrow> j_load J (j_dump J v) = Some v"
    and dump_nonempty: "j_dump J v \<noteq> []"
    and at_handle: "j_at J (j_handle J v) = v"
begin

lemmas object_simps [simp] = get_object is_object is_object_set set_null is_array is_array_append
  elems_array elems_append integer_value is_null load_dump dump_nonempty at_handle

lemma clean_str: "clean J s \<Longrightarrow> c_str s = s"
  by (simp add: clean_def c_str_def takeWhile_eq_all_conv) metis

lemma clean_ascii: "ascii s \<Longrightarrow> clean J s"
  by (auto simp: clean_def utf8_ascii ascii_def)

lemma is_object_sets [simp]: "j_is_object J v \<Longrightarrow> j_is_object J (jsets J k s v)"
  by (simp add: jsets_def)

lemma is_object_edit [simp]: "j_is_object J v \<Longrightarrow> j_is_object J (jedit J k f v)"
  by (simp add: jedit_def split: option.split)

text \<open>The value of a clean string.\<close>

definition jv :: "string \<Rightarrow> 'j" where
  "jv s = the (j_string J s)"

lemma clean_string:
  assumes "clean J s"
  shows "jstr J s = Some (jv s)" "j_string_value J (jv s) = Some s" "j_get J (jv s) k = None"
proof -
  obtain v where v: "j_string J s = Some v" "j_string_value J v = Some s"
    using string_utf8 [of s] assms by (auto simp: clean_def)
  show "jstr J s = Some (jv s)" "j_string_value J (jv s) = Some s" "j_get J (jv s) k = None"
    using v string_no_object [OF v(1)] by (simp_all add: jstr_def jv_def clean_str [OF assms] get_no_object)
qed

lemma sets_clean: "clean J s \<Longrightarrow> jsets J k s v = j_set J v k (Some (jv s))"
  by (simp add: jsets_def clean_string)

lemma get_edit:
  assumes "j_is_object J v" "j_utf8 J k"
  shows "j_get J (jedit J k f v) k' =
    (if k' = k then map_option f (j_get J v k) else j_get J v k')"
  using assms by (auto simp: jedit_def get_set split: option.split)

lemma items_single: "j_get J v = [k \<mapsto> x] \<Longrightarrow> j_items J v = [(k, x)]"
proof -
  assume a: "j_get J v = [k \<mapsto> x]"
  then have "map_of (j_items J v) = map_of [(k, x)]" by (simp add: items_get)
  then have "set (j_items J v) = {(k, x)}"
    using map_of_inject_set [OF items_distinct, of "[(k, x)]"] by simp
  moreover have "distinct (j_items J v)" using items_distinct distinct_map by blast
  ultimately show ?thesis by (metis distinct.simps(2) list.set_intros(1) list.set_cases
        list.simps(15) singletonD empty_iff insert_iff list.set(1) list.exhaust set_ConsD)
qed

end

section \<open>A library with these laws\<close>

text \<open>
  JSON values as a datatype, with a serialization of tagged bytes. It shows that the laws can
  hold together and is the library of the concrete examples.
\<close>

datatype json =
    JObject "(string \<times> json) list"
  | JArray "json list"
  | JString string
  | JInteger u64
  | JNull

fun dump_string :: "string \<Rightarrow> u8 list" where
  "dump_string [] = [0]"
| "dump_string (c # s) = 1 # of_nat (of_char c) # dump_string s"

fun load_string :: "u8 list \<Rightarrow> (string \<times> u8 list) option" where
  "load_string (t # b # bs) =
     (if t = 0 then Some ([], b # bs)
      else (case load_string bs of None \<Rightarrow> None | Some (s, r) \<Rightarrow> Some (char_of (unat b) # s, r)))"
| "load_string (t # []) = (if t = 0 then Some ([], []) else None)"
| "load_string [] = None"

fun dump_json :: "json \<Rightarrow> u8 list" where
  "dump_json (JObject kvs) =
     1 # concat (map (\<lambda>kv. 1 # dump_string (fst kv) @ dump_json (snd kv)) kvs) @ [0]"
| "dump_json (JArray vs) = 2 # concat (map (\<lambda>v. 1 # dump_json v) vs) @ [0]"
| "dump_json (JString s) = 3 # dump_string s"
| "dump_json (JInteger n) = 4 # map (\<lambda>i. of_bool (bit n i)) [0..<64]"
| "dump_json JNull = [5]"

fun load_json :: "nat \<Rightarrow> u8 list \<Rightarrow> (json \<times> u8 list) option"
  and load_members :: "nat \<Rightarrow> u8 list \<Rightarrow> ((string \<times> json) list \<times> u8 list) option"
  and load_elems :: "nat \<Rightarrow> u8 list \<Rightarrow> (json list \<times> u8 list) option" where
  "load_json (Suc n) (t # bs) =
     (if t = 1 then map_option (apfst JObject) (load_members n bs)
      else if t = 2 then map_option (apfst JArray) (load_elems n bs)
      else if t = 3 then map_option (apfst JString) (load_string bs)
      else if t = 4 then
        Some (JInteger (horner_sum of_bool 2 (map (\<lambda>b. b \<noteq> 0) (take 64 bs))), drop 64 bs)
      else Some (JNull, bs))"
| "load_json _ _ = None"
| "load_members (Suc n) (t # bs) =
     (if t = 0 then Some ([], bs)
      else Option.bind (load_string bs) (\<lambda>(k, r).
           Option.bind (load_json n r) (\<lambda>(v, r').
           map_option (apfst ((#) (k, v))) (load_members n r'))))"
| "load_members _ _ = None"
| "load_elems (Suc n) (t # bs) =
     (if t = 0 then Some ([], bs)
      else Option.bind (load_json n bs) (\<lambda>(v, r).
           map_option (apfst ((#) v)) (load_elems n r)))"
| "load_elems _ _ = None"

lemma char_of_byte: "char_of (unat (of_nat (of_char c) :: u8)) = c"
proof -
  have "unat (of_nat (of_char c) :: u8) = of_char c mod 256" by (simp only: unat_of_nat) simp
  then show ?thesis by simp
qed

lemma load_dump_string: "load_string (dump_string s @ bs) = Some (s, bs)"
proof (induction s)
  case Nil
  then show ?case by (cases bs) simp_all
next
  case (Cons c s)
  then show ?case by (simp add: char_of_byte)
qed

lemma load_dump_json: "length (dump_json v) \<le> n \<Longrightarrow> load_json n (dump_json v @ bs) = Some (v, bs)"
proof (induction v arbitrary: n bs)
  case (JObject kvs)
  have "length (concat (map (\<lambda>kv. 1 # dump_string (fst kv) @ dump_json (snd kv)) kvs)) < m \<Longrightarrow>
      load_members m (concat (map (\<lambda>kv. 1 # dump_string (fst kv) @ dump_json (snd kv)) kvs) @ 0 # bs) =
        Some (kvs, bs)" for m
    using JObject.IH
  proof (induction kvs arbitrary: m)
    case Nil
    then show ?case by (cases m) simp_all
  next
    case (Cons kv kvs)
    obtain m' where m: "m = Suc m'" using Cons.prems(1) by (cases m) auto
    show ?case using Cons m by (cases kv) (fastforce simp: load_dump_string)
  qed
  then show ?case using JObject.prems by (cases n) auto
next
  case (JArray vs)
  have "length (concat (map (\<lambda>v. 1 # dump_json v) vs)) < m \<Longrightarrow>
      load_elems m (concat (map (\<lambda>v. 1 # dump_json v) vs) @ 0 # bs) = Some (vs, bs)" for m
    using JArray.IH
  proof (induction vs arbitrary: m)
    case Nil
    then show ?case by (cases m) simp_all
  next
    case (Cons v vs)
    obtain m' where m: "m = Suc m'" using Cons.prems(1) by (cases m) auto
    show ?case using Cons m by simp
  qed
  then show ?case using JArray.prems by (cases n) auto
next
  case (JString s)
  then show ?case by (cases n) (simp_all add: load_dump_string)
next
  case (JInteger x)
  have "horner_sum of_bool 2 (map (bit x) [0..<64]) = x"
    by (simp add: horner_sum_bit_eq_take_bit take_bit_word_eq_self)
  then show ?case using JInteger by (cases n) (simp_all add: comp_def)
next
  case JNull
  then show ?case by (cases n) simp_all
qed

text \<open>Bytes as a number, for the handle of a value.\<close>

fun number_of_bytes :: "u8 list \<Rightarrow> nat" where
  "number_of_bytes [] = 1"
| "number_of_bytes (b # bs) = unat b + 256 * number_of_bytes bs"

fun bytes_of_number :: "nat \<Rightarrow> u8 list" where
  "bytes_of_number n = (if n < 256 then [] else of_nat (n mod 256) # bytes_of_number (n div 256))"

declare bytes_of_number.simps [simp del]

lemma number_of_bytes_pos: "0 < number_of_bytes bs"
  by (induction bs) simp_all

lemma bytes_of_number: "bytes_of_number (number_of_bytes bs) = bs"
proof (induction bs)
  case (Cons b bs)
  have b: "unat b < 256" using unsigned_less [of b] by simp
  then show ?case using Cons number_of_bytes_pos [of bs]
    by (subst bytes_of_number.simps) simp
qed (simp add: bytes_of_number.simps)

definition json_load :: "u8 list \<Rightarrow> json option" where
  "json_load bs = map_option fst (load_json (length bs) bs)"

lemma json_load_dump: "json_load (dump_json v) = Some v"
  using load_dump_json [of v "length (dump_json v)" "[]"] by (simp add: json_load_def)

fun json_set :: "json \<Rightarrow> string \<Rightarrow> json option \<Rightarrow> json" where
  "json_set (JObject kvs) k (Some v) = JObject (AList.update k v kvs)"
| "json_set v k _ = v"

fun json_append :: "json \<Rightarrow> json option \<Rightarrow> json" where
  "json_append (JArray vs) (Some v) = JArray (vs @ [v])"
| "json_append v _ = v"

definition json_items :: "json \<Rightarrow> (string \<times> json) list" where
  "json_items v = (case v of JObject kvs \<Rightarrow> AList.clearjunk kvs | _ \<Rightarrow> [])"

definition jansson_ref :: "json jansson" where
  "jansson_ref =
     \<lparr>j_object = JObject [], j_array = JArray [], j_null = JNull, j_integer = JInteger,
      j_utf8 = (\<lambda>_. True), j_string = (\<lambda>s. Some (JString s)), j_set = json_set, j_append = json_append,
      j_is_object = (\<lambda>v. case v of JObject _ \<Rightarrow> True | _ \<Rightarrow> False),
      j_is_array = (\<lambda>v. case v of JArray _ \<Rightarrow> True | _ \<Rightarrow> False), j_is_null = (\<lambda>v. v = JNull),
      j_get = (\<lambda>v. map_of (json_items v)), j_items = json_items,
      j_elems = (\<lambda>v. case v of JArray vs \<Rightarrow> vs | _ \<Rightarrow> []),
      j_string_value = (\<lambda>v. case v of JString s \<Rightarrow> Some s | _ \<Rightarrow> None),
      j_integer_value = (\<lambda>v. case v of JInteger n \<Rightarrow> n | _ \<Rightarrow> 0),
      j_dump = dump_json, j_load = json_load,
      j_handle = (\<lambda>v. number_of_bytes (dump_json v)),
      j_at = (\<lambda>n. case json_load (bytes_of_number n) of Some v \<Rightarrow> v | None \<Rightarrow> JNull)\<rparr>"

interpretation json_ref: jansson_laws jansson_ref
proof
  fix k k' :: string and v x :: json
  show "j_is_object jansson_ref v \<Longrightarrow> j_get jansson_ref (j_set jansson_ref v k (Some x)) k' =
      (if k' = k then Some x else j_get jansson_ref v k')"
    by (cases v) (simp_all add: jansson_ref_def json_items_def map_of_clearjunk update_conv')
  show "map_of (j_items jansson_ref v) = j_get jansson_ref v" by (simp add: jansson_ref_def)
  show "distinct (map fst (j_items jansson_ref v))"
    by (simp add: jansson_ref_def json_items_def split: json.split)
  show "j_dump jansson_ref v \<noteq> []" by (cases v) (simp_all add: jansson_ref_def)
  show "j_at jansson_ref (j_handle jansson_ref v) = v"
    by (simp add: jansson_ref_def bytes_of_number json_load_dump)
  show "j_is_object jansson_ref v \<Longrightarrow> j_load jansson_ref (j_dump jansson_ref v) = Some v"
    by (simp add: jansson_ref_def json_load_dump)
  fix y :: "json option"
  show "j_is_object jansson_ref v \<Longrightarrow> j_is_object jansson_ref (j_set jansson_ref v k y)"
    by (cases v; cases y) (simp_all add: jansson_ref_def)
  show "j_is_array jansson_ref v \<Longrightarrow> j_is_array jansson_ref (j_append jansson_ref v y)"
    by (cases v; cases y) (simp_all add: jansson_ref_def)
  show "j_is_array jansson_ref v \<Longrightarrow>
      j_elems jansson_ref (j_append jansson_ref v (Some x)) = j_elems jansson_ref v @ [x]"
    by (cases v) (simp_all add: jansson_ref_def)
  show "j_set jansson_ref v k None = v" by (cases v) (simp_all add: jansson_ref_def)
  show "\<not> j_is_object jansson_ref v \<Longrightarrow> j_get jansson_ref v k = None"
    by (cases v) (simp_all add: jansson_ref_def json_items_def)
qed (auto simp: jansson_ref_def json_items_def)

end
