(* ===== verification/Trm_Codec.thy ===== *)
theory Trm_Codec
  imports Trm_Json Trm_Execute
begin

text \<open>
  The JSON codec (\<^verbatim>\<open>common/src/JanssonParser.cpp\<close>) and the dispatch on the class of a message
  (\<^verbatim>\<open>JsonDecoder.cpp\<close>). An encoder builds the object of a message and writes it; a decoder reads
  the members it needs and throws, or worse, when they are missing. Building a \<^verbatim>\<open>std::string\<close> from
  a null pointer throws \<^verbatim>\<open>std::logic_error\<close>; \<^verbatim>\<open>Enum::at\<close> reads its argument through
  \<^verbatim>\<open>std::string::compare\<close>, which follows the null pointer. Arguments of a call are evaluated from
  the left. The status message of a response is no part of the model's responses and is an
  argument of the encoder. Freeing, printing and the log are left out.
\<close>

section \<open>Encoding the parts\<close>

definition JsonEncode_Activity :: "'j jansson \<Rightarrow> Activity \<Rightarrow> 'j \<Rightarrow> 'j" where
  "JsonEncode_Activity J a parent =
     (let p1 = jsets J ''name'' (Activity_name (a_enum a)) parent in
      if Activity_hasDetails a then
        jedit J ''details'' (fold (\<lambda>(k, v). jsets J (c_str k) v) (a_details a))
          (j_set J p1 ''details'' (Some (j_object J)))
      else p1)"

definition JsonEncode_TunerReservation :: "'j jansson \<Rightarrow> TunerReservation \<Rightarrow> 'j \<Rightarrow> 'j" where
  "JsonEncode_TunerReservation J r parent =
     (let p1 = (if r_token r \<noteq> '''' then jsets J ''reservationToken'' (r_token r) parent else parent);
          p2 = jsets J ''device'' (r_device r) p1;
          p3 = jsets J ''serviceLocator'' (r_serviceLocator r) p2;
          p4 = j_set J p3 ''startTime'' (Some (j_integer J (r_startTime r)));
          p5 = j_set J p4 ''duration'' (Some (j_integer J (r_duration r)));
          p6 = j_set J p5 ''activity'' (Some (j_object J));
          p7 = j_set J p6 ''customAttributes''
                 (Some (case r_customAttributes r of Some h \<Rightarrow> j_at J h | None \<Rightarrow> j_null J))
      in jedit J ''activity'' (JsonEncode_Activity J (r_activity r)) p7)"

definition JsonEncode_DetailedTunerState :: "'j jansson \<Rightarrow> DetailedTunerState \<Rightarrow> 'j \<Rightarrow> 'j" where
  "JsonEncode_DetailedTunerState J d parent =
     (let p1 = jsets J ''state'' (d_state d) parent;
          p2 = (if d_serviceLocator d \<noteq> '''' then
                  jedit J ''owners''
                    (fold (\<lambda>(k, v) p. jedit J (c_str k) (jsets J ''device'' v)
                                        (j_set J p (c_str k) (Some (j_object J)))) (d_owners d))
                    (j_set J (jsets J ''serviceLocator'' (d_serviceLocator d) p1) ''owners'' (Some (j_object J)))
                else p1)
      in if d_reservedDeviceId d \<noteq> '''' then jsets J ''reservedDeviceId'' (d_reservedDeviceId d) p2
         else p2)"

text \<open>The loops that fill a JSON array with objects, and an object with one member per tuner.\<close>

definition JsonEncode_reservations :: "'j jansson \<Rightarrow> TunerReservation list \<Rightarrow> 'j \<Rightarrow> 'j" where
  "JsonEncode_reservations J rs =
     fold (\<lambda>r a. j_append J a (Some (JsonEncode_TunerReservation J r (j_object J)))) rs"

definition JsonEncode_detailedStates ::
  "'j jansson \<Rightarrow> (string, DetailedTunerState) smap \<Rightarrow> 'j \<Rightarrow> 'j" where
  "JsonEncode_detailedStates J ds =
     fold (\<lambda>(tid, d) p. jedit J (c_str tid) (JsonEncode_DetailedTunerState J d)
                          (j_set J p (c_str tid) (Some (j_object J)))) ds"

definition JsonEncode_SimpleTRMRequest ::
  "'j jansson \<Rightarrow> 'a SimpleTRMRequest_scheme \<Rightarrow> 'j \<Rightarrow> 'j" where
  "JsonEncode_SimpleTRMRequest J q parent =
     (let p1 = jsets J ''requestId'' (q_uuid q) parent;
          p2 = (if q_device q \<noteq> '''' then jsets J ''device'' (q_device q) p1 else p1)
      in if q_token q \<noteq> '''' then jsets J ''reservationToken'' (q_token q) p2 else p2)"

definition JsonEncode_SimpleTRMResponse ::
  "'j jansson \<Rightarrow> string \<Rightarrow> 'a SimpleTRMResponse_scheme \<Rightarrow> 'j \<Rightarrow> 'j" where
  "JsonEncode_SimpleTRMResponse J details s parent =
     (let p1 = jsets J ''requestId'' (s_uuid s) parent;
          p2 = jsets J ''status'' (ResponseStatus_name (s_status s)) p1;
          p3 = (if details \<noteq> '''' then jsets J ''statusMessage'' details p2 else p2)
      in if s_token s \<noteq> '''' then jsets J ''reservationToken'' (s_token s) p3 else p3)"

text \<open>The frame of every encoder: one object with the class name as its only member.\<close>

definition JsonEncode_class :: "'j jansson \<Rightarrow> Klass \<Rightarrow> ('j \<Rightarrow> 'j) \<Rightarrow> u8 list" where
  "JsonEncode_class J kl f =
     j_dump J (jedit J (Klass_name kl) f (j_set J (j_object J) (Klass_name kl) (Some (j_object J))))"

section \<open>Encoding messages\<close>

definition JsonEncode_ReserveTuner :: "'j jansson \<Rightarrow> ReserveTuner \<Rightarrow> u8 list" where
  "JsonEncode_ReserveTuner J q =
     JsonEncode_class J kReserveTuner (\<lambda>p.
       let p1 = jsets J ''requestId'' (q_uuid q) p;
           p2 = jsets J ''device'' (q_device q) p1;
           p3 = j_set J p2 ''tunerReservation'' (Some (j_object J));
           p4 = jsets J ''resurrect'' (q_resurrect q) p3
       in jedit J ''tunerReservation'' (JsonEncode_TunerReservation J (q_tunerReservation q)) p4)"

definition JsonEncode_ReserveTunerResponse ::
  "'j jansson \<Rightarrow> string \<Rightarrow> ReserveTunerResponse \<Rightarrow> u8 list" where
  "JsonEncode_ReserveTunerResponse J details s =
     JsonEncode_class J kReserveTunerResponse (\<lambda>p.
       let p1 = jsets J ''requestId'' (s_uuid s) p;
           p2 = jsets J ''status'' (ResponseStatus_name (s_status s)) p1;
           p3 = jsets J ''statusMessage'' details p2;
           p4 = (if r_token (s_tunerReservation s) \<noteq> ''''
                 then j_set J p3 ''tunerReservation'' (Some (j_object J)) else p3);
           p5 = (if length (s_conflicts s) \<noteq> 0
                 then j_set J p4 ''conflicts'' (Some (j_array J)) else p4);
           p6 = jedit J ''tunerReservation'' (JsonEncode_TunerReservation J (s_tunerReservation s)) p5
       in jedit J ''conflicts'' (JsonEncode_reservations J (s_conflicts s)) p6)"

definition JsonEncode_Request :: "'j jansson \<Rightarrow> Klass \<Rightarrow> SimpleTRMRequest \<Rightarrow> u8 list" where
  "JsonEncode_Request J kl q = JsonEncode_class J kl (JsonEncode_SimpleTRMRequest J q)"

definition bool_text :: "bool \<Rightarrow> string" where
  "bool_text b = (if b then ''true'' else ''false'')"

definition JsonEncode_ReleaseTunerReservationResponse ::
  "'j jansson \<Rightarrow> string \<Rightarrow> ReleaseTunerReservationResponse \<Rightarrow> u8 list" where
  "JsonEncode_ReleaseTunerReservationResponse J details s =
     JsonEncode_class J kReleaseTunerReservationResponse (\<lambda>p.
       jsets J ''released'' (bool_text (s_released s)) (JsonEncode_SimpleTRMResponse J details s p))"

definition JsonEncode_ValidateTunerReservationResponse ::
  "'j jansson \<Rightarrow> string \<Rightarrow> ValidateTunerReservationResponse \<Rightarrow> u8 list" where
  "JsonEncode_ValidateTunerReservationResponse J details s =
     JsonEncode_class J kValidateTunerReservationResponse (\<lambda>p.
       jsets J ''valid'' (bool_text (s_valid s)) (JsonEncode_SimpleTRMResponse J details s p))"

definition JsonEncode_CancelRecordingResponse ::
  "'j jansson \<Rightarrow> string \<Rightarrow> CancelRecordingResponse \<Rightarrow> u8 list" where
  "JsonEncode_CancelRecordingResponse J details s =
     JsonEncode_class J kCancelRecordingResponse (\<lambda>p.
       jsets J ''cancelled'' (bool_text (s_canceled s)) (JsonEncode_SimpleTRMResponse J details s p))"

definition JsonEncode_CancelLiveResponse ::
  "'j jansson \<Rightarrow> string \<Rightarrow> CancelLiveResponse \<Rightarrow> u8 list" where
  "JsonEncode_CancelLiveResponse J details s =
     JsonEncode_class J kCancelLiveResponse (\<lambda>p.
       jsets J ''cancelled'' (bool_text (s_liveCanceled s)) (JsonEncode_SimpleTRMResponse J details s p))"

definition JsonEncode_CancelLive :: "'j jansson \<Rightarrow> CancelLive \<Rightarrow> u8 list" where
  "JsonEncode_CancelLive J q =
     JsonEncode_class J kCancelLive (\<lambda>p.
       jsets J ''serviceLocator'' (q_serviceLocator q) (JsonEncode_SimpleTRMRequest J q p))"

definition JsonEncode_strings :: "'j jansson \<Rightarrow> string list \<Rightarrow> 'j \<Rightarrow> 'j" where
  "JsonEncode_strings J ss = fold (\<lambda>s a. j_append J a (jstr J s)) ss"

definition JsonEncode_GetAllTunerIdsResponse ::
  "'j jansson \<Rightarrow> string \<Rightarrow> GetAllTunerIdsResponse \<Rightarrow> u8 list" where
  "JsonEncode_GetAllTunerIdsResponse J details s =
     JsonEncode_class J kGetAllTunerIdsResponse (\<lambda>p.
       jedit J ''tunerIds'' (JsonEncode_strings J (s_tunerIds s))
         (j_set J (JsonEncode_SimpleTRMResponse J details s p) ''tunerIds'' (Some (j_array J))))"

definition JsonEncode_GetAllTunerStatesResponse ::
  "'j jansson \<Rightarrow> string \<Rightarrow> GetAllTunerStatesResponse \<Rightarrow> u8 list" where
  "JsonEncode_GetAllTunerStatesResponse J details s =
     JsonEncode_class J kGetAllTunerStatesResponse (\<lambda>p.
       let p1 = j_set J (JsonEncode_SimpleTRMResponse J details s p) ''allStates'' (Some (j_object J));
           p2 = jedit J ''allStates'' (fold (\<lambda>(tid, st). jsets J (c_str tid) st) (s_tunerStates s)) p1;
           p3 = j_set J p2 ''detailedStates'' (Some (j_object J))
       in jedit J ''detailedStates'' (JsonEncode_detailedStates J (s_tunerDetailedStates s)) p3)"

definition JsonEncode_filters :: "'j jansson \<Rightarrow> (string, string) smap \<Rightarrow> 'j \<Rightarrow> 'j" where
  "JsonEncode_filters J fs =
     fold (\<lambda>(k, v) a. j_append J a (Some (jsets J (c_str k) v (j_object J)))) fs"

definition JsonEncode_GetAllReservations :: "'j jansson \<Rightarrow> GetAllReservations \<Rightarrow> u8 list" where
  "JsonEncode_GetAllReservations J q =
     JsonEncode_class J kGetAllReservations (\<lambda>p.
       jedit J ''filters'' (JsonEncode_filters J (q_filters q))
         (j_set J (JsonEncode_SimpleTRMRequest J q p) ''filters'' (Some (j_array J))))"

definition JsonEncode_GetAllReservationsResponse ::
  "'j jansson \<Rightarrow> string \<Rightarrow> GetAllReservationsResponse \<Rightarrow> u8 list" where
  "JsonEncode_GetAllReservationsResponse J details s =
     JsonEncode_class J kGetAllReservationsResponse (\<lambda>p.
       jedit J ''allReservations''
         (fold (\<lambda>(tid, rs) o'. jedit J (c_str tid) (JsonEncode_reservations J rs)
                                 (j_set J o' (c_str tid) (Some (j_array J)))) (s_reservations s))
         (j_set J (JsonEncode_SimpleTRMResponse J details s p) ''allReservations'' (Some (j_object J))))"

definition JsonEncode_GetVersionResponse ::
  "'j jansson \<Rightarrow> string \<Rightarrow> GetVersionResponse \<Rightarrow> u8 list" where
  "JsonEncode_GetVersionResponse J details s =
     JsonEncode_class J kGetVersionResponse (\<lambda>p.
       jsets J ''version'' (s_version s) (JsonEncode_SimpleTRMResponse J details s p))"

definition JsonEncode_UpdateTunerActivityStatusResponse ::
  "'j jansson \<Rightarrow> string \<Rightarrow> UpdateTunerActivityStatusResponse \<Rightarrow> u8 list" where
  "JsonEncode_UpdateTunerActivityStatusResponse J details s =
     JsonEncode_class J kUpdateTunerActivityStatusResponse (\<lambda>p.
       let p1 = jsets J ''requestId'' (s_uuid s) p;
           p2 = jsets J ''status'' (ResponseStatus_name (s_status s)) p1
       in if details \<noteq> '''' then jsets J ''statusMessage'' details p2 else p2)"

definition JsonEncode_UpdateTunerActivityStatus ::
  "'j jansson \<Rightarrow> UpdateTunerActivityStatus \<Rightarrow> u8 list" where
  "JsonEncode_UpdateTunerActivityStatus J q =
     JsonEncode_class J kUpdateTunerActivityStatus (\<lambda>p.
       let p1 = jsets J ''requestId'' (q_uuid q) p;
           p2 = jsets J ''device'' (q_device q) p1;
           p3 = jsets J ''tunerActivityStatus'' (q_activityStatus q) p2;
           p4 = jsets J ''lastActivityTimeStamp'' (q_lastActivityTimeStamp q) p3
       in jsets J ''lastActivityAction'' (q_lastActivityAction q) p4)"

definition JsonEncode_NotifyTunerReservationRelease ::
  "'j jansson \<Rightarrow> NotifyTunerReservationRelease \<Rightarrow> u8 list" where
  "JsonEncode_NotifyTunerReservationRelease J n =
     JsonEncode_class J kNotifyTunerReservationRelease (\<lambda>p.
       let p1 = jsets J ''requestId'' (n_uuid n) p;
           p2 = jsets J ''reservationToken'' (n_token n) p1
       in jsets J ''reason'' (n_reason n) p2)"

definition JsonEncode_NotifyTunerReservationUpdate ::
  "'j jansson \<Rightarrow> NotifyTunerReservationUpdate \<Rightarrow> u8 list" where
  "JsonEncode_NotifyTunerReservationUpdate J n =
     JsonEncode_class J kNotifyTunerReservationUpdate (\<lambda>p.
       let p1 = jsets J ''requestId'' (n_uuid n) p;
           p2 = j_set J p1 ''tunerReservation'' (Some (j_object J))
       in jedit J ''tunerReservation'' (JsonEncode_TunerReservation J (n_updatedReservation n)) p2)"

definition JsonEncode_NotifyTunerReservationConflicts ::
  "'j jansson \<Rightarrow> NotifyTunerReservationConflicts \<Rightarrow> u8 list" where
  "JsonEncode_NotifyTunerReservationConflicts J n =
     JsonEncode_class J kNotifyTunerReservationConflicts (\<lambda>p.
       let p1 = jsets J ''requestId'' (n_uuid n) p;
           p2 = j_set J p1 ''tunerReservation'' (Some (j_object J));
           p3 = (if length (n_conflicts n) \<noteq> 0
                 then j_set J p2 ''conflicts'' (Some (j_array J)) else p2);
           p4 = jedit J ''tunerReservation'' (JsonEncode_TunerReservation J (n_requestedReservation n)) p3
       in jedit J ''conflicts'' (JsonEncode_reservations J (n_conflicts n)) p4)"

definition JsonEncode_NotifyTunerStatesUpdate ::
  "'j jansson \<Rightarrow> NotifyTunerStatesUpdate \<Rightarrow> u8 list" where
  "JsonEncode_NotifyTunerStatesUpdate J n =
     JsonEncode_class J kNotifyTunerStatesUpdate (\<lambda>p.
       let p1 = jsets J ''requestId'' (n_uuid n) p;
           p2 = j_set J p1 ''detailedStates'' (Some (j_object J))
       in jedit J ''detailedStates'' (JsonEncode_detailedStates J (n_tunerDetailedStates n)) p2)"

definition JsonEncode_NotifyTunerPretune :: "'j jansson \<Rightarrow> NotifyTunerPretune \<Rightarrow> u8 list" where
  "JsonEncode_NotifyTunerPretune J n =
     JsonEncode_class J kNotifyTunerPretune (\<lambda>p.
       jsets J ''serviceLocator'' (n_serviceLocator n) (jsets J ''requestId'' (n_uuid n) p))"

definition JsonEncode_event :: "'j jansson \<Rightarrow> NotifyClientConnectionEvent \<Rightarrow> 'j \<Rightarrow> 'j" where
  "JsonEncode_event J n p =
     j_set J (jsets J ''clientIP'' (n_clientIP n) (jsets J ''eventName'' (n_eventName n) p))
       ''timeStamp'' (Some (j_integer J (n_timeStamp n)))"

definition JsonEncode_NotifyClientConnectionEvent ::
  "'j jansson \<Rightarrow> NotifyClientConnectionEvent \<Rightarrow> u8 list" where
  "JsonEncode_NotifyClientConnectionEvent J n =
     JsonEncode_class J kNotifyClientConnectionEvent (JsonEncode_event J n)"

definition JsonEncode_GetTRMConnectionEvents ::
  "'j jansson \<Rightarrow> string \<Rightarrow> GetTRMConnectionEvents \<Rightarrow> u8 list" where
  "JsonEncode_GetTRMConnectionEvents J details s =
     JsonEncode_class J kGetTRMConnectionEvents (\<lambda>p.
       jedit J ''connectionEvents''
         (fold (\<lambda>n a. j_append J a (Some (JsonEncode_event J n (j_object J)))) (s_conEventList s))
         (j_set J (JsonEncode_SimpleTRMResponse J details s p) ''connectionEvents'' (Some (j_array J))))"

definition JsonEncode_GetAllConnectedDeviceIdsResponse ::
  "'j jansson \<Rightarrow> string \<Rightarrow> GetAllConnectedDeviceIdsResponse \<Rightarrow> u8 list" where
  "JsonEncode_GetAllConnectedDeviceIdsResponse J details s =
     JsonEncode_class J kGetAllConnectedDeviceIdsResponse (\<lambda>p.
       jedit J ''DeviceIds'' (JsonEncode_strings J (s_conDeviceIDs s))
         (j_set J (JsonEncode_SimpleTRMResponse J details s p) ''DeviceIds'' (Some (j_array J))))"

text \<open>\<^verbatim>\<open>JsonEncoder::encode\<close>: the overload for the class of the message.\<close>

fun JsonEncode :: "'j jansson \<Rightarrow> string \<Rightarrow> message \<Rightarrow> u8 list" where
  "JsonEncode J details (M_ReserveTuner q) = JsonEncode_ReserveTuner J q"
| "JsonEncode J details (M_ReserveTunerResponse s) = JsonEncode_ReserveTunerResponse J details s"
| "JsonEncode J details (M_ReleaseTunerReservation q) = JsonEncode_Request J kReleaseTunerReservation q"
| "JsonEncode J details (M_ReleaseTunerReservationResponse s) =
     JsonEncode_ReleaseTunerReservationResponse J details s"
| "JsonEncode J details (M_ValidateTunerReservation q) = JsonEncode_Request J kValidateTunerReservation q"
| "JsonEncode J details (M_ValidateTunerReservationResponse s) =
     JsonEncode_ValidateTunerReservationResponse J details s"
| "JsonEncode J details (M_CancelRecording q) = JsonEncode_Request J kCancelRecording q"
| "JsonEncode J details (M_CancelRecordingResponse s) = JsonEncode_CancelRecordingResponse J details s"
| "JsonEncode J details (M_CancelLive q) = JsonEncode_CancelLive J q"
| "JsonEncode J details (M_CancelLiveResponse s) = JsonEncode_CancelLiveResponse J details s"
| "JsonEncode J details (M_GetAllTunerIds q) = JsonEncode_Request J kGetAllTunerIds q"
| "JsonEncode J details (M_GetAllTunerIdsResponse s) = JsonEncode_GetAllTunerIdsResponse J details s"
| "JsonEncode J details (M_GetAllTunerStates q) = JsonEncode_Request J kGetAllTunerStates q"
| "JsonEncode J details (M_GetAllTunerStatesResponse s) = JsonEncode_GetAllTunerStatesResponse J details s"
| "JsonEncode J details (M_GetAllReservations q) = JsonEncode_GetAllReservations J q"
| "JsonEncode J details (M_GetAllReservationsResponse s) =
     JsonEncode_GetAllReservationsResponse J details s"
| "JsonEncode J details (M_GetVersion q) = JsonEncode_Request J kGetVersion q"
| "JsonEncode J details (M_GetVersionResponse s) = JsonEncode_GetVersionResponse J details s"
| "JsonEncode J details (M_NotifyTunerReservationRelease n) = JsonEncode_NotifyTunerReservationRelease J n"
| "JsonEncode J details (M_NotifyTunerReservationUpdate n) = JsonEncode_NotifyTunerReservationUpdate J n"
| "JsonEncode J details (M_NotifyTunerReservationConflicts n) =
     JsonEncode_NotifyTunerReservationConflicts J n"
| "JsonEncode J details (M_NotifyTunerStatesUpdate n) = JsonEncode_NotifyTunerStatesUpdate J n"
| "JsonEncode J details (M_NotifyTunerPretune n) = JsonEncode_NotifyTunerPretune J n"
| "JsonEncode J details (M_UpdateTunerActivityStatus q) = JsonEncode_UpdateTunerActivityStatus J q"
| "JsonEncode J details (M_UpdateTunerActivityStatusResponse s) =
     JsonEncode_UpdateTunerActivityStatusResponse J details s"
| "JsonEncode J details (M_NotifyClientConnectionEvent n) = JsonEncode_NotifyClientConnectionEvent J n"
| "JsonEncode J details (M_GetTRMConnectionEvents s) = JsonEncode_GetTRMConnectionEvents J details s"
| "JsonEncode J details (M_GetAllConnectedDeviceIdsResponse s) =
     JsonEncode_GetAllConnectedDeviceIdsResponse J details s"

end
