(* ===== verification/Trm_Decode.thy ===== *)
theory Trm_Decode
  imports Trm_Codec
begin

text \<open>
  The decoders of \<^verbatim>\<open>JanssonParser.cpp\<close> and \<^verbatim>\<open>JsonDecoder::decode\<close>. \<open>eas\<close> tells whether the file
  \<^verbatim>\<open>/tmp/testTRMEAS\<close> exists. A decoder returns the message its source fills in, starting from the
  default constructor.
\<close>

section \<open>Decoding the parts\<close>

text \<open>A \<^verbatim>\<open>const char *\<close> as an argument of type \<^verbatim>\<open>std::string\<close>, and of \<^verbatim>\<open>Enum::at\<close>.\<close>

definition str_arg :: "string option \<Rightarrow> string trm" where
  "str_arg s = (case s of None \<Rightarrow> throw LogicError | Some x \<Rightarrow> ret x)"

definition enum_arg :: "string option \<Rightarrow> string trm" where
  "enum_arg s = (case s of None \<Rightarrow> throw UndefinedBehaviour | Some x \<Rightarrow> ret x)"

definition text_or :: "string \<Rightarrow> string option \<Rightarrow> string" where
  "text_or d s = (case s of None \<Rightarrow> d | Some x \<Rightarrow> x)"

definition JsonDecode_detail :: "'j jansson \<Rightarrow> string \<times> 'j \<Rightarrow> Activity \<Rightarrow> Activity trm" where
  "JsonDecode_detail J kv a =
     mbind (str_arg (jtext J (Some (snd kv)))) (\<lambda>v. ret (Activity_addDetail (fst kv) v a))"

definition JsonDecode_Activity :: "'j jansson \<Rightarrow> bool \<Rightarrow> 'j option \<Rightarrow> Activity trm" where
  "JsonDecode_Activity J eas parent =
     mbind (enum_arg (jtext J (jget J parent ''name''))) (\<lambda>name.
     mbind (mfold (jitems J (jget J parent ''details'')) (JsonDecode_detail J)
              (Activity_new (Activity_at name))) (\<lambda>a.
       ret (if eas \<and> name = ''Live'' then Activity_addDetail ''eas'' ''true'' a else a)))"

text \<open>\<^verbatim>\<open>SpecVersion\<close> compares major and minor as one number.\<close>

definition SpecVersion_toInt :: "nat \<Rightarrow> nat \<Rightarrow> nat" where
  "SpecVersion_toInt major minor = or (push_bit 16 major) minor"

definition liveDuration :: "u64 trm" where
  "liveDuration =
     mbind GetCurrentEpoch (\<lambda>now.
     mseq (massert (0x7FFFFFFFFFFFFFFF > 2 * now))
       (mbind GetCurrentEpoch (\<lambda>now'. ret (0x7FFFFFFFFFFFFFFF - 2 * now'))))"

definition JsonDecode_duration :: "'j jansson \<Rightarrow> 'j option \<Rightarrow> Activity \<Rightarrow> u64 trm" where
  "JsonDecode_duration J JT_duration activity =
     (case JT_duration of
        Some v \<Rightarrow> ret (j_integer_value J v)
      | None \<Rightarrow>
          if SpecVersion_toInt 2 3 > SpecVersion_toInt 2 1 \<and> Activity_eq activity kLive
          then liveDuration else ret 0)"

definition JsonDecode_customAttributes :: "'j jansson \<Rightarrow> 'j option \<Rightarrow> nat option" where
  "JsonDecode_customAttributes J JT_customAttributes =
     (case JT_customAttributes of
        None \<Rightarrow> None
      | Some v \<Rightarrow> if j_is_null J v then None else Some (j_handle J v))"

definition JsonDecode_TunerReservation ::
  "'j jansson \<Rightarrow> bool \<Rightarrow> 'j option \<Rightarrow> TunerReservation trm" where
  "JsonDecode_TunerReservation J eas parent =
     (let token = jtext J (jget J parent ''reservationToken'');
          device = jtext J (jget J parent ''device'');
          serviceLocator = jtext J (jget J parent ''serviceLocator'');
          attributes = JsonDecode_customAttributes J (jget J parent ''customAttributes'')
      in mbind (case jget J parent ''startTime'' of
                  Some v \<Rightarrow> ret (j_integer_value J v) | None \<Rightarrow> GetCurrentEpoch) (\<lambda>startTime.
         mbind (JsonDecode_Activity J eas (jget J parent ''activity'')) (\<lambda>activity.
         mbind (JsonDecode_duration J (jget J parent ''duration'') activity) (\<lambda>duration.
         mbind (str_arg serviceLocator) (\<lambda>locator.
           ret (TunerReservation_new (text_or '''' device) locator startTime duration activity
                  (text_or '''' token) attributes))))))"

text \<open>The owners, up to the first one without a device; whether all were read.\<close>

fun JsonDecode_owners ::
  "'j jansson \<Rightarrow> (string \<times> 'j) list \<Rightarrow> DetailedTunerState \<Rightarrow> bool \<times> DetailedTunerState" where
  "JsonDecode_owners J [] d = (True, d)"
| "JsonDecode_owners J ((k, v) # kvs) d =
     (case jtext J (jget J (Some v) ''device'') of
        None \<Rightarrow> (False, d)
      | Some device \<Rightarrow> JsonDecode_owners J kvs (DetailedTunerState_addTunerOwner k device d))"

definition JsonDecode_DetailedTunerState :: "'j jansson \<Rightarrow> 'j option \<Rightarrow> DetailedTunerState trm" where
  "JsonDecode_DetailedTunerState J parent =
     mbind (str_arg (jtext J (jget J parent ''state''))) (\<lambda>state.
     mbind (case jget J parent ''serviceLocator'' of
              None \<Rightarrow> ret '''' | Some v \<Rightarrow> str_arg (jtext J (Some v))) (\<lambda>serviceLocator.
       let (all, d) = JsonDecode_owners J (jitems J (jget J parent ''owners''))
             (DetailedTunerState_setState state serviceLocator DetailedTunerState_default)
       in if \<not> all then ret d
          else (case jget J parent ''reservedDeviceId'' of
                  None \<Rightarrow> ret d
                | Some v \<Rightarrow> mbind (str_arg (jtext J (Some v))) (\<lambda>i. ret (d\<lparr>d_reservedDeviceId := i\<rparr>)))))"

definition JsonDecode_reservations ::
  "'j jansson \<Rightarrow> bool \<Rightarrow> 'j option \<Rightarrow> TunerReservation list \<Rightarrow> TunerReservation list trm" where
  "JsonDecode_reservations J eas arr rs =
     mfold (jelems J arr)
       (\<lambda>v rs. mbind (JsonDecode_TunerReservation J eas (Some v)) (\<lambda>r. ret (rs @ [r]))) rs"

text \<open>The frame of every decoder: the value of the only member of the parent.\<close>

definition JsonDecode_body :: "'j jansson \<Rightarrow> 'j \<Rightarrow> 'm \<Rightarrow> ('j \<Rightarrow> 'm trm) \<Rightarrow> 'm trm" where
  "JsonDecode_body J parent message f =
     (case j_items J parent of
        [] \<Rightarrow> ret message
      | kv # _ \<Rightarrow> mseq (massert (length (j_items J parent) = 1)) (f (snd kv)))"

definition JsonDecode_SimpleTRMRequest :: "'j jansson \<Rightarrow> 'j \<Rightarrow> SimpleTRMRequest trm" where
  "JsonDecode_SimpleTRMRequest J v =
     mbind (str_arg (jtext J (jget J (Some v) ''requestId''))) (\<lambda>requestId.
       ret \<lparr>q_uuid = requestId, q_device = text_or '''' (jtext J (jget J (Some v) ''device'')),
            q_token = text_or '''' (jtext J (jget J (Some v) ''reservationToken''))\<rparr>)"

definition JsonDecode_SimpleTRMResponse :: "'j jansson \<Rightarrow> 'j \<Rightarrow> SimpleTRMResponse trm" where
  "JsonDecode_SimpleTRMResponse J v =
     mbind (str_arg (jtext J (jget J (Some v) ''requestId''))) (\<lambda>requestId.
     mbind (enum_arg (jtext J (jget J (Some v) ''status''))) (\<lambda>status.
       ret \<lparr>s_uuid = requestId, s_status = ResponseStatus_at status,
            s_token = text_or '''' (jtext J (jget J (Some v) ''reservationToken''))\<rparr>))"

section \<open>Decoding requests\<close>

definition ReserveTuner_default :: ReserveTuner where
  "ReserveTuner_default =
     \<lparr>q_uuid = '''', q_device = '''', q_tunerReservation = TunerReservation_default, q_resurrect = ''''\<rparr>"

definition JsonDecode_ReserveTuner :: "'j jansson \<Rightarrow> bool \<Rightarrow> 'j \<Rightarrow> ReserveTuner trm" where
  "JsonDecode_ReserveTuner J eas parent =
     JsonDecode_body J parent ReserveTuner_default (\<lambda>v.
       let requestId = jtext J (jget J (Some v) ''requestId'');
           device = jtext J (jget J (Some v) ''device'');
           resurrect = (case jget J (Some v) ''resurrect'' of
                          None \<Rightarrow> Some ''false'' | Some x \<Rightarrow> jtext J (Some x))
       in mseq (massert (resurrect \<noteq> None))
            (if device = None then ret ReserveTuner_default
             else mbind (JsonDecode_TunerReservation J eas (jget J (Some v) ''tunerReservation''))
                    (\<lambda>r. mbind (str_arg requestId) (\<lambda>uuid.
                           ret (ReserveTuner_new uuid (the device) r (the resurrect))))))"

definition JsonDecode_Request :: "'j jansson \<Rightarrow> 'j \<Rightarrow> SimpleTRMRequest trm" where
  "JsonDecode_Request J parent =
     JsonDecode_body J parent \<lparr>q_uuid = '''', q_device = '''', q_token = ''''\<rparr>
       (JsonDecode_SimpleTRMRequest J)"

definition JsonDecode_CancelLive :: "'j jansson \<Rightarrow> 'j \<Rightarrow> CancelLive trm" where
  "JsonDecode_CancelLive J parent =
     JsonDecode_body J parent (CancelLive_new '''' '''' '''') (\<lambda>v.
       mbind (JsonDecode_SimpleTRMRequest J v) (\<lambda>q.
       mbind (str_arg (jtext J (jget J (Some v) ''serviceLocator''))) (\<lambda>locator.
         ret \<lparr>q_uuid = q_uuid q, q_device = q_device q, q_token = q_token q,
              q_serviceLocator = locator\<rparr>)))"

definition addFilter :: "string \<Rightarrow> string \<Rightarrow> (string, string) smap \<Rightarrow> (string, string) smap" where
  "addFilter k v fs = smap_put k v fs"

definition JsonDecode_filter ::
  "'j jansson \<Rightarrow> 'j \<Rightarrow> (string, string) smap \<Rightarrow> (string, string) smap trm" where
  "JsonDecode_filter J v fs =
     mbind (case jget J (Some v) ''device'' of
              None \<Rightarrow> ret fs
            | Some x \<Rightarrow> mbind (str_arg (jtext J (Some x))) (\<lambda>s. ret (addFilter ''device'' s fs))) (\<lambda>fs1.
     mbind (case jget J (jget J (Some v) ''activity'') ''name'' of
              None \<Rightarrow> ret fs1
            | Some x \<Rightarrow> mbind (str_arg (jtext J (Some x))) (\<lambda>s. ret (addFilter ''activity'' s fs1))) (\<lambda>fs2.
       case jget J (Some v) ''state'' of
         None \<Rightarrow> ret fs2
       | Some x \<Rightarrow> mbind (str_arg (jtext J (Some x))) (\<lambda>s. ret (addFilter ''state'' s fs2))))"

definition JsonDecode_GetAllReservations :: "'j jansson \<Rightarrow> 'j \<Rightarrow> GetAllReservations trm" where
  "JsonDecode_GetAllReservations J parent =
     JsonDecode_body J parent (GetAllReservations_new '''' []) (\<lambda>v.
       mbind (JsonDecode_SimpleTRMRequest J v) (\<lambda>q.
       mbind (mfold (jelems J (jget J (Some v) ''filters'')) (JsonDecode_filter J) []) (\<lambda>fs.
         ret \<lparr>q_uuid = q_uuid q, q_device = q_device q, q_token = q_token q,
              q_filterDevice = '''', q_filters = fs\<rparr>)))"

definition JsonDecode_UpdateTunerActivityStatus ::
  "'j jansson \<Rightarrow> 'j \<Rightarrow> UpdateTunerActivityStatus trm" where
  "JsonDecode_UpdateTunerActivityStatus J parent =
     JsonDecode_body J parent
       \<lparr>q_uuid = '''', q_device = '''', q_activityStatus = '''', q_lastActivityTimeStamp = '''',
        q_lastActivityAction = ''''\<rparr> (\<lambda>v.
       let requestId = jtext J (jget J (Some v) ''requestId'');
           device = jtext J (jget J (Some v) ''device'');
           activity = jtext J (jget J (Some v) ''tunerActivityStatus'')
       in mseq (massert (requestId \<noteq> None)) (mseq (massert (device \<noteq> None))
         (mseq (massert (activity \<noteq> None))
           (ret \<lparr>q_uuid = the requestId, q_device = the device, q_activityStatus = the activity,
              q_lastActivityTimeStamp = text_or '''' (jtext J (jget J (Some v) ''lastActivityTimeStamp'')),
              q_lastActivityAction = text_or '''' (jtext J (jget J (Some v) ''lastActivityAction''))\<rparr>))))"

section \<open>Decoding responses\<close>

definition JsonDecode_ReserveTunerResponse :: "'j jansson \<Rightarrow> bool \<Rightarrow> 'j \<Rightarrow> ReserveTunerResponse trm" where
  "JsonDecode_ReserveTunerResponse J eas parent =
     JsonDecode_body J parent (ReserveTunerResponse_new '''') (\<lambda>v.
       let requestId = jtext J (jget J (Some v) ''requestId'');
           status = jtext J (jget J (Some v) ''status'');
           statusMessage = jtext J (jget J (Some v) ''statusMessage'')
       in mbind (case jget J (Some v) ''tunerReservation'' of
                   None \<Rightarrow> ret TunerReservation_default
                 | Some x \<Rightarrow> JsonDecode_TunerReservation J eas (Some x)) (\<lambda>r.
          mbind (str_arg requestId) (\<lambda>uuid.
          mbind (str_arg statusMessage) (\<lambda>_.
          mbind (enum_arg status) (\<lambda>st.
          mbind (JsonDecode_reservations J eas (jget J (Some v) ''conflicts'') []) (\<lambda>cs.
            ret \<lparr>s_uuid = uuid, s_status = ResponseStatus_at st, s_tunerReservation = r,
                 s_conflicts = cs\<rparr>))))))"

definition JsonDecode_ReleaseTunerReservationResponse ::
  "'j jansson \<Rightarrow> 'j \<Rightarrow> ReleaseTunerReservationResponse trm" where
  "JsonDecode_ReleaseTunerReservationResponse J parent =
     JsonDecode_body J parent (ReleaseTunerReservationResponse_new '''' '''') (\<lambda>v.
       mbind (JsonDecode_SimpleTRMResponse J v) (\<lambda>s.
       mbind (str_arg (jtext J (jget J (Some v) ''released''))) (\<lambda>released.
         ret \<lparr>s_uuid = s_uuid s, s_status = s_status s, s_token = s_token s,
              s_released = (released = ''true'')\<rparr>)))"

definition JsonDecode_ValidateTunerReservationResponse ::
  "'j jansson \<Rightarrow> 'j \<Rightarrow> ValidateTunerReservationResponse trm" where
  "JsonDecode_ValidateTunerReservationResponse J parent =
     JsonDecode_body J parent (ValidateTunerReservationResponse_new '''' '''') (\<lambda>v.
       mbind (JsonDecode_SimpleTRMResponse J v) (\<lambda>s.
       mbind (str_arg (jtext J (jget J (Some v) ''valid''))) (\<lambda>valid.
         ret \<lparr>s_uuid = s_uuid s, s_status = s_status s, s_token = s_token s,
              s_valid = (valid = ''true'')\<rparr>)))"

text \<open>\<^verbatim>\<open>JT_canceled ? json_string_value(JT_canceled) : ""\<close>.\<close>

definition JsonDecode_cancelled :: "'j jansson \<Rightarrow> 'j \<Rightarrow> bool trm" where
  "JsonDecode_cancelled J v =
     mbind (case jget J (Some v) ''cancelled'' of
              None \<Rightarrow> ret '''' | Some x \<Rightarrow> str_arg (jtext J (Some x))) (\<lambda>s. ret (s = ''true''))"

definition JsonDecode_CancelRecordingResponse :: "'j jansson \<Rightarrow> 'j \<Rightarrow> CancelRecordingResponse trm" where
  "JsonDecode_CancelRecordingResponse J parent =
     JsonDecode_body J parent (CancelRecordingResponse_new '''' '''') (\<lambda>v.
       mbind (JsonDecode_SimpleTRMResponse J v) (\<lambda>s.
       mbind (JsonDecode_cancelled J v) (\<lambda>c.
         ret \<lparr>s_uuid = s_uuid s, s_status = s_status s, s_token = s_token s, s_canceled = c\<rparr>)))"

definition JsonDecode_CancelLiveResponse :: "'j jansson \<Rightarrow> 'j \<Rightarrow> CancelLiveResponse trm" where
  "JsonDecode_CancelLiveResponse J parent =
     JsonDecode_body J parent (CancelLiveResponse_new '''' sOk '''' '''' False) (\<lambda>v.
       mbind (JsonDecode_SimpleTRMResponse J v) (\<lambda>s.
       mbind (JsonDecode_cancelled J v) (\<lambda>c.
         ret (CancelLiveResponse_new (s_uuid s) (s_status s) (s_token s) '''' c))))"

definition JsonDecode_strings :: "'j jansson \<Rightarrow> 'j option \<Rightarrow> string list trm" where
  "JsonDecode_strings J arr =
     mfold (jelems J arr) (\<lambda>v ss. mbind (str_arg (jtext J (Some v))) (\<lambda>s. ret (ss @ [s]))) []"

definition JsonDecode_GetAllTunerIdsResponse :: "'j jansson \<Rightarrow> 'j \<Rightarrow> GetAllTunerIdsResponse trm" where
  "JsonDecode_GetAllTunerIdsResponse J parent =
     JsonDecode_body J parent (GetAllTunerIdsResponse_new '''') (\<lambda>v.
       mbind (JsonDecode_SimpleTRMResponse J v) (\<lambda>s.
       mbind (JsonDecode_strings J (jget J (Some v) ''tunerIds'')) (\<lambda>ids.
         ret \<lparr>s_uuid = s_uuid s, s_status = s_status s, s_token = s_token s, s_tunerIds = ids\<rparr>)))"

definition JsonDecode_tunerState ::
  "'j jansson \<Rightarrow> string \<times> 'j \<Rightarrow> GetAllTunerStatesResponse \<Rightarrow> GetAllTunerStatesResponse trm" where
  "JsonDecode_tunerState J kv s =
     mbind (str_arg (jtext J (Some (snd kv)))) (\<lambda>st. ret (addTunerState (fst kv) st s))"

definition JsonDecode_detailedState ::
  "'j jansson \<Rightarrow> string \<times> 'j \<Rightarrow> GetAllTunerStatesResponse \<Rightarrow> GetAllTunerStatesResponse trm" where
  "JsonDecode_detailedState J kv s =
     mbind (JsonDecode_DetailedTunerState J (Some (snd kv))) (\<lambda>d.
       ret (fold (\<lambda>(act, dev). addTunerOwner (fst kv) act dev) (d_owners d)
         (addTunerDetailedState (fst kv) (d_state d) (d_serviceLocator d) (d_reservedDeviceId d) s)))"

definition JsonDecode_GetAllTunerStatesResponse ::
  "'j jansson \<Rightarrow> 'j \<Rightarrow> GetAllTunerStatesResponse trm" where
  "JsonDecode_GetAllTunerStatesResponse J parent =
     JsonDecode_body J parent (GetAllTunerStatesResponse_new '''') (\<lambda>v.
       mbind (JsonDecode_SimpleTRMResponse J v) (\<lambda>s.
       mbind (mfold (jitems J (jget J (Some v) ''allStates'')) (JsonDecode_tunerState J)
         \<lparr>s_uuid = s_uuid s, s_status = s_status s, s_token = s_token s, s_tunerStates = [],
          s_tunerDetailedStates = []\<rparr>) (\<lambda>s1.
       mfold (jitems J (jget J (Some v) ''detailedStates'')) (JsonDecode_detailedState J) s1)))"

definition JsonDecode_tunerReservations ::
  "'j jansson \<Rightarrow> bool \<Rightarrow> string \<times> 'j \<Rightarrow> GetAllReservationsResponse \<Rightarrow> GetAllReservationsResponse trm" where
  "JsonDecode_tunerReservations J eas kv s =
     mfold (jelems J (Some (snd kv))) (\<lambda>v s.
       mbind (JsonDecode_TunerReservation J eas (Some v)) (\<lambda>r.
         ret (addTunerReservation (fst kv) r s))) s"

definition JsonDecode_GetAllReservationsResponse ::
  "'j jansson \<Rightarrow> bool \<Rightarrow> 'j \<Rightarrow> GetAllReservationsResponse trm" where
  "JsonDecode_GetAllReservationsResponse J eas parent =
     JsonDecode_body J parent (GetAllReservationsResponse_new '''') (\<lambda>v.
       mbind (JsonDecode_SimpleTRMResponse J v) (\<lambda>s.
       mfold (jitems J (jget J (Some v) ''allReservations'')) (JsonDecode_tunerReservations J eas)
         \<lparr>s_uuid = s_uuid s, s_status = s_status s, s_token = s_token s, s_reservations = []\<rparr>))"

definition JsonDecode_GetVersionResponse :: "'j jansson \<Rightarrow> 'j \<Rightarrow> GetVersionResponse trm" where
  "JsonDecode_GetVersionResponse J parent =
     JsonDecode_body J parent (GetVersionResponse_new '''') (\<lambda>v.
       mbind (JsonDecode_SimpleTRMResponse J v) (\<lambda>s.
       mbind (str_arg (jtext J (jget J (Some v) ''version''))) (\<lambda>version.
         ret \<lparr>s_uuid = s_uuid s, s_status = s_status s, s_token = s_token s, s_version = version\<rparr>)))"

definition JsonDecode_GetAllConnectedDeviceIdsResponse ::
  "'j jansson \<Rightarrow> 'j \<Rightarrow> GetAllConnectedDeviceIdsResponse trm" where
  "JsonDecode_GetAllConnectedDeviceIdsResponse J parent =
     JsonDecode_body J parent
       \<lparr>s_uuid = '''', s_status = sOk, s_token = '''', s_conDeviceIDs = []\<rparr> (\<lambda>v.
       mbind (JsonDecode_SimpleTRMResponse J v) (\<lambda>s.
       mbind (JsonDecode_strings J (jget J (Some v) ''DeviceIds'')) (\<lambda>ids.
         ret \<lparr>s_uuid = s_uuid s, s_status = s_status s, s_token = s_token s, s_conDeviceIDs = ids\<rparr>)))"

section \<open>Decoding notifications\<close>

definition NotifyClientConnectionEvent_default :: NotifyClientConnectionEvent where
  "NotifyClientConnectionEvent_default =
     \<lparr>n_uuid = '''', n_eventName = '''', n_clientIP = '''', n_timeStamp = 0\<rparr>"

text \<open>
  The decoder for one event of a list reads the members and assigns none of them: the event
  stays as it was.
\<close>

definition JsonDecode_event ::
  "'j jansson \<Rightarrow> 'j option \<Rightarrow> NotifyClientConnectionEvent \<Rightarrow> NotifyClientConnectionEvent trm" where
  "JsonDecode_event J parent notification =
     (let eventName = jtext J (jget J parent ''eventName'');
          clientIP = jtext J (jget J parent ''clientIP'');
          timeStamp = jint J (jget J parent ''timeStamp'')
      in ret notification)"

definition JsonDecode_GetTRMConnectionEvents :: "'j jansson \<Rightarrow> 'j \<Rightarrow> GetTRMConnectionEvents trm" where
  "JsonDecode_GetTRMConnectionEvents J parent =
     JsonDecode_body J parent
       \<lparr>s_uuid = '''', s_status = sOk, s_token = '''', s_conEventList = []\<rparr> (\<lambda>v.
       mbind (JsonDecode_SimpleTRMResponse J v) (\<lambda>s.
       mbind (mfold (jelems J (jget J (Some v) ''connectionEvents'')) (\<lambda>x es.
                mbind (JsonDecode_event J (Some x) NotifyClientConnectionEvent_default)
                  (\<lambda>e. ret (es @ [e]))) []) (\<lambda>es.
         ret \<lparr>s_uuid = s_uuid s, s_status = s_status s, s_token = s_token s, s_conEventList = es\<rparr>)))"

definition JsonDecode_NotifyClientConnectionEvent ::
  "'j jansson \<Rightarrow> 'j \<Rightarrow> NotifyClientConnectionEvent trm" where
  "JsonDecode_NotifyClientConnectionEvent J parent =
     JsonDecode_body J parent NotifyClientConnectionEvent_default (\<lambda>v.
       mbind (str_arg (jtext J (jget J (Some v) ''eventName''))) (\<lambda>eventName.
       mbind (str_arg (jtext J (jget J (Some v) ''clientIP''))) (\<lambda>clientIP.
         ret \<lparr>n_uuid = '''', n_eventName = eventName, n_clientIP = clientIP,
              n_timeStamp = jint J (jget J (Some v) ''timeStamp'')\<rparr>)))"

definition JsonDecode_NotifyTunerReservationRelease ::
  "'j jansson \<Rightarrow> 'j \<Rightarrow> NotifyTunerReservationRelease trm" where
  "JsonDecode_NotifyTunerReservationRelease J parent =
     JsonDecode_body J parent \<lparr>n_uuid = '''', n_token = '''', n_reason = ''''\<rparr> (\<lambda>v.
       let requestId = jtext J (jget J (Some v) ''requestId'');
           token = jtext J (jget J (Some v) ''reservationToken'');
           reason = jtext J (jget J (Some v) ''reason'')
       in mseq (massert (requestId \<noteq> None)) (mseq (massert (token \<noteq> None))
         (mseq (massert (reason \<noteq> None))
           (ret \<lparr>n_uuid = the requestId, n_token = the token, n_reason = the reason\<rparr>))))"

definition JsonDecode_NotifyTunerReservationUpdate ::
  "'j jansson \<Rightarrow> bool \<Rightarrow> 'j \<Rightarrow> NotifyTunerReservationUpdate trm" where
  "JsonDecode_NotifyTunerReservationUpdate J eas parent =
     JsonDecode_body J parent \<lparr>n_uuid = '''', n_updatedReservation = TunerReservation_default\<rparr> (\<lambda>v.
       let requestId = jtext J (jget J (Some v) ''requestId'')
       in mseq (massert (requestId \<noteq> None))
         (case jget J (Some v) ''tunerReservation'' of
            None \<Rightarrow> ret \<lparr>n_uuid = '''', n_updatedReservation = TunerReservation_default\<rparr>
          | Some x \<Rightarrow> mbind (JsonDecode_TunerReservation J eas (Some x)) (\<lambda>r.
              ret \<lparr>n_uuid = the requestId, n_updatedReservation = r\<rparr>)))"

definition JsonDecode_NotifyTunerReservationConflicts ::
  "'j jansson \<Rightarrow> bool \<Rightarrow> 'j \<Rightarrow> NotifyTunerReservationConflicts trm" where
  "JsonDecode_NotifyTunerReservationConflicts J eas parent =
     JsonDecode_body J parent
       \<lparr>n_uuid = '''', n_requestedReservation = TunerReservation_default, n_conflicts = []\<rparr> (\<lambda>v.
       mbind (case jget J (Some v) ''tunerReservation'' of
                None \<Rightarrow> ret \<lparr>n_uuid = '''', n_requestedReservation = TunerReservation_default, n_conflicts = []\<rparr>
              | Some x \<Rightarrow> mbind (JsonDecode_TunerReservation J eas (Some x)) (\<lambda>r.
                  mbind (str_arg (jtext J (jget J (Some v) ''requestId''))) (\<lambda>uuid.
                    ret \<lparr>n_uuid = uuid, n_requestedReservation = r, n_conflicts = []\<rparr>))) (\<lambda>n.
       mbind (JsonDecode_reservations J eas (jget J (Some v) ''conflicts'') (n_conflicts n)) (\<lambda>cs.
         ret (n\<lparr>n_conflicts := cs\<rparr>))))"

definition JsonDecode_stateUpdate ::
  "'j jansson \<Rightarrow> string \<times> 'j \<Rightarrow> NotifyTunerStatesUpdate \<Rightarrow> NotifyTunerStatesUpdate trm" where
  "JsonDecode_stateUpdate J kv n =
     mbind (JsonDecode_DetailedTunerState J (Some (snd kv))) (\<lambda>d. ret (NotifyTunerStatesUpdate_add (fst kv) d n))"

definition JsonDecode_NotifyTunerStatesUpdate :: "'j jansson \<Rightarrow> 'j \<Rightarrow> NotifyTunerStatesUpdate trm" where
  "JsonDecode_NotifyTunerStatesUpdate J parent =
     JsonDecode_body J parent \<lparr>n_uuid = '''', n_tunerDetailedStates = []\<rparr> (\<lambda>v.
       mfold (jitems J (jget J (Some v) ''detailedStates'')) (JsonDecode_stateUpdate J)
         \<lparr>n_uuid = '''', n_tunerDetailedStates = []\<rparr>)"

definition JsonDecode_NotifyTunerPretune :: "'j jansson \<Rightarrow> 'j \<Rightarrow> NotifyTunerPretune trm" where
  "JsonDecode_NotifyTunerPretune J parent =
     JsonDecode_body J parent \<lparr>n_uuid = '''', n_serviceLocator = ''''\<rparr> (\<lambda>v.
       let requestId = jtext J (jget J (Some v) ''requestId'');
           serviceLocator = jtext J (jget J (Some v) ''serviceLocator'')
       in mseq (massert (requestId \<noteq> None)) (mseq (massert (serviceLocator \<noteq> None))
         (ret \<lparr>n_uuid = the requestId, n_serviceLocator = the serviceLocator\<rparr>)))"

section \<open>Dispatch\<close>

text \<open>\<^verbatim>\<open>JsonDecode(in, klass)\<close>: the loaded value and the class its only key names.\<close>

definition JsonDecode_handle :: "'j jansson \<Rightarrow> u8 list \<Rightarrow> ('j \<times> Klass) option trm" where
  "JsonDecode_handle J bytes =
     (case j_load J bytes of
        None \<Rightarrow> ret None
      | Some parent \<Rightarrow>
          (case j_items J parent of
             [] \<Rightarrow> ret (Some (parent, kUnknown))
           | kv # _ \<Rightarrow> mseq (massert (length (j_items J parent) = 1))
               (ret (Some (parent, Klass_at (fst kv))))))"

text \<open>\<^verbatim>\<open>JsonDecode(handle, message)\<close> for the class of the message; \<open>None\<close> for a class without a decoder.\<close>

definition JsonDecode_class :: "'j jansson \<Rightarrow> bool \<Rightarrow> Klass \<Rightarrow> 'j \<Rightarrow> message option trm" where
  "JsonDecode_class J eas kl handle =
     (case kl of
        kReserveTuner \<Rightarrow> mbind (JsonDecode_ReserveTuner J eas handle) (\<lambda>m. ret (Some (M_ReserveTuner m)))
      | kReserveTunerResponse \<Rightarrow>
          mbind (JsonDecode_ReserveTunerResponse J eas handle) (\<lambda>m. ret (Some (M_ReserveTunerResponse m)))
      | kReleaseTunerReservation \<Rightarrow>
          mbind (JsonDecode_Request J handle) (\<lambda>m. ret (Some (M_ReleaseTunerReservation m)))
      | kReleaseTunerReservationResponse \<Rightarrow>
          mbind (JsonDecode_ReleaseTunerReservationResponse J handle)
            (\<lambda>m. ret (Some (M_ReleaseTunerReservationResponse m)))
      | kValidateTunerReservation \<Rightarrow>
          mbind (JsonDecode_Request J handle) (\<lambda>m. ret (Some (M_ValidateTunerReservation m)))
      | kValidateTunerReservationResponse \<Rightarrow>
          mbind (JsonDecode_ValidateTunerReservationResponse J handle)
            (\<lambda>m. ret (Some (M_ValidateTunerReservationResponse m)))
      | kCancelRecording \<Rightarrow> mbind (JsonDecode_Request J handle) (\<lambda>m. ret (Some (M_CancelRecording m)))
      | kCancelRecordingResponse \<Rightarrow>
          mbind (JsonDecode_CancelRecordingResponse J handle) (\<lambda>m. ret (Some (M_CancelRecordingResponse m)))
      | kCancelLive \<Rightarrow> mbind (JsonDecode_CancelLive J handle) (\<lambda>m. ret (Some (M_CancelLive m)))
      | kCancelLiveResponse \<Rightarrow>
          mbind (JsonDecode_CancelLiveResponse J handle) (\<lambda>m. ret (Some (M_CancelLiveResponse m)))
      | kGetAllTunerIds \<Rightarrow> mbind (JsonDecode_Request J handle) (\<lambda>m. ret (Some (M_GetAllTunerIds m)))
      | kGetAllTunerIdsResponse \<Rightarrow>
          mbind (JsonDecode_GetAllTunerIdsResponse J handle) (\<lambda>m. ret (Some (M_GetAllTunerIdsResponse m)))
      | kGetAllTunerStates \<Rightarrow> mbind (JsonDecode_Request J handle) (\<lambda>m. ret (Some (M_GetAllTunerStates m)))
      | kGetAllTunerStatesResponse \<Rightarrow>
          mbind (JsonDecode_GetAllTunerStatesResponse J handle) (\<lambda>m. ret (Some (M_GetAllTunerStatesResponse m)))
      | kGetAllReservations \<Rightarrow>
          mbind (JsonDecode_GetAllReservations J handle) (\<lambda>m. ret (Some (M_GetAllReservations m)))
      | kGetAllReservationsResponse \<Rightarrow>
          mbind (JsonDecode_GetAllReservationsResponse J eas handle)
            (\<lambda>m. ret (Some (M_GetAllReservationsResponse m)))
      | kGetAllConnectedDeviceIdsResponse \<Rightarrow>
          mbind (JsonDecode_GetAllConnectedDeviceIdsResponse J handle)
            (\<lambda>m. ret (Some (M_GetAllConnectedDeviceIdsResponse m)))
      | kGetVersion \<Rightarrow> mbind (JsonDecode_Request J handle) (\<lambda>m. ret (Some (M_GetVersion m)))
      | kGetVersionResponse \<Rightarrow>
          mbind (JsonDecode_GetVersionResponse J handle) (\<lambda>m. ret (Some (M_GetVersionResponse m)))
      | kNotifyTunerReservationUpdate \<Rightarrow>
          mbind (JsonDecode_NotifyTunerReservationUpdate J eas handle)
            (\<lambda>m. ret (Some (M_NotifyTunerReservationUpdate m)))
      | kNotifyTunerReservationRelease \<Rightarrow>
          mbind (JsonDecode_NotifyTunerReservationRelease J handle)
            (\<lambda>m. ret (Some (M_NotifyTunerReservationRelease m)))
      | kNotifyTunerReservationConflicts \<Rightarrow>
          mbind (JsonDecode_NotifyTunerReservationConflicts J eas handle)
            (\<lambda>m. ret (Some (M_NotifyTunerReservationConflicts m)))
      | kNotifyTunerStatesUpdate \<Rightarrow>
          mbind (JsonDecode_NotifyTunerStatesUpdate J handle) (\<lambda>m. ret (Some (M_NotifyTunerStatesUpdate m)))
      | kNotifyTunerPretune \<Rightarrow>
          mbind (JsonDecode_NotifyTunerPretune J handle) (\<lambda>m. ret (Some (M_NotifyTunerPretune m)))
      | kNotifyClientConnectionEvent \<Rightarrow>
          mbind (JsonDecode_NotifyClientConnectionEvent J handle)
            (\<lambda>m. ret (Some (M_NotifyClientConnectionEvent m)))
      | kGetTRMConnectionEvents \<Rightarrow>
          mbind (JsonDecode_GetTRMConnectionEvents J handle) (\<lambda>m. ret (Some (M_GetTRMConnectionEvents m)))
      | kUpdateTunerActivityStatus \<Rightarrow>
          mbind (JsonDecode_UpdateTunerActivityStatus J handle) (\<lambda>m. ret (Some (M_UpdateTunerActivityStatus m)))
      | _ \<Rightarrow> ret None)"

definition JsonDecoder_message :: "'j jansson \<Rightarrow> bool \<Rightarrow> u8 list \<Rightarrow> message option trm" where
  "JsonDecoder_message J eas bytes =
     mbind (JsonDecode_handle J bytes) (\<lambda>h.
       case h of None \<Rightarrow> ret None | Some (parent, kl) \<Rightarrow> JsonDecode_class J eas kl parent)"

text \<open>\<^verbatim>\<open>JsonDecode<MsgT>(handle, processor)\<close> hands the decoded message to the processor.\<close>

definition JsonDecoder_decode ::
  "'j jansson \<Rightarrow> bool \<Rightarrow> (message \<Rightarrow> unit trm) \<Rightarrow> u8 list \<Rightarrow> unit trm" where
  "JsonDecoder_decode J eas processor bytes =
     mbind (JsonDecoder_message J eas bytes) (\<lambda>m.
       case m of None \<Rightarrow> ret () | Some m \<Rightarrow> processor m)"

end
