(* ===== verification/Trm_Header.thy ===== *)
theory Trm_Header
  imports Trm_Messages
begin

text \<open>
  The 16-byte header in front of every message (\<^verbatim>\<open>common/include/trm/Header.h\<close>,
  \<^verbatim>\<open>common/src/Header.cpp\<close>): the protocol mark \<^verbatim>\<open>TRMS\<close>, then message type, client id and
  payload length as big-endian 32-bit numbers, and \<^verbatim>\<open>SerializeMessage\<close> (\<^verbatim>\<open>JsonEncoder.h\<close>),
  which puts the header in front of the encoded message.
\<close>

unbundle bit_operations_syntax

section \<open>Bytes\<close>

text \<open>The four shifted and masked bytes of a 32-bit field, and the number they stand for.\<close>

definition be_bytes :: "u32 \<Rightarrow> u8 list" where
  "be_bytes x =
     [ucast (drop_bit 24 (x AND 0xFF000000)), ucast (drop_bit 16 (x AND 0x00FF0000)),
      ucast (drop_bit 8 (x AND 0x0000FF00)), ucast (drop_bit 0 (x AND 0x000000FF))]"

definition be_word :: "u8 \<Rightarrow> u8 \<Rightarrow> u8 \<Rightarrow> u8 \<Rightarrow> u32" where
  "be_word a b c d =
     push_bit 24 (ucast a) OR push_bit 16 (ucast b) OR push_bit 8 (ucast c) OR push_bit 0 (ucast d)"

lemma length_be_bytes [simp]: "length (be_bytes x) = 4"
  by (simp add: be_bytes_def)

lemma byte_masked: "(ucast (drop_bit k (x AND push_bit k (mask 8))) :: u8) = ucast (drop_bit k (x :: u32))"
  by (rule bit_word_eqI) (auto simp: bit_simps dest: bit_imp_le_length)

lemma bit_byte: "bit (push_bit k (ucast (ucast (drop_bit k (x :: u32)) :: u8) :: u32)) n \<longleftrightarrow>
    k \<le> n \<and> n < k + 8 \<and> n < 32 \<and> bit x n"
  by (auto simp: bit_simps)

lemma be_bytes_eq:
  "be_bytes x = [ucast (drop_bit 24 x), ucast (drop_bit 16 x), ucast (drop_bit 8 x), ucast (drop_bit 0 x)]"
proof -
  have m: "(0xFF000000 :: u32) = push_bit 24 (mask 8)" "(0x00FF0000 :: u32) = push_bit 16 (mask 8)"
    "(0x0000FF00 :: u32) = push_bit 8 (mask 8)" "(0x000000FF :: u32) = push_bit 0 (mask 8)"
    by (simp_all add: mask_eq_exp_minus_1)
  show ?thesis unfolding be_bytes_def m byte_masked ..
qed

lemma be_word_bytes:
  "be_word (ucast (drop_bit 24 x)) (ucast (drop_bit 16 x)) (ucast (drop_bit 8 x)) (ucast (drop_bit 0 x)) = x"
proof (rule bit_word_eqI)
  fix n assume n: "n < LENGTH(32)"
  show "bit (be_word (ucast (drop_bit 24 x)) (ucast (drop_bit 16 x)) (ucast (drop_bit 8 x))
      (ucast (drop_bit 0 x))) n = bit x n"
    unfolding be_word_def bit_or_iff bit_byte using n by (simp, linarith)
qed


text \<open>Lengths and ids that are read back as values of type \<^verbatim>\<open>int\<close>.\<close>

lemma sint_id: "0 \<le> i \<Longrightarrow> i < 2 ^ 31 \<Longrightarrow> sint (of_int i :: u32) = i"
  by (simp add: signed_of_int signed_take_bit_int_eq_self)

lemma sint_length: "n < 2 ^ 31 \<Longrightarrow> sint (of_nat n :: u32) = int n"
  using sint_id [of "int n"] by simp

section \<open>The header\<close>

record Header =
  h_type :: u32
  h_clientId :: u32
  h_payloadLength :: u32

definition kHeaderLength :: nat where
  "kHeaderLength = 16"

definition kProtocol :: "u8 list" where
  "kProtocol = [0x54, 0x52, 0x4D, 0x53]"

text \<open>The length is a \<^verbatim>\<open>size_t\<close> that is stored in 32 bits.\<close>

definition Header_new :: "MessageType \<Rightarrow> u32 \<Rightarrow> u64 \<Rightarrow> Header" where
  "Header_new t cid len =
     \<lparr>h_type = MessageType_value t, h_clientId = cid, h_payloadLength = ucast len\<rparr>"

definition Header_serialize :: "Header \<Rightarrow> u8 list" where
  "Header_serialize h =
     kProtocol @ be_bytes (h_type h) @ be_bytes (h_clientId h) @ be_bytes (h_payloadLength h)"

definition Header_deserialize :: "u8 list \<Rightarrow> Header query" where
  "Header_deserialize bs =
     (if length bs \<ge> 16 then
        (if bs ! 0 = kProtocol ! 0 \<and> bs ! 1 = kProtocol ! 1 \<and>
            bs ! 2 = kProtocol ! 2 \<and> bs ! 3 = kProtocol ! 3
         then Inr \<lparr>h_type = be_word (bs ! 4) (bs ! 5) (bs ! 6) (bs ! 7),
                   h_clientId = be_word (bs ! 8) (bs ! 9) (bs ! 10) (bs ! 11),
                   h_payloadLength = be_word (bs ! 12) (bs ! 13) (bs ! 14) (bs ! 15)\<rparr>
         else Inl AssertionFailureException)
      else Inl AssertionFailureException)"

text \<open>
  \<^verbatim>\<open>SerializeMessage\<close>. The JSON text of the message, which the jansson library writes, is the
  parameter \<open>encode\<close>.
\<close>

fun message_type :: "message \<Rightarrow> MessageType" where
  "message_type (M_ReserveTuner _) = Request"
| "message_type (M_ReleaseTunerReservation _) = Request"
| "message_type (M_ValidateTunerReservation _) = Request"
| "message_type (M_CancelRecording _) = Request"
| "message_type (M_CancelLive _) = Request"
| "message_type (M_GetAllTunerIds _) = Request"
| "message_type (M_GetAllTunerStates _) = Request"
| "message_type (M_GetAllReservations _) = Request"
| "message_type (M_GetVersion _) = Request"
| "message_type (M_UpdateTunerActivityStatus _) = Request"
| "message_type (M_NotifyTunerReservationRelease _) = Notification"
| "message_type (M_NotifyTunerReservationUpdate _) = Notification"
| "message_type (M_NotifyTunerReservationConflicts _) = Notification"
| "message_type (M_NotifyTunerStatesUpdate _) = Notification"
| "message_type (M_NotifyTunerPretune _) = Notification"
| "message_type (M_NotifyClientConnectionEvent _) = Notification"
| "message_type _ = Response"

definition SerializeMessage :: "(message \<Rightarrow> u8 list) \<Rightarrow> message \<Rightarrow> u32 \<Rightarrow> u8 list" where
  "SerializeMessage encode msg clientId =
     Header_serialize (Header_new (message_type msg) clientId (of_nat (length (encode msg)))) @ encode msg"

lemma length_serialize [simp]: "length (Header_serialize h) = 16"
  by (simp add: Header_serialize_def kProtocol_def)

lemma deserialize_serialize: "Header_deserialize (Header_serialize h @ bs) = Inr h"
  by (simp add: Header_deserialize_def Header_serialize_def kProtocol_def be_bytes_eq
      be_word_bytes [simplified]
      nth_Cons' flip: numeral_eq_Suc)

lemma deserialize_prefix:
  "length bs \<ge> 16 \<Longrightarrow> Header_deserialize (take 16 bs) = Header_deserialize bs"
  by (simp add: Header_deserialize_def)

lemma header_fields:
  "be_word (Header_serialize h ! 8) (Header_serialize h ! 9) (Header_serialize h ! 10) (Header_serialize h ! 11) =
     h_clientId h"
  "be_word (Header_serialize h ! 12) (Header_serialize h ! 13) (Header_serialize h ! 14) (Header_serialize h ! 15) =
     h_payloadLength h"
proof -
  have "Header_deserialize (Header_serialize h) = Inr h" using deserialize_serialize [of h "[]"] by simp
  then have "map_sum id h_clientId (Header_deserialize (Header_serialize h)) = Inr (h_clientId h)"
    "map_sum id h_payloadLength (Header_deserialize (Header_serialize h)) = Inr (h_payloadLength h)" by simp_all
  then show "be_word (Header_serialize h ! 8) (Header_serialize h ! 9) (Header_serialize h ! 10) (Header_serialize h ! 11) = h_clientId h"
    "be_word (Header_serialize h ! 12) (Header_serialize h ! 13) (Header_serialize h ! 14) (Header_serialize h ! 15) = h_payloadLength h"
    by (simp_all add: Header_deserialize_def split: if_splits)
qed

lemma reads_header:
  fixes cid :: u32
  assumes "length (encode m) < 2 ^ 32"
  defines "hdr \<equiv> take kHeaderLength (SerializeMessage encode m cid)"
  shows "length hdr = kHeaderLength" "be_word (hdr ! 8) (hdr ! 9) (hdr ! 10) (hdr ! 11) = cid"
    "unat (be_word (hdr ! 12) (hdr ! 13) (hdr ! 14) (hdr ! 15)) = length (encode m)"
    "drop kHeaderLength (SerializeMessage encode m cid) = encode m"
proof -
  let ?h = "Header_new (message_type m) cid (of_nat (length (encode m)))"
  have hdr: "hdr = Header_serialize ?h" by (simp add: hdr_def SerializeMessage_def kHeaderLength_def)
  show "length hdr = kHeaderLength" "drop kHeaderLength (SerializeMessage encode m cid) = encode m"
    by (simp_all add: hdr SerializeMessage_def kHeaderLength_def)
  have "be_word (hdr ! 8) (hdr ! 9) (hdr ! 10) (hdr ! 11) = h_clientId ?h"
    unfolding hdr by (rule header_fields)
  then show "be_word (hdr ! 8) (hdr ! 9) (hdr ! 10) (hdr ! 11) = cid" by (simp add: Header_new_def)
  have "be_word (hdr ! 12) (hdr ! 13) (hdr ! 14) (hdr ! 15) = h_payloadLength ?h"
    unfolding hdr by (rule header_fields)
  then show "unat (be_word (hdr ! 12) (hdr ! 13) (hdr ! 14) (hdr ! 15)) = length (encode m)"
    using assms(1) by (simp add: Header_new_def unsigned_ucast_eq unsigned_of_nat take_bit_nat_eq_self)
qed

text \<open>
  Reading back a serialized header, with any bytes behind it, gives the header: message type,
  client id and payload length survive as 32-bit numbers.
\<close>

theorem header_round_trip: "Header_deserialize (Header_serialize h @ bs) = Inr h"
  by (rule deserialize_serialize)

end
