(* ===== verification/Trm_Connection.thy ===== *)
theory Trm_Connection
  imports Trm_Header
begin

text \<open>
  The framing of messages on a connection (\<^verbatim>\<open>qtapp/common/Connection.cpp\<close>): a state machine that
  waits for a header and then for the payload the header announces, driven by \<^verbatim>\<open>readyRead\<close>
  whenever bytes have arrived, in chunks the network chooses. The socket is the list of bytes
  that have arrived and have not been read. The slot connected to \<^verbatim>\<open>messageReceived\<close> runs inside
  the signal and takes one message from the queue; \<open>c_received\<close> lists what it has taken.
\<close>

section \<open>The state machine\<close>

text \<open>The state with the number of bytes it expects (\<^verbatim>\<open>State::getDataLength\<close>).\<close>

datatype conn_state = IdleState | WaitHeaderState | WaitPayloadState nat

record Connection =
  c_socket :: "u8 list"
  c_state :: conn_state
  c_buffer :: "u8 list"
  c_incoming :: "u8 list list"
  c_received :: "u8 list list"

definition Connection_new :: Connection where
  "Connection_new =
     \<lparr>c_socket = [], c_state = WaitHeaderState, c_buffer = [], c_incoming = [], c_received = []\<rparr>"

fun dataLength :: "conn_state \<Rightarrow> nat" where
  "dataLength IdleState = 0"
| "dataLength WaitHeaderState = kHeaderLength"
| "dataLength (WaitPayloadState n) = n"

text \<open>
  \<^verbatim>\<open>State::read\<close>: the expected number of bytes, or an exception (the thrown count, 0) when there
  are not as many or when none is expected.
\<close>

definition State_read :: "nat \<Rightarrow> Connection \<Rightarrow> unit query \<times> Connection" where
  "State_read n c =
     (if length (c_socket c) \<ge> n \<and> n > 0
      then (Inr (), c\<lparr>c_buffer := c_buffer c @ take n (c_socket c), c_socket := drop n (c_socket c)\<rparr>)
      else (Inl (IntThrown 0), c))"

text \<open>The \<^verbatim>\<open>read\<close> of the three states, with the assertion on the size of the buffer.\<close>

definition checkBuffer :: "nat \<Rightarrow> unit query \<times> Connection \<Rightarrow> unit query \<times> Connection" where
  "checkBuffer n qc =
     (case qc of
        (Inl x, c) \<Rightarrow> (Inl x, c)
      | (Inr _, c) \<Rightarrow> (eassert (length (c_buffer c) = n), c))"

definition IdleState_read :: "Connection \<Rightarrow> unit query \<times> Connection" where
  "IdleState_read c = (eassert False, c)"

definition WaitHeaderState_read :: "Connection \<Rightarrow> unit query \<times> Connection" where
  "WaitHeaderState_read c =
     checkBuffer kHeaderLength (State_read kHeaderLength (c\<lparr>c_buffer := []\<rparr>))"

definition WaitPayloadState_read :: "nat \<Rightarrow> Connection \<Rightarrow> unit query \<times> Connection" where
  "WaitPayloadState_read n c =
     (if n = 0 then (Inr (), c) else checkBuffer (n + kHeaderLength) (State_read n c))"

definition Connection_read :: "Connection \<Rightarrow> unit query \<times> Connection" where
  "Connection_read c =
     (case c_state c of
        IdleState \<Rightarrow> IdleState_read c
      | WaitHeaderState \<Rightarrow> WaitHeaderState_read c
      | WaitPayloadState n \<Rightarrow> WaitPayloadState_read n c)"

definition Connection_recvMessage :: "Connection \<Rightarrow> u8 list query \<times> Connection" where
  "Connection_recvMessage c =
     (case c_incoming c of
        [] \<Rightarrow> (Inl InvalidOperationException, c)
      | m # ms \<Rightarrow> (Inr m, c\<lparr>c_incoming := ms\<rparr>))"

text \<open>The first lines of the slot \<^verbatim>\<open>Server::onMessageReceived\<close>: one message leaves the queue.\<close>

definition emit_messageReceived :: "Connection \<Rightarrow> Connection" where
  "emit_messageReceived c =
     (case Connection_recvMessage c of
        (Inl _, c') \<Rightarrow> c'
      | (Inr m, c') \<Rightarrow> c'\<lparr>c_received := c_received c' @ [m]\<rparr>)"

text \<open>
  One run of \<^verbatim>\<open>Connection::onReadyRead\<close>. The first component tells whether it ends by emitting
  \<^verbatim>\<open>readyRead\<close> again. (The test for a deleted buffer is left out: the buffer is replaced but
  never removed.)
\<close>

definition emit_readyRead :: "Connection \<Rightarrow> bool \<times> Connection" where
  "emit_readyRead c = (c_socket c \<noteq> [] \<or> dataLength (c_state c) = 0, c)"

definition gotHeader :: "Connection \<Rightarrow> bool \<times> Connection" where
  "gotHeader c =
     (case Header_deserialize (take kHeaderLength (c_buffer c)) of
        Inl _ \<Rightarrow> (False, c)
      | Inr h \<Rightarrow> emit_readyRead (c\<lparr>c_state := WaitPayloadState (unat (h_payloadLength h))\<rparr>))"

definition gotPayload :: "Connection \<Rightarrow> bool \<times> Connection" where
  "gotPayload c =
     emit_readyRead ((emit_messageReceived (c\<lparr>c_incoming := c_incoming c @ [c_buffer c]\<rparr>))
       \<lparr>c_buffer := [], c_state := WaitHeaderState\<rparr>)"

definition readyRead_step :: "Connection \<Rightarrow> bool \<times> Connection" where
  "readyRead_step c =
     (case Connection_read c of
        (Inl _, c') \<Rightarrow> (False, c')
      | (Inr _, c') \<Rightarrow>
          (case c_state c' of
             WaitHeaderState \<Rightarrow> gotHeader c'
           | WaitPayloadState _ \<Rightarrow> gotPayload c'
           | IdleState \<Rightarrow> emit_readyRead c'))"

lemmas reading = State_read_def checkBuffer_def IdleState_read_def WaitHeaderState_read_def
  WaitPayloadState_read_def Connection_read_def eassert_def

lemma emit_messageReceived_fields [simp]:
  "c_socket (emit_messageReceived c) = c_socket c" "c_state (emit_messageReceived c) = c_state c"
  by (simp_all add: emit_messageReceived_def Connection_recvMessage_def split: list.split)

text \<open>
  The signal \<^verbatim>\<open>readyRead\<close> is connected to the slot directly, so the slot calls itself until there
  is nothing to do. Each round reads from the socket or leaves a payload state.
\<close>

fun reading_left :: "conn_state \<Rightarrow> nat" where
  "reading_left (WaitPayloadState _) = 1"
| "reading_left _ = 0"

lemma readyRead_step_decreases:
  assumes "readyRead_step c = (True, c')"
  shows "2 * length (c_socket c') + reading_left (c_state c') <
    2 * length (c_socket c) + reading_left (c_state c)"
  using assms
  by (cases "c_state c")
    (auto simp: readyRead_step_def reading gotHeader_def gotPayload_def emit_readyRead_def kHeaderLength_def
      split: if_splits sum.splits)

function Connection_onReadyRead :: "Connection \<Rightarrow> Connection" where
  "Connection_onReadyRead c =
     (case readyRead_step c of (again, c') \<Rightarrow> if again then Connection_onReadyRead c' else c')"
  by pat_completeness auto

termination
  by (relation "measure (\<lambda>c. 2 * length (c_socket c) + reading_left (c_state c))")
    (auto dest: readyRead_step_decreases [OF sym])

declare Connection_onReadyRead.simps [simp del]

definition Connection_onDisconnected :: "Connection \<Rightarrow> Connection" where
  "Connection_onDisconnected c = c\<lparr>c_state := IdleState\<rparr>"

text \<open>A chunk of bytes arrives at the socket, which then emits \<^verbatim>\<open>readyRead\<close>.\<close>

definition arrive :: "u8 list \<Rightarrow> Connection \<Rightarrow> Connection" where
  "arrive bs c = Connection_onReadyRead (c\<lparr>c_socket := c_socket c @ bs\<rparr>)"

text \<open>
  How \<^verbatim>\<open>Server::onMessageReceived\<close> takes a message apart: the client id of the header and the
  bytes of the payload.
\<close>

definition Server_unpack :: "u8 list \<Rightarrow> (u32 \<times> u8 list) query" where
  "Server_unpack bs =
     ebind (Header_deserialize (take kHeaderLength bs))
       (\<lambda>h. Inr (h_clientId h, drop kHeaderLength bs))"

section \<open>Framing\<close>

text \<open>A message on the wire: a header and as many bytes of payload as it announces.\<close>

definition frame :: "Header \<times> u8 list \<Rightarrow> u8 list" where
  "frame m = Header_serialize (fst m) @ snd m"

definition framed :: "Header \<times> u8 list \<Rightarrow> bool" where
  "framed m \<longleftrightarrow> unat (h_payloadLength (fst m)) = length (snd m)"

lemma append_longer:
  assumes "xs @ ys = zs @ us" "length xs \<le> length zs"
  shows "\<exists>q. zs = xs @ q \<and> ys = q @ us"
proof -
  have "zs = xs @ drop (length xs) zs"
    using assms(2) append_take_drop_id [of "length xs" zs] arg_cong [OF assms(1), of "take (length xs)"]
    by (metis append_eq_conv_conj diff_is_0_eq' take_0 take_append append_Nil2)
  with assms(1) have "xs @ ys = xs @ drop (length xs) zs @ us" by (metis append.assoc)
  then show ?thesis using \<open>zs = _\<close> by blast
qed

lemma length_frame: "length (frame m) = 16 + length (snd m)"
  by (simp add: frame_def)

lemma onReadyRead_step:
  "readyRead_step c = (True, c') \<Longrightarrow> Connection_onReadyRead c = Connection_onReadyRead c'"
  "readyRead_step c = (False, c') \<Longrightarrow> Connection_onReadyRead c = c'"
  by (simp_all add: Connection_onReadyRead.simps [of c])

text \<open>What the state machine does in each of the two waiting states.\<close>

lemma step_header:
  assumes "c_state c = WaitHeaderState"
  shows "readyRead_step c =
    (if length (c_socket c) < 16 then (False, c\<lparr>c_buffer := []\<rparr>)
     else gotHeader (c\<lparr>c_buffer := take 16 (c_socket c), c_socket := drop 16 (c_socket c)\<rparr>))"
  using assms by (simp add: readyRead_step_def reading kHeaderLength_def)

lemma step_payload:
  assumes "c_state c = WaitPayloadState n" "length (c_buffer c) = 16"
  shows "readyRead_step c =
    (if length (c_socket c) < n then (False, c)
     else gotPayload (c\<lparr>c_buffer := c_buffer c @ take n (c_socket c), c_socket := drop n (c_socket c)\<rparr>))"
  using assms by (cases c) (auto simp: readyRead_step_def reading kHeaderLength_def)

lemma gotPayload_run:
  assumes "c_incoming c = []"
  shows "gotPayload c = (c_socket c \<noteq> [],
    c\<lparr>c_received := c_received c @ [c_buffer c], c_buffer := [], c_state := WaitHeaderState\<rparr>)"
  using assms
  by (cases c) (simp add: gotPayload_def emit_readyRead_def emit_messageReceived_def Connection_recvMessage_def
      kHeaderLength_def)

text \<open>A connection between two messages, and in the middle of one, with the bytes not yet delivered.\<close>

definition at_start :: "Connection \<Rightarrow> bool" where
  "at_start c \<longleftrightarrow> c_state c = WaitHeaderState \<and> c_buffer c = [] \<and> c_incoming c = []"

definition in_payload :: "Connection \<Rightarrow> bool" where
  "in_payload c \<longleftrightarrow> (\<exists>h. c_state c = WaitPayloadState (unat (h_payloadLength h)) \<and>
     c_buffer c = Header_serialize h \<and> length (c_socket c) < unat (h_payloadLength h)) \<and> c_incoming c = []"

definition undelivered :: "Connection \<Rightarrow> u8 list" where
  "undelivered c = c_buffer c @ c_socket c"

text \<open>The same connection with the header put back into the socket.\<close>

definition rewound :: "Connection \<Rightarrow> Connection" where
  "rewound c = c\<lparr>c_state := WaitHeaderState, c_buffer := [], c_socket := undelivered c\<rparr>"

lemma onReadyRead_short:
  assumes "at_start c" "length (c_socket c) < 16"
  shows "Connection_onReadyRead c = c"
  using onReadyRead_step(2) [OF step_header [of c, simplified assms(2) if_True]] assms
  by (cases c) (simp add: at_start_def)

lemma onReadyRead_header:
  assumes "at_start c" "c_socket c = Header_serialize h @ s"
  shows "Connection_onReadyRead c = Connection_onReadyRead
    (c\<lparr>c_state := WaitPayloadState (unat (h_payloadLength h)), c_buffer := Header_serialize h, c_socket := s\<rparr>)"
    (is "_ = Connection_onReadyRead ?c")
proof -
  have st: "readyRead_step c = (s \<noteq> [] \<or> unat (h_payloadLength h) = 0, ?c)"
    using assms deserialize_serialize [of h "[]"]
    by (simp add: step_header at_start_def gotHeader_def emit_readyRead_def kHeaderLength_def)
  show ?thesis
  proof (cases "s \<noteq> [] \<or> unat (h_payloadLength h) = 0")
    case True
    then show ?thesis using st by (simp add: onReadyRead_step(1))
  next
    case False
    then have "readyRead_step ?c = (False, ?c)" by (simp add: step_payload)
    then show ?thesis using False st by (simp add: onReadyRead_step(2))
  qed
qed

lemma onReadyRead_frame:
  assumes "at_start c" "framed m" "c_socket c = frame m @ s"
  shows "Connection_onReadyRead c = Connection_onReadyRead
    (c\<lparr>c_socket := s, c_received := c_received c @ [frame m]\<rparr>)" (is "_ = Connection_onReadyRead ?c'")
proof -
  obtain h p where m: "m = (h, p)" by (cases m)
  let ?c = "c\<lparr>c_state := WaitPayloadState (unat (h_payloadLength h)), c_buffer := Header_serialize h,
    c_socket := p @ s\<rparr>"
  have n: "unat (h_payloadLength h) = length p" using assms(2) by (simp add: m framed_def)
  have "readyRead_step ?c = (s \<noteq> [], ?c')"
    using assms(1) by (cases c) (simp add: step_payload n gotPayload_run at_start_def frame_def m)
  moreover have "Connection_onReadyRead c = Connection_onReadyRead ?c"
    by (rule onReadyRead_header [OF assms(1)]) (simp add: assms(3) m frame_def)
  moreover have "s = [] \<Longrightarrow> Connection_onReadyRead ?c' = ?c'"
    using assms(1) by (intro onReadyRead_short) (auto simp: at_start_def)
  ultimately show ?thesis by (cases "s = []") (simp_all add: onReadyRead_step)
qed

lemma onReadyRead_frames:
  "at_start c \<Longrightarrow> \<forall>m \<in> set ms. framed m \<Longrightarrow> c_socket c = concat (map frame ms) @ s \<Longrightarrow>
   Connection_onReadyRead c = Connection_onReadyRead
     (c\<lparr>c_socket := s, c_received := c_received c @ map frame ms\<rparr>)"
proof (induction ms arbitrary: c)
  case (Cons m ms)
  let ?c = "c\<lparr>c_socket := concat (map frame ms) @ s, c_received := c_received c @ [frame m]\<rparr>"
  have "Connection_onReadyRead c = Connection_onReadyRead ?c"
    using Cons.prems by (intro onReadyRead_frame) auto
  then show ?case using Cons.IH [of ?c] Cons.prems by (simp add: at_start_def)
next
  case Nil
  then show ?case by (cases c) simp
qed

text \<open>A part of a message is kept, in the socket or, once its header is complete, in the buffer.\<close>

lemma onReadyRead_part:
  assumes "at_start c" "framed m" "frame m = c_socket c @ q" "q \<noteq> []"
  shows "let c' = Connection_onReadyRead c in
    (at_start c' \<or> in_payload c') \<and> undelivered c' = c_socket c \<and> c_received c' = c_received c"
proof (cases "length (c_socket c) < 16")
  case True
  then show ?thesis using assms(1) by (simp add: onReadyRead_short) (simp add: at_start_def undelivered_def)
next
  case False
  obtain h p where m: "m = (h, p)" by (cases m)
  have n: "unat (h_payloadLength h) = length p" using assms(2) by (simp add: m framed_def)
  obtain s where s: "c_socket c = Header_serialize h @ s" "p = s @ q"
    using append_longer [of "Header_serialize h" p "c_socket c" q] assms(3) False by (auto simp: m frame_def)
  let ?c = "c\<lparr>c_state := WaitPayloadState (unat (h_payloadLength h)), c_buffer := Header_serialize h,
    c_socket := s\<rparr>"
  have "readyRead_step ?c = (False, ?c)" using assms(4) by (simp add: step_payload n s)
  then have "Connection_onReadyRead c = ?c"
    using onReadyRead_header [OF assms(1) s(1)] onReadyRead_step(2) by simp
  moreover have "in_payload ?c"
    unfolding in_payload_def using assms(1,4) n s by (intro conjI exI [of _ h]) (simp_all add: at_start_def)
  ultimately show ?thesis using s by (simp add: undelivered_def)
qed

text \<open>Putting the header back does not change what the next bytes do.\<close>

lemma rewound_run:
  assumes "at_start c \<or> in_payload c"
  shows "at_start (rewound c)" "arrive bs c = arrive bs (rewound c)"
proof -
  show "at_start (rewound c)" using assms by (auto simp: at_start_def in_payload_def rewound_def)
  show "arrive bs c = arrive bs (rewound c)"
  proof (cases "at_start c")
    case True
    then show ?thesis by (cases c) (simp add: at_start_def rewound_def undelivered_def)
  next
    case False
    with assms obtain h where h: "c_state c = WaitPayloadState (unat (h_payloadLength h))"
      "c_buffer c = Header_serialize h" "c_incoming c = []"
      by (auto simp: in_payload_def)
    have "arrive bs (rewound c) = Connection_onReadyRead
      ((rewound c)\<lparr>c_state := WaitPayloadState (unat (h_payloadLength h)), c_buffer := Header_serialize h,
        c_socket := c_socket c @ bs\<rparr>)"
      unfolding arrive_def
      by (subst onReadyRead_header [of _ h "c_socket c @ bs"])
        (simp_all add: h at_start_def rewound_def undelivered_def)
    also have "\<dots> = arrive bs c" by (cases c) (use h in \<open>simp add: arrive_def rewound_def\<close>)
    finally show ?thesis by simp
  qed
qed

text \<open>The bytes of a prefix of the stream are some whole messages and a part of the next one.\<close>

lemma split_frames:
  "p @ q = concat (map frame ms) \<Longrightarrow>
   \<exists>ms1 ms2 r. ms = ms1 @ ms2 \<and> p = concat (map frame ms1) @ r \<and> r @ q = concat (map frame ms2) \<and>
     (r = [] \<or> (\<exists>m ms3 q'. ms2 = m # ms3 \<and> frame m = r @ q' \<and> q' \<noteq> []))"
proof (induction ms arbitrary: p)
  case (Cons m ms)
  show ?case
  proof (cases "length p < length (frame m)")
    case True
    then have "\<exists>q'. frame m = p @ q' \<and> q' \<noteq> []"
      using append_longer [of p q "frame m" "concat (map frame ms)"] Cons.prems by auto
    then show ?thesis using Cons.prems by (intro exI [of _ "[]"] exI [of _ "m # ms"] exI [of _ p]) auto
  next
    case False
    then obtain p' where p: "p = frame m @ p'" "p' @ q = concat (map frame ms)"
      using append_longer [of "frame m" "concat (map frame ms)" p q] Cons.prems by auto
    obtain ms1 ms2 r where "ms = ms1 @ ms2" "p' = concat (map frame ms1) @ r" "r @ q = concat (map frame ms2)"
      "r = [] \<or> (\<exists>m ms3 q'. ms2 = m # ms3 \<and> frame m = r @ q' \<and> q' \<noteq> [])"
      using Cons.IH [OF p(2)] by blast
    then show ?thesis by (intro exI [of _ "m # ms1"] exI [of _ ms2] exI [of _ r]) (simp add: p(1))
  qed
qed simp

definition short_of :: "u8 list \<Rightarrow> (Header \<times> u8 list) list \<Rightarrow> bool" where
  "short_of r ms \<longleftrightarrow> r = [] \<or> (\<exists>m ms'. ms = m # ms' \<and> length r < length (frame m))"

lemma arrive_prefix:
  assumes "at_start c \<or> in_payload c" "\<forall>m \<in> set ms. framed m"
    and "(undelivered c @ bs) @ q = concat (map frame ms)"
  shows "\<exists>ms1 ms2. ms = ms1 @ ms2 \<and> (at_start (arrive bs c) \<or> in_payload (arrive bs c)) \<and>
    undelivered (arrive bs c) @ q = concat (map frame ms2) \<and> short_of (undelivered (arrive bs c)) ms2 \<and>
    c_received (arrive bs c) = c_received c @ map frame ms1"
proof -
  obtain ms1 ms2 r where r: "ms = ms1 @ ms2" "undelivered c @ bs = concat (map frame ms1) @ r"
    "r @ q = concat (map frame ms2)"
    and part: "r = [] \<or> (\<exists>m ms3 q'. ms2 = m # ms3 \<and> frame m = r @ q' \<and> q' \<noteq> [])"
    using split_frames [OF assms(3)] by blast
  let ?c = "(rewound c)\<lparr>c_socket := r, c_received := c_received c @ map frame ms1\<rparr>"
  have start: "at_start ?c" using rewound_run(1) [OF assms(1)] by (simp add: at_start_def)
  have "arrive bs (rewound c) = Connection_onReadyRead ?c"
    unfolding arrive_def
    by (subst onReadyRead_frames [of _ ms1 r])
      (use rewound_run(1) [OF assms(1)] assms(2) r in \<open>simp_all add: at_start_def rewound_def\<close>)
  then have run: "arrive bs c = Connection_onReadyRead ?c"
    using rewound_run(2) [OF assms(1), of bs] by simp
  have "(at_start (arrive bs c) \<or> in_payload (arrive bs c)) \<and> undelivered (arrive bs c) = r \<and>
      c_received (arrive bs c) = c_received c @ map frame ms1"
  proof (cases "r = []")
    case True
    then show ?thesis using start by (simp add: run onReadyRead_short) (simp add: undelivered_def at_start_def)
  next
    case False
    then obtain m q' where "framed m" "frame m = r @ q'" "q' \<noteq> []" using part assms(2) r(1) by auto
    then show ?thesis using onReadyRead_part [OF start, of m q'] by (simp add: run Let_def)
  qed
  moreover have "short_of r ms2" using part by (auto simp: short_of_def)
  ultimately show ?thesis using r by auto
qed

lemma arrive_chunks:
  "at_start c \<or> in_payload c \<Longrightarrow> \<forall>m \<in> set ms. framed m \<Longrightarrow> short_of (undelivered c) ms \<Longrightarrow>
   undelivered c @ concat chunks = concat (map frame ms) \<Longrightarrow>
   (at_start (fold arrive chunks c) \<or> in_payload (fold arrive chunks c)) \<and>
     undelivered (fold arrive chunks c) = [] \<and>
     c_received (fold arrive chunks c) = c_received c @ map frame ms"
proof (induction chunks arbitrary: c ms)
  case Nil
  then have "ms = []"
    by (cases ms) (auto simp: short_of_def frame_def Header_serialize_def kProtocol_def)
  then show ?case using Nil by (simp add: short_of_def)
next
  case (Cons bs chunks)
  from Cons.prems obtain ms1 ms2 where *: "ms = ms1 @ ms2" "at_start (arrive bs c) \<or> in_payload (arrive bs c)"
    "undelivered (arrive bs c) @ concat chunks = concat (map frame ms2)"
    "short_of (undelivered (arrive bs c)) ms2" "c_received (arrive bs c) = c_received c @ map frame ms1"
    using arrive_prefix [of c ms bs "concat chunks"] by auto
  then show ?case using Cons.IH [OF *(2), of ms2] Cons.prems(2) by simp
qed

text \<open>After a header without the protocol mark the 16 bytes are gone and nothing is delivered.\<close>

lemma onReadyRead_bad_header:
  assumes "at_start c" "length (c_socket c) \<ge> 16" "take 4 (c_socket c) \<noteq> kProtocol"
  shows "Connection_onReadyRead c = c\<lparr>c_buffer := take 16 (c_socket c), c_socket := drop 16 (c_socket c)\<rparr>"
proof -
  have "take 4 (c_socket c) = map ((!) (c_socket c)) [0, 1, 2, 3]"
    using assms(2) by (intro nth_equalityI) (auto simp: less_Suc_eq numeral_eq_Suc)
  then have "\<exists>e. Header_deserialize (take 16 (c_socket c)) = Inl e"
    using assms(2,3) by (auto simp: Header_deserialize_def kProtocol_def)
  then show ?thesis using assms(1,2)
    by (intro onReadyRead_step(2)) (auto simp: step_header at_start_def gotHeader_def kHeaderLength_def min_def)
qed

section \<open>Messages through a connection\<close>

lemma framed_serialize:
  assumes "length (encode m) < 2 ^ 32"
  shows "\<exists>f. framed f \<and> SerializeMessage encode m cid = frame f \<and>
    Server_unpack (frame f) = Inr (cid, encode m)"
proof -
  let ?h = "Header_new (message_type m) cid (of_nat (length (encode m)))"
  have "unat (h_payloadLength ?h) = length (encode m)"
    using assms by (simp add: Header_new_def unsigned_ucast_eq unsigned_of_nat take_bit_nat_eq_self)
  moreover have "Server_unpack (frame (?h, encode m)) = Inr (cid, encode m)"
    using deserialize_serialize [of ?h "[]"]
    by (simp add: Server_unpack_def frame_def kHeaderLength_def ebind_def Header_new_def)
  ultimately show ?thesis
    by (intro exI [of _ "(?h, encode m)"]) (simp add: framed_def frame_def SerializeMessage_def)
qed

lemma Connection_new_start:
  "at_start Connection_new" "undelivered Connection_new = []" "c_received Connection_new = []" "short_of [] ms"
  by (simp_all add: at_start_def Connection_new_def undelivered_def short_of_def)

lemma nothing_left:
  assumes "at_start c \<or> in_payload c" "undelivered c = []"
  shows "c = Connection_new\<lparr>c_received := c_received c\<rparr>"
  using assms
  by (cases c) (auto simp: at_start_def in_payload_def undelivered_def Connection_new_def
      Header_serialize_def kProtocol_def)

lemma arrive_messages:
  assumes "concat chunks = concat (map (\<lambda>(m, cid). SerializeMessage encode m cid) ms)"
    and "\<forall>(m, cid) \<in> set ms. length (encode m) < 2 ^ 32"
  shows "\<exists>c. fold arrive chunks Connection_new = Connection_new\<lparr>c_received := c\<rparr> \<and>
    map Server_unpack c = map (\<lambda>(m, cid). Inr (cid, encode m)) ms"
proof -
  have "\<exists>f. framed f \<and> SerializeMessage encode (fst x) (snd x) = frame f \<and>
      Server_unpack (frame f) = Inr (snd x, encode (fst x))" if "x \<in> set ms" for x
    using assms(2) that by (intro framed_serialize) (auto simp: case_prod_beta)
  then obtain F where F: "framed (F x)" "SerializeMessage encode (fst x) (snd x) = frame (F x)"
    "Server_unpack (frame (F x)) = Inr (snd x, encode (fst x))" if "x \<in> set ms" for x
    by metis
  have "concat chunks = concat (map frame (map F ms))"
    unfolding assms(1) using F(2) by (simp add: case_prod_beta comp_def cong: map_cong)
  then have "(at_start (fold arrive chunks Connection_new) \<or> in_payload (fold arrive chunks Connection_new)) \<and>
      undelivered (fold arrive chunks Connection_new) = [] \<and>
      c_received (fold arrive chunks Connection_new) = map frame (map F ms)"
    using arrive_chunks [of Connection_new "map F ms" chunks] F(1) by (simp add: Connection_new_start)
  moreover have "map Server_unpack (map frame (map F ms)) = map (\<lambda>(m, cid). Inr (cid, encode m)) ms"
    using F(3) by (simp add: case_prod_beta)
  ultimately show ?thesis using nothing_left by metis
qed

text \<open>
  C15. Whatever chunks the network cuts the bytes into, a connection delivers exactly the messages
  that were sent, in their order: when clients send messages with \<^verbatim>\<open>SerializeMessage\<close>, the server
  takes the same client ids and payloads out of what it receives, and the connection is back in
  its first state. (Payloads are shorter than 4 GB, the range of the length field.)
\<close>

theorem chunks_deliver_messages:
  assumes "concat chunks = concat (map (\<lambda>(m, cid). SerializeMessage encode m cid) ms)"
    and "\<forall>(m, cid) \<in> set ms. length (encode m) < 2 ^ 32"
  shows "\<exists>c. fold arrive chunks Connection_new = Connection_new\<lparr>c_received := c\<rparr> \<and>
    map Server_unpack c = map (\<lambda>(m, cid). Inr (cid, encode m)) ms"
  using arrive_messages [OF assms] .

theorem chunks_deliver_messages_witness:
  "\<exists>c. fold arrive (map (\<lambda>b. [b]) (SerializeMessage (\<lambda>_. [0x7B, 0x7D])
        (M_GetVersion \<lparr>q_uuid = ''q'', q_device = [], q_token = []\<rparr>) 7))
      Connection_new = Connection_new\<lparr>c_received := c\<rparr> \<and> map Server_unpack c = [Inr (7, [0x7B, 0x7D])]"
proof -
  let ?m = "M_GetVersion \<lparr>q_uuid = ''q'', q_device = [], q_token = []\<rparr>"
  show ?thesis
    using chunks_deliver_messages [of "map (\<lambda>b. [b]) (SerializeMessage (\<lambda>_. [0x7B, 0x7D]) ?m 7)"
        "\<lambda>_. [0x7B, 0x7D]" "[(?m, 7)]"]
    by (simp del: fold_map)
qed

text \<open>
  A header without the protocol mark is not an error for the connection: its 16 bytes are
  dropped, nothing is delivered, the connection goes on waiting for a header, and the bytes
  behind stay in the socket until more arrive.
\<close>

theorem bad_header_dropped:
  assumes "length (c_socket c) \<ge> 16" "take 4 (c_socket c) \<noteq> kProtocol"
    and "c_state c = WaitHeaderState" "c_buffer c = []" "c_incoming c = []"
  shows "Connection_onReadyRead c = c\<lparr>c_buffer := take 16 (c_socket c), c_socket := drop 16 (c_socket c)\<rparr>"
  using assms by (intro onReadyRead_bad_header) (simp_all add: at_start_def)

theorem bad_header_dropped_witness:
  "Connection_onReadyRead (Connection_new\<lparr>c_socket := replicate 20 0\<rparr>) =
     Connection_new\<lparr>c_buffer := replicate 16 0, c_socket := replicate 4 0\<rparr>"
proof -
  have "take 4 (replicate 20 (0 :: u8)) \<noteq> kProtocol" by code_simp
  then show ?thesis
    using bad_header_dropped [of "Connection_new\<lparr>c_socket := replicate 20 0\<rparr>"]
    by (simp add: Connection_new_def)
qed

end
