(* ===== verification/Trm_Wire.thy ===== *)
theory Trm_Wire
  imports Trm_Decode Trm_Connection Trm_Server
begin

text \<open>
  The codec and the connection together: what a receiver gets of a message that was encoded,
  the round trip for every class of messages, and the server's slot on the bytes of a message.
\<close>

section \<open>What arrives\<close>

text \<open>
  A received reservation has no state of its own, its custom attributes are a new handle of the
  same JSON value, and with the test file in place live activities are marked.
\<close>

definition received_activity :: "bool \<Rightarrow> Activity \<Rightarrow> Activity" where
  "received_activity eas a =
     (if eas \<and> a_enum a = kLive then Activity_addDetail ''eas'' ''true'' a else a)"

definition received_attributes :: "'j jansson \<Rightarrow> nat option \<Rightarrow> nat option" where
  "received_attributes J c =
     (case c of
        None \<Rightarrow> None
      | Some h \<Rightarrow> if j_is_null J (j_at J h) then None else Some (j_handle J (j_at J h)))"

definition received_reservation :: "'j jansson \<Rightarrow> bool \<Rightarrow> TunerReservation \<Rightarrow> TunerReservation" where
  "received_reservation J eas r =
     r\<lparr>r_activity := received_activity eas (r_activity r),
       r_customAttributes := received_attributes J (r_customAttributes r), r_state := IDLE\<rparr>"

text \<open>Owners are sent only along with a locator.\<close>

definition received_detailed :: "DetailedTunerState \<Rightarrow> DetailedTunerState" where
  "received_detailed d = (if d_serviceLocator d = '''' then d\<lparr>d_owners := []\<rparr> else d)"

section \<open>What can be sent\<close>

text \<open>Strings without NUL in UTF-8, and tables that are ordered maps.\<close>

definition clean_map :: "'j jansson \<Rightarrow> (string, 'v) smap \<Rightarrow> ('v \<Rightarrow> bool) \<Rightarrow> bool" where
  "clean_map J m P \<longleftrightarrow> smap_ok m \<and> (\<forall>(k, v) \<in> set m. clean J k \<and> P v)"

definition clean_reservation :: "'j jansson \<Rightarrow> TunerReservation \<Rightarrow> bool" where
  "clean_reservation J r \<longleftrightarrow> clean J (r_token r) \<and> clean J (r_device r) \<and> clean J (r_serviceLocator r) \<and>
     clean_map J (a_details (r_activity r)) (clean J)"

definition clean_detailed :: "'j jansson \<Rightarrow> DetailedTunerState \<Rightarrow> bool" where
  "clean_detailed J d \<longleftrightarrow> clean J (d_state d) \<and> clean J (d_serviceLocator d) \<and>
     clean J (d_reservedDeviceId d) \<and> clean_map J (d_owners d) (clean J)"

definition clean_request :: "'j jansson \<Rightarrow> 'a SimpleTRMRequest_scheme \<Rightarrow> bool" where
  "clean_request J q \<longleftrightarrow> clean J (q_uuid q) \<and> clean J (q_device q) \<and> clean J (q_token q)"

definition clean_response :: "'j jansson \<Rightarrow> 'a SimpleTRMResponse_scheme \<Rightarrow> bool" where
  "clean_response J s \<longleftrightarrow> clean J (s_uuid s) \<and> clean J (s_token s)"

definition clean_event :: "'j jansson \<Rightarrow> NotifyClientConnectionEvent \<Rightarrow> bool" where
  "clean_event J n \<longleftrightarrow> clean J (n_eventName n) \<and> clean J (n_clientIP n)"

fun clean_message :: "'j jansson \<Rightarrow> message \<Rightarrow> bool" where
  "clean_message J (M_ReserveTuner q) \<longleftrightarrow> clean J (q_uuid q) \<and> clean J (q_device q) \<and>
     clean J (q_resurrect q) \<and> clean_reservation J (q_tunerReservation q)"
| "clean_message J (M_ReserveTunerResponse s) \<longleftrightarrow> clean J (s_uuid s) \<and>
     clean_reservation J (s_tunerReservation s) \<and> list_all (clean_reservation J) (s_conflicts s)"
| "clean_message J (M_ReleaseTunerReservation q) \<longleftrightarrow> clean_request J q"
| "clean_message J (M_ReleaseTunerReservationResponse s) \<longleftrightarrow> clean_response J s"
| "clean_message J (M_ValidateTunerReservation q) \<longleftrightarrow> clean_request J q"
| "clean_message J (M_ValidateTunerReservationResponse s) \<longleftrightarrow> clean_response J s"
| "clean_message J (M_CancelRecording q) \<longleftrightarrow> clean_request J q"
| "clean_message J (M_CancelRecordingResponse s) \<longleftrightarrow> clean_response J s"
| "clean_message J (M_CancelLive q) \<longleftrightarrow> clean_request J q \<and> clean J (q_serviceLocator q)"
| "clean_message J (M_CancelLiveResponse s) \<longleftrightarrow> clean_response J s"
| "clean_message J (M_GetAllTunerIds q) \<longleftrightarrow> clean_request J q"
| "clean_message J (M_GetAllTunerIdsResponse s) \<longleftrightarrow> clean_response J s \<and> list_all (clean J) (s_tunerIds s)"
| "clean_message J (M_GetAllTunerStates q) \<longleftrightarrow> clean_request J q"
| "clean_message J (M_GetAllTunerStatesResponse s) \<longleftrightarrow> clean_response J s \<and>
     clean_map J (s_tunerStates s) (clean J) \<and> clean_map J (s_tunerDetailedStates s) (clean_detailed J)"
| "clean_message J (M_GetAllReservations q) \<longleftrightarrow> clean_request J q \<and> clean_map J (q_filters q) (clean J)"
| "clean_message J (M_GetAllReservationsResponse s) \<longleftrightarrow> clean_response J s \<and>
     clean_map J (s_reservations s) (list_all (clean_reservation J))"
| "clean_message J (M_GetVersion q) \<longleftrightarrow> clean_request J q"
| "clean_message J (M_GetVersionResponse s) \<longleftrightarrow> clean_response J s \<and> clean J (s_version s)"
| "clean_message J (M_NotifyTunerReservationRelease n) \<longleftrightarrow> clean J (n_uuid n) \<and> clean J (n_token n) \<and>
     clean J (n_reason n)"
| "clean_message J (M_NotifyTunerReservationUpdate n) \<longleftrightarrow> clean J (n_uuid n) \<and>
     clean_reservation J (n_updatedReservation n)"
| "clean_message J (M_NotifyTunerReservationConflicts n) \<longleftrightarrow> clean J (n_uuid n) \<and>
     clean_reservation J (n_requestedReservation n) \<and> list_all (clean_reservation J) (n_conflicts n)"
| "clean_message J (M_NotifyTunerStatesUpdate n) \<longleftrightarrow> clean J (n_uuid n) \<and>
     clean_map J (n_tunerDetailedStates n) (clean_detailed J)"
| "clean_message J (M_NotifyTunerPretune n) \<longleftrightarrow> clean J (n_uuid n) \<and> clean J (n_serviceLocator n)"
| "clean_message J (M_UpdateTunerActivityStatus q) \<longleftrightarrow> clean J (q_uuid q) \<and> clean J (q_device q) \<and>
     clean J (q_activityStatus q) \<and> clean J (q_lastActivityTimeStamp q) \<and> clean J (q_lastActivityAction q)"
| "clean_message J (M_UpdateTunerActivityStatusResponse s) \<longleftrightarrow> clean J (s_uuid s)"
| "clean_message J (M_NotifyClientConnectionEvent n) \<longleftrightarrow> clean_event J n"
| "clean_message J (M_GetTRMConnectionEvents s) \<longleftrightarrow> clean_response J s \<and>
     list_all (clean_event J) (s_conEventList s)"
| "clean_message J (M_GetAllConnectedDeviceIdsResponse s) \<longleftrightarrow> clean_response J s \<and>
     list_all (clean J) (s_conDeviceIDs s)"

text \<open>
  What the receiver gets of each message. Lost on the way: filters by activity, the filter
  device, the locator of a \<^verbatim>\<open>CancelLiveResponse\<close>, the uuid of a states update and of an event,
  tuners without reservations, the contents of connection events, and the whole of an
  \<^verbatim>\<open>UpdateTunerActivityStatusResponse\<close>, which no decoder reads.
\<close>

fun received :: "'j jansson \<Rightarrow> bool \<Rightarrow> message \<Rightarrow> message option" where
  "received J eas (M_ReserveTuner q) =
     Some (M_ReserveTuner (q\<lparr>q_tunerReservation := received_reservation J eas (q_tunerReservation q)\<rparr>))"
| "received J eas (M_ReserveTunerResponse s) =
     Some (M_ReserveTunerResponse (s\<lparr>
       s_tunerReservation := (if r_token (s_tunerReservation s) = '''' then TunerReservation_default
         else received_reservation J eas (s_tunerReservation s)),
       s_conflicts := map (received_reservation J eas) (s_conflicts s)\<rparr>))"
| "received J eas (M_CancelLiveResponse s) = Some (M_CancelLiveResponse (s\<lparr>s_serviceLocator := ''''\<rparr>))"
| "received J eas (M_GetAllTunerStatesResponse s) =
     Some (M_GetAllTunerStatesResponse (s\<lparr>
       s_tunerStates := fold (\<lambda>x. smap_put (fst x) (d_state (snd x))) (s_tunerDetailedStates s) (s_tunerStates s),
       s_tunerDetailedStates := map (\<lambda>x. (fst x, received_detailed (snd x))) (s_tunerDetailedStates s)\<rparr>))"
| "received J eas (M_GetAllReservations q) =
     Some (M_GetAllReservations (q\<lparr>q_filterDevice := '''',
       q_filters := filter (\<lambda>x. fst x = ''device'' \<or> fst x = ''state'') (q_filters q)\<rparr>))"
| "received J eas (M_GetAllReservationsResponse s) =
     Some (M_GetAllReservationsResponse (s\<lparr>s_reservations :=
       map (\<lambda>x. (fst x, map (received_reservation J eas) (snd x))) (filter (\<lambda>x. snd x \<noteq> []) (s_reservations s))\<rparr>))"
| "received J eas (M_NotifyTunerReservationUpdate n) =
     Some (M_NotifyTunerReservationUpdate (n\<lparr>n_updatedReservation :=
       received_reservation J eas (n_updatedReservation n)\<rparr>))"
| "received J eas (M_NotifyTunerReservationConflicts n) =
     Some (M_NotifyTunerReservationConflicts (n\<lparr>
       n_requestedReservation := received_reservation J eas (n_requestedReservation n),
       n_conflicts := map (received_reservation J eas) (n_conflicts n)\<rparr>))"
| "received J eas (M_NotifyTunerStatesUpdate n) =
     Some (M_NotifyTunerStatesUpdate (n\<lparr>n_uuid := '''',
       n_tunerDetailedStates := map (\<lambda>x. (fst x, received_detailed (snd x))) (n_tunerDetailedStates n)\<rparr>))"
| "received J eas (M_NotifyClientConnectionEvent n) = Some (M_NotifyClientConnectionEvent (n\<lparr>n_uuid := ''''\<rparr>))"
| "received J eas (M_GetTRMConnectionEvents s) =
     Some (M_GetTRMConnectionEvents (s\<lparr>s_conEventList :=
       map (\<lambda>_. NotifyClientConnectionEvent_default) (s_conEventList s)\<rparr>))"
| "received J eas (M_UpdateTunerActivityStatusResponse s) = None"
| "received J eas m = Some m"

section \<open>Reading back the parts\<close>

lemma ascii_names: "ascii (Activity_name a)" "ascii (ResponseStatus_name r)" "ascii (Klass_name k)"
proof -
  show "ascii (Activity_name a)" by (cases a) (simp_all add: ascii_def)
  show "ascii (ResponseStatus_name r)" by (cases r) (simp_all add: ascii_def)
  show "ascii (Klass_name k)" by (cases k) (simp_all add: ascii_def)
qed

lemma mfold_ret:
  "(\<And>x y. x \<in> set xs \<Longrightarrow> f x y = ret (g x y)) \<Longrightarrow> mfold xs f y = ret (fold g xs y)"
  by (induction xs arbitrary: y) (simp_all, simp add: fun_eq_iff)

lemma mseq_ret_left [simp]: "mseq (ret x) m = m"
  by (simp add: mseq_def)

lemma massert_True [simp]: "massert True = ret ()"
  by (simp add: massert_def)

lemma args_Some [simp]: "str_arg (Some s) = ret s" "enum_arg (Some s) = ret s" "text_or d (Some s) = s"
  "text_or d None = d"
  by (simp_all add: str_arg_def enum_arg_def text_or_def)

lemma pointers [simp]:
  "jget J (Some v) k = j_get J v k" "jget J None k = None" "jtext J (Some v) = j_string_value J v"
  "jtext J None = None" "jitems J (Some v) = j_items J v" "jitems J None = []"
  "jelems J (Some v) = j_elems J v" "jelems J None = []" "jint J (Some v) = j_integer_value J v"
  by (simp_all add: jget_def jtext_def jitems_def jelems_def jint_def)

declare trm_apply [simp del]

lemma fold_addDetail:
  assumes "distinct (map fst xs)" "fst ` set xs \<inter> fst ` set (a_details a) = {}"
  shows "fold (\<lambda>x. Activity_addDetail (fst x) (h x)) xs a =
    a\<lparr>a_details := fold (\<lambda>x. smap_put (fst x) (h x)) xs (a_details a)\<rparr>"
  using assms
proof (induction xs arbitrary: a)
  case (Cons x xs)
  then have "map_of (a_details a) (fst x) = None" by (auto simp: map_of_eq_None_iff)
  then have "Activity_addDetail (fst x) (h x) a = a\<lparr>a_details := smap_put (fst x) (h x) (a_details a)\<rparr>"
    by (simp add: Activity_addDetail_def smap_insert_def)
  then show ?case using Cons by auto
qed simp

lemma map_entries: "map (\<lambda>x. (fst x, snd x)) xs = xs"
  by simp

lemma smap_ok_filter: "smap_ok m \<Longrightarrow> smap_ok (filter P m)"
  by (induction m) auto

lemma fold_put_self: "smap_ok m \<Longrightarrow> fold (\<lambda>x. smap_put (fst x) (snd x)) m [] = m"
  using fold_put [of m "[]" snd] smap_ok_distinct [of m] by (intro smap_ext) auto

context jansson_laws
begin

lemma utf8_keys [simp]:
  "j_utf8 J ''name''" "j_utf8 J ''details''" "j_utf8 J ''reservationToken''" "j_utf8 J ''device''"
  "j_utf8 J ''serviceLocator''" "j_utf8 J ''startTime''" "j_utf8 J ''duration''" "j_utf8 J ''activity''"
  "j_utf8 J ''customAttributes''" "j_utf8 J ''state''" "j_utf8 J ''owners''" "j_utf8 J ''reservedDeviceId''"
  "j_utf8 J ''requestId''" "j_utf8 J ''status''" "j_utf8 J ''statusMessage''" "j_utf8 J ''tunerReservation''"
  "j_utf8 J ''resurrect''" "j_utf8 J ''conflicts''" "j_utf8 J ''released''" "j_utf8 J ''valid''"
  "j_utf8 J ''cancelled''" "j_utf8 J ''tunerIds''" "j_utf8 J ''allStates''" "j_utf8 J ''detailedStates''"
  "j_utf8 J ''filters''" "j_utf8 J ''allReservations''" "j_utf8 J ''version''" "j_utf8 J ''tunerActivityStatus''"
  "j_utf8 J ''lastActivityTimeStamp''" "j_utf8 J ''lastActivityAction''" "j_utf8 J ''reason''"
  "j_utf8 J ''eventName''" "j_utf8 J ''clientIP''" "j_utf8 J ''timeStamp''" "j_utf8 J ''connectionEvents''"
  "j_utf8 J ''DeviceIds''" "j_utf8 J (Klass_name k)"
  by (rule utf8_ascii; (simp add: ascii_names; fail | simp add: ascii_def))+

lemma clean_names [simp]:
  "clean J (Activity_name a)" "clean J (ResponseStatus_name r)" "clean J (bool_text b)"
  by (rule clean_ascii; (simp add: ascii_names; fail | simp add: ascii_def bool_text_def))+

lemma clean_key: "clean J k \<Longrightarrow> j_utf8 J k"
  by (simp add: clean_def)

text \<open>An object that is filled with one member per entry of a map.\<close>

lemma get_fold:
  assumes st: "\<And>x p. x \<in> set xs \<Longrightarrow> j_is_object J p \<Longrightarrow>
      j_is_object J (st x p) \<and> j_get J (st x p) = (j_get J p)(fst x \<mapsto> g x)"
    and "distinct (map fst xs)" "j_is_object J p"
  shows "j_is_object J (fold st xs p) \<and>
    j_get J (fold st xs p) = j_get J p ++ map_of (map (\<lambda>x. (fst x, g x)) xs)"
  using assms
proof (induction xs arbitrary: p)
  case (Cons x xs)
  have "map_of (map (\<lambda>x. (fst x, g x)) xs) (fst x) = None"
    using Cons.prems(2) by (auto simp: map_of_eq_None_iff image_iff)
  then show ?case using Cons.IH [of "st x p"] Cons.prems
    by (auto simp: fun_eq_iff map_add_def split: option.split)
qed simp

text \<open>Its members, in whatever order, are those entries.\<close>

lemma items_of_fold:
  assumes "\<And>x p. x \<in> set xs \<Longrightarrow> j_is_object J p \<Longrightarrow>
      j_is_object J (st x p) \<and> j_get J (st x p) = (j_get J p)(fst x \<mapsto> g x)"
    and "distinct (map fst xs)"
  shows "set (j_items J (fold st xs (j_object J))) = (\<lambda>x. (fst x, g x)) ` set xs"
proof -
  let ?v = "fold st xs (j_object J)" and ?xs = "map (\<lambda>x. (fst x, g x)) xs"
  have "j_get J ?v = map_of ?xs"
    using get_fold [OF assms is_object] by (auto simp: fun_eq_iff map_add_def split: option.split)
  moreover have "distinct (map fst ?xs)" using assms(2) by (simp add: comp_def)
  ultimately have "set (j_items J ?v) = set ?xs"
    using map_of_inject_set [OF items_distinct, of ?xs ?v] by (simp add: items_get)
  then show ?thesis by simp
qed

text \<open>Reading the members back into a map.\<close>

lemma fold_items:
  assumes items: "set its = (\<lambda>x. (fst x, g x)) ` set xs" "distinct (map fst its)" "distinct (map fst xs)"
    and same: "\<And>x. x \<in> set xs \<Longrightarrow> h (fst x, g x) = d (snd x)"
    and "smap_ok (map (\<lambda>x. (fst x, d (snd x))) xs)"
  shows "fold (\<lambda>x. smap_put (fst x) (h x)) its [] = map (\<lambda>x. (fst x, d (snd x))) xs"
proof (rule smap_ext)
  note f = fold_put [OF items(2), of "[]" h]
  show "smap_ok (fold (\<lambda>x. smap_put (fst x) (h x)) its [])" using f by simp
  have "set (map (\<lambda>x. (fst x, h x)) its) = set (map (\<lambda>x. (fst x, d (snd x))) xs)"
    using items(1) same by (auto simp: image_image)
  then have "map_of (map (\<lambda>x. (fst x, h x)) its) = map_of (map (\<lambda>x. (fst x, d (snd x))) xs)"
    using items(2,3) by (subst map_of_inject_set) (simp_all add: comp_def)
  then show "map_of (fold (\<lambda>x. smap_put (fst x) (h x)) its []) = map_of (map (\<lambda>x. (fst x, d (snd x))) xs)"
    using f by simp
qed (rule assms(5))

lemma clean_mapD:
  assumes "clean_map J m P"
  shows "smap_ok m" "distinct (map fst m)" "x \<in> set m \<Longrightarrow> clean J (fst x) \<and> P (snd x)"
  using assms smap_ok_distinct by (auto simp: clean_map_def)

text \<open>A map of strings as an object of strings.\<close>

lemma items_strings:
  assumes "clean_map J m (clean J)"
  defines "v \<equiv> fold (\<lambda>(k, s). jsets J (c_str k) s) m (j_object J)"
  shows "set (j_items J v) = (\<lambda>x. (fst x, jv (snd x))) ` set m"
proof -
  have "set (j_items J (fold (\<lambda>(k, s). jsets J (c_str k) s) m (j_object J))) = (\<lambda>x. (fst x, jv (snd x))) ` set m"
  proof (rule items_of_fold)
    fix x p assume x: "x \<in> set m" "j_is_object J p"
    then have "clean J (fst x)" "clean J (snd x)" using clean_mapD(3) [OF assms(1)] by auto
    then show "j_is_object J ((\<lambda>(k, s). jsets J (c_str k) s) x p) \<and>
        j_get J ((\<lambda>(k, s). jsets J (c_str k) s) x p) = (j_get J p)(fst x \<mapsto> jv (snd x))"
      using x(2) by (cases x) (auto simp: sets_clean clean_str clean_key get_set fun_eq_iff)
  qed (rule clean_mapD(2) [OF assms(1)])
  then show ?thesis by (simp add: v_def)
qed

lemma decode_details:
  assumes "clean_map J m (clean J)"
  shows "mfold (j_items J (fold (\<lambda>(k, s). jsets J (c_str k) s) m (j_object J))) (JsonDecode_detail J)
      (Activity_new e) = ret \<lparr>a_enum = e, a_details = m\<rparr>"
proof -
  let ?v = "fold (\<lambda>(k, s). jsets J (c_str k) s) m (j_object J)"
  let ?h = "\<lambda>x. the (j_string_value J (snd x))"
  note its = items_strings [OF assms]
  have step: "JsonDecode_detail J x y = ret (Activity_addDetail (fst x) (?h x) y)"
    if "x \<in> set (j_items J ?v)" for x y
    using that clean_mapD(3) [OF assms] unfolding its by (auto simp: JsonDecode_detail_def clean_string)
  have "fold (\<lambda>x. smap_put (fst x) (?h x)) (j_items J ?v) [] = map (\<lambda>x. (fst x, snd x)) m"
    using clean_mapD [OF assms] by (intro fold_items [OF its items_distinct]) (auto simp: clean_string)
  then show ?thesis
    using mfold_ret [of "j_items J ?v" "JsonDecode_detail J", OF step]
      fold_addDetail [OF items_distinct, of ?v "Activity_new e" ?h]
    by (simp add: Activity_new_def)
qed

lemma decode_Activity:
  assumes "clean_map J (a_details a) (clean J)"
  shows "JsonDecode_Activity J eas (Some (JsonEncode_Activity J a (j_object J))) = ret (received_activity eas a)"
proof -
  have live: "Activity_name e = ''Live'' \<longleftrightarrow> e = kLive" "Activity_at ''Live'' = kLive" for e
    by (cases e; simp) (use Activity_at_name [of kLive] in simp)
  show ?thesis
  proof (cases "Activity_hasDetails a")
    case True
    then show ?thesis using decode_details [OF assms]
      by (cases a) (simp add: JsonDecode_Activity_def JsonEncode_Activity_def sets_clean get_set get_edit
          clean_string Activity_at_name received_activity_def live)
  next
    case False
    then have "a_details a = []" by (simp add: Activity_hasDetails_def)
    then show ?thesis using False
      by (cases a) (simp add: JsonDecode_Activity_def JsonEncode_Activity_def sets_clean get_set clean_string
          Activity_at_name received_activity_def live Activity_new_def)
  qed
qed

lemma decode_TunerReservation:
  assumes "clean_reservation J r"
  shows "JsonDecode_TunerReservation J eas (Some (JsonEncode_TunerReservation J r (j_object J))) =
    ret (received_reservation J eas r)"
  using assms decode_Activity [of "r_activity r" eas]
  by (cases r) (simp add: clean_reservation_def JsonDecode_TunerReservation_def JsonEncode_TunerReservation_def Let_def
      sets_clean get_set get_edit clean_string JsonDecode_duration_def JsonDecode_customAttributes_def
      received_reservation_def received_attributes_def TunerReservation_new_def split: option.split)

text \<open>The owners of a tuner.\<close>

lemma items_owners:
  assumes "clean_map J m (clean J)"
  shows "set (j_items J (fold (\<lambda>(k, v) p. jedit J (c_str k) (jsets J ''device'' v)
            (j_set J p (c_str k) (Some (j_object J)))) m (j_object J))) =
    (\<lambda>x. (fst x, j_set J (j_object J) ''device'' (Some (jv (snd x))))) ` set m"
proof (rule items_of_fold)
  let ?st = "\<lambda>(k, v) p. jedit J (c_str k) (jsets J ''device'' v) (j_set J p (c_str k) (Some (j_object J)))"
  fix x p assume x: "x \<in> set m" "j_is_object J p"
  then have "clean J (fst x)" "clean J (snd x)" using clean_mapD(3) [OF assms(1)] by auto
  then show "j_is_object J (?st x p) \<and> j_get J (?st x p) =
      (j_get J p)(fst x \<mapsto> j_set J (j_object J) ''device'' (Some (jv (snd x))))"
    using x(2) by (cases x) (auto simp: sets_clean clean_str clean_key get_set get_edit fun_eq_iff)
qed (rule clean_mapD(2) [OF assms])

lemma decode_owners_fold:
  "\<forall>x \<in> set its. jtext J (j_get J (snd x) ''device'') = Some (h x) \<Longrightarrow>
   JsonDecode_owners J its d = (True, d\<lparr>d_owners := fold (\<lambda>x. smap_put (fst x) (h x)) its (d_owners d)\<rparr>)"
  by (induction its arbitrary: d) (auto simp: DetailedTunerState_addTunerOwner_def)

lemma decode_owners:
  assumes "clean_map J m (clean J)" "d_owners d = []"
  shows "JsonDecode_owners J (j_items J (fold (\<lambda>(k, v) p. jedit J (c_str k) (jsets J ''device'' v)
            (j_set J p (c_str k) (Some (j_object J)))) m (j_object J))) d = (True, d\<lparr>d_owners := m\<rparr>)"
proof -
  let ?v = "fold (\<lambda>(k, v) p. jedit J (c_str k) (jsets J ''device'' v) (j_set J p (c_str k) (Some (j_object J))))
    m (j_object J)"
  let ?h = "\<lambda>x. the (jtext J (j_get J (snd x) ''device''))"
  note its = items_owners [OF assms(1)]
  have "fold (\<lambda>x. smap_put (fst x) (?h x)) (j_items J ?v) [] = map (\<lambda>x. (fst x, snd x)) m"
    using clean_mapD [OF assms(1)]
    by (intro fold_items [OF its items_distinct]) (auto simp: clean_string get_set)
  then show ?thesis
    using clean_mapD(3) [OF assms(1)] assms(2)
    by (subst decode_owners_fold [of _ ?h]) (auto simp: its clean_string get_set)
qed

lemma decode_DetailedTunerState:
  assumes "clean_detailed J d"
  shows "JsonDecode_DetailedTunerState J (Some (JsonEncode_DetailedTunerState J d (j_object J))) =
    ret (received_detailed d)"
  using assms
  by (cases d) (auto simp: clean_detailed_def JsonDecode_DetailedTunerState_def JsonEncode_DetailedTunerState_def
      Let_def sets_clean get_set get_edit clean_string decode_owners DetailedTunerState_setState_def
      DetailedTunerState_default_def received_detailed_def)

text \<open>Arrays of reservations and of strings.\<close>

lemma elems_fold:
  "j_is_array J a \<Longrightarrow> j_elems J (fold (\<lambda>x a. j_append J a (Some (f x))) xs a) = j_elems J a @ map f xs"
  by (induction xs arbitrary: a) simp_all

lemma decode_reservations:
  assumes "\<forall>r \<in> set rs. clean_reservation J r"
  shows "JsonDecode_reservations J eas (Some (JsonEncode_reservations J rs (j_array J))) rs0 =
    ret (rs0 @ map (received_reservation J eas) rs)"
  unfolding JsonDecode_reservations_def JsonEncode_reservations_def
  using assms by (induction rs arbitrary: rs0) (auto simp: elems_fold decode_TunerReservation)

lemma decode_strings:
  assumes "\<forall>s \<in> set ss. clean J s"
  shows "JsonDecode_strings J (Some (JsonEncode_strings J ss (j_array J))) = ret ss"
proof -
  have "fold (\<lambda>s a. j_append J a (jstr J s)) ss a = fold (\<lambda>s a. j_append J a (Some (jv s))) ss a" for a
    using assms by (induction ss arbitrary: a) (auto simp: clean_string)
  moreover have "mfold (map jv ss) (\<lambda>v ss. mbind (str_arg (jtext J (Some v))) (\<lambda>s. ret (ss @ [s]))) ss0 =
      ret (ss0 @ ss)" for ss0
    using assms by (induction ss arbitrary: ss0) (auto simp: clean_string)
  ultimately show ?thesis by (simp add: JsonDecode_strings_def JsonEncode_strings_def elems_fold)
qed

section \<open>Reading back messages\<close>

definition parent_of :: "Klass \<Rightarrow> ('j \<Rightarrow> 'j) \<Rightarrow> 'j" where
  "parent_of kl f = jedit J (Klass_name kl) f (j_set J (j_object J) (Klass_name kl) (Some (j_object J)))"

lemma parent_items: "j_items J (parent_of kl f) = [(Klass_name kl, f (j_object J))]"
  by (rule items_single) (auto simp: parent_of_def get_edit get_set fun_eq_iff)

lemma decode_parent: "JsonDecode_body J (parent_of kl f) d F = F (f (j_object J))"
  by (simp add: JsonDecode_body_def parent_items)

lemma decode_encode_class:
  "JsonDecoder_message J eas (JsonEncode_class J kl f) = JsonDecode_class J eas kl (parent_of kl f)"
proof -
  have "j_load J (JsonEncode_class J kl f) = Some (parent_of kl f)"
    by (simp add: JsonEncode_class_def parent_of_def)
  then show ?thesis
    by (simp add: JsonDecoder_message_def JsonDecode_handle_def parent_items Klass_at_name)
qed

lemma decode_SimpleTRMRequest:
  assumes "clean_request J q"
  shows "JsonDecode_SimpleTRMRequest J (JsonEncode_SimpleTRMRequest J q (j_object J)) =
    ret \<lparr>q_uuid = q_uuid q, q_device = q_device q, q_token = q_token q\<rparr>"
  using assms
  by (auto simp: clean_request_def JsonDecode_SimpleTRMRequest_def JsonEncode_SimpleTRMRequest_def Let_def sets_clean get_set clean_string)

lemma encode_SimpleTRMRequest:
  assumes "clean_request J q" "j_is_object J p"
  shows "j_is_object J (JsonEncode_SimpleTRMRequest J q p)"
    "k \<noteq> ''requestId'' \<Longrightarrow> k \<noteq> ''device'' \<Longrightarrow> k \<noteq> ''reservationToken'' \<Longrightarrow>
       j_get J (JsonEncode_SimpleTRMRequest J q p) k = j_get J p k"
  using assms by (auto simp: clean_request_def JsonEncode_SimpleTRMRequest_def Let_def sets_clean get_set)

lemma decode_SimpleTRMResponse:
  assumes "clean_response J s" "clean J details"
  shows "JsonDecode_SimpleTRMResponse J (JsonEncode_SimpleTRMResponse J details s (j_object J)) =
    ret \<lparr>s_uuid = s_uuid s, s_status = s_status s, s_token = s_token s\<rparr>"
  using assms
  by (auto simp: clean_response_def JsonDecode_SimpleTRMResponse_def JsonEncode_SimpleTRMResponse_def Let_def
      sets_clean get_set clean_string ResponseStatus_at_name)

lemma encode_SimpleTRMResponse:
  assumes "clean_response J s" "clean J details" "j_is_object J p"
  shows "j_is_object J (JsonEncode_SimpleTRMResponse J details s p)"
    "k \<noteq> ''requestId'' \<Longrightarrow> k \<noteq> ''status'' \<Longrightarrow> k \<noteq> ''statusMessage'' \<Longrightarrow> k \<noteq> ''reservationToken'' \<Longrightarrow>
       j_get J (JsonEncode_SimpleTRMResponse J details s p) k = j_get J p k"
  using assms by (auto simp: clean_response_def JsonEncode_SimpleTRMResponse_def Let_def sets_clean get_set)

text \<open>The base members are read back although more members follow.\<close>

lemma decode_base:
  assumes "\<And>k. k \<in> {''requestId'', ''device'', ''reservationToken''} \<Longrightarrow> j_get J v k = j_get J v' k"
  shows "JsonDecode_SimpleTRMRequest J v = JsonDecode_SimpleTRMRequest J v'"
  using assms by (simp add: JsonDecode_SimpleTRMRequest_def)

lemma decode_base_response:
  assumes "\<And>k. k \<in> {''requestId'', ''status'', ''reservationToken''} \<Longrightarrow> j_get J v k = j_get J v' k"
  shows "JsonDecode_SimpleTRMResponse J v = JsonDecode_SimpleTRMResponse J v'"
  using assms by (simp add: JsonDecode_SimpleTRMResponse_def)

lemma base_set:
  assumes "j_is_object J v" "j_utf8 J k" "k \<notin> {''requestId'', ''device'', ''reservationToken''}"
  shows "JsonDecode_SimpleTRMRequest J (j_set J v k (Some x)) = JsonDecode_SimpleTRMRequest J v"
    "JsonDecode_SimpleTRMRequest J (jedit J k f v) = JsonDecode_SimpleTRMRequest J v"
  using assms by (auto intro!: decode_base simp: get_set get_edit)

lemma base_set_response:
  assumes "j_is_object J v" "j_utf8 J k" "k \<notin> {''requestId'', ''status'', ''reservationToken''}"
  shows "JsonDecode_SimpleTRMResponse J (j_set J v k (Some x)) = JsonDecode_SimpleTRMResponse J v"
    "JsonDecode_SimpleTRMResponse J (jedit J k f v) = JsonDecode_SimpleTRMResponse J v"
  using assms by (auto intro!: decode_base_response simp: get_set get_edit)

lemmas reading_back = sets_clean get_set get_edit clean_string base_set base_set_response
  encode_SimpleTRMRequest encode_SimpleTRMResponse decode_SimpleTRMRequest decode_SimpleTRMResponse
  decode_TunerReservation decode_reservations decode_strings decode_encode_class decode_parent JsonDecode_class_def

text \<open>The messages that arrive as they are sent, up to the reservations in them.\<close>

lemma decode_requests:
  assumes "clean_message J m" "m = M_ReserveTuner q \<or> m = M_ReleaseTunerReservation r \<or>
    m = M_ValidateTunerReservation r \<or> m = M_CancelRecording r \<or> m = M_GetAllTunerIds r \<or> m = M_GetAllTunerStates r \<or>
    m = M_GetVersion r \<or> m = M_CancelLive l \<or> m = M_UpdateTunerActivityStatus u"
  shows "JsonDecoder_message J eas (JsonEncode J details m) = ret (received J eas m)"
  using assms
  by (elim disjE; cases q; cases r; cases l; cases u)
    (simp_all add: reading_back clean_request_def Let_def JsonEncode_ReserveTuner_def JsonDecode_ReserveTuner_def
      JsonEncode_Request_def JsonDecode_Request_def JsonEncode_CancelLive_def JsonDecode_CancelLive_def
      JsonEncode_UpdateTunerActivityStatus_def JsonDecode_UpdateTunerActivityStatus_def ReserveTuner_new_def)

lemma decode_encode_cases [simp]: "JsonDecode_reservations J eas None rs = ret rs"
  by (simp add: JsonDecode_reservations_def)

lemma decode_responses:
  assumes "clean_message J m" "clean J details" "m = M_ReserveTunerResponse s1 \<or> m = M_ReleaseTunerReservationResponse s2 \<or>
    m = M_ValidateTunerReservationResponse s3 \<or> m = M_CancelRecordingResponse s4 \<or> m = M_CancelLiveResponse s5 \<or>
    m = M_GetAllTunerIdsResponse s6 \<or> m = M_GetVersionResponse s7 \<or> m = M_GetAllConnectedDeviceIdsResponse s8"
  shows "JsonDecoder_message J eas (JsonEncode J details m) = ret (received J eas m)"
proof -
  have bool: "(bool_text b = ''true'') = b" for b by (simp add: bool_text_def)
  show ?thesis using assms
    by (elim disjE; cases s1; cases s2; cases s3; cases s4; cases s5; cases s6; cases s7; cases s8)
      (auto simp: reading_back list_all_iff Let_def bool JsonDecode_cancelled_def CancelLiveResponse_new_def
        ResponseStatus_at_name JsonEncode_ReserveTunerResponse_def JsonDecode_ReserveTunerResponse_def
        JsonEncode_ReleaseTunerReservationResponse_def JsonDecode_ReleaseTunerReservationResponse_def
        JsonEncode_ValidateTunerReservationResponse_def JsonDecode_ValidateTunerReservationResponse_def
        JsonEncode_CancelRecordingResponse_def JsonDecode_CancelRecordingResponse_def
        JsonEncode_CancelLiveResponse_def JsonDecode_CancelLiveResponse_def
        JsonEncode_GetAllTunerIdsResponse_def JsonDecode_GetAllTunerIdsResponse_def
        JsonEncode_GetVersionResponse_def JsonDecode_GetVersionResponse_def
        JsonEncode_GetAllConnectedDeviceIdsResponse_def JsonDecode_GetAllConnectedDeviceIdsResponse_def)
qed

lemma decode_notifications:
  assumes "clean_message J m" "m = M_NotifyTunerReservationRelease n1 \<or> m = M_NotifyTunerReservationUpdate n2 \<or>
    m = M_NotifyTunerReservationConflicts n3 \<or> m = M_NotifyTunerPretune n4 \<or> m = M_NotifyClientConnectionEvent n5"
  shows "JsonDecoder_message J eas (JsonEncode J details m) = ret (received J eas m)"
  using assms
  by (elim disjE; cases n1; cases n2; cases n3; cases n4; cases n5)
    (auto simp: reading_back list_all_iff Let_def clean_event_def JsonEncode_event_def
      JsonEncode_NotifyTunerReservationRelease_def JsonDecode_NotifyTunerReservationRelease_def
      JsonEncode_NotifyTunerReservationUpdate_def JsonDecode_NotifyTunerReservationUpdate_def
      JsonEncode_NotifyTunerReservationConflicts_def JsonDecode_NotifyTunerReservationConflicts_def
      JsonEncode_NotifyTunerPretune_def JsonDecode_NotifyTunerPretune_def
      JsonEncode_NotifyClientConnectionEvent_def JsonDecode_NotifyClientConnectionEvent_def)

text \<open>Filters: those by activity are written as a string and read as an object.\<close>

lemma decode_filter:
  assumes "clean J (fst x)" "clean J (snd x)"
  shows "JsonDecode_filter J (j_set J (j_object J) (fst x) (Some (jv (snd x)))) fs =
    ret (if fst x = ''device'' \<or> fst x = ''state'' then smap_put (fst x) (snd x) fs else fs)"
  using assms by (auto simp: JsonDecode_filter_def get_set clean_key clean_string addFilter_def)

lemma decode_filters:
  assumes "clean_map J m (clean J)"
  shows "mfold (j_elems J (JsonEncode_filters J m (j_array J))) (JsonDecode_filter J) [] =
    ret (filter (\<lambda>x. fst x = ''device'' \<or> fst x = ''state'') m)"
proof -
  let ?P = "\<lambda>x. fst x = ''device'' \<or> fst x = ''state''"
  let ?v = "\<lambda>x. j_set J (j_object J) (fst x) (Some (jv (snd x)))"
  note m = clean_mapD [OF assms]
  have "fold (\<lambda>(k, v) a. j_append J a (Some (jsets J (c_str k) v (j_object J)))) xs a =
      fold (\<lambda>x a. j_append J a (Some (?v x))) xs a" if "set xs \<subseteq> set m" for xs a
    using that m(3) by (induction xs arbitrary: a) (auto simp: sets_clean clean_str)
  then have elems: "j_elems J (JsonEncode_filters J m (j_array J)) = map ?v m"
    by (simp add: JsonEncode_filters_def elems_fold)
  have "mfold (map ?v xs) (JsonDecode_filter J) fs = ret (fold (\<lambda>x. smap_put (fst x) (snd x)) (filter ?P xs) fs)"
    if "set xs \<subseteq> set m" for xs fs
    using that m(3) by (induction xs arbitrary: fs) (auto simp: decode_filter)
  then show ?thesis using fold_put_self [OF smap_ok_filter [OF m(1)]] by (simp add: elems)
qed

text \<open>Detailed states.\<close>

lemma items_detailed:
  assumes "clean_map J m (clean_detailed J)"
  shows "set (j_items J (JsonEncode_detailedStates J m (j_object J))) =
    (\<lambda>x. (fst x, JsonEncode_DetailedTunerState J (snd x) (j_object J))) ` set m"
  unfolding JsonEncode_detailedStates_def
proof (rule items_of_fold)
  let ?st = "\<lambda>(tid, d) p. jedit J (c_str tid) (JsonEncode_DetailedTunerState J d)
    (j_set J p (c_str tid) (Some (j_object J)))"
  fix x p assume x: "x \<in> set m" "j_is_object J p"
  then have "clean J (fst x)" using clean_mapD(3) [OF assms(1)] by auto
  then show "j_is_object J (?st x p) \<and> j_get J (?st x p) =
      (j_get J p)(fst x \<mapsto> JsonEncode_DetailedTunerState J (snd x) (j_object J))"
    using x(2) by (cases x) (auto simp: clean_str clean_key get_set get_edit fun_eq_iff)
qed (rule clean_mapD(2) [OF assms])

text \<open>The members of the object of detailed states, decoded.\<close>

definition detailed_of :: "(string \<times> 'j) \<Rightarrow> DetailedTunerState" where
  "detailed_of x = (THE d. JsonDecode_DetailedTunerState J (Some (snd x)) = ret d)"

lemma detailed_of:
  assumes "clean_detailed J d"
  shows "detailed_of (k, JsonEncode_DetailedTunerState J d (j_object J)) = received_detailed d"
    "JsonDecode_DetailedTunerState J (Some (JsonEncode_DetailedTunerState J d (j_object J))) =
      ret (detailed_of (k, JsonEncode_DetailedTunerState J d (j_object J)))"
  using decode_DetailedTunerState [OF assms] by (auto simp: detailed_of_def fun_eq_iff trm_apply)

lemma fold_detailed:
  assumes "clean_map J m (clean_detailed J)"
  defines "its \<equiv> j_items J (JsonEncode_detailedStates J m (j_object J))"
  shows "fold (\<lambda>x. smap_put (fst x) (detailed_of x)) its [] = map (\<lambda>x. (fst x, received_detailed (snd x))) m"
    and "\<forall>x \<in> set its. JsonDecode_DetailedTunerState J (Some (snd x)) = ret (detailed_of x)"
proof -
  note m = clean_mapD [OF assms(1)]
  have ok: "smap_ok (map (\<lambda>x. (fst x, received_detailed (snd x))) m)"
    using m(1) by (simp add: smap_ok_def comp_def)
  show "fold (\<lambda>x. smap_put (fst x) (detailed_of x)) its [] = map (\<lambda>x. (fst x, received_detailed (snd x))) m"
    unfolding its_def using m
    by (intro fold_items [OF items_detailed [OF assms(1)] items_distinct _ _ ok]) (auto simp: detailed_of)
  show "\<forall>x \<in> set its. JsonDecode_DetailedTunerState J (Some (snd x)) = ret (detailed_of x)"
    using m(3) by (auto simp: its_def items_detailed [OF assms(1)] detailed_of(2))
qed

lemma decode_NotifyTunerStatesUpdate:
  assumes "clean_message J (M_NotifyTunerStatesUpdate n)"
  shows "JsonDecoder_message J eas (JsonEncode J details (M_NotifyTunerStatesUpdate n)) =
    ret (received J eas (M_NotifyTunerStatesUpdate n))"
proof -
  let ?its = "j_items J (JsonEncode_detailedStates J (n_tunerDetailedStates n) (j_object J))"
  have c: "clean J (n_uuid n)" "clean_map J (n_tunerDetailedStates n) (clean_detailed J)" using assms by auto
  note f = fold_detailed [OF c(2)]
  have "mfold xs (JsonDecode_stateUpdate J) y =
      ret (y\<lparr>n_tunerDetailedStates := fold (\<lambda>x. smap_put (fst x) (detailed_of x)) xs (n_tunerDetailedStates y)\<rparr>)"
    if "set xs \<subseteq> set ?its" for xs y
    using that f(2)
    by (induction xs arbitrary: y) (auto simp: JsonDecode_stateUpdate_def NotifyTunerStatesUpdate_add_def)
  then show ?thesis using c f(1)
    by (cases n) (simp add: reading_back Let_def JsonEncode_NotifyTunerStatesUpdate_def
        JsonDecode_NotifyTunerStatesUpdate_def)
qed

text \<open>Connection events: read, but not stored.\<close>

lemma decode_GetTRMConnectionEvents:
  assumes "clean_message J (M_GetTRMConnectionEvents s)" "clean J details"
  shows "JsonDecoder_message J eas (JsonEncode J details (M_GetTRMConnectionEvents s)) =
    ret (received J eas (M_GetTRMConnectionEvents s))"
proof -
  have "mfold xs (\<lambda>x es. mbind (JsonDecode_event J (Some x) NotifyClientConnectionEvent_default)
      (\<lambda>e. ret (es @ [e]))) es = ret (es @ map (\<lambda>_. NotifyClientConnectionEvent_default) xs)" for xs es
    by (induction xs arbitrary: es) (auto simp: JsonDecode_event_def)
  then show ?thesis using assms
    by (cases s) (simp add: reading_back JsonEncode_GetTRMConnectionEvents_def
        JsonDecode_GetTRMConnectionEvents_def elems_fold comp_def)
qed

lemma decode_GetAllReservations:
  assumes "clean_message J (M_GetAllReservations q)"
  shows "JsonDecoder_message J eas (JsonEncode J details (M_GetAllReservations q)) =
    ret (received J eas (M_GetAllReservations q))"
  using assms
  by (cases q) (simp add: reading_back JsonEncode_GetAllReservations_def JsonDecode_GetAllReservations_def
      decode_filters)

text \<open>Tuner states: the detailed state of a tuner also sets its plain state.\<close>

lemma fold_items_from:
  assumes "set its = (\<lambda>x. (fst x, g x)) ` set xs" "distinct (map fst its)" "distinct (map fst xs)"
    and "\<And>x. x \<in> set xs \<Longrightarrow> h (fst x, g x) = d x" and "smap_ok m"
  shows "fold (\<lambda>x. smap_put (fst x) (h x)) its m = fold (\<lambda>x. smap_put (fst x) (d x)) xs m"
proof (rule smap_ext)
  note f = fold_put [OF assms(2,5), of h] and f' = fold_put [OF assms(3,5), of d]
  show "smap_ok (fold (\<lambda>x. smap_put (fst x) (h x)) its m)" "smap_ok (fold (\<lambda>x. smap_put (fst x) (d x)) xs m)"
    using f f' by simp_all
  have "set (map (\<lambda>x. (fst x, h x)) its) = set (map (\<lambda>x. (fst x, d x)) xs)"
    using assms(1,4) by (auto simp: image_image)
  then have "map_of (map (\<lambda>x. (fst x, h x)) its) = map_of (map (\<lambda>x. (fst x, d x)) xs)"
    using assms(2,3) by (subst map_of_inject_set) (simp_all add: comp_def)
  then show "map_of (fold (\<lambda>x. smap_put (fst x) (h x)) its m) = map_of (fold (\<lambda>x. smap_put (fst x) (d x)) xs m)"
    using f f' by simp
qed

lemma fold_addTunerOwner:
  assumes "s_tunerDetailedStates s = smap_put tid d m"
  shows "fold (\<lambda>(act, dev). addTunerOwner tid act dev) os s = s\<lparr>s_tunerDetailedStates :=
    smap_put tid (d\<lparr>d_owners := fold (\<lambda>x. smap_put (fst x) (snd x)) os (d_owners d)\<rparr>) m\<rparr>"
  using assms
proof (induction os arbitrary: s d)
  case Nil
  then show ?case by (cases s; cases d) simp
next
  case (Cons ob os)
  let ?s = "addTunerOwner tid (fst ob) (snd ob) s"
  let ?d = "DetailedTunerState_addTunerOwner (fst ob) (snd ob) d"
  have "s_tunerDetailedStates ?s = smap_put tid ?d m" "?s\<lparr>s_tunerDetailedStates := x\<rparr> = s\<lparr>s_tunerDetailedStates := x\<rparr>" for x
    using Cons.prems by (simp_all add: addTunerOwner_def detailedState_ref_def)
  then show ?case using Cons.IH [of ?s ?d]
    by (cases ob) (simp add: DetailedTunerState_addTunerOwner_def)
qed

lemma decode_detailedState:
  assumes "JsonDecode_DetailedTunerState J (Some (snd x)) = ret d" "smap_ok (d_owners d)"
    and "map_of (s_tunerDetailedStates s) (fst x) = None"
  shows "JsonDecode_detailedState J x s =
    ret (s\<lparr>s_tunerStates := smap_put (fst x) (d_state d) (s_tunerStates s),
           s_tunerDetailedStates := smap_put (fst x) d (s_tunerDetailedStates s)\<rparr>)"
proof -
  let ?d0 = "DetailedTunerState_default\<lparr>d_state := d_state d, d_serviceLocator := d_serviceLocator d,
    d_reservedDeviceId := d_reservedDeviceId d\<rparr>"
  let ?s = "addTunerDetailedState (fst x) (d_state d) (d_serviceLocator d) (d_reservedDeviceId d) s"
  have "s_tunerDetailedStates ?s = smap_put (fst x) ?d0 (s_tunerDetailedStates s)"
    using assms(3) by (simp add: addTunerDetailedState_def detailedState_ref_def addTunerState_def)
  then show ?thesis using assms(1,2) fold_addTunerOwner [of ?s "fst x" ?d0 "s_tunerDetailedStates s" "d_owners d"]
    by (cases d) (simp add: JsonDecode_detailedState_def fold_put_self addTunerDetailedState_def detailedState_ref_def
        addTunerState_def DetailedTunerState_default_def)
qed

lemma decode_detailedStates:
  assumes "distinct (map fst its)" "fst ` set its \<inter> fst ` set (s_tunerDetailedStates s) = {}"
    and "\<And>x. x \<in> set its \<Longrightarrow> JsonDecode_DetailedTunerState J (Some (snd x)) = ret (h x) \<and> smap_ok (d_owners (h x))"
  shows "mfold its (JsonDecode_detailedState J) s =
    ret (s\<lparr>s_tunerStates := fold (\<lambda>x. smap_put (fst x) (d_state (h x))) its (s_tunerStates s),
           s_tunerDetailedStates := fold (\<lambda>x. smap_put (fst x) (h x)) its (s_tunerDetailedStates s)\<rparr>)"
  using assms
proof (induction its arbitrary: s)
  case (Cons x its)
  have "map_of (s_tunerDetailedStates s) (fst x) = None"
    using Cons.prems(2) by (auto simp: map_of_eq_None_iff)
  then have step: "JsonDecode_detailedState J x s =
    ret (s\<lparr>s_tunerStates := smap_put (fst x) (d_state (h x)) (s_tunerStates s),
           s_tunerDetailedStates := smap_put (fst x) (h x) (s_tunerDetailedStates s)\<rparr>)" (is "_ = ret ?s")
    using Cons.prems(3) by (intro decode_detailedState) auto
  have "fst ` set its \<inter> fst ` set (s_tunerDetailedStates ?s) = {}" using Cons.prems(1,2) by auto
  then show ?case using Cons.IH [of ?s] Cons.prems(1,3) step by simp
qed simp

lemma decode_GetAllTunerStatesResponse:
  assumes "clean_message J (M_GetAllTunerStatesResponse s)" "clean J details"
  shows "JsonDecoder_message J eas (JsonEncode J details (M_GetAllTunerStatesResponse s)) =
    ret (received J eas (M_GetAllTunerStatesResponse s))"
proof -
  let ?v = "fold (\<lambda>(k, s). jsets J (c_str k) s) (s_tunerStates s) (j_object J)"
  let ?its = "j_items J (JsonEncode_detailedStates J (s_tunerDetailedStates s) (j_object J))"
  let ?h = "\<lambda>x. the (j_string_value J (snd x))"
  have c: "clean_response J s" "clean_map J (s_tunerStates s) (clean J)"
    "clean_map J (s_tunerDetailedStates s) (clean_detailed J)" using assms(1) by auto
  note f = fold_detailed [OF c(3)] and m2 = clean_mapD [OF c(2)] and m3 = clean_mapD [OF c(3)]
  have "JsonDecode_tunerState J x y = ret (addTunerState (fst x) (?h x) y)" if "x \<in> set (j_items J ?v)" for x y
    using that m2(3) unfolding items_strings [OF c(2)] by (auto simp: JsonDecode_tunerState_def clean_string)
  then have "mfold (j_items J ?v) (JsonDecode_tunerState J) y = ret (fold (\<lambda>x. addTunerState (fst x) (?h x)) (j_items J ?v) y)" for y
    by (rule mfold_ret)
  moreover have "fold (\<lambda>x. addTunerState (fst x) (?h x)) xs y =
      y\<lparr>s_tunerStates := fold (\<lambda>x. smap_put (fst x) (?h x)) xs (s_tunerStates y)\<rparr>" for xs y
    by (induction xs arbitrary: y) (simp_all add: addTunerState_def)
  moreover have "fold (\<lambda>x. smap_put (fst x) (?h x)) (j_items J ?v) [] = map (\<lambda>x. (fst x, snd x)) (s_tunerStates s)"
    using m2 by (intro fold_items [OF items_strings [OF c(2)] items_distinct]) (auto simp: clean_string)
  ultimately have states: "mfold (j_items J ?v) (JsonDecode_tunerState J) y = ret (y\<lparr>s_tunerStates := s_tunerStates s\<rparr>)"
    if "s_tunerStates y = []" for y using that by simp
  have "smap_ok (d_owners (detailed_of x))" if "x \<in> set ?its" for x
    using that m3(3) by (auto simp: items_detailed [OF c(3)] detailed_of received_detailed_def clean_detailed_def clean_map_def)
  then have "mfold ?its (JsonDecode_detailedState J) y = ret (y\<lparr>
      s_tunerStates := fold (\<lambda>x. smap_put (fst x) (d_state (detailed_of x))) ?its (s_tunerStates y),
      s_tunerDetailedStates := fold (\<lambda>x. smap_put (fst x) (detailed_of x)) ?its []\<rparr>)"
    if "s_tunerDetailedStates y = []" for y
    using that f(2) by (subst decode_detailedStates [of _ _ detailed_of]) (auto simp: items_distinct)
  moreover have "fold (\<lambda>x. smap_put (fst x) (d_state (detailed_of x))) ?its (s_tunerStates s) =
      fold (\<lambda>x. smap_put (fst x) (d_state (snd x))) (s_tunerDetailedStates s) (s_tunerStates s)"
    using m2(1) m3 by (intro fold_items_from [OF items_detailed [OF c(3)] items_distinct m3(2)])
      (auto simp: detailed_of received_detailed_def)
  ultimately show ?thesis using c assms(2) f(1) states
    by (cases s) (simp add: reading_back Let_def JsonEncode_GetAllTunerStatesResponse_def
        JsonDecode_GetAllTunerStatesResponse_def)
qed

text \<open>Reservations by tuner: a tuner without any is not listed by the receiver.\<close>

lemma items_reservations:
  assumes "clean_map J m P"
  shows "set (j_items J (fold (\<lambda>(tid, rs) o'. jedit J (c_str tid) (JsonEncode_reservations J rs)
            (j_set J o' (c_str tid) (Some (j_array J)))) m (j_object J))) =
    (\<lambda>x. (fst x, JsonEncode_reservations J (snd x) (j_array J))) ` set m"
proof (rule items_of_fold)
  let ?st = "\<lambda>(tid, rs) o'. jedit J (c_str tid) (JsonEncode_reservations J rs)
    (j_set J o' (c_str tid) (Some (j_array J)))"
  fix x p assume x: "x \<in> set m" "j_is_object J p"
  then have "clean J (fst x)" using clean_mapD(3) [OF assms(1)] by auto
  then show "j_is_object J (?st x p) \<and> j_get J (?st x p) =
      (j_get J p)(fst x \<mapsto> JsonEncode_reservations J (snd x) (j_array J))"
    using x(2) by (cases x) (auto simp: clean_str clean_key get_set get_edit fun_eq_iff)
qed (rule clean_mapD(2) [OF assms])

lemma fold_addTunerReservation:
  assumes "s_reservations s = smap_put tid rs0 m"
  shows "fold (addTunerReservation tid) rs s = s\<lparr>s_reservations := smap_put tid (rs0 @ rs) m\<rparr>"
  using assms
proof (induction rs arbitrary: s rs0)
  case Nil
  then show ?case by (cases s) simp
next
  case (Cons r rs)
  then show ?case using Cons.IH [of "addTunerReservation tid r s" "rs0 @ [r]"]
    by (simp add: addTunerReservation_def)
qed

lemma fold_addTunerReservation_new:
  assumes "map_of (s_reservations s) tid = None"
  shows "fold (addTunerReservation tid) rs s =
    (if rs = [] then s else s\<lparr>s_reservations := smap_put tid rs (s_reservations s)\<rparr>)"
proof (cases rs)
  case (Cons r rs')
  then show ?thesis using assms fold_addTunerReservation [of "addTunerReservation tid r s" tid "[r]" "s_reservations s" rs']
    by (simp add: addTunerReservation_def)
qed simp

lemma decode_tunerReservations:
  assumes "\<forall>r \<in> set rs. clean_reservation J r"
  shows "JsonDecode_tunerReservations J eas (tid, JsonEncode_reservations J rs (j_array J)) s =
    ret (fold (addTunerReservation tid) (map (received_reservation J eas) rs) s)"
  using assms unfolding JsonDecode_tunerReservations_def JsonEncode_reservations_def
  by (induction rs arbitrary: s) (auto simp: elems_fold decode_TunerReservation)

lemma decode_reservations_by_tuner:
  assumes "distinct (map fst its)" "fst ` set its \<inter> fst ` set (s_reservations s) = {}"
    and "\<And>x s. x \<in> set its \<Longrightarrow> JsonDecode_tunerReservations J eas x s = ret (fold (addTunerReservation (fst x)) (h x) s)"
  shows "mfold its (JsonDecode_tunerReservations J eas) s = ret (s\<lparr>s_reservations :=
    fold (\<lambda>x. smap_put (fst x) (h x)) (filter (\<lambda>x. h x \<noteq> []) its) (s_reservations s)\<rparr>)"
  using assms
proof (induction its arbitrary: s)
  case (Cons x its)
  have "map_of (s_reservations s) (fst x) = None" using Cons.prems(2) by (auto simp: map_of_eq_None_iff)
  note step = fold_addTunerReservation_new [OF this, of "h x"]
  let ?s = "fold (addTunerReservation (fst x)) (h x) s"
  have "fst ` set its \<inter> fst ` set (s_reservations ?s) = {}" using Cons.prems(1,2) by (auto simp: step)
  then have "mfold its (JsonDecode_tunerReservations J eas) ?s = ret (?s\<lparr>s_reservations :=
      fold (\<lambda>x. smap_put (fst x) (h x)) (filter (\<lambda>x. h x \<noteq> []) its) (s_reservations ?s)\<rparr>)"
    using Cons.prems(1,3) by (intro Cons.IH) auto
  then show ?case using Cons.prems(3) by (simp add: step)
qed simp

lemma decode_GetAllReservationsResponse:
  assumes "clean_message J (M_GetAllReservationsResponse s)" "clean J details"
  shows "JsonDecoder_message J eas (JsonEncode J details (M_GetAllReservationsResponse s)) =
    ret (received J eas (M_GetAllReservationsResponse s))"
proof -
  let ?m = "s_reservations s" and ?enc = "\<lambda>rs. JsonEncode_reservations J rs (j_array J)"
  let ?v = "fold (\<lambda>(tid, rs) o'. jedit J (c_str tid) (JsonEncode_reservations J rs)
            (j_set J o' (c_str tid) (Some (j_array J)))) ?m (j_object J)"
  let ?its = "j_items J ?v"
  let ?h = "\<lambda>x. map (received_reservation J eas) (the (map_of ?m (fst x)))"
  have c: "clean_response J s" "clean_map J ?m (list_all (clean_reservation J))" using assms(1) by auto
  note m = clean_mapD [OF c(2)] and its = items_reservations [OF c(2)]
  have same: "the (map_of ?m (fst x)) = snd x" if "x \<in> set ?m" for x
    using smap_mem_map_of [OF m(1), of "fst x" "snd x"] that by simp
  have "JsonDecode_tunerReservations J eas x y = ret (fold (addTunerReservation (fst x)) (?h x) y)"
    if "x \<in> set ?its" for x y
    using that m(3) same unfolding its by (auto simp: list_all_iff decode_tunerReservations)
  then have read: "mfold ?its (JsonDecode_tunerReservations J eas) y = ret (y\<lparr>s_reservations :=
      fold (\<lambda>x. smap_put (fst x) (?h x)) (filter (\<lambda>x. ?h x \<noteq> []) ?its) []\<rparr>)" if "s_reservations y = []" for y
    using that by (subst decode_reservations_by_tuner [of _ _ _ ?h]) (auto simp: items_distinct)
  have "fold (\<lambda>x. smap_put (fst x) (?h x)) (filter (\<lambda>x. ?h x \<noteq> []) ?its) [] =
      map (\<lambda>x. (fst x, map (received_reservation J eas) (snd x))) (filter (\<lambda>x. snd x \<noteq> []) ?m)"
  proof (rule fold_items [of _ "\<lambda>x. ?enc (snd x)"])
    show "set (filter (\<lambda>x. ?h x \<noteq> []) ?its) = (\<lambda>x. (fst x, ?enc (snd x))) ` set (filter (\<lambda>x. snd x \<noteq> []) ?m)"
      using same by (auto simp: its image_iff)
    show "distinct (map fst (filter (\<lambda>x. ?h x \<noteq> []) ?its))" by (intro distinct_map_filter items_distinct)
    show "distinct (map fst (filter (\<lambda>x. snd x \<noteq> []) ?m))" by (intro distinct_map_filter m(2))
    show "smap_ok (map (\<lambda>x. (fst x, map (received_reservation J eas) (snd x))) (filter (\<lambda>x. snd x \<noteq> []) ?m))"
      using smap_ok_filter [OF m(1), of "\<lambda>x. snd x \<noteq> []"] by (simp add: smap_ok_def comp_def)
  qed (auto simp: same)
  then show ?thesis using c assms(2) read
    by (cases s) (simp add: reading_back Let_def JsonEncode_GetAllReservationsResponse_def
        JsonDecode_GetAllReservationsResponse_def)
qed

text \<open>The codec as a whole.\<close>

lemma decode_message:
  assumes "clean_message J m" "clean J details"
  shows "JsonDecoder_message J eas (JsonEncode J details m) = ret (received J eas m)"
proof -
  have "JsonDecoder_message J eas (JsonEncode J details m) = ret None"
    if "m = M_UpdateTunerActivityStatusResponse s" for s
    using that by (simp add: reading_back JsonEncode_UpdateTunerActivityStatusResponse_def)
  then show ?thesis
    using assms decode_requests [OF assms(1)] decode_responses [OF assms] decode_notifications [OF assms(1)]
      decode_NotifyTunerStatesUpdate decode_GetTRMConnectionEvents decode_GetAllReservations
      decode_GetAllTunerStatesResponse decode_GetAllReservationsResponse
    by (cases m) simp_all
qed

lemma decode_encode:
  assumes "clean_message J m" "clean J details"
  shows "JsonDecoder_decode J eas processor (JsonEncode J details m) =
    (case received J eas m of None \<Rightarrow> ret () | Some m' \<Rightarrow> processor m')"
  by (simp add: JsonDecoder_decode_def decode_message [OF assms])

end

end
