(* ===== verification/Trm_Session.thy ===== *)
theory Trm_Session
  imports Trm_Wire Trm_Scenario Trm_Clients
begin

text \<open>
  The server on bytes: \<^verbatim>\<open>Server::onMessageReceived\<close> with the header and the codec in place, and
  a whole session, from the bytes that arrive on a connection to the executors. The event loop of
  \<open>Trm_Server\<close>, on which messages arrive decoded, is what the server does on the bytes of such
  messages.
\<close>

section \<open>The slot on bytes\<close>

text \<open>
  The copy for the diagnostics client is made before the header is looked at: it carries the
  client id that stands in the bytes.
\<close>

definition copyReceived :: "u8 list \<Rightarrow> unit trm" where
  "copyReceived bs =
     (if length bs < kHeaderLength then throw UndefinedBehaviour
      else Server_onHasMessageToSend (be_word (bs ! 8) (bs ! 9) (bs ! 10) (bs ! 11))
        (let pb = drop kHeaderLength bs in if pb = [] then NoPayload else RawPayload pb))"

definition Server_onMessageReceived_bytes :: "'j jansson \<Rightarrow> bool \<Rightarrow> nat \<Rightarrow> u8 list \<Rightarrow> unit trm" where
  "Server_onMessageReceived_bytes J eas c bs =
     mcatch_all
       (mseq (copyReceived bs)
       (case Server_unpack bs of
          Inl e \<Rightarrow> throw e
        | Inr (cid, pb) \<Rightarrow>
            mseq (bindClient c cid)
              (if pb \<noteq> [] then JsonDecoder_decode J eas (ServerMessageProcessor_process cid) pb
               else processPayload c cid NoPayload)))
       (ret ())"

text \<open>The messages a connection has received, one after the other.\<close>

definition serve :: "'j jansson \<Rightarrow> bool \<Rightarrow> nat \<Rightarrow> Connection \<Rightarrow> unit trm" where
  "serve J eas c con = mfor (c_received con) (Server_onMessageReceived_bytes J eas c)"

text \<open>A message as the decoded event loop sees it.\<close>

definition decoded :: "'j jansson \<Rightarrow> bool \<Rightarrow> string \<Rightarrow> message \<Rightarrow> payload" where
  "decoded J eas details m =
     (case received J eas m of None \<Rightarrow> RawPayload (JsonEncode J details m) | Some m' \<Rightarrow> Payload m')"

section \<open>No diagnostics client\<close>

definition unwatched :: "world \<Rightarrow> bool" where
  "unwatched w \<longleftrightarrow> map_of (w_clients w) kTRMMgrClientId = None"

lemma unwatched_base [inv_intros]:
  "preserves unwatched (modify f)" "preserves unwatched GetCurrentEpoch"
  "preserves unwatched GenerateUUID" "preserves unwatched GetDeviceId"
  "preserves unwatched new_address" "preserves unwatched emit_reservationUpdated"
  "preserves unwatched (Connection_send c cid p)"
  by (simp_all add: preserves_def unwatched_def GetCurrentEpoch_def GenerateUUID_def GetDeviceId_def
      Let_def new_address_def emit_reservationUpdated_def Connection_send_def)

interpretation watchers: handler_invariant unwatched "\<lambda>_. True"
proof
  show "preserves unwatched (releaseReservation tok n)" for tok n
    unfolding releaseReservation_def onTuner_def cancelPreStartTimer_def cancelStartTimer_def
      cancelExpireTimer_def
    by (rule inv_intros)+
  show "preserves unwatched (mseq (addReservation r tid) (setReservationAttributes (r_token r) cid))"
    for r tid cid
    unfolding addReservation_def setReservationAttributes_def setTimer_def setPreStartTimer_def
      setStartTimer_def setExpireTimer_def onTuner_def
    by (rule inv_intros)+
qed (auto intro: inv_intros)

lemma bind_unwatched:
  "cid \<noteq> kTRMMgrClientId \<Longrightarrow> preserves unwatched (bindClient c cid)"
  by (simp add: preserves_def unwatched_def bindClient_def setClients_def split: option.split)

lemma received_unwatched:
  assumes "cid \<noteq> kTRMMgrClientId"
  shows "preserves unwatched (Server_onMessageReceived c cid p)"
proof -
  have "preserves unwatched (setClients (smap_erase cid))"
    by (simp add: preserves_def unwatched_def setClients_def)
  then have "preserves unwatched (mseq (releaseClient cid) (setClients (smap_erase cid)))"
    by (intro inv_intros watchers.releaseClient)
  then have "preserves unwatched (processPayload c cid p)"
    by (cases p) (simp_all add: processPayload_def preserves_ret watchers.process, simp add: preserves_def)
  then show ?thesis unfolding Server_onMessageReceived_def
    by (intro inv_intros watchers.sending bind_unwatched assms)
qed

section \<open>From bytes to messages\<close>

lemma unpack_length: "Server_unpack bs = Inr x \<Longrightarrow> kHeaderLength \<le> length bs"
  by (simp add: Server_unpack_def Header_deserialize_def ebind_def kHeaderLength_def split: if_splits)

lemma copy_unwatched:
  assumes "unwatched w"
  shows "Server_onHasMessageToSend cid p w = (Inr (), w)"
    "kHeaderLength \<le> length bs \<Longrightarrow> copyReceived bs w = (Inr (), w)"
  using assms by (simp_all add: unwatched_def Server_onHasMessageToSend_def copyReceived_def)

text \<open>An empty message of a client that is bound to the connection releases what it holds.\<close>

lemma empty_message_run:
  assumes "mgr_ok ids (w_mgr w)" "Server_unpack bs = Inr (cid, [])" "map_of (w_clients w) cid = Some c"
  shows "\<exists>w'. Server_onMessageReceived_bytes J eas c bs w = (Inr (), w') \<and>
    attrs (w_mgr w') = filter (\<lambda>p. snd p \<noteq> cid) (attrs (w_mgr w)) \<and>
    w_clients w' = smap_erase cid (w_clients w) \<and>
    (\<forall>tok. map_of (attrs (w_mgr w)) tok \<noteq> Some cid \<longrightarrow>
       getReservation tok (w_mgr w') = getReservation tok (w_mgr w))"
proof -
  have "\<exists>w1. copyReceived bs w = (Inr (), w1) \<and> w_mgr w1 = w_mgr w \<and> w_clients w1 = w_clients w"
    using unpack_length [OF assms(2)]
    by (simp add: copyReceived_def Server_onHasMessageToSend_def Connection_send_def split: option.split)
  then obtain w1 where w1: "copyReceived bs w = (Inr (), w1)" "w_mgr w1 = w_mgr w" "w_clients w1 = w_clients w" by blast
  have "bindClient c cid w1 = (Inr (), w1)" using assms(3) w1(3) by (simp add: bindClient_def setClients_def)
  then have "Server_onMessageReceived_bytes J eas c bs w =
      mcatch_all (mseq (releaseClient cid) (setClients (smap_erase cid))) (ret ()) w1"
    using w1 assms(2,3) by (simp add: Server_onMessageReceived_bytes_def processPayload_def mcatch_def trm_run)
  then show ?thesis using releaseClient_run [of ids w1 cid] assms(1) w1(2,3)
    by (auto simp: mcatch_def trm_run setClients_def)
qed

context jansson_laws
begin

lemma encode_nonempty: "JsonEncode J details m \<noteq> []"
  by (cases m) (simp_all add: Let_def JsonEncode_class_def JsonEncode_ReserveTuner_def JsonEncode_ReserveTunerResponse_def
      JsonEncode_Request_def JsonEncode_ReleaseTunerReservationResponse_def
      JsonEncode_ValidateTunerReservationResponse_def JsonEncode_CancelRecordingResponse_def
      JsonEncode_CancelLiveResponse_def JsonEncode_CancelLive_def JsonEncode_GetAllTunerIdsResponse_def
      JsonEncode_GetAllTunerStatesResponse_def JsonEncode_GetAllReservations_def
      JsonEncode_GetAllReservationsResponse_def JsonEncode_GetVersionResponse_def
      JsonEncode_UpdateTunerActivityStatusResponse_def JsonEncode_UpdateTunerActivityStatus_def
      JsonEncode_NotifyTunerReservationRelease_def JsonEncode_NotifyTunerReservationUpdate_def
      JsonEncode_NotifyTunerReservationConflicts_def JsonEncode_NotifyTunerStatesUpdate_def
      JsonEncode_NotifyTunerPretune_def JsonEncode_NotifyClientConnectionEvent_def
      JsonEncode_GetTRMConnectionEvents_def JsonEncode_GetAllConnectedDeviceIdsResponse_def)

lemma bytes_refine:
  assumes "Server_unpack bs = Inr (cid, JsonEncode J details m)" "clean_message J m" "clean J details" "unwatched w"
  shows "Server_onMessageReceived_bytes J eas c bs w = Server_onMessageReceived c cid (decoded J eas details m) w"
proof -
  have "JsonDecoder_decode J eas (ServerMessageProcessor_process cid) (JsonEncode J details m) =
      processPayload c cid (decoded J eas details m)"
    using decode_encode [OF assms(2,3)] by (simp add: decoded_def processPayload_def split: option.split)
  moreover have "mseq (copyReceived bs) k w = k w" "mseq (Server_onHasMessageToSend cid p) k w = k w" for k :: "unit trm" and p
    using copy_unwatched [OF assms(4)] unpack_length [OF assms(1)] by (simp_all add: trm_run)
  ultimately show ?thesis
    by (simp add: Server_onMessageReceived_bytes_def Server_onMessageReceived_def assms(1) encode_nonempty mcatch_def)
qed

lemma serve_refines:
  assumes "map Server_unpack bss = map (\<lambda>(m, cid). Inr (cid, JsonEncode J details m)) ms"
    and "\<forall>(m, cid) \<in> set ms. clean_message J m \<and> cid \<noteq> kTRMMgrClientId" "clean J details" "unwatched w"
  shows "mfor bss (Server_onMessageReceived_bytes J eas c) w =
    mfor ms (\<lambda>(m, cid). Server_onMessageReceived c cid (decoded J eas details m)) w"
  using assms
proof (induction ms arbitrary: bss w)
  case (Cons x ms)
  obtain m cid where x: "x = (m, cid)" by (cases x)
  obtain bs bss' where b: "bss = bs # bss'" "Server_unpack bs = Inr (cid, JsonEncode J details m)"
    "map Server_unpack bss' = map (\<lambda>(m, cid). Inr (cid, JsonEncode J details m)) ms"
    using Cons.prems(1) by (cases bss) (auto simp: x)
  have c: "clean_message J m" "cid \<noteq> kTRMMgrClientId" using Cons.prems(2) by (auto simp: x)
  have "mfor bss' (Server_onMessageReceived_bytes J eas c) w' =
      mfor ms (\<lambda>(m, cid). Server_onMessageReceived c cid (decoded J eas details m)) w'"
    if "unwatched w'" for w' using Cons.IH [OF b(3) _ Cons.prems(3) that] Cons.prems(2) by simp
  moreover have "unwatched (snd (Server_onMessageReceived c cid p w))" for p
    using preservesD [OF received_unwatched [OF c(2)] Cons.prems(4)] .
  ultimately show ?case using bytes_refine [OF b(2) c(1) Cons.prems(3,4), of eas c]
    by (simp add: x b(1) trm_run split: prod.split sum.split) (metis snd_conv)
qed simp

end

section \<open>Properties\<close>

text \<open>
  C14. Whatever a program encodes, a receiver decodes as it was meant: for every message of clean
  strings, decoding the bytes of the encoder hands \<open>received J eas m\<close> to the processor, once, or
  nothing for the one class without a decoder. The laws of the JSON library are the hypothesis.
\<close>

theorem codec_round_trip:
  assumes "jansson_laws J" "clean_message J m" "clean J details"
  shows "JsonDecoder_decode J eas processor (JsonEncode J details m) =
    (case received J eas m of None \<Rightarrow> ret () | Some m' \<Rightarrow> processor m')"
  using jansson_laws.decode_encode [OF assms] .

definition example_request :: ReserveTuner where
  "example_request =
     ReserveTuner_new ''u1'' ''box''
       (TunerReservation_new ''box'' ''ocap://0x1'' 5000 1000
          \<lparr>a_enum = kRecord, a_details = [(''hot'', ''true''), (''recordingId'', ''r1'')]\<rparr> '''' None) ''false''"

lemma example_clean: "clean_message jansson_ref (M_ReserveTuner example_request)"
  by (simp add: example_request_def ReserveTuner_new_def TunerReservation_new_def clean_reservation_def clean_map_def
      clean_def jansson_ref_def smap_ok_def)

lemma example_received: "received jansson_ref eas (M_ReserveTuner example_request) = Some (M_ReserveTuner example_request)"
  by (simp add: example_request_def ReserveTuner_new_def TunerReservation_new_def received_reservation_def
      received_activity_def received_attributes_def)

theorem codec_round_trip_witness:
  "JsonDecoder_decode jansson_ref True (ServerMessageProcessor_process 7)
      (JsonEncode jansson_ref '''' (M_ReserveTuner example_request)) =
    ServerMessageProcessor_process 7 (M_ReserveTuner example_request)"
  using codec_round_trip [OF json_ref.jansson_laws_axioms example_clean, of "''''" True "ServerMessageProcessor_process 7"]
  by (simp only: example_received option.case) (simp add: clean_def jansson_ref_def)

text \<open>
  C10. The decoded event loop is what the server does on bytes: when the bytes of any sequence of
  clean messages arrive on a connection, cut into chunks in any way, the slots run exactly as on
  the decoded messages in their order, as long as no diagnostics client is connected.
\<close>

theorem session_refines:
  assumes "jansson_laws J" "clean J details"
    and "concat chunks = concat (map (\<lambda>(m, cid). SerializeMessage (JsonEncode J details) m cid) ms)"
    and "\<forall>(m, cid) \<in> set ms. clean_message J m \<and> cid \<noteq> kTRMMgrClientId \<and> length (JsonEncode J details m) < 2 ^ 32"
    and "map_of (w_clients w) kTRMMgrClientId = None"
  shows "serve J eas c (fold arrive chunks Connection_new) w =
    mfor ms (\<lambda>(m, cid). Server_onMessageReceived c cid (decoded J eas details m)) w"
proof -
  have "\<forall>(m, cid) \<in> set ms. length (JsonEncode J details m) < 2 ^ 32"
    "\<forall>(m, cid) \<in> set ms. clean_message J m \<and> cid \<noteq> kTRMMgrClientId" using assms(4) by auto
  then show ?thesis
    using arrive_messages [OF assms(3)] jansson_laws.serve_refines [OF assms(1) _ _ assms(2), of _ ms w eas c] assms(5)
    by (auto simp: serve_def unwatched_def)
qed

lemma example_version:
  "clean_message jansson_ref (M_GetVersion \<lparr>q_uuid = ''u1'', q_device = '''', q_token = ''''\<rparr>)"
  "length (JsonEncode jansson_ref '''' (M_GetVersion \<lparr>q_uuid = ''u1'', q_device = '''', q_token = ''''\<rparr>)) = 52"
  by (simp_all add: clean_request_def clean_def jansson_ref_def JsonEncode_Request_def JsonEncode_class_def
      JsonEncode_SimpleTRMRequest_def jedit_def jsets_def jstr_def c_str_def json_items_def)

theorem session_refines_witness:
  "serve jansson_ref False 1
      (fold arrive (map (\<lambda>b. [b]) (SerializeMessage (JsonEncode jansson_ref '''')
        (M_GetVersion \<lparr>q_uuid = ''u1'', q_device = '''', q_token = ''''\<rparr>) 7)) Connection_new) box_start =
    mfor [(M_GetVersion \<lparr>q_uuid = ''u1'', q_device = '''', q_token = ''''\<rparr>, 7)]
      (\<lambda>(m, cid). Server_onMessageReceived 1 cid (decoded jansson_ref False '''' m)) box_start"
proof (rule session_refines [OF json_ref.jansson_laws_axioms])
  show "map_of (w_clients box_start) kTRMMgrClientId = None" by (simp add: box_start_eval kTRMMgrClientId_def)
qed (simp_all only: list.set ball_simps split_conv example_version,
    simp_all add: clean_def jansson_ref_def kTRMMgrClientId_def)

text \<open>
  C29. A reservation request without the name of an activity is not rejected: the null pointer
  goes through \<^verbatim>\<open>Enum::at\<close> into \<^verbatim>\<open>std::string::compare\<close>, and no handler of the slot is reached.
\<close>

theorem missing_activity_crashes:
  assumes "Server_unpack bs = Inr (cid, pb)" "pb \<noteq> []" "j_load J pb = Some p"
    and "j_items J p = [(''reserveTuner'', v)]" "jtext J (j_get J v ''device'') = Some device" "j_get J v ''resurrect'' = None"
    and "jtext J (jget J (jget J (j_get J v ''tunerReservation'') ''activity'') ''name'') = None"
  shows "fst (Server_onMessageReceived_bytes J eas c bs w) = Inl UndefinedBehaviour"
proof -
  let ?r = "j_get J v ''tunerReservation''"
  have act: "JsonDecode_Activity J eas (jget J ?r ''activity'') = throw UndefinedBehaviour"
    using assms(7) by (simp add: JsonDecode_Activity_def enum_arg_def fun_eq_iff trm_run)
  have res: "fst (JsonDecode_TunerReservation J eas ?r w) = Inl UndefinedBehaviour" for w
    unfolding JsonDecode_TunerReservation_def act
    by (simp add: Let_def trm_run GetCurrentEpoch_def split: option.split)
  have "fst (mbind (JsonDecode_TunerReservation J eas ?r) f w) = Inl UndefinedBehaviour" for f :: "TunerReservation \<Rightarrow> ReserveTuner trm" and w
    using res [of w] by (cases "JsonDecode_TunerReservation J eas ?r w") (simp add: mbind_def)
  then have msg: "fst (JsonDecode_ReserveTuner J eas p w) = Inl UndefinedBehaviour" for w
    using assms(4-6) by (simp add: JsonDecode_ReserveTuner_def JsonDecode_body_def Let_def mseq_def)
  have "Klass_at ''reserveTuner'' = kReserveTuner" using Klass_at_name [of kReserveTuner] by simp
  then have "JsonDecoder_message J eas pb = mbind (JsonDecode_ReserveTuner J eas p) (\<lambda>m. ret (Some (M_ReserveTuner m)))"
    using assms(3,4) by (simp add: JsonDecoder_message_def JsonDecode_handle_def JsonDecode_class_def)
  then have dec: "fst (JsonDecoder_decode J eas processor pb w) = Inl UndefinedBehaviour" for processor w
    using msg [of w] by (cases "JsonDecode_ReserveTuner J eas p w") (simp add: JsonDecoder_decode_def mbind_def)
  have "\<exists>w'. mseq (copyReceived bs) (mseq (bindClient c cid) k) w = k w'" for k :: "unit trm"
    using unpack_length [OF assms(1)]
    by (auto simp: trm_run copyReceived_def Server_onHasMessageToSend_def Connection_send_def bindClient_def
        setClients_def split: option.split)
  then obtain w' where "fst (mseq (copyReceived bs) (mseq (bindClient c cid)
      (JsonDecoder_decode J eas (ServerMessageProcessor_process cid) pb)) w) = Inl UndefinedBehaviour"
    using dec by metis
  then show ?thesis using assms(1,2)
    by (auto simp: Server_onMessageReceived_bytes_def mcatch_def split: prod.split)
qed

theorem missing_activity_crashes_witness:
  "fst (Server_onMessageReceived_bytes jansson_ref False 1
      (Header_serialize (Header_new Request 7 0) @
        dump_json (JObject [(''reserveTuner'', JObject [(''device'', JString ''box'')])])) box_start) =
    Inl UndefinedBehaviour"
proof (rule missing_activity_crashes [where device = "''box''" and v = "JObject [(''device'', JString ''box'')]"])
  let ?p = "JObject [(''reserveTuner'', JObject [(''device'', JString ''box'')])]"
  show "Server_unpack (Header_serialize (Header_new Request 7 0) @ dump_json ?p) = Inr (7, dump_json ?p)"
    using deserialize_serialize [of "Header_new Request 7 0" "[]"]
    by (simp add: Server_unpack_def kHeaderLength_def ebind_def Header_new_def)
  show "j_load jansson_ref (dump_json ?p) = Some ?p" by (simp only: jansson_ref_def jansson.simps json_load_dump)
qed (simp_all add: jansson_ref_def json_items_def jtext_def jget_def)

end
