(* ===== verification/Trm_Diag.thy ===== *)
theory Trm_Diag
  imports Trm_Session
begin

text \<open>
  The diagnostics client (\<^verbatim>\<open>diag/Helper.cpp\<close>, \<^verbatim>\<open>diag/TRMMgr.cpp\<close>). A thread reads messages from the
  server into static variables; calls from other programs send a request and poll until the
  thread has set a flag. The outcomes of the system calls (\<^verbatim>\<open>connect\<close>, \<^verbatim>\<open>write\<close>, \<^verbatim>\<open>read\<close>) are
  arguments, and so is what the thread does between two polls. The lock of the program is no lock:
  \<^verbatim>\<open>HelperLock_ t()\<close> declares a function.
\<close>

section \<open>State\<close>

record diag =
  is_connected :: bool
  responseStr :: "u8 list"
  TrmResponseRcvd :: bool
  numofTRMErrors :: u32
  conDeviceList :: "string list"
  helperConEventLists :: "NotifyClientConnectionEvent list"
  dg_sent :: "u8 list list"

definition diag_new :: diag where
  "diag_new =
     \<lparr>is_connected = False, responseStr = [], TrmResponseRcvd = False, numofTRMErrors = 0, conDeviceList = [],
      helperConEventLists = [], dg_sent = []\<rparr>"

definition MAX_PAYLOAD_LEN :: nat where
  "MAX_PAYLOAD_LEN = 4096"

section \<open>Receiving\<close>

fun MsgProcessor_process :: "message \<Rightarrow> diag \<Rightarrow> diag" where
  "MsgProcessor_process (M_GetVersionResponse s) d = d\<lparr>TrmResponseRcvd := True\<rparr>"
| "MsgProcessor_process (M_GetAllReservationsResponse s) d =
     (let d' = (if s_status s = sOk then
                  d\<lparr>conDeviceList := filter (\<lambda>i. i \<noteq> '''')
                      (concat (map (\<lambda>x. map r_device (snd x)) (s_reservations s)))\<rparr>
                else d)
      in d'\<lparr>TrmResponseRcvd := True\<rparr>)"
| "MsgProcessor_process (M_NotifyClientConnectionEvent n) d =
     d\<lparr>helperConEventLists := helperConEventLists d @ [n], numofTRMErrors := numofTRMErrors d + 1,
       TrmResponseRcvd := True\<rparr>"
| "MsgProcessor_process (M_NotifyTunerReservationConflicts n) d =
     d\<lparr>numofTRMErrors := (if n_conflicts n \<noteq> [] then numofTRMErrors d + 1 else numofTRMErrors d),
       TrmResponseRcvd := True\<rparr>"
| "MsgProcessor_process (M_ReserveTunerResponse s) d =
     (if s_status s = sOk \<and> s_conflicts s \<noteq> [] then d\<lparr>numofTRMErrors := numofTRMErrors d + 1\<rparr> else d)"
| "MsgProcessor_process _ d = d"

text \<open>The text of the message is kept up to its first NUL, then the message is decoded.\<close>

definition processBuffer :: "'j jansson \<Rightarrow> bool \<Rightarrow> u8 list \<Rightarrow> diag \<Rightarrow> diag trm" where
  "processBuffer J eas bs d =
     (let d' = d\<lparr>responseStr := takeWhile (\<lambda>b. b \<noteq> 0) bs\<rparr>
      in mbind (JsonDecoder_message J eas bs) (\<lambda>m.
           ret (case m of None \<Rightarrow> d' | Some m \<Rightarrow> MsgProcessor_process m d')))"

text \<open>
  One round of the reading loop on an open connection: \<open>header\<close> is what the first \<^verbatim>\<open>read\<close> returns,
  \<open>payload\<close> what the second one returns, \<open>None\<close> for an error, which the code takes for the number
  of bytes.
\<close>

definition ProcessTRMMessage_round ::
  "'j jansson \<Rightarrow> bool \<Rightarrow> u8 list \<Rightarrow> u8 list option \<Rightarrow> diag \<Rightarrow> diag trm" where
  "ProcessTRMMessage_round J eas header payload d =
     (if length header = kHeaderLength then
        (let payload_length = unat (be_word (header ! 12) (header ! 13) (header ! 14) (header ! 15)) in
         if payload_length > 0 \<and> payload_length < MAX_PAYLOAD_LEN then
           (case payload of
              None \<Rightarrow> throw UndefinedBehaviour
            | Some bs \<Rightarrow> if bs \<noteq> [] then processBuffer J eas bs d else ret (d\<lparr>is_connected := False\<rparr>))
         else ret d)
      else ret (d\<lparr>is_connected := False\<rparr>))"

definition ProcessTRMMessage ::
  "'j jansson \<Rightarrow> bool \<Rightarrow> (u8 list \<times> u8 list option) list \<Rightarrow> diag \<Rightarrow> diag trm" where
  "ProcessTRMMessage J eas reads d =
     mfold reads (\<lambda>x. ProcessTRMMessage_round J eas (fst x) (snd x)) d"

section \<open>Sending\<close>

text \<open>
  \<open>connect_ok\<close> and \<open>written\<close> are the results of \<^verbatim>\<open>connect\<close>, if it is called, and \<^verbatim>\<open>write\<close>. The type in
  the header is \<^verbatim>\<open>UNKNOWN\<close>, the number after that of notifications.
\<close>

definition url_request_post :: "u8 list \<Rightarrow> u32 \<Rightarrow> bool \<times> int \<Rightarrow> diag \<Rightarrow> bool \<times> diag" where
  "url_request_post payload clientId io d =
     (let d1 = (if \<not> is_connected d \<and> fst io then d\<lparr>is_connected := True\<rparr> else d) in
      if is_connected d1 \<and> payload \<noteq> [] then
        (let d2 = d1\<lparr>dg_sent := dg_sent d1 @ [Header_serialize
               \<lparr>h_type = 0x1401, h_clientId = clientId, h_payloadLength = of_nat (length payload)\<rparr> @ payload]\<rparr>
         in if snd io = 0 then (False, d2\<lparr>is_connected := False\<rparr>) else (True, d2))
      else (False, d1))"

text \<open>\<open>do { ... } while (ret == false && retry_count > 0)\<close>, with what happens at each attempt.\<close>

fun postLoop :: "u8 list \<Rightarrow> (nat \<Rightarrow> bool \<times> int) \<Rightarrow> nat \<Rightarrow> diag \<Rightarrow> bool \<times> diag" where
  "postLoop payload io 0 d = (False, d)"
| "postLoop payload io (Suc retry_count) d =
     (let (ok, d') = url_request_post payload kTRMMgrClientId (io (Suc retry_count))
            (d\<lparr>TrmResponseRcvd := False, responseStr := []\<rparr>)
      in if ok then (True, d') else postLoop payload io retry_count d')"

text \<open>Polling: \<open>thread n\<close> is what the reading thread does before the poll with \<open>n\<close> tries left.\<close>

fun waitLoop :: "(nat \<Rightarrow> diag \<Rightarrow> diag) \<Rightarrow> nat \<Rightarrow> diag \<Rightarrow> nat \<times> diag" where
  "waitLoop thread 0 d = (0, d)"
| "waitLoop thread (Suc retry_count) d =
     (if TrmResponseRcvd d then (Suc retry_count, d)
      else waitLoop thread retry_count (thread retry_count d))"

definition waitForTRMResponse :: "(nat \<Rightarrow> diag \<Rightarrow> diag) \<Rightarrow> diag \<Rightarrow> bool \<times> diag" where
  "waitForTRMResponse thread d =
     (let (retry_count, d') = waitLoop thread 500 (thread 500 d) in (retry_count \<noteq> 0, d'))"

definition postAndWait :: "u8 list \<Rightarrow> (nat \<Rightarrow> bool \<times> int) \<Rightarrow> (nat \<Rightarrow> diag \<Rightarrow> diag) \<Rightarrow> diag \<Rightarrow> bool \<times> diag" where
  "postAndWait out io thread d =
     (let (ok, d') = postLoop (takeWhile (\<lambda>b. b \<noteq> 0) out) io 5 d
      in if ok then waitForTRMResponse thread d' else (False, d'))"

definition getAllTunerReservationsResponse ::
  "'j jansson \<Rightarrow> string \<Rightarrow> (nat \<Rightarrow> bool \<times> int) \<Rightarrow> (nat \<Rightarrow> diag \<Rightarrow> diag) \<Rightarrow> diag \<Rightarrow> bool \<times> diag" where
  "getAllTunerReservationsResponse J guid io thread =
     postAndWait (JsonEncode J '''' (M_GetAllReservations (GetAllReservations_new guid [(''device'', '''')]))) io thread"

section \<open>The calls\<close>

text \<open>
  The result, the text for the caller and its length. \<^verbatim>\<open>strcpy_s\<close> has room for every
  \<^verbatim>\<open>responseStr\<close>.
\<close>

definition getVersion ::
  "'j jansson \<Rightarrow> string \<Rightarrow> (nat \<Rightarrow> bool \<times> int) \<Rightarrow> (nat \<Rightarrow> diag \<Rightarrow> diag) \<Rightarrow> diag \<Rightarrow> (bool \<times> u8 list) \<times> diag" where
  "getVersion J guid io thread d =
     (let (ok, d') = postAndWait (JsonEncode J '''' (M_GetVersion \<lparr>q_uuid = guid, q_device = '''', q_token = ''''\<rparr>)) io thread d
      in ((ok, responseStr d'), d'))"

definition getTunerReservationsList ::
  "'j jansson \<Rightarrow> string \<Rightarrow> (nat \<Rightarrow> bool \<times> int) \<Rightarrow> (nat \<Rightarrow> diag \<Rightarrow> diag) \<Rightarrow> diag \<Rightarrow> (bool \<times> u8 list) \<times> diag" where
  "getTunerReservationsList J guid io thread d =
     (let (ok, d') = getAllTunerReservationsResponse J guid io thread d
      in ((ok, if ok then responseStr d' else []), d'))"

text \<open>
  The lists are encoded here. The copy into the buffer of the caller, with a NUL of its own behind
  that of the text, is not checked against the size of the buffer.
\<close>

definition copyOut :: "u8 list \<Rightarrow> u8 list query" where
  "copyOut out = (if length out + 1 \<ge> MAX_PAYLOAD_LEN then Inl UndefinedBehaviour else Inr (out @ [0]))"

definition getConnectedDeviceIdList ::
  "'j jansson \<Rightarrow> string \<Rightarrow> string \<Rightarrow> (nat \<Rightarrow> bool \<times> int) \<Rightarrow> (nat \<Rightarrow> diag \<Rightarrow> diag) \<Rightarrow> diag \<Rightarrow>
     (bool \<times> u8 list) query \<times> diag" where
  "getConnectedDeviceIdList J guid guid2 io thread d =
     (let (ok, d') = getAllTunerReservationsResponse J guid io thread d
      in (if ok then
            ebind (copyOut (JsonEncode J '''' (M_GetAllConnectedDeviceIdsResponse
              \<lparr>s_uuid = guid2, s_status = sOk, s_token = '''', s_conDeviceIDs = conDeviceList d'\<rparr>)))
              (\<lambda>out. Inr (True, out))
          else Inr (False, []), d'))"

definition getTRMConnectionEventList :: "'j jansson \<Rightarrow> string \<Rightarrow> diag \<Rightarrow> (bool \<times> u8 list) query" where
  "getTRMConnectionEventList J guid d =
     (if helperConEventLists d = [] then Inr (True, [])
      else ebind (copyOut (JsonEncode J '''' (M_GetTRMConnectionEvents
             \<lparr>s_uuid = guid, s_status = sOk, s_token = '''', s_conEventList = helperConEventLists d\<rparr>)))
             (\<lambda>out. Inr (True, out)))"

definition getNumofTRMErrors :: "diag \<Rightarrow> bool \<times> u32" where
  "getNumofTRMErrors d = (True, numofTRMErrors d)"

section \<open>The bus call\<close>

datatype TRMMgr_Error =
    TRMMgr_ERR_NONE
  | TRMMgr_ERR_FAILED
  | TRMMgr_ERR_INVALID_PARAM
  | TRMMgr_ERR_OPERATION_NOT_SUPPORTED
  | TRMMgr_ERR_UNKNOWN

datatype TRMMessageType =
    GET_TRM_VERSION
  | GET_NUM_IN_BAND_TUNERS
  | GET_CONN_DEVICE_IDS
  | GET_TUNER_RESERVATION
  | GET_CONNECTION_ERRORS
  | GET_TUNER_CONFLICTS
  | GET_NUM_TRM_ERRORS
  | MSG_TYPE_MAX

record TRMDiagInfo =
  retCode :: TRMMgr_Error
  numOfTuner :: u8
  numOfTRMError :: u8
  bufLen :: u32
  di_buf :: "u8 list"

text \<open>\<^verbatim>\<open>memcpy_s\<close> into the buffer of the caller, of the same size as the buffer it copies from;
  a copy of nothing succeeds.\<close>

definition fillInfo :: "bool \<times> u8 list \<Rightarrow> TRMDiagInfo \<Rightarrow> TRMDiagInfo" where
  "fillInfo res info =
     (if fst res then info\<lparr>bufLen := of_nat (length (snd res)), di_buf := snd res\<rparr>
      else info\<lparr>retCode := TRMMgr_ERR_FAILED\<rparr>)"

text \<open>The version: when it cannot be had, no error is reported.\<close>

definition versionInfo :: "bool \<times> u8 list \<Rightarrow> TRMDiagInfo \<Rightarrow> TRMDiagInfo" where
  "versionInfo res info = (if fst res then fillInfo res info else info)"

text \<open>\<open>kNumTuners\<close> is the number of tuners, if the program was built with one.\<close>

definition GetTRMDiagInfo ::
  "'j jansson \<Rightarrow> u8 option \<Rightarrow> string \<Rightarrow> string \<Rightarrow> (nat \<Rightarrow> bool \<times> int) \<Rightarrow> (nat \<Rightarrow> diag \<Rightarrow> diag) \<Rightarrow> TRMMessageType \<Rightarrow>
     diag \<Rightarrow> TRMDiagInfo query \<times> diag" where
  "GetTRMDiagInfo J kNumTuners guid guid2 io thread msgType d =
     (let info = \<lparr>retCode = TRMMgr_ERR_NONE, numOfTuner = 0, numOfTRMError = 0, bufLen = 0, di_buf = []\<rparr> in
      case msgType of
        GET_NUM_IN_BAND_TUNERS \<Rightarrow>
          (Inr (case kNumTuners of
                  Some n \<Rightarrow> info\<lparr>numOfTuner := n\<rparr>
                | None \<Rightarrow> info\<lparr>numOfTRMError := 6, retCode := TRMMgr_ERR_FAILED\<rparr>), d)
      | GET_CONN_DEVICE_IDS \<Rightarrow>
          (let (res, d') = getConnectedDeviceIdList J guid guid2 io thread d
           in (ebind res (\<lambda>r. Inr (fillInfo r info)), d'))
      | GET_TUNER_RESERVATION \<Rightarrow>
          (let (res, d') = getTunerReservationsList J guid io thread d in (Inr (fillInfo res info), d'))
      | GET_NUM_TRM_ERRORS \<Rightarrow>
          (let (ok, errCount) = getNumofTRMErrors d
           in (Inr (if ok then info\<lparr>numOfTRMError := ucast errCount\<rparr> else info\<lparr>retCode := TRMMgr_ERR_FAILED\<rparr>), d))
      | GET_CONNECTION_ERRORS \<Rightarrow>
          (ebind (getTRMConnectionEventList J guid d) (\<lambda>r. Inr (fillInfo r info)), d)
      | GET_TUNER_CONFLICTS \<Rightarrow> (Inr (fillInfo (False, []) info), d)
      | GET_TRM_VERSION \<Rightarrow>
          (let (res, d') = getVersion J guid io thread d
           in (Inr (versionInfo res info), d'))
      | MSG_TYPE_MAX \<Rightarrow> (Inr (info\<lparr>retCode := TRMMgr_ERR_INVALID_PARAM\<rparr>), d))"

text \<open>The call as the bus makes it; the argument may be a null pointer, and then nothing is asked.\<close>

datatype IARM_Result_t = IARM_RESULT_SUCCESS | IARM_RESULT_INVALID_PARAM

definition GetTRMDiagInfo_call ::
  "'j jansson \<Rightarrow> u8 option \<Rightarrow> string \<Rightarrow> string \<Rightarrow> (nat \<Rightarrow> bool \<times> int) \<Rightarrow> (nat \<Rightarrow> diag \<Rightarrow> diag) \<Rightarrow> TRMMessageType option \<Rightarrow>
     diag \<Rightarrow> (IARM_Result_t \<times> TRMDiagInfo option) query \<times> diag" where
  "GetTRMDiagInfo_call J kNumTuners guid guid2 io thread arg d =
     (case arg of
        None \<Rightarrow> (Inr (IARM_RESULT_INVALID_PARAM, None), d)
      | Some msgType \<Rightarrow>
          (let (info, d') = GetTRMDiagInfo J kNumTuners guid guid2 io thread msgType d
           in (ebind info (\<lambda>i. Inr (IARM_RESULT_SUCCESS, Some i)), d')))"

section \<open>What the client sees\<close>

text \<open>The two reads of a message that the server sends.\<close>

definition message_reads :: "'j jansson \<Rightarrow> string \<Rightarrow> message \<times> u32 \<Rightarrow> u8 list \<times> u8 list option" where
  "message_reads J details x =
     (let bs = SerializeMessage (JsonEncode J details) (fst x) (snd x)
      in (take kHeaderLength bs, Some (drop kHeaderLength bs)))"

context jansson_laws
begin

definition after :: "bool \<Rightarrow> string \<Rightarrow> message \<Rightarrow> diag \<Rightarrow> diag" where
  "after eas details m d =
     (let d' = d\<lparr>responseStr := takeWhile (\<lambda>b. b \<noteq> 0) (JsonEncode J details m)\<rparr>
      in case received J eas m of None \<Rightarrow> d' | Some m' \<Rightarrow> MsgProcessor_process m' d')"

lemma round_reads:
  assumes "clean_message J m" "clean J details" "length (JsonEncode J details m) < MAX_PAYLOAD_LEN"
  shows "ProcessTRMMessage_round J eas (fst (message_reads J details (m, cid))) (snd (message_reads J details (m, cid))) d =
    ret (after eas details m d)"
proof -
  have "length (JsonEncode J details m) < 2 ^ 32" using assms(3) by (simp add: MAX_PAYLOAD_LEN_def)
  note h = reads_header [of "JsonEncode J details", OF this, of cid]
  show ?thesis using assms(3) encode_nonempty [of details m]
    by (simp add: ProcessTRMMessage_round_def message_reads_def Let_def h processBuffer_def
        decode_message [OF assms(1,2)] after_def del: length_take trm_apply)
qed

lemma reads_all:
  assumes "\<forall>(m, cid) \<in> set ms. clean_message J m \<and> length (JsonEncode J details m) < MAX_PAYLOAD_LEN" "clean J details"
  shows "ProcessTRMMessage J eas (map (message_reads J details) ms) d = ret (fold (\<lambda>(m, cid). after eas details m) ms d)"
  using assms unfolding ProcessTRMMessage_def
  by (induction ms arbitrary: d) (auto simp: round_reads)

lemma after_reservations:
  fixes d :: diag and eas :: bool and details :: string
  assumes "s_status s = sOk"
  defines "d' \<equiv> after eas details (M_GetAllReservationsResponse s) d"
  shows "conDeviceList d' = filter (\<lambda>i. i \<noteq> []) (concat (map (\<lambda>x. map r_device (snd x)) (s_reservations s)))"
    "TrmResponseRcvd d'"
proof -
  have "concat (map (\<lambda>x. map r_device (map (received_reservation J eas) (snd x))) (filter (\<lambda>x. snd x \<noteq> []) m)) =
      concat (map (\<lambda>x. map r_device (snd x)) m)" for m :: "(string, TunerReservation list) smap"
    by (induction m) (auto simp: received_reservation_def)
  then show "conDeviceList d' = filter (\<lambda>i. i \<noteq> []) (concat (map (\<lambda>x. map r_device (snd x)) (s_reservations s)))"
    "TrmResponseRcvd d'"
    using assms(1) by (simp_all add: d'_def after_def Let_def comp_def)
qed

lemma lists_devices:
  assumes "clean J details" "s_status s = sOk"
    and "\<forall>(m, cid) \<in> set (ms @ [(M_GetAllReservationsResponse s, c)]).
      clean_message J m \<and> length (JsonEncode J details m) < MAX_PAYLOAD_LEN"
  shows "\<exists>d'. ProcessTRMMessage J eas (map (message_reads J details) (ms @ [(M_GetAllReservationsResponse s, c)])) d = ret d' \<and>
    conDeviceList d' = filter (\<lambda>i. i \<noteq> []) (concat (map (\<lambda>x. map r_device (snd x)) (s_reservations s))) \<and>
    TrmResponseRcvd d'"
  using reads_all [OF assms(3,1), of eas d] after_reservations [OF assms(2)]
  by (intro exI [of _ "after eas details (M_GetAllReservationsResponse s)
        (fold (\<lambda>(m, cid). after eas details m) ms d)"]) (simp del: map_append)

end

text \<open>
  The diagnostics client knows the devices that hold reservations: whatever messages it reads
  before, after a response of the server to \<^verbatim>\<open>GetAllReservations\<close> its list has the devices of exactly
  the listed reservations, in their order, and the waiting call is told. (Messages are shorter
  than its buffer and arrive whole.)
\<close>

theorem diag_lists_devices:
  assumes "jansson_laws J" "clean J details" "s_status s = sOk"
    and "\<forall>(m, cid) \<in> set (ms @ [(M_GetAllReservationsResponse s, c)]).
      clean_message J m \<and> length (JsonEncode J details m) < MAX_PAYLOAD_LEN"
  shows "\<exists>d'. ProcessTRMMessage J eas (map (message_reads J details) (ms @ [(M_GetAllReservationsResponse s, c)])) d = ret d' \<and>
    conDeviceList d' = filter (\<lambda>i. i \<noteq> '''') (concat (map (\<lambda>x. map r_device (snd x)) (s_reservations s))) \<and>
    TrmResponseRcvd d'"
  using jansson_laws.lists_devices [OF assms] .

definition example_reservations :: GetAllReservationsResponse where
  "example_reservations =
     \<lparr>s_uuid = ''u'', s_status = sOk, s_token = '''',
      s_reservations = [(''TunerId-0'', [TunerReservation_new ''box'' ''ch1'' 5000 1000 (Activity_new kLive) ''t'' None])]\<rparr>"

lemma example_reservations_size:
  "length (JsonEncode jansson_ref ''ok'' (M_GetAllReservationsResponse example_reservations)) < MAX_PAYLOAD_LEN"
  by (simp add: MAX_PAYLOAD_LEN_def example_reservations_def TunerReservation_new_def Activity_new_def Activity_hasDetails_def
      jansson_ref_def JsonEncode_GetAllReservationsResponse_def JsonEncode_class_def JsonEncode_SimpleTRMResponse_def
      JsonEncode_reservations_def JsonEncode_TunerReservation_def JsonEncode_Activity_def Let_def
      jedit_def jsets_def jstr_def c_str_def json_items_def)

theorem diag_lists_devices_witness:
  "\<exists>d'. ProcessTRMMessage jansson_ref False
      (map (message_reads jansson_ref ''ok'') [(M_GetAllReservationsResponse example_reservations, kTRMMgrClientId)]) diag_new =
    ret d' \<and> conDeviceList d' = [''box''] \<and> TrmResponseRcvd d'"
proof -
  have "clean_message jansson_ref (M_GetAllReservationsResponse example_reservations)" "clean jansson_ref ''ok''"
    by (simp_all add: example_reservations_def TunerReservation_new_def Activity_new_def clean_response_def clean_map_def
        clean_reservation_def clean_def jansson_ref_def smap_ok_def)
  then show ?thesis
    using diag_lists_devices [OF json_ref.jansson_laws_axioms, of "''ok''" example_reservations "[]" kTRMMgrClientId False diag_new]
      example_reservations_size
    by (simp add: example_reservations_def TunerReservation_new_def)
qed

text \<open>
  The client cannot tell responses from notifications: when a conflict notification is read
  between a request for the reservations and its response, the call ends at once, successfully,
  with the text of the notification as its result and an outdated list of devices.
\<close>

theorem notification_taken_for_response:
  assumes "is_connected d" "snd (io 5) \<noteq> 0"
    and "takeWhile (\<lambda>b. b \<noteq> 0) (JsonEncode J '''' (M_GetAllReservations (GetAllReservations_new guid [(''device'', '''')]))) \<noteq> []"
    and "thread 500 = (\<lambda>d. MsgProcessor_process (M_NotifyTunerReservationConflicts n) (d\<lparr>responseStr := txt\<rparr>))"
  shows "fst (getTunerReservationsList J guid io thread d) = (True, txt) \<and>
    conDeviceList (snd (getTunerReservationsList J guid io thread d)) = conDeviceList d"
proof -
  have "postLoop p io 5 d = postLoop p io (Suc 4) d" for p by simp
  have "waitLoop thread 500 d' = (500, d')" if "TrmResponseRcvd d'" for d'
    using that waitLoop.simps(2) [of thread 499 d'] by simp
  then show ?thesis using assms postLoop.simps(2) [of _ io 4 d]
    by (auto simp: getTunerReservationsList_def getAllTunerReservationsResponse_def postAndWait_def
        url_request_post_def waitForTRMResponse_def Let_def)
qed

theorem notification_taken_for_response_witness:
  "fst (getTunerReservationsList jansson_ref ''u'' (\<lambda>_. (True, 1))
      (\<lambda>_ d. MsgProcessor_process (M_NotifyTunerReservationConflicts (NotifyTunerReservationConflicts_new ''n'' TunerReservation_default TunerReservation_default))
         (d\<lparr>responseStr := [123, 125]\<rparr>))
      (diag_new\<lparr>is_connected := True\<rparr>)) = (True, [123, 125])"
  using notification_taken_for_response [of "diag_new\<lparr>is_connected := True\<rparr>" "\<lambda>_. (True, 1)" jansson_ref "''u''"
      "\<lambda>_ d. MsgProcessor_process (M_NotifyTunerReservationConflicts (NotifyTunerReservationConflicts_new ''n'' TunerReservation_default TunerReservation_default))
         (d\<lparr>responseStr := [123, 125]\<rparr>)" "NotifyTunerReservationConflicts_new ''n'' TunerReservation_default TunerReservation_default" "[123, 125]"]
  by (simp add: JsonEncode_GetAllReservations_def JsonEncode_class_def JsonEncode_SimpleTRMRequest_def JsonEncode_filters_def
      GetAllReservations_new_def jansson_ref_def Let_def jedit_def jsets_def jstr_def c_str_def json_items_def)

end
