(* ===== verification/Trm_OpenSsl.thy ===== *)
theory Trm_OpenSsl
  imports Trm_Connection
begin

text \<open>
  The OpenSSL server of the WebSocket proxy (\<^verbatim>\<open>wsproxy/tcpOpensslProxyServer.cpp\<close>): a thread that
  accepts connections and a thread for each of them that reads. Clients are known by their file
  descriptors. A reader thread keeps its descriptor, its SSL handle and the flag \<^verbatim>\<open>isReadEnabled\<close>,
  a local variable that \<^verbatim>\<open>m_clientSSLIsReadEnabledList\<close> points to; what \<^verbatim>\<open>SSL_write\<close> writes is listed
  by handle. The results of \<^verbatim>\<open>accept\<close>, \<^verbatim>\<open>SSL_accept\<close> and \<^verbatim>\<open>SSL_read\<close> and the time are arguments; a thread
  runs one round of its loop at a time. Setting up the TLS context is left to the library.
\<close>

section \<open>State\<close>

record clientThread =
  ct_fd :: int
  ct_ssl :: nat
  ct_connected :: bool
  ct_isReadEnabled :: bool

record tcpOpensslProxyServer =
  m_isServerprocessingEnabled :: bool
  m_clientSSLCtxList :: "(int, nat) smap"
  m_clientSSLIsReadEnabledList :: "(int, nat) smap"
  m_clientPingMsgList :: "(int, u8 list) smap"
  m_clientPingTimeList :: "(int, nat) smap"
  ss_threads :: "(nat, clientThread) smap"
  ss_fds :: "int list"
  ss_written :: "(nat \<times> u8 list) list"

definition tcpOpensslProxyServer_new :: tcpOpensslProxyServer where
  "tcpOpensslProxyServer_new =
     \<lparr>m_isServerprocessingEnabled = True, m_clientSSLCtxList = [], m_clientSSLIsReadEnabledList = [],
      m_clientPingMsgList = [], m_clientPingTimeList = [], ss_threads = [], ss_fds = [], ss_written = []\<rparr>"

definition BUFSIZE :: nat where
  "BUFSIZE = 8192"

section \<open>Closing\<close>

definition closeClient :: "int \<Rightarrow> tcpOpensslProxyServer \<Rightarrow> tcpOpensslProxyServer" where
  "closeClient i s =
     (let s1 = s\<lparr>m_clientSSLCtxList := smap_erase i (m_clientSSLCtxList s)\<rparr>
      in case map_of (m_clientSSLIsReadEnabledList s1) i of
           None \<Rightarrow> s1
         | Some t \<Rightarrow>
             s1\<lparr>ss_threads := smap_update t (\<lambda>ct. ct\<lparr>ct_isReadEnabled := False\<rparr>) (ss_threads s1),
                m_clientSSLIsReadEnabledList := smap_erase i (m_clientSSLIsReadEnabledList s1)\<rparr>)"

text \<open>
  The loop goes over \<^verbatim>\<open>m_clientSSLCtxList\<close> while \<^verbatim>\<open>closeClient\<close> erases the element the iterator stands
  on: the iterator is invalid when it is advanced.
\<close>

definition closeAllClients :: "tcpOpensslProxyServer \<Rightarrow> tcpOpensslProxyServer query" where
  "closeAllClients s =
     (case m_clientSSLCtxList s of [] \<Rightarrow> Inr s | _ # _ \<Rightarrow> Inl UndefinedBehaviour)"

definition stopServer :: "tcpOpensslProxyServer \<Rightarrow> tcpOpensslProxyServer query" where
  "stopServer s = closeAllClients (s\<lparr>m_isServerprocessingEnabled := False\<rparr>)"

section \<open>Writing\<close>

definition sendTextMessage :: "int \<Rightarrow> u8 list \<Rightarrow> tcpOpensslProxyServer \<Rightarrow> tcpOpensslProxyServer" where
  "sendTextMessage i data s =
     (case map_of (m_clientSSLCtxList s) i of
        Some ssl \<Rightarrow> s\<lparr>ss_written := ss_written s @ [(ssl, data)]\<rparr>
      | None \<Rightarrow> s)"

definition setPingMsg :: "int \<Rightarrow> u8 list \<Rightarrow> tcpOpensslProxyServer \<Rightarrow> tcpOpensslProxyServer" where
  "setPingMsg i uniqueId s =
     s\<lparr>m_clientPingMsgList := smap_put i (string_bytes ''##PING##'' @ uniqueId) (m_clientPingMsgList s)\<rparr>"

text \<open>The message is sent up to its first zero byte.\<close>

definition server_ping :: "int \<Rightarrow> nat \<Rightarrow> tcpOpensslProxyServer \<Rightarrow> tcpOpensslProxyServer" where
  "server_ping i now s =
     (let msg = (case map_of (m_clientPingMsgList s) i of None \<Rightarrow> string_bytes ''##PING##DUMMY'' | Some m \<Rightarrow> m);
          s' = sendTextMessage i (takeWhile (\<lambda>b. b \<noteq> 0) msg) s
      in s'\<lparr>m_clientPingTimeList := smap_put i now (m_clientPingTimeList s')\<rparr>)"

text \<open>The elapsed time, handed to the callback, and the server.\<close>

definition server_onPong :: "int \<Rightarrow> u8 list \<Rightarrow> nat \<Rightarrow> tcpOpensslProxyServer \<Rightarrow> nat \<times> tcpOpensslProxyServer" where
  "server_onPong i msg now s =
     (let s' = setPingMsg i msg s;
          pingTime = (case map_of (m_clientPingTimeList s') i of Some t \<Rightarrow> t | None \<Rightarrow> now)
      in (now - pingTime, s'))"

section \<open>The threads\<close>

text \<open>
  A round of \<^verbatim>\<open>connection_handler\<close>: the descriptor that was accepted, the handle of the new
  \<^verbatim>\<open>SSL\<close> object, or 0 when there is none, and the thread that is started. The descriptor is
  reported to the proxy before the handshake. Without a handle the descriptor is closed but the
  round goes on with the null pointer.
\<close>

datatype ssl_signal = NewConnection int | Connected int | Disconnected int

definition connection_handler_round ::
  "int \<Rightarrow> nat \<Rightarrow> nat \<Rightarrow> tcpOpensslProxyServer \<Rightarrow> (ssl_signal list \<times> tcpOpensslProxyServer) query" where
  "connection_handler_round net_fd ssl t s =
     (if net_fd < 0 then Inr ([], s)
      else if ssl = 0 then Inl UndefinedBehaviour
      else Inr ([NewConnection net_fd],
        s\<lparr>ss_fds := net_fd # ss_fds s,
          ss_threads := smap_put t \<lparr>ct_fd = net_fd, ct_ssl = ssl, ct_connected = False, ct_isReadEnabled = True\<rparr>
            (ss_threads s)\<rparr>))"

text \<open>
  The handshake of a reader thread. When it fails the thread ends; the descriptor stays open and
  the proxy is not told.
\<close>

definition clientRead_handshake :: "nat \<Rightarrow> bool \<Rightarrow> tcpOpensslProxyServer \<Rightarrow> ssl_signal list \<times> tcpOpensslProxyServer" where
  "clientRead_handshake t accepted s =
     (case map_of (ss_threads s) t of
        None \<Rightarrow> ([], s)
      | Some ct \<Rightarrow>
          if accepted then
            ([Connected (ct_fd ct)],
             s\<lparr>m_clientSSLCtxList := smap_put (ct_fd ct) (ct_ssl ct) (m_clientSSLCtxList s),
               m_clientSSLIsReadEnabledList := smap_put (ct_fd ct) t (m_clientSSLIsReadEnabledList s),
               ss_threads := smap_put t (ct\<lparr>ct_connected := True\<rparr>) (ss_threads s)\<rparr>)
          else ([], s\<lparr>ss_threads := smap_erase t (ss_threads s)\<rparr>))"

text \<open>
  A round of the reading loop: \<open>None\<close> is a time-out. A message of at least eight bytes that
  begins with \<^verbatim>\<open>##PING##\<close> is a pong.
\<close>

datatype read_result = NoMessage | MessageReceived int "u8 list" | PongReceived int nat

definition clientRead_round ::
  "nat \<Rightarrow> u8 list option \<Rightarrow> nat \<Rightarrow> tcpOpensslProxyServer \<Rightarrow> read_result \<times> tcpOpensslProxyServer" where
  "clientRead_round t bs now s =
     (case map_of (ss_threads s) t of
        None \<Rightarrow> (NoMessage, s)
      | Some ct \<Rightarrow>
          (case bs of
             None \<Rightarrow> (NoMessage, s)
           | Some buffer \<Rightarrow>
               if buffer = [] then (NoMessage, closeClient (ct_fd ct) s)
               else if length buffer > 7 \<and> take 8 buffer = string_bytes ''##PING##'' then
                 (let (ticks, s') = server_onPong (ct_fd ct) (drop 8 buffer) now s in (PongReceived (ct_fd ct) ticks, s'))
               else (MessageReceived (ct_fd ct) buffer, s)))"

text \<open>The end of the thread, once its flag is cleared.\<close>

definition clientRead_exit :: "nat \<Rightarrow> tcpOpensslProxyServer \<Rightarrow> ssl_signal list \<times> tcpOpensslProxyServer" where
  "clientRead_exit t s =
     (case map_of (ss_threads s) t of
        None \<Rightarrow> ([], s)
      | Some ct \<Rightarrow>
          (let s1 = s\<lparr>m_clientSSLCtxList := smap_erase (ct_fd ct) (m_clientSSLCtxList s),
                     ss_fds := removeAll (ct_fd ct) (ss_fds s)\<rparr>;
               s2 = closeClient (ct_fd ct) s1
           in ([Disconnected (ct_fd ct)], s2\<lparr>ss_threads := smap_erase t (ss_threads s2)\<rparr>)))"

section \<open>Pointers\<close>

text \<open>
  Handles in the write table and flags in the read table belong to a running thread that reads
  from that descriptor, and no two threads read from one descriptor.
\<close>

definition thread_of :: "tcpOpensslProxyServer \<Rightarrow> int \<Rightarrow> nat \<Rightarrow> clientThread \<Rightarrow> bool" where
  "thread_of s i t ct \<longleftrightarrow> map_of (ss_threads s) t = Some ct \<and> ct_fd ct = i"

definition ssl_ok :: "tcpOpensslProxyServer \<Rightarrow> bool" where
  "ssl_ok s \<longleftrightarrow>
     (\<forall>i ssl. map_of (m_clientSSLCtxList s) i = Some ssl \<longrightarrow> (\<exists>t ct. thread_of s i t ct \<and> ct_connected ct \<and> ct_ssl ct = ssl)) \<and>
     (\<forall>i t. map_of (m_clientSSLIsReadEnabledList s) i = Some t \<longrightarrow> (\<exists>ct. thread_of s i t ct \<and> ct_connected ct)) \<and>
     (\<forall>i t ct. thread_of s i t ct \<longrightarrow> i \<in> set (ss_fds s)) \<and>
     (\<forall>i t t' ct ct'. thread_of s i t ct \<longrightarrow> thread_of s i t' ct' \<longrightarrow> t = t')"

lemma closeClient_fields:
  "m_clientSSLCtxList (closeClient i s) = smap_erase i (m_clientSSLCtxList s)"
  "map_of (m_clientSSLIsReadEnabledList (closeClient i s)) = (map_of (m_clientSSLIsReadEnabledList s))(i := None)"
  "ss_fds (closeClient i s) = ss_fds s"
  "map_of (ss_threads (closeClient i s)) t = map_option
     (\<lambda>ct. if map_of (m_clientSSLIsReadEnabledList s) i = Some t then ct\<lparr>ct_isReadEnabled := False\<rparr> else ct)
     (map_of (ss_threads s) t)"
  by (auto simp: closeClient_def Let_def fun_eq_iff option.map_id0 [unfolded id_def] split: option.split)

lemma thread_of_closeClientI:
  "thread_of s j t ct \<Longrightarrow>
    \<exists>ct'. thread_of (closeClient i s) j t ct' \<and> ct_ssl ct' = ct_ssl ct \<and> ct_connected ct' = ct_connected ct"
  by (auto simp: thread_of_def closeClient_fields)

lemma thread_of_closeClientD: "thread_of (closeClient i s) j t ct \<Longrightarrow> \<exists>ct'. thread_of s j t ct'"
  by (auto simp: thread_of_def closeClient_fields split: if_splits)

lemma ssl_okI:
  assumes "\<And>i ssl. map_of (m_clientSSLCtxList s) i = Some ssl \<Longrightarrow> \<exists>t ct. thread_of s i t ct \<and> ct_connected ct \<and> ct_ssl ct = ssl"
    and "\<And>i t. map_of (m_clientSSLIsReadEnabledList s) i = Some t \<Longrightarrow> \<exists>ct. thread_of s i t ct \<and> ct_connected ct"
    and "\<And>i t ct. thread_of s i t ct \<Longrightarrow> i \<in> set (ss_fds s)"
    and "\<And>i t t' ct ct'. thread_of s i t ct \<Longrightarrow> thread_of s i t' ct' \<Longrightarrow> t = t'"
  shows "ssl_ok s"
  unfolding ssl_ok_def by (intro conjI allI impI) (rule assms; assumption)+

lemma ssl_okD:
  assumes "ssl_ok s"
  shows "map_of (m_clientSSLCtxList s) i = Some ssl \<Longrightarrow> \<exists>t ct. thread_of s i t ct \<and> ct_connected ct \<and> ct_ssl ct = ssl"
    and "map_of (m_clientSSLIsReadEnabledList s) i = Some t \<Longrightarrow> \<exists>ct. thread_of s i t ct \<and> ct_connected ct"
    and "thread_of s i t ct \<Longrightarrow> i \<in> set (ss_fds s)"
    and "thread_of s i t ct \<Longrightarrow> thread_of s i t' ct' \<Longrightarrow> t = t'"
  using assms unfolding ssl_ok_def by - (elim conjE, metis)+

lemma ssl_ok_closeClient:
  assumes "ssl_ok s"
  shows "ssl_ok (closeClient i s)"
proof (rule ssl_okI)
  fix j ssl assume "map_of (m_clientSSLCtxList (closeClient i s)) j = Some ssl"
  then have "map_of (m_clientSSLCtxList s) j = Some ssl" by (simp add: closeClient_fields split: if_splits)
  then show "\<exists>t ct. thread_of (closeClient i s) j t ct \<and> ct_connected ct \<and> ct_ssl ct = ssl"
    using ssl_okD(1) [OF assms] thread_of_closeClientI by metis
next
  fix j t assume "map_of (m_clientSSLIsReadEnabledList (closeClient i s)) j = Some t"
  then have "map_of (m_clientSSLIsReadEnabledList s) j = Some t" by (simp add: closeClient_fields split: if_splits)
  then show "\<exists>ct. thread_of (closeClient i s) j t ct \<and> ct_connected ct"
    using ssl_okD(2) [OF assms] thread_of_closeClientI by metis
next
  show "thread_of (closeClient i s) j t ct \<Longrightarrow> j \<in> set (ss_fds (closeClient i s))" for j t ct
    using ssl_okD(3) [OF assms] thread_of_closeClientD by (fastforce simp: closeClient_fields)
next
  show "thread_of (closeClient i s) j t ct \<Longrightarrow> thread_of (closeClient i s) j t' ct' \<Longrightarrow> t = t'" for j t t' ct ct'
    using ssl_okD(4) [OF assms] thread_of_closeClientD by metis
qed

lemma ssl_ok_cong:
  assumes "ssl_ok s" "m_clientSSLCtxList s' = m_clientSSLCtxList s" "ss_threads s' = ss_threads s" "ss_fds s' = ss_fds s"
    "m_clientSSLIsReadEnabledList s' = m_clientSSLIsReadEnabledList s"
  shows "ssl_ok s'"
  using assms unfolding ssl_ok_def thread_of_def by simp

lemma ssl_ok_accept:
  assumes "ssl_ok s" "connection_handler_round fd ssl t s = Inr (sigs, s')"
    and "fd \<notin> set (ss_fds s)" "map_of (ss_threads s) t = None"
  shows "ssl_ok s'"
proof (cases "fd < 0")
  case True
  then show ?thesis using assms by (simp add: connection_handler_round_def)
next
  case False
  then have s': "m_clientSSLCtxList s' = m_clientSSLCtxList s" "ss_fds s' = fd # ss_fds s"
    "m_clientSSLIsReadEnabledList s' = m_clientSSLIsReadEnabledList s"
    "\<And>j u ct. thread_of s' j u ct \<longleftrightarrow> (if u = t then j = fd \<and>
       ct = \<lparr>ct_fd = fd, ct_ssl = ssl, ct_connected = False, ct_isReadEnabled = True\<rparr> else thread_of s j u ct)"
    using assms(2) by (auto simp: connection_handler_round_def thread_of_def split: if_splits)
  have t: "\<not> thread_of s j t ct" for j ct using assms(4) by (simp add: thread_of_def)
  show ?thesis
    by (rule ssl_okI; unfold s') (metis ssl_okD [OF assms(1)] t assms(3) list.set_intros)+
qed

lemma ssl_ok_handshake:
  assumes "ssl_ok s" "\<And>ct. map_of (ss_threads s) t = Some ct \<Longrightarrow> \<not> ct_connected ct"
  shows "ssl_ok (snd (clientRead_handshake t a s))"
proof (cases "map_of (ss_threads s) t")
  case (Some ct)
  let ?s = "snd (clientRead_handshake t a s)"
  have th: "thread_of s (ct_fd ct) t ct" "\<And>j ct'. thread_of s j t ct' \<Longrightarrow> ct' = ct \<and> j = ct_fd ct"
    using Some by (auto simp: thread_of_def)
  show ?thesis
  proof (cases a)
    case True
    then have s': "map_of (m_clientSSLCtxList ?s) = (map_of (m_clientSSLCtxList s))(ct_fd ct \<mapsto> ct_ssl ct)"
      "map_of (m_clientSSLIsReadEnabledList ?s) = (map_of (m_clientSSLIsReadEnabledList s))(ct_fd ct \<mapsto> t)"
      "ss_fds ?s = ss_fds s"
      "\<And>j u ct'. thread_of ?s j u ct' \<longleftrightarrow> (if u = t then j = ct_fd ct \<and> ct' = ct\<lparr>ct_connected := True\<rparr> else thread_of s j u ct')"
      using Some by (auto simp: clientRead_handshake_def thread_of_def)
    have f: "ct_ssl (ct\<lparr>ct_connected := True\<rparr>) = ct_ssl ct" "ct_connected (ct\<lparr>ct_connected := True\<rparr>)" by simp_all
    show ?thesis
      by (rule ssl_okI; unfold s') (metis ssl_okD [OF assms(1)] th f fun_upd_apply option.inject)+
  next
    case False
    then have s': "m_clientSSLCtxList ?s = m_clientSSLCtxList s" "ss_fds ?s = ss_fds s"
      "m_clientSSLIsReadEnabledList ?s = m_clientSSLIsReadEnabledList s"
      "\<And>j u ct'. thread_of ?s j u ct' \<longleftrightarrow> u \<noteq> t \<and> thread_of s j u ct'"
      using Some by (auto simp: clientRead_handshake_def thread_of_def)
    show ?thesis
      by (rule ssl_okI; unfold s') (metis ssl_okD [OF assms(1)] th assms(2) [OF Some])+
  qed
qed (simp add: clientRead_handshake_def assms)

lemma ssl_ok_round: "ssl_ok s \<Longrightarrow> ssl_ok (snd (clientRead_round t bs now s))"
  by (auto simp: clientRead_round_def server_onPong_def setPingMsg_def Let_def ssl_ok_closeClient
      intro: ssl_ok_cong split: option.split)

lemma ssl_ok_write: "ssl_ok s \<Longrightarrow> ssl_ok (sendTextMessage i data s)" "ssl_ok s \<Longrightarrow> ssl_ok (server_ping i now s)"
  by (auto simp: server_ping_def sendTextMessage_def Let_def intro: ssl_ok_cong split: option.split)

lemma ssl_ok_exit:
  assumes "ssl_ok s"
  shows "ssl_ok (snd (clientRead_exit t s))"
proof (cases "map_of (ss_threads s) t")
  case (Some ct)
  let ?i = "ct_fd ct"
  let ?s = "snd (clientRead_exit t s)"
  let ?c = "closeClient ?i (s\<lparr>m_clientSSLCtxList := smap_erase ?i (m_clientSSLCtxList s), ss_fds := removeAll ?i (ss_fds s)\<rparr>)"
  have s': "?s = ?c\<lparr>ss_threads := smap_erase t (ss_threads ?c)\<rparr>" using Some by (simp add: clientRead_exit_def Let_def)
  have f: "map_of (m_clientSSLCtxList ?s) = (map_of (m_clientSSLCtxList s))(?i := None)"
    "map_of (m_clientSSLIsReadEnabledList ?s) = (map_of (m_clientSSLIsReadEnabledList s))(?i := None)"
    "set (ss_fds ?s) = set (ss_fds s) - {?i}"
    by (simp_all add: s' closeClient_fields)
  have t: "thread_of ?s j u ct' \<Longrightarrow> u \<noteq> t \<and> (\<exists>ct''. thread_of s j u ct'')" for j u ct'
    by (auto simp: s' thread_of_def closeClient_fields split: if_splits)
  have t': "thread_of s j u ct' \<Longrightarrow> u \<noteq> t \<Longrightarrow>
      \<exists>ct''. thread_of ?s j u ct'' \<and> ct_ssl ct'' = ct_ssl ct' \<and> ct_connected ct'' = ct_connected ct'" for j u ct'
    by (auto simp: s' thread_of_def closeClient_fields)
  have i: "thread_of s ?i t ct" "\<And>j ct'. thread_of s j t ct' \<Longrightarrow> j = ?i" using Some by (auto simp: thread_of_def)
  show ?thesis
  proof (rule ssl_okI)
    show "j \<in> set (ss_fds ?s)" if "thread_of ?s j u ct'" for j u ct'
      using t [OF that] ssl_okD(3,4) [OF assms] i unfolding f by blast
    show "u = u'" if "thread_of ?s j u ct'" "thread_of ?s j u' ct''" for j u u' ct' ct''
      using that [THEN t] ssl_okD(4) [OF assms] by blast
    show "\<exists>u ct'. thread_of ?s j u ct' \<and> ct_connected ct' \<and> ct_ssl ct' = ssl"
      if "map_of (m_clientSSLCtxList ?s) j = Some ssl" for j ssl
      using that ssl_okD(1) [OF assms] t' i unfolding f by (metis fun_upd_apply option.distinct(1))
    show "\<exists>ct'. thread_of ?s j u ct' \<and> ct_connected ct'"
      if "map_of (m_clientSSLIsReadEnabledList ?s) j = Some u" for j u
      using that ssl_okD(2) [OF assms] t' i unfolding f by (metis fun_upd_apply option.distinct(1))
  qed
qed (simp add: clientRead_exit_def assms)

end
