(* ===== verification/Trm_Proxy.thy ===== *)
theory Trm_Proxy
  imports Trm_OpenSsl
begin

text \<open>
  The WebSocket proxy (\<^verbatim>\<open>wsproxy/main.cpp\<close>, \<^verbatim>\<open>wsproxy/qt_websocketproxy.cpp\<close>): boxes connect to it by
  WebSocket or through an OpenSSL server, and it passes their messages on to the server over one
  connection, with the id of the box in the header, and the answers back. Sockets are addresses,
  what is written to them lists of bytes; the results of \<^verbatim>\<open>read\<close> are arguments, as is the time. The
  OpenSSL servers, one for each bound address, are part of the state; their signals come from
  other threads and are queued for the main loop. The lock is no lock (\<^verbatim>\<open>AutoLock_ a()\<close> declares a
  function); the threads and the main loop are interleaved at whole operations.
\<close>

section \<open>State\<close>

record PingPongTask =
  pp_sslProxyServer :: "nat option"
  pp_retry :: nat
  pp_stopped :: bool
  pp_armed :: bool

datatype queued = HasDataToWrite nat "u8 list" | RemoveConnection nat | FromSsl nat ssl_signal

record WebSocketProxy =
  px_connections :: "(nat, int) smap"
  px_connection_id :: int
  px_trm :: bool
  px_sockets :: "nat list"
  px_pings :: "(nat, PingPongTask) smap"
  sslProxyServers :: "(nat, tcpOpensslProxyServer) smap"
  sslProxyMap :: "(int, nat) smap"
  sslProxyPingPongTasks :: "(int, PingPongTask) smap"
  px_toTrm :: "u8 list list"
  px_queue :: "queued list"
  px_toWs :: "(nat \<times> u8 list) list"
  px_wsPings :: "nat list"
  px_closed :: "nat list"

text \<open>The proxy with \<open>n\<close> OpenSSL servers.\<close>

definition WebSocketProxy_new :: "nat \<Rightarrow> WebSocketProxy" where
  "WebSocketProxy_new n =
     \<lparr>px_connections = [], px_connection_id = 0, px_trm = True, px_sockets = [], px_pings = [],
      sslProxyServers = map (\<lambda>s. (s, tcpOpensslProxyServer_new)) [0 ..< n], sslProxyMap = [],
      sslProxyPingPongTasks = [], px_toTrm = [], px_queue = [], px_toWs = [], px_wsPings = [], px_closed = []\<rparr>"

definition onServer :: "nat \<Rightarrow> (tcpOpensslProxyServer \<Rightarrow> tcpOpensslProxyServer) \<Rightarrow> WebSocketProxy \<Rightarrow> WebSocketProxy" where
  "onServer s f px = px\<lparr>sslProxyServers := smap_update s f (sslProxyServers px)\<rparr>"

section \<open>Keeping connections alive\<close>

definition PingPongTask_new :: "nat option \<Rightarrow> PingPongTask" where
  "PingPongTask_new ss = \<lparr>pp_sslProxyServer = ss, pp_retry = 0, pp_stopped = False, pp_armed = False\<rparr>"

text \<open>Whether a ping is sent, and the task with its timer running.\<close>

definition PingPongTask_start :: "PingPongTask \<Rightarrow> bool \<times> PingPongTask" where
  "PingPongTask_start t = (if \<not> pp_stopped t then (True, t\<lparr>pp_armed := True\<rparr>) else (False, t))"

definition PingPongTask_stop :: "PingPongTask \<Rightarrow> PingPongTask" where
  "PingPongTask_stop t = t\<lparr>pp_armed := False, pp_stopped := True\<rparr>"

datatype ping_outcome = Ping | NoPing | CloseSocket

definition PingPongTask_onTimeout :: "PingPongTask \<Rightarrow> ping_outcome \<times> PingPongTask" where
  "PingPongTask_onTimeout t =
     (let t' = t\<lparr>pp_retry := Suc (pp_retry t), pp_armed := False\<rparr> in
      if pp_retry t' < 3 \<or> pp_retry t' < 5
      then (let (p, t'') = PingPongTask_start t' in (if p then Ping else NoPing, t''))
      else (CloseSocket, t'))"

definition PingPongTask_onPong :: "PingPongTask \<Rightarrow> PingPongTask" where
  "PingPongTask_onPong t = t\<lparr>pp_retry := 0\<rparr>"

section \<open>Connections and ids\<close>

definition get_connection_id :: "WebSocketProxy \<Rightarrow> int \<times> WebSocketProxy" where
  "get_connection_id px =
     (px_connection_id px + 1, px\<lparr>px_connection_id := px_connection_id px + 1\<rparr>)"

definition conn_to_id :: "nat \<Rightarrow> WebSocketProxy \<Rightarrow> int" where
  "conn_to_id conn px = (case map_of (px_connections px) conn of Some i \<Rightarrow> i | None \<Rightarrow> - 1)"

definition id_to_conn :: "int \<Rightarrow> WebSocketProxy \<Rightarrow> nat option" where
  "id_to_conn i px =
     (if i \<ge> 0 then map_option fst (List.find (\<lambda>x. snd x = i) (px_connections px)) else None)"

text \<open>\<^verbatim>\<open>insert\<close> leaves an entry with the same key.\<close>

definition add_connection :: "nat \<Rightarrow> WebSocketProxy \<Rightarrow> WebSocketProxy" where
  "add_connection conn px =
     (let (i, px') = get_connection_id px
      in px'\<lparr>px_connections := smap_insert conn i (px_connections px')\<rparr>)"

definition remove_connection :: "nat \<Rightarrow> WebSocketProxy \<Rightarrow> WebSocketProxy" where
  "remove_connection conn px = px\<lparr>px_connections := smap_erase conn (px_connections px)\<rparr>"

definition remove_all_connections :: "WebSocketProxy \<Rightarrow> WebSocketProxy query" where
  "remove_all_connections px =
     ebind (mapE (\<lambda>(s, srv). ebind (closeAllClients srv) (\<lambda>srv'. Inr (s, srv'))) (sslProxyServers px)) (\<lambda>servers.
       Inr (px\<lparr>px_queue := px_queue px @ map (\<lambda>x. RemoveConnection (fst x)) (px_connections px),
               px_connections := [], sslProxyServers := servers\<rparr>))"

section \<open>From the boxes to the server\<close>

definition websocket_data_callback_with_clientId :: "int \<Rightarrow> u8 list \<Rightarrow> WebSocketProxy \<Rightarrow> WebSocketProxy" where
  "websocket_data_callback_with_clientId i data px =
     (if i \<ge> 0 \<and> px_trm px then
        px\<lparr>px_toTrm := px_toTrm px @ [Header_serialize
          \<lparr>h_type = 0x1401, h_clientId = of_int i, h_payloadLength = of_nat (length data)\<rparr> @ data]\<rparr>
      else px)"

definition websocket_data_callback :: "nat \<Rightarrow> u8 list \<Rightarrow> WebSocketProxy \<Rightarrow> WebSocketProxy" where
  "websocket_data_callback conn data px =
     websocket_data_callback_with_clientId (conn_to_id conn px) data px"

text \<open>The text of the event that a box has gone; \<open>ip\<close> and \<open>epoch\<close> are its address and the time.\<close>

definition quoted :: "string \<Rightarrow> string" where
  "quoted s = [CHR 0x22] @ s @ [CHR 0x22]"

definition disconnect_event :: "string \<Rightarrow> string \<Rightarrow> string" where
  "disconnect_event ip epoch =
     ''{ '' @ quoted ''notifyClientConnectionEvent'' @ '': { '' @ quoted ''eventName'' @ '' :'' @
     quoted ''TRM_Event_Disconnect'' @ '','' @ quoted ''clientIP'' @ '' : '' @ quoted ip @ '','' @
     quoted ''timeStamp'' @ '': '' @ epoch @ '' } }''"

definition websocket_disconnect_callback :: "nat \<Rightarrow> string \<Rightarrow> string \<Rightarrow> WebSocketProxy \<Rightarrow> WebSocketProxy" where
  "websocket_disconnect_callback conn ip epoch px =
     remove_connection conn
       (websocket_data_callback conn []
         (websocket_data_callback conn (string_bytes (disconnect_event ip epoch)) px))"

definition websocket_ready_callback :: "nat \<Rightarrow> WebSocketProxy \<Rightarrow> WebSocketProxy" where
  "websocket_ready_callback conn px = add_connection conn px"

section \<open>From the server to the boxes\<close>

definition mg_websocket_write :: "nat \<Rightarrow> u8 list \<Rightarrow> WebSocketProxy \<Rightarrow> WebSocketProxy" where
  "mg_websocket_write conn data px = px\<lparr>px_queue := px_queue px @ [HasDataToWrite conn (data @ [0])]\<rparr>"

definition mg_websocket_write_ssl :: "int \<Rightarrow> u8 list \<Rightarrow> WebSocketProxy \<Rightarrow> WebSocketProxy" where
  "mg_websocket_write_ssl i data px =
     (case map_of (sslProxyMap px) i of
        Some s \<Rightarrow> onServer s (sendTextMessage i data) px
      | None \<Rightarrow> px)"

text \<open>
  A round of the listener while the server is connected: the bytes of the two reads. A header
  with a wrong mark is reported and used all the same; a payload that is cut short is dropped.
\<close>

definition TRM_response_round :: "u8 list \<Rightarrow> u8 list \<Rightarrow> WebSocketProxy \<Rightarrow> WebSocketProxy" where
  "TRM_response_round header payload px =
     (if length header = kHeaderLength then
        (let i = sint (be_word (header ! 8) (header ! 9) (header ! 10) (header ! 11));
             payload_length = unat (be_word (header ! 12) (header ! 13) (header ! 14) (header ! 15))
         in if length payload = payload_length then
              (case id_to_conn i px of
                 Some conn \<Rightarrow> mg_websocket_write conn payload px
               | None \<Rightarrow> mg_websocket_write_ssl i payload px)
            else if payload = [] then px\<lparr>px_trm := False\<rparr> else px)
      else if header = [] then px\<lparr>px_trm := False\<rparr> else px)"

text \<open>
  The round while it is not connected: all boxes are dropped, then it tries again. \<open>px_toTrm\<close> is what
  has been written to the present connection.
\<close>

definition TRM_reconnect :: "bool \<Rightarrow> WebSocketProxy \<Rightarrow> WebSocketProxy query" where
  "TRM_reconnect connected px =
     ebind (remove_all_connections px) (\<lambda>px'. Inr (px'\<lparr>px_trm := connected, px_toTrm := []\<rparr>))"

section \<open>WebSockets\<close>

definition startPing :: "nat \<Rightarrow> WebSocketProxy \<Rightarrow> WebSocketProxy" where
  "startPing conn px =
     (case map_of (px_pings px) conn of
        None \<Rightarrow> px
      | Some t \<Rightarrow>
          (let (p, t') = PingPongTask_start t
           in px\<lparr>px_pings := smap_put conn t' (px_pings px),
                 px_wsPings := (if p then px_wsPings px @ [conn] else px_wsPings px)\<rparr>))"

definition onNewConnection :: "nat \<Rightarrow> WebSocketProxy \<Rightarrow> WebSocketProxy" where
  "onNewConnection conn px =
     (let px1 = websocket_ready_callback conn px;
          px2 = px1\<lparr>px_sockets := px_sockets px1 @ [conn], px_pings := smap_put conn (PingPongTask_new None) (px_pings px1)\<rparr>
      in startPing conn px2)"

definition onWebsocketBinaryMessageReceived :: "nat \<Rightarrow> u8 list \<Rightarrow> WebSocketProxy \<Rightarrow> WebSocketProxy" where
  "onWebsocketBinaryMessageReceived conn data px = websocket_data_callback conn data px"

text \<open>The length passed on is the number of UTF-16 units of the text, \<open>units\<close>, not of its UTF-8 bytes.\<close>

definition onWebsocketTextMessageReceived :: "nat \<Rightarrow> u8 list \<Rightarrow> nat \<Rightarrow> WebSocketProxy \<Rightarrow> WebSocketProxy" where
  "onWebsocketTextMessageReceived conn utf8 units px = websocket_data_callback conn (take units utf8) px"

definition onWebsocketDisconnected :: "nat \<Rightarrow> string \<Rightarrow> string \<Rightarrow> WebSocketProxy \<Rightarrow> WebSocketProxy" where
  "onWebsocketDisconnected conn ip epoch px =
     (if conn \<in> set (px_sockets px) then
        (let px1 = websocket_disconnect_callback conn ip epoch (px\<lparr>px_sockets := removeAll conn (px_sockets px)\<rparr>)
         in px1\<lparr>px_pings := smap_erase conn (px_pings px1)\<rparr>)
      else px)"

definition onPingTimeout :: "nat \<Rightarrow> WebSocketProxy \<Rightarrow> WebSocketProxy" where
  "onPingTimeout conn px =
     (case map_of (px_pings px) conn of
        None \<Rightarrow> px
      | Some t \<Rightarrow>
          (let (out, t') = PingPongTask_onTimeout t;
               px' = px\<lparr>px_pings := smap_put conn t' (px_pings px)\<rparr>
           in case out of
                Ping \<Rightarrow> px'\<lparr>px_wsPings := px_wsPings px' @ [conn]\<rparr>
              | NoPing \<Rightarrow> px'
              | CloseSocket \<Rightarrow> px'\<lparr>px_closed := px_closed px' @ [conn]\<rparr>))"

definition onPong :: "nat \<Rightarrow> WebSocketProxy \<Rightarrow> WebSocketProxy" where
  "onPong conn px = px\<lparr>px_pings := smap_update conn PingPongTask_onPong (px_pings px)\<rparr>"

section \<open>OpenSSL clients\<close>

text \<open>Their ids are file descriptors, and no message tells the server that one has gone.\<close>

definition onNewConnectionSSl :: "int \<Rightarrow> nat \<Rightarrow> WebSocketProxy \<Rightarrow> WebSocketProxy" where
  "onNewConnectionSSl i ss px =
     px\<lparr>sslProxyMap := smap_put i ss (sslProxyMap px),
        sslProxyPingPongTasks := smap_put i (PingPongTask_new (Some ss)) (smap_erase i (sslProxyPingPongTasks px))\<rparr>"

definition startPingSSL :: "int \<Rightarrow> nat \<Rightarrow> PingPongTask \<Rightarrow> WebSocketProxy \<Rightarrow> WebSocketProxy" where
  "startPingSSL i now t px =
     (case pp_sslProxyServer t of Some s \<Rightarrow> onServer s (server_ping i now) px | None \<Rightarrow> px)"

definition onWebsocketConnectSSL :: "int \<Rightarrow> nat \<Rightarrow> WebSocketProxy \<Rightarrow> WebSocketProxy" where
  "onWebsocketConnectSSL i now px =
     (case map_of (sslProxyPingPongTasks px) i of
        None \<Rightarrow> px
      | Some t \<Rightarrow>
          (let (p, t') = PingPongTask_start t;
               px' = px\<lparr>sslProxyPingPongTasks := smap_put i t' (sslProxyPingPongTasks px)\<rparr>
           in if p then startPingSSL i now t' px' else px'))"

definition onTimeoutSSL :: "int \<Rightarrow> nat \<Rightarrow> WebSocketProxy \<Rightarrow> WebSocketProxy" where
  "onTimeoutSSL i now px =
     (case map_of (sslProxyPingPongTasks px) i of
        None \<Rightarrow> px
      | Some t \<Rightarrow>
          (let (out, t') = PingPongTask_onTimeout t;
               px' = px\<lparr>sslProxyPingPongTasks := smap_put i t' (sslProxyPingPongTasks px)\<rparr>
           in case out of
                Ping \<Rightarrow> startPingSSL i now t' px'
              | NoPing \<Rightarrow> px'
              | CloseSocket \<Rightarrow>
                  (case pp_sslProxyServer t' of Some s \<Rightarrow> onServer s (closeClient i) px' | None \<Rightarrow> px')))"

definition onWebsocketMessageReceivedSSL :: "int \<Rightarrow> u8 list \<Rightarrow> WebSocketProxy \<Rightarrow> WebSocketProxy" where
  "onWebsocketMessageReceivedSSL i data px = websocket_data_callback_with_clientId i data px"

definition onPongSSL :: "int \<Rightarrow> WebSocketProxy \<Rightarrow> WebSocketProxy" where
  "onPongSSL i px = px\<lparr>sslProxyPingPongTasks := smap_update i PingPongTask_onPong (sslProxyPingPongTasks px)\<rparr>"

definition onWebsocketDisconnectedSSL :: "int \<Rightarrow> WebSocketProxy \<Rightarrow> WebSocketProxy" where
  "onWebsocketDisconnectedSSL i px =
     px\<lparr>sslProxyMap := smap_erase i (sslProxyMap px),
        sslProxyPingPongTasks := smap_erase i (sslProxyPingPongTasks px)\<rparr>"

text \<open>The threads of an OpenSSL server \<open>s\<close>: signals are queued, callbacks run at once.\<close>

definition emit_signals :: "nat \<Rightarrow> ssl_signal list \<times> tcpOpensslProxyServer \<Rightarrow> WebSocketProxy \<Rightarrow> WebSocketProxy" where
  "emit_signals s r px =
     (onServer s (\<lambda>_. snd r) px)\<lparr>px_queue := px_queue px @ map (FromSsl s) (fst r)\<rparr>"

definition ssl_accept :: "nat \<Rightarrow> int \<Rightarrow> nat \<Rightarrow> nat \<Rightarrow> WebSocketProxy \<Rightarrow> WebSocketProxy query" where
  "ssl_accept s fd ssl t px =
     (case map_of (sslProxyServers px) s of
        None \<Rightarrow> Inr px
      | Some srv \<Rightarrow> ebind (connection_handler_round fd ssl t srv) (\<lambda>r. Inr (emit_signals s r px)))"

definition ssl_handshake :: "nat \<Rightarrow> nat \<Rightarrow> bool \<Rightarrow> WebSocketProxy \<Rightarrow> WebSocketProxy" where
  "ssl_handshake s t accepted px =
     (case map_of (sslProxyServers px) s of
        None \<Rightarrow> px
      | Some srv \<Rightarrow> emit_signals s (clientRead_handshake t accepted srv) px)"

definition ssl_read :: "nat \<Rightarrow> nat \<Rightarrow> u8 list option \<Rightarrow> nat \<Rightarrow> WebSocketProxy \<Rightarrow> WebSocketProxy" where
  "ssl_read s t bs now px =
     (case map_of (sslProxyServers px) s of
        None \<Rightarrow> px
      | Some srv \<Rightarrow>
          (let (r, srv') = clientRead_round t bs now srv; px' = onServer s (\<lambda>_. srv') px
           in case r of
                NoMessage \<Rightarrow> px'
              | MessageReceived i data \<Rightarrow> onWebsocketMessageReceivedSSL i data px'
              | PongReceived i ticks \<Rightarrow> onPongSSL i px'))"

definition ssl_exit :: "nat \<Rightarrow> nat \<Rightarrow> WebSocketProxy \<Rightarrow> WebSocketProxy" where
  "ssl_exit s t px =
     (case map_of (sslProxyServers px) s of
        None \<Rightarrow> px
      | Some srv \<Rightarrow> emit_signals s (clientRead_exit t srv) px)"

section \<open>The main loop\<close>

text \<open>A text message is sent up to its first zero byte, the one \<^verbatim>\<open>mg_websocket_write\<close> has added.\<close>

definition run_queued :: "nat \<Rightarrow> queued \<Rightarrow> WebSocketProxy \<Rightarrow> WebSocketProxy" where
  "run_queued now q px =
     (case q of
        HasDataToWrite conn data \<Rightarrow>
          if conn \<in> set (px_sockets px) then px\<lparr>px_toWs := px_toWs px @ [(conn, takeWhile (\<lambda>b. b \<noteq> 0) data)]\<rparr> else px
      | RemoveConnection conn \<Rightarrow>
          if conn \<in> set (px_sockets px) then px\<lparr>px_closed := px_closed px @ [conn]\<rparr> else px
      | FromSsl s (NewConnection i) \<Rightarrow> onNewConnectionSSl i s px
      | FromSsl s (Connected i) \<Rightarrow> onWebsocketConnectSSL i now px
      | FromSsl s (Disconnected i) \<Rightarrow> onWebsocketDisconnectedSSL i px)"

definition main_loop :: "nat \<Rightarrow> WebSocketProxy \<Rightarrow> WebSocketProxy" where
  "main_loop now px = (case px_queue px of [] \<Rightarrow> px | q # qs \<Rightarrow> run_queued now q (px\<lparr>px_queue := qs\<rparr>))"

end
