(* ===== verification/Trm_Route.thy ===== *)
theory Trm_Route
  imports Trm_Proxy
begin

text \<open>
  Runs of the WebSocket proxy: its events, the states they can reach, and what holds in all of
  them. Every box has an id of its own, what reaches the server is a sequence of whole messages,
  and no table points to a thread that has ended.
\<close>

section \<open>Runs\<close>

datatype px_event =
    WsConnect nat | WsBinary nat "u8 list" | WsText nat "u8 list" nat | WsDisconnect nat string string
  | WsPingTimeout nat | WsPong nat
  | SslAccept nat int nat nat | SslHandshake nat nat bool | SslRead nat nat "u8 list option" nat | SslExit nat nat
  | SslTimeout int nat
  | TrmResponse "u8 list" "u8 list" | Reconnect bool | MainLoop nat

fun px_handle :: "px_event \<Rightarrow> WebSocketProxy \<Rightarrow> WebSocketProxy query" where
  "px_handle (WsConnect conn) px = Inr (onNewConnection conn px)"
| "px_handle (WsBinary conn data) px = Inr (onWebsocketBinaryMessageReceived conn data px)"
| "px_handle (WsText conn utf8 units) px = Inr (onWebsocketTextMessageReceived conn utf8 units px)"
| "px_handle (WsDisconnect conn ip epoch) px = Inr (onWebsocketDisconnected conn ip epoch px)"
| "px_handle (WsPingTimeout conn) px = Inr (onPingTimeout conn px)"
| "px_handle (WsPong conn) px = Inr (onPong conn px)"
| "px_handle (SslAccept s fd ssl t) px = ssl_accept s fd ssl t px"
| "px_handle (SslHandshake s t accepted) px = Inr (ssl_handshake s t accepted px)"
| "px_handle (SslRead s t bs now) px = Inr (ssl_read s t bs now px)"
| "px_handle (SslExit s t) px = Inr (ssl_exit s t px)"
| "px_handle (SslTimeout i now) px = Inr (onTimeoutSSL i now px)"
| "px_handle (TrmResponse header payload) px = Inr (TRM_response_round header payload px)"
| "px_handle (Reconnect connected) px = TRM_reconnect connected px"
| "px_handle (MainLoop now) px = Inr (main_loop now px)"

text \<open>
  A new socket is a new object, its address that of no other socket, and a new descriptor is one
  that is not open; lengths of messages are values of type \<^verbatim>\<open>int\<close> and the event that a box has gone
  fits its buffer. A reader thread shakes hands once, reads while its flag is set and ends when it
  is not. The listener reads while the server is connected and reconnects while it is not.
\<close>

definition thread_is :: "nat \<Rightarrow> nat \<Rightarrow> (clientThread \<Rightarrow> bool) \<Rightarrow> WebSocketProxy \<Rightarrow> bool" where
  "thread_is s t P px \<longleftrightarrow>
     (case map_of (sslProxyServers px) s of
        None \<Rightarrow> False
      | Some srv \<Rightarrow> (case map_of (ss_threads srv) t of None \<Rightarrow> False | Some ct \<Rightarrow> P ct))"

fun px_enabled :: "px_event \<Rightarrow> WebSocketProxy \<Rightarrow> bool" where
  "px_enabled (WsConnect conn) px \<longleftrightarrow> conn \<notin> set (px_sockets px)"
| "px_enabled (WsBinary conn data) px \<longleftrightarrow> length data < 2 ^ 31"
| "px_enabled (WsText conn utf8 units) px \<longleftrightarrow> length utf8 < 2 ^ 31"
| "px_enabled (WsDisconnect conn ip epoch) px \<longleftrightarrow> length (disconnect_event ip epoch) < 256"
| "px_enabled (SslAccept s fd ssl t) px \<longleftrightarrow>
     (\<forall>(s', srv) \<in> set (sslProxyServers px). fd \<notin> set (ss_fds srv) \<and> t \<notin> set (smap_keys (ss_threads srv)))"
| "px_enabled (SslHandshake s t accepted) px \<longleftrightarrow> thread_is s t (\<lambda>ct. \<not> ct_connected ct) px"
| "px_enabled (SslRead s t bs now) px \<longleftrightarrow> thread_is s t (\<lambda>ct. ct_connected ct \<and> ct_isReadEnabled ct) px \<and>
     (case bs of None \<Rightarrow> True | Some data \<Rightarrow> length data \<le> BUFSIZE)"
| "px_enabled (SslExit s t) px \<longleftrightarrow> thread_is s t (\<lambda>ct. ct_connected ct \<and> \<not> ct_isReadEnabled ct) px"
| "px_enabled (TrmResponse _ _) px \<longleftrightarrow> px_trm px"
| "px_enabled (Reconnect _) px \<longleftrightarrow> \<not> px_trm px"
| "px_enabled _ px \<longleftrightarrow> True"

inductive px_reachable :: "WebSocketProxy \<Rightarrow> bool" where
  start: "px_reachable (WebSocketProxy_new n)"
| step: "px_reachable px \<Longrightarrow> px_enabled e px \<Longrightarrow> px_handle e px = Inr px' \<Longrightarrow> px_reachable px'"

section \<open>Invariants\<close>

text \<open>
  Ids are given to one connection each, none before its turn; only open sockets have one; every
  open socket has its ping task, so that \<^verbatim>\<open>pingPongTasks.find(wssocket).value()\<close> is never read at the end.
\<close>

definition px_ok :: "WebSocketProxy \<Rightarrow> bool" where
  "px_ok px \<longleftrightarrow>
     smap_ok (px_connections px) \<and> distinct (map snd (px_connections px)) \<and>
     (\<forall>i \<in> set (map snd (px_connections px)). 0 < i \<and> i \<le> px_connection_id px) \<and> 0 \<le> px_connection_id px \<and>
     set (smap_keys (px_connections px)) \<subseteq> set (px_sockets px) \<and>
     smap_ok (px_pings px) \<and> set (smap_keys (px_pings px)) = set (px_sockets px)"

text \<open>What is written to the server is a sequence of whole messages.\<close>

definition stream_ok :: "WebSocketProxy \<Rightarrow> bool" where
  "stream_ok px \<longleftrightarrow> (\<exists>fs. (\<forall>f \<in> set fs. framed f) \<and> px_toTrm px = map frame fs)"

definition servers_ok :: "WebSocketProxy \<Rightarrow> bool" where
  "servers_ok px \<longleftrightarrow> smap_ok (sslProxyServers px) \<and> (\<forall>s srv. map_of (sslProxyServers px) s = Some srv \<longrightarrow> ssl_ok srv)"

text \<open>The parts of the state that an operation of one kind leaves alone.\<close>

definition same_ws :: "WebSocketProxy \<Rightarrow> WebSocketProxy \<Rightarrow> bool" where
  "same_ws px px' \<longleftrightarrow> px_connections px' = px_connections px \<and> px_connection_id px' = px_connection_id px \<and>
     px_sockets px' = px_sockets px \<and> px_pings px' = px_pings px"

lemma same_ws_ok: "same_ws px px' \<Longrightarrow> px_ok px' = px_ok px"
  by (simp add: same_ws_def px_ok_def)

lemmas ssl_defs =
  onNewConnectionSSl_def startPingSSL_def onWebsocketConnectSSL_def onTimeoutSSL_def onPongSSL_def
  onWebsocketDisconnectedSSL_def onServer_def emit_signals_def mg_websocket_write_ssl_def

lemmas ws_defs =
  onWebsocketBinaryMessageReceived_def onWebsocketTextMessageReceived_def onWebsocketMessageReceivedSSL_def
  websocket_data_callback_def mg_websocket_write_def

lemmas px_splits = option.split prod.split ping_outcome.split queued.split list.split ssl_signal.split read_result.split

lemma data_callback_fields [simp]:
  "px_connections (websocket_data_callback_with_clientId i data px) = px_connections px"
  "px_connection_id (websocket_data_callback_with_clientId i data px) = px_connection_id px"
  "px_sockets (websocket_data_callback_with_clientId i data px) = px_sockets px"
  "px_pings (websocket_data_callback_with_clientId i data px) = px_pings px"
  "sslProxyServers (websocket_data_callback_with_clientId i data px) = sslProxyServers px"
  by (simp_all add: websocket_data_callback_with_clientId_def)

lemma same_ws_handle:
  assumes "px_handle e px = Inr px'"
    and "\<And>c. e \<noteq> WsConnect c" "\<And>c. e \<noteq> WsPingTimeout c" "\<And>c. e \<noteq> WsPong c" "\<And>c ip t. e \<noteq> WsDisconnect c ip t"
    and "\<And>b. e \<noteq> Reconnect b"
  shows "same_ws px px'"
  using assms
  by (cases e) (auto simp: same_ws_def ws_defs ssl_defs ssl_accept_def ssl_handshake_def ssl_read_def ssl_exit_def
      TRM_response_round_def main_loop_def run_queued_def Let_def query_simps split: px_splits if_splits option.split_asm)

lemma distinct_ids_put:
  "distinct (map snd m) \<Longrightarrow> map_of m k = None \<Longrightarrow> v \<notin> set (map snd m) \<Longrightarrow> distinct (map snd (smap_put k v m))"
  by (induction k v m rule: smap_put.induct) (auto dest!: set_put_subset [THEN subsetD] split: if_splits)

lemma distinct_ids_erase: "distinct (map snd m) \<Longrightarrow> distinct (map snd (smap_erase k m))"
  by (simp add: smap_erase_def distinct_map_filter)

lemma new_connection_fields:
  assumes "map_of (px_connections px) conn = None"
  defines "px' \<equiv> onNewConnection conn px"
  shows "px_connections px' = smap_put conn (px_connection_id px + 1) (px_connections px)"
    "px_connection_id px' = px_connection_id px + 1" "px_sockets px' = px_sockets px @ [conn]"
    "px_pings px' = smap_put conn ((PingPongTask_new None)\<lparr>pp_armed := True\<rparr>) (px_pings px)"
    "sslProxyServers px' = sslProxyServers px" "px_toTrm px' = px_toTrm px"
  using assms by (simp_all add: onNewConnection_def websocket_ready_callback_def add_connection_def get_connection_id_def
      startPing_def Let_def smap_insert_def PingPongTask_start_def PingPongTask_new_def)

lemma px_ok_new_connection:
  assumes "px_ok px" "conn \<notin> set (px_sockets px)"
  shows "map_of (px_connections px) conn = None" "px_ok (onNewConnection conn px)"
proof -
  let ?i = "px_connection_id px + 1"
  let ?m = "smap_put conn ?i (px_connections px)"
  note ok = assms(1) [unfolded px_ok_def]
  have "conn \<notin> set (smap_keys (px_connections px))" using ok assms(2) by blast
  then show n: "map_of (px_connections px) conn = None"
    by (metis map_of_keys option.exhaust)
  have "?i \<notin> set (map snd (px_connections px))" using ok by force
  then have "distinct (map snd ?m)" using ok n by (intro distinct_ids_put) auto
  moreover have "0 < i \<and> i \<le> ?i" if "i \<in> set (map snd ?m)" for i
  proof -
    have "i \<in> insert ?i (set (map snd (px_connections px)))"
      using that set_put_subset [of conn ?i "px_connections px"] by auto
    then show ?thesis using ok by fastforce
  qed
  moreover have "smap_ok ?m" "set (smap_keys ?m) \<subseteq> insert conn (set (px_sockets px))" using ok by auto
  ultimately show "px_ok (onNewConnection conn px)" using ok unfolding px_ok_def new_connection_fields [OF n] by simp
qed

lemma px_ok_disconnect: "px_ok px \<Longrightarrow> px_ok (onWebsocketDisconnected conn ip epoch px)"
  by (auto simp: px_ok_def onWebsocketDisconnected_def websocket_disconnect_callback_def remove_connection_def
      websocket_data_callback_def Let_def distinct_ids_erase)

lemma px_ok_ping:
  assumes "px_ok px"
  shows "px_ok (onPingTimeout conn px)" "px_ok (onPong conn px)"
proof -
  have "insert conn (fst ` set (px_pings px)) = fst ` set (px_pings px)" if "map_of (px_pings px) conn = Some t" for t
    using that by (metis insert_absorb map_of_keys set_map)
  then show "px_ok (onPingTimeout conn px)" "px_ok (onPong conn px)" using assms
    by (auto simp: px_ok_def onPingTimeout_def onPong_def Let_def split: px_splits)
qed

text \<open>Losing the server is survived only while no OpenSSL client is connected.\<close>

lemma mapE_same: "mapE f xs = Inr ys \<Longrightarrow> (\<And>x y. f x = Inr y \<Longrightarrow> y = x) \<Longrightarrow> ys = xs"
  by (induction xs arbitrary: ys) (auto simp: query_simps)

lemma reconnect_run:
  assumes "TRM_reconnect b px = Inr px'"
  shows "px' = px\<lparr>px_queue := px_queue px @ map (\<lambda>x. RemoveConnection (fst x)) (px_connections px),
    px_connections := [], px_trm := b, px_toTrm := []\<rparr>"
proof -
  let ?f = "\<lambda>(s, srv). ebind (closeAllClients srv) (\<lambda>srv'. Inr (s, srv'))"
  have "y = x" if "?f x = Inr y" for x y
    using that by (auto simp: closeAllClients_def query_simps split: prod.splits list.splits)
  then have "ys = sslProxyServers px" if "mapE ?f (sslProxyServers px) = Inr ys" for ys
    using mapE_same [OF that] by blast
  then show ?thesis using assms by (auto simp: TRM_reconnect_def remove_all_connections_def query_simps)
qed

lemma px_ok_handle:
  assumes "px_ok px" "px_enabled e px" "px_handle e px = Inr px'"
  shows "px_ok px'"
proof (cases e)
  case (WsConnect c)
  then show ?thesis using assms px_ok_new_connection(2) by auto
next
  case (WsPingTimeout c)
  then show ?thesis using assms px_ok_ping(1) by auto
next
  case (WsPong c)
  then show ?thesis using assms px_ok_ping(2) by auto
next
  case (WsDisconnect c ip t)
  then show ?thesis using assms px_ok_disconnect by auto
next
  case (Reconnect b)
  then show ?thesis using assms(1) reconnect_run [of b px px'] assms(3) by (simp add: px_ok_def)
qed (use same_ws_ok [OF same_ws_handle [OF assms(3)]] assms(1) in auto)

section \<open>Whole messages\<close>

definition packet :: "int \<Rightarrow> u8 list \<Rightarrow> Header \<times> u8 list" where
  "packet i data = (\<lparr>h_type = 0x1401, h_clientId = of_int i, h_payloadLength = of_nat (length data)\<rparr>, data)"

lemma packet_frame:
  "length data < 2 ^ 32 \<Longrightarrow> framed (packet i data)"
  "Server_unpack (frame (packet i data)) = Inr (of_int i, data)"
  using deserialize_serialize [of "fst (packet i data)" "[]"]
  by (simp_all add: framed_def packet_def unsigned_of_nat take_bit_nat_eq_self Server_unpack_def frame_def kHeaderLength_def)

lemma data_callback_packet:
  "0 \<le> i \<Longrightarrow> px_trm px \<Longrightarrow>
    websocket_data_callback_with_clientId i data px = px\<lparr>px_toTrm := px_toTrm px @ [frame (packet i data)]\<rparr>"
  by (simp add: websocket_data_callback_with_clientId_def frame_def packet_def)

lemma stream_ok_data:
  assumes "stream_ok px" "length data < 2 ^ 32"
  shows "stream_ok (websocket_data_callback_with_clientId i data px)"
proof (cases "0 \<le> i \<and> px_trm px")
  case True
  obtain fs where "\<forall>f \<in> set fs. framed f" "px_toTrm px = map frame fs" using assms(1) by (auto simp: stream_ok_def)
  then show ?thesis using True packet_frame(1) [OF assms(2)]
    unfolding stream_ok_def by (intro exI [of _ "fs @ [packet i data]"]) (auto simp: data_callback_packet)
next
  case False
  then show ?thesis using assms(1) by (auto simp: websocket_data_callback_with_clientId_def)
qed

lemma stream_ok_same: "stream_ok px \<Longrightarrow> px_toTrm px' = px_toTrm px \<Longrightarrow> stream_ok px'"
  by (simp add: stream_ok_def)

definition sends_data :: "px_event \<Rightarrow> bool" where
  "sends_data e \<longleftrightarrow> (case e of WsBinary _ _ \<Rightarrow> True | WsText _ _ _ \<Rightarrow> True | WsDisconnect _ _ _ \<Rightarrow> True
     | SslRead _ _ _ _ \<Rightarrow> True | _ \<Rightarrow> False)"

lemma same_stream:
  assumes "px_handle e px = Inr px'" "\<not> sends_data e"
  shows "px_toTrm px' = px_toTrm px \<or> px_toTrm px' = []"
  using assms
  by (cases e) (auto simp: sends_data_def mg_websocket_write_def ssl_defs ssl_accept_def ssl_handshake_def ssl_exit_def
      onNewConnection_def websocket_ready_callback_def add_connection_def get_connection_id_def startPing_def
      onPingTimeout_def onPong_def TRM_reconnect_def remove_all_connections_def
      TRM_response_round_def main_loop_def run_queued_def Let_def query_simps split: px_splits if_splits option.split_asm)

lemma stream_ok_disconnect:
  assumes "stream_ok px" "length (disconnect_event ip epoch) < 256"
  shows "stream_ok (onWebsocketDisconnected conn ip epoch px)"
proof (cases "conn \<in> set (px_sockets px)")
  case True
  let ?px = "px\<lparr>px_sockets := removeAll conn (px_sockets px)\<rparr>"
  let ?px1 = "websocket_data_callback conn (string_bytes (disconnect_event ip epoch)) ?px"
  have "stream_ok ?px" using assms(1) by (simp add: stream_ok_def)
  then have "stream_ok ?px1" using assms(2)
    unfolding websocket_data_callback_def by (intro stream_ok_data) (simp_all add: string_bytes_def)
  then have "stream_ok (websocket_data_callback conn [] ?px1)"
    unfolding websocket_data_callback_def by (rule stream_ok_data) simp
  then show ?thesis
    by (rule stream_ok_same) (simp add: True onWebsocketDisconnected_def websocket_disconnect_callback_def Let_def remove_connection_def)
qed (simp add: onWebsocketDisconnected_def assms)

lemma stream_ok_read:
  assumes "stream_ok px" "case bs of None \<Rightarrow> True | Some data \<Rightarrow> length data \<le> BUFSIZE"
  shows "stream_ok (ssl_read s t bs now px)"
proof (cases "map_of (sslProxyServers px) s")
  case (Some srv)
  obtain r srv' where r: "clientRead_round t bs now srv = (r, srv')" by fastforce
  have "stream_ok (onServer s (\<lambda>_. srv') px)" using assms(1) by (simp add: stream_ok_def onServer_def)
  moreover have "length data < 2 ^ 32" if "r = MessageReceived i data" for i data
    using that r assms(2) by (auto simp: clientRead_round_def BUFSIZE_def Let_def split: option.splits if_splits prod.splits)
  ultimately show ?thesis
    by (auto simp: ssl_read_def Some r Let_def onWebsocketMessageReceivedSSL_def stream_ok_data onPongSSL_def
        intro: stream_ok_same split: read_result.split)
qed (simp add: ssl_read_def assms)

lemma stream_ok_handle:
  assumes "stream_ok px" "px_enabled e px" "px_handle e px = Inr px'"
  shows "stream_ok px'"
proof (cases "sends_data e")
  case True
  then show ?thesis using assms stream_ok_disconnect stream_ok_read
    by (cases e) (auto simp: sends_data_def ws_defs intro!: stream_ok_data)
next
  case False
  then show ?thesis using same_stream [OF assms(3)] assms(1) by (auto simp: stream_ok_def)
qed

section \<open>Pointers\<close>

lemma servers_ok_update:
  assumes "servers_ok px" "\<And>srv. map_of (sslProxyServers px) s = Some srv \<Longrightarrow> ssl_ok srv \<Longrightarrow> ssl_ok (f srv)"
  shows "servers_ok (onServer s f px)"
  using assms by (auto simp: servers_ok_def onServer_def split: if_splits)

lemma servers_ok_same: "servers_ok px \<Longrightarrow> sslProxyServers px' = sslProxyServers px \<Longrightarrow> servers_ok px'"
  by (simp add: servers_ok_def)

lemma servers_ok_emit:
  assumes "servers_ok px" "ssl_ok (snd r)"
  shows "servers_ok (emit_signals s r px)"
proof -
  have "servers_ok (onServer s (\<lambda>_. snd r) px)" using assms by (intro servers_ok_update)
  then show ?thesis by (rule servers_ok_same) (simp add: emit_signals_def)
qed

lemma servers_ok_tasks:
  assumes "servers_ok px"
  shows "servers_ok (startPingSSL i now t px)" "servers_ok (onWebsocketConnectSSL i now px)"
    "servers_ok (onTimeoutSSL i now px)" "servers_ok (mg_websocket_write_ssl i data px)"
proof -
  have task: "servers_ok (px\<lparr>sslProxyPingPongTasks := m\<rparr>)" for m
    using assms by (rule servers_ok_same) simp
  have ping: "servers_ok px \<Longrightarrow> servers_ok (startPingSSL i now t px)" for px and t :: PingPongTask
    by (auto simp: startPingSSL_def ssl_ok_write intro: servers_ok_update split: option.split)
  show "servers_ok (startPingSSL i now t px)" by (rule ping [OF assms])
  show "servers_ok (onWebsocketConnectSSL i now px)"
    using assms task by (auto simp: onWebsocketConnectSSL_def Let_def intro: ping split: option.split prod.split)
  show "servers_ok (onTimeoutSSL i now px)" using assms task
    by (auto simp: onTimeoutSSL_def Let_def ssl_ok_closeClient intro: ping servers_ok_update
        split: option.split prod.split ping_outcome.split)
  show "servers_ok (mg_websocket_write_ssl i data px)" using assms
    by (auto simp: mg_websocket_write_ssl_def ssl_ok_write intro: servers_ok_update split: option.split)
qed

lemma servers_ok_accept:
  assumes "servers_ok px" "px_enabled (SslAccept s fd ssl t) px" "ssl_accept s fd ssl t px = Inr px'"
  shows "servers_ok px'"
proof (cases "map_of (sslProxyServers px) s")
  case (Some srv)
  then obtain sigs srv' where r: "connection_handler_round fd ssl t srv = Inr (sigs, srv')" "px' = emit_signals s (sigs, srv') px"
    using assms(3) by (auto simp: ssl_accept_def query_simps)
  have "(s, srv) \<in> set (sslProxyServers px)" using Some by (rule map_of_SomeD)
  then have "fd \<notin> set (ss_fds srv)" "map_of (ss_threads srv) t = None"
    using assms(2) by (auto simp: map_of_eq_None_iff)
  then have "ssl_ok srv'" using ssl_ok_accept [OF _ r(1)] assms(1) Some by (simp add: servers_ok_def)
  then show ?thesis using servers_ok_emit [OF assms(1)] r(2) by simp
qed (use assms in \<open>simp add: ssl_accept_def\<close>)

lemma servers_ok_threads:
  assumes "servers_ok px"
  shows "thread_is s t (\<lambda>ct. \<not> ct_connected ct) px \<Longrightarrow> servers_ok (ssl_handshake s t accepted px)"
    and "servers_ok (ssl_exit s t px)" and "servers_ok (ssl_read s t bs now px)"
proof -
  have ok: "map_of (sslProxyServers px) s = Some srv \<Longrightarrow> ssl_ok srv" for srv
    using assms by (simp add: servers_ok_def)
  show "thread_is s t (\<lambda>ct. \<not> ct_connected ct) px \<Longrightarrow> servers_ok (ssl_handshake s t accepted px)"
    using ok assms by (auto simp: ssl_handshake_def thread_is_def intro!: servers_ok_emit ssl_ok_handshake split: option.splits)
  show "servers_ok (ssl_exit s t px)"
    using ok assms by (auto simp: ssl_exit_def intro!: servers_ok_emit ssl_ok_exit split: option.split)
  show "servers_ok (ssl_read s t bs now px)"
  proof (cases "map_of (sslProxyServers px) s")
    case (Some srv)
    obtain r srv' where r: "clientRead_round t bs now srv = (r, srv')" by fastforce
    then have "ssl_ok srv'" using ssl_ok_round [OF ok [OF Some], of t bs now] by simp
    then have "servers_ok (onServer s (\<lambda>_. srv') px)" using assms by (intro servers_ok_update)
    then show ?thesis
      by (auto simp: ssl_read_def Some r Let_def onWebsocketMessageReceivedSSL_def onPongSSL_def
          intro: servers_ok_same split: read_result.split)
  qed (simp add: ssl_read_def assms)
qed

lemma servers_ok_main_loop:
  assumes "servers_ok px"
  shows "servers_ok (main_loop now px)"
proof -
  have q: "servers_ok (px\<lparr>px_queue := qs\<rparr>)" for qs using assms by (rule servers_ok_same) simp
  show ?thesis using assms servers_ok_tasks(2) [OF q]
    by (auto simp: main_loop_def run_queued_def onNewConnectionSSl_def onWebsocketDisconnectedSSL_def
        intro: servers_ok_same split: list.split queued.split ssl_signal.split)
qed

lemma servers_ok_handle:
  assumes "servers_ok px" "px_enabled e px" "px_handle e px = Inr px'"
  shows "servers_ok px'"
proof (cases e)
  case (TrmResponse header payload)
  have "servers_ok (px\<lparr>px_queue := q\<rparr>)" "servers_ok (px\<lparr>px_trm := b\<rparr>)" for q b
    using servers_ok_same [OF assms(1)] by simp_all
  then show ?thesis using assms(1,3) servers_ok_tasks(4) [OF assms(1)] TrmResponse
    by (auto simp: TRM_response_round_def mg_websocket_write_def Let_def split: option.split if_splits)
next
  case (Reconnect b)
  then show ?thesis using assms(1) reconnect_run [of b px px'] assms(3) by (auto intro: servers_ok_same)
next
  case (WsDisconnect c ip t)
  then show ?thesis using assms(1,3)
    by (auto simp: onWebsocketDisconnected_def websocket_disconnect_callback_def websocket_data_callback_def
        remove_connection_def Let_def intro: servers_ok_same split: if_splits)
qed (use assms in \<open>auto simp: ws_defs onNewConnection_def websocket_ready_callback_def add_connection_def
    get_connection_id_def startPing_def onPingTimeout_def onPong_def Let_def
    intro: servers_ok_same servers_ok_tasks servers_ok_threads servers_ok_main_loop
    dest: servers_ok_accept split: px_splits\<close>)

lemma px_reachable_ok:
  assumes "px_reachable px"
  shows "px_ok px" "stream_ok px" "servers_ok px"
proof -
  have "map_of (map (\<lambda>s. (s, tcpOpensslProxyServer_new)) [0..<n]) s = Some srv \<Longrightarrow> ssl_ok srv" for n s srv
    by (auto simp: ssl_ok_def tcpOpensslProxyServer_new_def thread_of_def dest!: map_of_SomeD)
  then have "px_ok (WebSocketProxy_new n)" "stream_ok (WebSocketProxy_new n)" "servers_ok (WebSocketProxy_new n)" for n
    by (simp_all add: px_ok_def stream_ok_def servers_ok_def WebSocketProxy_new_def smap_ok_def comp_def)
  with assms show "px_ok px" "stream_ok px" "servers_ok px"
    by (induction rule: px_reachable.induct) (blast intro: px_ok_handle stream_ok_handle servers_ok_handle)+
qed

section \<open>Keeping connections alive\<close>

text \<open>The task of a box that answers (\<open>True\<close>) or lets the timer fire (\<open>False\<close>), and what it does.\<close>

fun ping_run :: "bool list \<Rightarrow> PingPongTask \<Rightarrow> ping_outcome list" where
  "ping_run [] t = []"
| "ping_run (True # es) t = ping_run es (PingPongTask_onPong t)"
| "ping_run (False # es) t = (let (out, t') = PingPongTask_onTimeout t in out # ping_run es t')"

lemma ping_run_closes:
  "\<not> pp_stopped t \<Longrightarrow> pp_retry t < 5 \<Longrightarrow> CloseSocket \<in> set (ping_run es t) \<longleftrightarrow>
     (\<exists>b. es = replicate (5 - pp_retry t) False @ b) \<or> (\<exists>a b. es = a @ replicate 5 False @ b)"
proof (induction es t rule: ping_run.induct)
  case (1 t)
  then show ?case by simp
next
  case (2 es t)
  have "(\<exists>a b. True # es = a @ replicate 5 False @ b) \<longleftrightarrow> (\<exists>a b. es = a @ replicate 5 False @ b)"
    by (auto simp: Cons_eq_append_conv numeral_eq_Suc)
  moreover have "(\<exists>b. es = replicate 5 False @ b) \<Longrightarrow> (\<exists>a b. es = a @ replicate 5 False @ b)" by force
  moreover have "\<nexists>b. True # es = replicate (5 - pp_retry t) False @ b"
    using 2(3) by (cases "5 - pp_retry t") auto
  ultimately show ?case using 2 by (simp add: PingPongTask_onPong_def) metis
next
  case (3 es t)
  let ?t = "t\<lparr>pp_retry := Suc (pp_retry t), pp_armed := False\<rparr>"
  show ?case
  proof (cases "pp_retry t = 4")
    case True
    then show ?thesis by (simp add: PingPongTask_onTimeout_def Let_def)
  next
    case False
    then have r: "PingPongTask_onTimeout t = (Ping, ?t\<lparr>pp_armed := True\<rparr>)" "pp_retry t < 4" using 3(2,3)
      by (auto simp: PingPongTask_onTimeout_def PingPongTask_start_def Let_def)
    have n: "5 - pp_retry t = Suc (5 - Suc (pp_retry t))" using r(2) by simp
    have "(\<exists>a b. False # es = a @ replicate 5 False @ b) \<longleftrightarrow>
        (\<exists>b. False # es = replicate 5 False @ b) \<or> (\<exists>a b. es = a @ replicate 5 False @ b)"
      by (auto simp: Cons_eq_append_conv)
    moreover have "(\<exists>b. es = replicate (5 - Suc (pp_retry t)) False @ b)" if "False # es = replicate 5 False @ b" for b
    proof -
      have "es = replicate 4 False @ b" using that by (simp add: numeral_eq_Suc)
      moreover have "replicate 4 False = replicate (5 - Suc (pp_retry t)) False @ replicate (pp_retry t) False"
        using r(2) by (simp flip: replicate_add)
      ultimately show ?thesis by auto
    qed
    ultimately show ?thesis using 3(1) [OF r(1) [symmetric]] 3(2) r n by auto
  qed
qed

section \<open>Properties\<close>

lemma id_to_conn_id:
  assumes "px_ok px" "map_of (px_connections px) c = Some i"
  shows "id_to_conn i px = Some c" "0 < i" "c \<in> set (px_sockets px)"
proof -
  note ok = assms(1) [unfolded px_ok_def]
  have m: "(c, i) \<in> set (px_connections px)" using assms(2) by (rule map_of_SomeD)
  then show i: "0 < i" "c \<in> set (px_sockets px)" using ok by force+
  have "inj_on snd (set (px_connections px))" using ok by (simp add: distinct_map)
  then have u: "x = (c, i)" if "x \<in> set (px_connections px)" "snd x = i" for x
    using that m by (metis inj_onD snd_conv)
  have "List.find (\<lambda>x. snd x = i) (px_connections px) \<noteq> None"
    using m by (auto simp: find_None_iff)
  then obtain x where x: "List.find (\<lambda>x. snd x = i) (px_connections px) = Some x" by auto
  then have "x \<in> set (px_connections px)" "snd x = i" unfolding find_Some_iff by (metis nth_mem)+
  then have "x = (c, i)" by (rule u)
  then show "id_to_conn i px = Some c" using i x by (simp add: id_to_conn_def)
qed

lemma reply_queued:
  assumes "id_to_conn i px = Some c" "0 \<le> i" "i < 2 ^ 31" "length (encode m) < 2 ^ 32"
  defines "bs \<equiv> SerializeMessage encode m (of_int i)"
  shows "TRM_response_round (take kHeaderLength bs) (drop kHeaderLength bs) px = mg_websocket_write c (encode m) px"
  using reads_header [of encode m, OF assms(4), of "of_int i"] assms sint_id [OF assms(2,3)]
  by (simp add: TRM_response_round_def Let_def)

text \<open>
  C33. The proxy keeps its boxes apart: in every state it can reach, a message of a box arrives at
  the server, however the bytes are cut, behind everything sent before, under the id of that box,
  and an answer of the server to that id is queued for that box and written to its socket, up to
  the first zero byte.
\<close>

theorem proxy_routes:
  assumes "px_reachable px" "px_trm px" "map_of (px_connections px) c = Some i" "i < 2 ^ 31"
    and "length data < 2 ^ 31" "concat chunks = concat (px_toTrm (onWebsocketBinaryMessageReceived c data px))"
    and "length (encode m) < 2 ^ 32" "bs = SerializeMessage encode m (of_int i)"
    and "px' = TRM_response_round (take kHeaderLength bs) (drop kHeaderLength bs) px"
  shows "(\<exists>msg. c_received (fold arrive chunks Connection_new) = px_toTrm px @ [msg] \<and>
      Server_unpack msg = Inr (of_int i, data)) \<and>
    px' = px\<lparr>px_queue := px_queue px @ [HasDataToWrite c (encode m @ [0])]\<rparr> \<and>
    px_toWs (run_queued now (HasDataToWrite c (encode m @ [0])) px') =
      px_toWs px @ [(c, takeWhile (\<lambda>b. b \<noteq> 0) (encode m))]"
proof -
  note ok = px_reachable_ok [OF assms(1)]
  note i = id_to_conn_id [OF ok(1) assms(3)]
  obtain fs where fs: "\<forall>f \<in> set fs. framed f" "px_toTrm px = map frame fs" using ok(2) by (auto simp: stream_ok_def)
  have p: "px_toTrm (onWebsocketBinaryMessageReceived c data px) = map frame (fs @ [packet i data])"
    using assms(2,3) i(2) fs(2) by (simp add: ws_defs conn_to_id_def data_callback_packet)
  have "framed (packet i data)" using assms(5) by (intro packet_frame) simp
  then have "c_received (fold arrive chunks Connection_new) = map frame (fs @ [packet i data])"
    using arrive_chunks [of Connection_new "fs @ [packet i data]" chunks] assms(6) fs(1) p
    by (auto simp: Connection_new_start)
  moreover have "px' = mg_websocket_write c (encode m) px"
    using reply_queued [of i px c encode m, OF i(1) _ assms(4,7)] i(2) assms(8,9) by simp
  moreover have "takeWhile (\<lambda>b. b \<noteq> 0) (xs @ [0 :: u8]) = takeWhile (\<lambda>b. b \<noteq> 0) xs" for xs
    by (induction xs) auto
  ultimately show ?thesis using fs(2) packet_frame(2) [of i data] i(3)
    by (auto simp: mg_websocket_write_def run_queued_def)
qed

fun px_run :: "px_event list \<Rightarrow> WebSocketProxy \<Rightarrow> WebSocketProxy option" where
  "px_run [] px = Some px"
| "px_run (e # es) px =
     (if px_enabled e px then (case px_handle e px of Inr px' \<Rightarrow> px_run es px' | Inl _ \<Rightarrow> None) else None)"

lemma px_run_reachable: "px_run es px = Some px' \<Longrightarrow> px_reachable px \<Longrightarrow> px_reachable px'"
  by (induction es arbitrary: px) (auto intro: px_reachable.step split: if_splits sum.splits)

definition one_box :: WebSocketProxy where
  "one_box = the (px_run [WsConnect 7] (WebSocketProxy_new 1))"

lemma one_box_eval:
  "px_reachable one_box" "px_trm one_box" "px_connections one_box = [(7, 1)]" "px_toTrm one_box = []"
proof -
  have "px_run [WsConnect 7] (WebSocketProxy_new 1) \<noteq> None" by code_simp
  then show "px_reachable one_box" unfolding one_box_def
    by (metis option.collapse px_run_reachable px_reachable.start)
qed code_simp+

theorem proxy_routes_witness:
  "Server_unpack (hd (c_received (arrive (concat (px_toTrm (onWebsocketBinaryMessageReceived 7 [65, 66] one_box))) Connection_new))) =
     Inr (1, [65, 66]) \<and>
   px_queue (TRM_response_round (take kHeaderLength (SerializeMessage (\<lambda>_. [67]) (M_GetVersion \<lparr>q_uuid = ''q'', q_device = [], q_token = []\<rparr>) 1)) [67] one_box) =
     px_queue one_box @ [HasDataToWrite 7 [67, 0]]"
proof -
  let ?bs = "SerializeMessage (\<lambda>_. [67]) (M_GetVersion \<lparr>q_uuid = ''q'', q_device = [], q_token = []\<rparr>) 1"
  have "drop kHeaderLength ?bs = [67]" by code_simp
  then show ?thesis
    using proxy_routes [OF one_box_eval(1,2), of 7 1 "[65, 66]"
        "[concat (px_toTrm (onWebsocketBinaryMessageReceived 7 [65, 66] one_box))]" "\<lambda>_. [67]"
        "M_GetVersion \<lparr>q_uuid = ''q'', q_device = [], q_token = []\<rparr>" ?bs _ 0]
    by (auto simp: one_box_eval)
qed

text \<open>
  C35. A box is dropped exactly when it has let five pings in a row go unanswered: whatever answers
  and time-outs there are, the task closes the socket if and only if five time-outs follow each
  other without an answer between them.
\<close>

theorem ping_closes:
  "CloseSocket \<in> set (ping_run es (PingPongTask_new ss)) \<longleftrightarrow> (\<exists>a b. es = a @ replicate 5 False @ b)"
  using ping_run_closes [of "PingPongTask_new ss" es] by (simp add: PingPongTask_new_def) (metis append_Nil)


text \<open>A box on a WebSocket and one on the OpenSSL server, whose descriptor is 1.\<close>

definition two_boxes :: WebSocketProxy where
  "two_boxes = the (px_run [WsConnect 7, SslAccept 0 1 9 0, MainLoop 0, SslHandshake 0 0 True, MainLoop 0] (WebSocketProxy_new 1))"

lemma two_boxes_eval:
  "px_reachable two_boxes" "px_trm two_boxes" "map_of (px_connections two_boxes) 7 = Some 1"
  "map_of (sslProxyMap two_boxes) 1 = Some 0"
  "map_of (m_clientSSLCtxList (the (map_of (sslProxyServers two_boxes) 0))) 1 = Some 9"
  "map_of (sslProxyServers two_boxes) 0 \<noteq> None"
proof -
  have "px_run [WsConnect 7, SslAccept 0 1 9 0, MainLoop 0, SslHandshake 0 0 True, MainLoop 0] (WebSocketProxy_new 1) \<noteq> None"
    by code_simp
  then show "px_reachable two_boxes" unfolding two_boxes_def
    by (metis option.collapse px_run_reachable px_reachable.start)
qed code_simp+






lemma disconnect_written:
  assumes "px_ok px" "px_trm px" "map_of (px_connections px) c = Some i"
  shows "px_toTrm (onWebsocketDisconnected c ip epoch px) =
    px_toTrm px @ [frame (packet i (string_bytes (disconnect_event ip epoch))), frame (packet i [])]"
  using id_to_conn_id [OF assms(1,3)] assms(2,3)
  by (simp add: onWebsocketDisconnected_def websocket_disconnect_callback_def websocket_data_callback_def
      conn_to_id_def data_callback_packet remove_connection_def Let_def)

text \<open>
  The server is told when a box on a WebSocket goes, and never when an OpenSSL client does.
  For a box two messages are written under its id, the event and an empty message, its id is
  forgotten and no other box is touched; at the end of a reader thread nothing is written.
\<close>

theorem disconnect_messages:
  assumes "px_reachable px" "px_trm px" "map_of (px_connections px) c = Some i"
  shows "px_toTrm (onWebsocketDisconnected c ip epoch px) =
      px_toTrm px @ [frame (packet i (string_bytes (disconnect_event ip epoch))), frame (packet i [])] \<and>
    map_of (px_connections (onWebsocketDisconnected c ip epoch px)) = (map_of (px_connections px))(c := None) \<and>
    px_toTrm (ssl_exit s t px) = px_toTrm px"
proof -
  note ok = px_reachable_ok(1) [OF assms(1)]
  have "px_toTrm (ssl_exit s t px) = px_toTrm px"
    by (simp add: ssl_exit_def emit_signals_def onServer_def split: option.split)
  then show ?thesis using disconnect_written [OF ok assms(2,3)] id_to_conn_id(3) [OF ok assms(3)]
    by (simp add: onWebsocketDisconnected_def websocket_disconnect_callback_def websocket_data_callback_def
        remove_connection_def Let_def)
qed

theorem disconnect_messages_witness:
  "px_toTrm (onWebsocketDisconnected 7 ''10.0.0.7'' ''1000'' two_boxes) =
    px_toTrm two_boxes @ [frame (packet 1 (string_bytes (disconnect_event ''10.0.0.7'' ''1000''))), frame (packet 1 [])]"
  using disconnect_messages [OF two_boxes_eval(1-3)] by blast

end
