(* ===== verification/Trm_Monitor.thy ===== *)
theory Trm_Monitor
  imports Trm_World
begin

text \<open>
  The monitor (\<^verbatim>\<open>qtapp/gui/TRMMonitor.cpp\<close>), a client of the server: it sends requests, remembers
  their uuids in a queue and expects the responses in the order of the requests. Header, codec
  and connection are those of the server; what the monitor hands to its connection is a list of
  messages with the client id of their headers, what it tells its window a list of signals. \<open>uuid\<close>
  is the sequence of new uuids. \<^verbatim>\<open>Q_ASSERT\<close> ends the program when \<open>strict\<close>, and does nothing
  otherwise, as in Qt's two kinds of builds.
\<close>

section \<open>State\<close>

datatype gui_signal =
    tunerIdsUpdated "string list"
  | tunerStatesUpdated "(string, string) smap"
  | tunerReservationsUpdated "(string, TunerReservation list) smap"
  | statusMessageReceived string
  | conflictsReceived "TunerReservation list"

record TRMMonitor =
  mo_connected :: bool
  mo_clientId :: u32
  mo_inClientId :: u32
  pendingRequestIds :: "string list"
  mo_tunerIds :: "string list"
  mo_uuids :: nat
  mo_out :: "(u32 \<times> message) list"
  mo_signals :: "gui_signal list"

definition kInvalidClientId :: u32 where
  "kInvalidClientId = - 1"

definition TRMMonitor_new :: "u32 \<Rightarrow> TRMMonitor" where
  "TRMMonitor_new cid =
     \<lparr>mo_connected = True, mo_clientId = cid, mo_inClientId = 0, pendingRequestIds = [], mo_tunerIds = [],
      mo_uuids = 0, mo_out = [], mo_signals = []\<rparr>"

section \<open>Sending\<close>

text \<open>\<^verbatim>\<open>send\<close> and \<^verbatim>\<open>sendMessage\<close>: nothing happens without a connection.\<close>

definition Monitor_send :: "message \<Rightarrow> u32 \<Rightarrow> TRMMonitor \<Rightarrow> TRMMonitor" where
  "Monitor_send m outClientId mo =
     (if mo_connected mo then
        mo\<lparr>mo_out := mo_out mo @ [(if outClientId = kInvalidClientId then mo_clientId mo else outClientId, m)]\<rparr>
      else mo)"

text \<open>The frame of every request: a new uuid, sent and put into the queue.\<close>

definition sendRequest :: "(nat \<Rightarrow> string) \<Rightarrow> (string \<Rightarrow> message) \<Rightarrow> TRMMonitor \<Rightarrow> TRMMonitor" where
  "sendRequest uuid mk mo =
     (let u = uuid (mo_uuids mo);
          mo' = Monitor_send (mk u) kInvalidClientId (mo\<lparr>mo_uuids := Suc (mo_uuids mo)\<rparr>)
      in mo'\<lparr>pendingRequestIds := pendingRequestIds mo' @ [u]\<rparr>)"

definition sendTunerReserve ::
  "(nat \<Rightarrow> string) \<Rightarrow> string \<Rightarrow> string \<Rightarrow> u64 \<Rightarrow> u64 \<Rightarrow> string \<Rightarrow> string \<Rightarrow> string \<Rightarrow> TRMMonitor \<Rightarrow> TRMMonitor" where
  "sendTunerReserve uuid today device startTime duration locator activity token =
     (let activityObject = Activity_addDetail ''hot'' ''false''
            (Activity_addDetail ''recordingId'' today (Activity_new (Activity_at activity)))
      in sendRequest uuid (\<lambda>u. M_ReserveTuner (ReserveTuner_new u device
           (TunerReservation_new device locator startTime duration activityObject token None) ''false'')))"

definition sendGetAllTunerIds :: "(nat \<Rightarrow> string) \<Rightarrow> TRMMonitor \<Rightarrow> TRMMonitor" where
  "sendGetAllTunerIds uuid =
     sendRequest uuid (\<lambda>u. M_GetAllTunerIds \<lparr>q_uuid = u, q_device = '''', q_token = ''''\<rparr>)"

definition sendGetAllTunerStates :: "(nat \<Rightarrow> string) \<Rightarrow> TRMMonitor \<Rightarrow> TRMMonitor" where
  "sendGetAllTunerStates uuid =
     sendRequest uuid (\<lambda>u. M_GetAllTunerStates \<lparr>q_uuid = u, q_device = '''', q_token = ''''\<rparr>)"

text \<open>The constructor with a device also puts the device into the filters.\<close>

definition sendGetAllReservations :: "(nat \<Rightarrow> string) \<Rightarrow> TRMMonitor \<Rightarrow> TRMMonitor" where
  "sendGetAllReservations uuid =
     sendRequest uuid (\<lambda>u. M_GetAllReservations (GetAllReservations_new u [(''device'', '''')]))"

definition sendReleaseTunerReservation :: "(nat \<Rightarrow> string) \<Rightarrow> string \<Rightarrow> TRMMonitor \<Rightarrow> TRMMonitor" where
  "sendReleaseTunerReservation uuid token =
     sendRequest uuid (\<lambda>u. M_ReleaseTunerReservation (ReleaseTunerReservation_new u ''Device::TestApp'' token))"

definition sendValidateTunerReservation :: "(nat \<Rightarrow> string) \<Rightarrow> string \<Rightarrow> string \<Rightarrow> TRMMonitor \<Rightarrow> TRMMonitor" where
  "sendValidateTunerReservation uuid device token =
     sendRequest uuid (\<lambda>u. M_ValidateTunerReservation (ValidateTunerReservation_new u device token))"

definition sendCancelRecording :: "(nat \<Rightarrow> string) \<Rightarrow> string \<Rightarrow> TRMMonitor \<Rightarrow> TRMMonitor" where
  "sendCancelRecording uuid token =
     sendRequest uuid (\<lambda>u. M_CancelRecording (CancelRecording_new u token))"

definition sendCancelRecordingResponse :: "string \<Rightarrow> string \<Rightarrow> u32 \<Rightarrow> TRMMonitor \<Rightarrow> TRMMonitor" where
  "sendCancelRecordingResponse u token outClientId =
     Monitor_send (M_CancelRecordingResponse
       \<lparr>s_uuid = u, s_status = sOk, s_token = token, s_canceled = True\<rparr>) outClientId"

section \<open>Receiving\<close>

definition emit_signal :: "gui_signal \<Rightarrow> TRMMonitor \<Rightarrow> TRMMonitor" where
  "emit_signal s mo = mo\<lparr>mo_signals := mo_signals mo @ [s]\<rparr>"

text \<open>
  \<^verbatim>\<open>dequeue\<close> of an empty queue is undefined. The handlers below compare the id of the oldest
  request with the id of the response.
\<close>

definition dequeue :: "TRMMonitor \<Rightarrow> (string \<times> TRMMonitor) query" where
  "dequeue mo =
     (case pendingRequestIds mo of
        [] \<Rightarrow> Inl UndefinedBehaviour
      | i # is \<Rightarrow> Inr (i, mo\<lparr>pendingRequestIds := is\<rparr>))"

definition expectResponse :: "bool \<Rightarrow> string \<Rightarrow> TRMMonitor \<Rightarrow> TRMMonitor query" where
  "expectResponse strict responseId mo =
     ebind (dequeue mo) (\<lambda>(requestId, mo').
       if requestId \<noteq> responseId \<and> strict then Inl AssertionFailureException else Inr mo')"

definition refresh :: "(nat \<Rightarrow> string) \<Rightarrow> TRMMonitor \<Rightarrow> TRMMonitor" where
  "refresh uuid mo = sendGetAllTunerStates uuid (sendGetAllReservations uuid mo)"

text \<open>The overloads for notifications, which nobody waits for; any other message is only printed.\<close>

fun TRMMonitor_notified :: "(nat \<Rightarrow> string) \<Rightarrow> message \<Rightarrow> TRMMonitor \<Rightarrow> TRMMonitor" where
  "TRMMonitor_notified uuid (M_NotifyTunerReservationUpdate n) mo = refresh uuid mo"
| "TRMMonitor_notified uuid (M_NotifyTunerReservationRelease n) mo = refresh uuid mo"
| "TRMMonitor_notified uuid (M_NotifyTunerReservationConflicts n) mo =
     (let mo1 = (if n_conflicts n \<noteq> [] then emit_signal (conflictsReceived (n_conflicts n)) mo else mo)
      in refresh uuid mo1)"
| "TRMMonitor_notified uuid _ mo = mo"

text \<open>The overloads of \<^verbatim>\<open>operator()\<close>; \<open>details\<close> is the status message of the response.\<close>

fun TRMMonitor_process ::
  "bool \<Rightarrow> (nat \<Rightarrow> string) \<Rightarrow> string \<Rightarrow> message \<Rightarrow> TRMMonitor \<Rightarrow> TRMMonitor query" where
  "TRMMonitor_process strict uuid details (M_ReserveTunerResponse s) mo =
     ebind (expectResponse strict (s_uuid s) mo) (\<lambda>mo1.
       let mo2 = refresh uuid mo1;
           mo3 = (if details \<noteq> '''' then emit_signal (statusMessageReceived details) mo2 else mo2);
           mo4 = (if s_conflicts s \<noteq> [] then emit_signal (conflictsReceived (s_conflicts s)) mo3 else mo3)
       in Inr (refresh uuid mo4))"
| "TRMMonitor_process strict uuid details (M_ReleaseTunerReservationResponse s) mo =
     ebind (expectResponse strict (s_uuid s) mo) (\<lambda>mo1. Inr (refresh uuid mo1))"
| "TRMMonitor_process strict uuid details (M_ValidateTunerReservationResponse s) mo =
     ebind (expectResponse strict (s_uuid s) mo) (\<lambda>mo1. Inr (refresh uuid mo1))"
| "TRMMonitor_process strict uuid details (M_CancelRecording q) mo =
     Inr (sendCancelRecordingResponse (q_uuid q) (q_token q) (mo_inClientId mo) mo)"
| "TRMMonitor_process strict uuid details (M_CancelRecordingResponse s) mo =
     ebind (expectResponse strict (s_uuid s) mo) (\<lambda>mo1. Inr (refresh uuid mo1))"
| "TRMMonitor_process strict uuid details (M_GetAllTunerStatesResponse s) mo =
     ebind (dequeue mo) (\<lambda>(_, mo1). Inr (emit_signal (tunerStatesUpdated (s_tunerStates s)) mo1))"
| "TRMMonitor_process strict uuid details (M_GetAllTunerIdsResponse s) mo =
     ebind (expectResponse strict (s_uuid s) mo) (\<lambda>mo1.
       Inr (emit_signal (tunerIdsUpdated (s_tunerIds s)) (mo1\<lparr>mo_tunerIds := s_tunerIds s\<rparr>)))"
| "TRMMonitor_process strict uuid details (M_GetAllReservationsResponse s) mo =
     ebind (expectResponse strict (s_uuid s) mo) (\<lambda>mo1.
       Inr (emit_signal (tunerReservationsUpdated (s_reservations s)) mo1))"
| "TRMMonitor_process strict uuid details m mo = Inr (TRMMonitor_notified uuid m mo)"

text \<open>\<^verbatim>\<open>Client::onMessageReceived\<close>: the client id of the header is noted, the message processed.\<close>

definition Client_onMessageReceived ::
  "bool \<Rightarrow> (nat \<Rightarrow> string) \<Rightarrow> string \<Rightarrow> u32 \<Rightarrow> message \<Rightarrow> TRMMonitor \<Rightarrow> TRMMonitor query" where
  "Client_onMessageReceived strict uuid details cid m mo =
     TRMMonitor_process strict uuid details m (mo\<lparr>mo_inClientId := cid\<rparr>)"

definition Client_onDisconnected :: "TRMMonitor \<Rightarrow> TRMMonitor" where
  "Client_onDisconnected mo = mo\<lparr>mo_connected := False\<rparr>"

section \<open>The monitor and its server\<close>

text \<open>The requests the monitor makes, and the responses that answer them.\<close>

fun request_uuid :: "message \<Rightarrow> string option" where
  "request_uuid (M_ReserveTuner q) = Some (q_uuid q)"
| "request_uuid (M_GetAllTunerIds q) = Some (q_uuid q)"
| "request_uuid (M_GetAllTunerStates q) = Some (q_uuid q)"
| "request_uuid (M_GetAllReservations q) = Some (q_uuid q)"
| "request_uuid (M_ReleaseTunerReservation q) = Some (q_uuid q)"
| "request_uuid (M_ValidateTunerReservation q) = Some (q_uuid q)"
| "request_uuid (M_CancelRecording q) = Some (q_uuid q)"
| "request_uuid _ = None"

fun response_uuid :: "message \<Rightarrow> string option" where
  "response_uuid (M_ReserveTunerResponse s) = Some (s_uuid s)"
| "response_uuid (M_GetAllTunerIdsResponse s) = Some (s_uuid s)"
| "response_uuid (M_GetAllTunerStatesResponse s) = Some (s_uuid s)"
| "response_uuid (M_GetAllReservationsResponse s) = Some (s_uuid s)"
| "response_uuid (M_ReleaseTunerReservationResponse s) = Some (s_uuid s)"
| "response_uuid (M_ValidateTunerReservationResponse s) = Some (s_uuid s)"
| "response_uuid (M_CancelRecordingResponse s) = Some (s_uuid s)"
| "response_uuid _ = None"

text \<open>The uuids of the requests sent so far, in order.\<close>

definition requested :: "TRMMonitor \<Rightarrow> string list" where
  "requested mo = List.map_filter (\<lambda>x. request_uuid (snd x)) (mo_out mo)"

text \<open>What the user can make the monitor do.\<close>

datatype command =
    Reserve string string u64 u64 string string string
  | ListIds
  | ListStates
  | ListReservations
  | Release string
  | Validate string string
  | Cancel string

fun command_run :: "(nat \<Rightarrow> string) \<Rightarrow> command \<Rightarrow> TRMMonitor \<Rightarrow> TRMMonitor" where
  "command_run uuid (Reserve today dev st dur loc act tok) = sendTunerReserve uuid today dev st dur loc act tok"
| "command_run uuid ListIds = sendGetAllTunerIds uuid"
| "command_run uuid ListStates = sendGetAllTunerStates uuid"
| "command_run uuid ListReservations = sendGetAllReservations uuid"
| "command_run uuid (Release tok) = sendReleaseTunerReservation uuid tok"
| "command_run uuid (Validate dev tok) = sendValidateTunerReservation uuid dev tok"
| "command_run uuid (Cancel tok) = sendCancelRecording uuid tok"

text \<open>
  A connected monitor, with the number of responses it has got: the user gives a command, a
  message that is no response arrives, or the response to the oldest open request arrives.
\<close>

inductive session :: "bool \<Rightarrow> (nat \<Rightarrow> string) \<Rightarrow> u32 \<Rightarrow> nat \<Rightarrow> TRMMonitor \<Rightarrow> bool" for strict uuid cid where
  session_start: "session strict uuid cid 0 (TRMMonitor_new cid)"
| session_command: "session strict uuid cid k mo \<Longrightarrow> session strict uuid cid k (command_run uuid c mo)"
| session_notified: "session strict uuid cid k mo \<Longrightarrow> response_uuid m = None \<Longrightarrow>
    Client_onMessageReceived strict uuid details c m mo = Inr mo' \<Longrightarrow> session strict uuid cid k mo'"
| session_answered: "session strict uuid cid k mo \<Longrightarrow> k < length (requested mo) \<Longrightarrow>
    response_uuid m = Some (requested mo ! k) \<Longrightarrow>
    Client_onMessageReceived strict uuid details c m mo = Inr mo' \<Longrightarrow> session strict uuid cid (Suc k) mo'"

text \<open>The queue holds the requests that are still open.\<close>

definition in_step :: "nat \<Rightarrow> TRMMonitor \<Rightarrow> bool" where
  "in_step k mo \<longleftrightarrow> mo_connected mo \<and> k \<le> length (requested mo) \<and> pendingRequestIds mo = drop k (requested mo)"

lemma requested_send:
  "request_uuid m = Some u \<Longrightarrow> mo_connected mo \<Longrightarrow> requested (Monitor_send m c mo) = requested mo @ [u]"
  "request_uuid m = None \<Longrightarrow> requested (Monitor_send m c mo) = requested mo"
  by (simp_all add: requested_def Monitor_send_def map_filter_simps List.map_filter_def)

lemma requested_upd [simp]:
  "requested (mo\<lparr>mo_uuids := n\<rparr>) = requested mo" "requested (mo\<lparr>pendingRequestIds := q\<rparr>) = requested mo"
  "requested (mo\<lparr>mo_inClientId := c\<rparr>) = requested mo" "requested (mo\<lparr>mo_tunerIds := is\<rparr>) = requested mo"
  "requested (mo\<lparr>mo_signals := ss\<rparr>) = requested mo"
  by (simp_all add: requested_def)

lemma in_step_upd [simp]:
  "in_step k (mo\<lparr>mo_inClientId := c\<rparr>) = in_step k mo" "in_step k (mo\<lparr>mo_tunerIds := is\<rparr>) = in_step k mo"
  "in_step k (mo\<lparr>mo_signals := ss\<rparr>) = in_step k mo"
  by (simp_all add: in_step_def)

lemma in_step_request:
  assumes "in_step k mo" "\<And>u. request_uuid (mk u) = Some u"
  shows "in_step k (sendRequest uuid mk mo)"
proof -
  let ?mo = "mo\<lparr>mo_uuids := Suc (mo_uuids mo)\<rparr>" and ?u = "uuid (mo_uuids mo)"
  have "requested (Monitor_send (mk ?u) kInvalidClientId ?mo) = requested mo @ [?u]"
    using assms by (subst requested_send(1)) (auto simp: in_step_def)
  then show ?thesis using assms(1)
    by (simp add: sendRequest_def Let_def in_step_def) (simp add: Monitor_send_def)
qed

lemma in_step_refresh: "in_step k mo \<Longrightarrow> in_step k (refresh uuid mo)"
  unfolding refresh_def sendGetAllTunerStates_def sendGetAllReservations_def
  by (intro in_step_request) (simp_all add: GetAllReservations_new_def)

lemma in_step_command: "in_step k mo \<Longrightarrow> in_step k (command_run uuid c mo)"
  by (cases c) (simp_all add: sendTunerReserve_def Let_def sendGetAllTunerIds_def sendGetAllTunerStates_def
      sendGetAllReservations_def sendReleaseTunerReservation_def sendValidateTunerReservation_def
      sendCancelRecording_def in_step_request ReserveTuner_new_def GetAllReservations_new_def
      ReleaseTunerReservation_new_def ValidateTunerReservation_new_def CancelRecording_new_def)

lemma in_step_other:
  assumes "in_step k mo" "response_uuid m = None"
  shows "\<exists>mo'. Client_onMessageReceived strict uuid details c m mo = Inr mo' \<and> in_step k mo'"
proof -
  have "in_step k (sendCancelRecordingResponse u tok c' mo)" if "in_step k mo" for u tok c' mo
    using that unfolding in_step_def sendCancelRecordingResponse_def requested_send(2) [OF request_uuid.simps(16)]
    by (simp add: requested_send(2)) (simp add: Monitor_send_def)
  then show ?thesis using assms
    by (cases m) (auto simp: Client_onMessageReceived_def Let_def emit_signal_def in_step_refresh)
qed

lemma in_step_dequeue:
  assumes "in_step k mo" "k < length (requested mo)"
  shows "\<exists>mo'. dequeue mo = Inr (requested mo ! k, mo') \<and> in_step (Suc k) mo'"
proof -
  have "pendingRequestIds mo = requested mo ! k # drop (Suc k) (requested mo)"
    using assms by (simp add: in_step_def Cons_nth_drop_Suc)
  then have "dequeue mo = Inr (requested mo ! k, mo\<lparr>pendingRequestIds := drop (Suc k) (requested mo)\<rparr>)"
    by (simp add: dequeue_def)
  moreover have "in_step (Suc k) (mo\<lparr>pendingRequestIds := drop (Suc k) (requested mo)\<rparr>)"
    using assms by (simp add: in_step_def)
  ultimately show ?thesis by blast
qed

lemma in_step_answer:
  assumes "in_step k mo" "k < length (requested mo)" "response_uuid m = Some (requested mo ! k)"
  shows "\<exists>mo'. Client_onMessageReceived strict uuid details c m mo = Inr mo' \<and> in_step (Suc k) mo'"
proof -
  let ?mo = "mo\<lparr>mo_inClientId := c\<rparr>"
  obtain mo1 where d: "dequeue ?mo = Inr (requested mo ! k, mo1)" "in_step (Suc k) mo1"
    using in_step_dequeue [of k ?mo] assms(1,2) by auto
  have "expectResponse strict (requested mo ! k) ?mo = Inr mo1" by (simp add: expectResponse_def d(1))
  then show ?thesis using assms(3) d
    by (cases m) (auto simp: Client_onMessageReceived_def Let_def emit_signal_def in_step_refresh)
qed

lemma session_in_step: "session strict uuid cid k mo \<Longrightarrow> in_step k mo"
proof (induction rule: session.induct)
  case session_start
  then show ?case by (simp add: in_step_def TRMMonitor_new_def requested_def map_filter_simps)
next
  case (session_notified k mo m details c mo')
  then show ?case using in_step_other by (metis sum.inject(2))
next
  case (session_answered k mo m details c mo')
  then show ?case using in_step_answer by (metis sum.inject(2))
qed (rule in_step_command)

text \<open>
  C30. As long as the server answers the monitor's requests in the order they were made, the queue
  holds exactly the open requests and no assertion of the monitor fails: whatever notifications
  and commands come in between, the next response, and any other message, is processed.
\<close>

theorem monitor_in_step:
  assumes "session strict uuid cid k mo"
    and "response_uuid m = None \<or> (k < length (requested mo) \<and> response_uuid m = Some (requested mo ! k))"
  shows "pendingRequestIds mo = drop k (requested mo) \<and>
    (\<exists>mo'. Client_onMessageReceived strict uuid details c m mo = Inr mo')"
  using session_in_step [OF assms(1)] in_step_other [of k mo m strict uuid details c]
    in_step_answer [of k mo m strict uuid details c] assms(2)
  by (auto simp: in_step_def)

theorem monitor_in_step_witness:
  "pendingRequestIds (command_run (\<lambda>n. replicate n CHR ''u'') ListIds (TRMMonitor_new 7)) = [''''] \<and>
   (\<exists>mo'. Client_onMessageReceived True (\<lambda>n. replicate n CHR ''u'') '''' 7
      (M_GetAllTunerIdsResponse (GetAllTunerIdsResponse_new ''''))
      (command_run (\<lambda>n. replicate n CHR ''u'') ListIds (TRMMonitor_new 7)) = Inr mo')"
proof -
  let ?u = "\<lambda>n. replicate n CHR ''u''"
  let ?mo = "command_run ?u ListIds (TRMMonitor_new 7)"
  have s: "session True ?u 7 0 ?mo" by (intro session_command session_start)
  have r: "requested ?mo = ['''']"
    by (simp add: sendGetAllTunerIds_def sendRequest_def Let_def Monitor_send_def TRMMonitor_new_def requested_def
        map_filter_simps)
  show ?thesis
    using monitor_in_step [OF s, of "M_GetAllTunerIdsResponse (GetAllTunerIdsResponse_new '''')" "''''" 7]
    unfolding r by (simp add: GetAllTunerIdsResponse_new_def)
qed

end
