(* ===== verification/Trm_Gui.thy ===== *)
theory Trm_Gui
  imports Trm_Monitor
begin

text \<open>
  The window of the monitor (\<^verbatim>\<open>qtapp/gui/TRMMonitorGUI.cpp\<close>): what it shows of the tuners, and what its buttons
  send. Labels are numbered as in the form; a label for reservations carries a picture, given by
  the rectangles drawn into it, and the actions of its menu, each with a copy of a reservation. The
  form has four tuners. Layout and fonts are left out; the time is an argument.
\<close>

section \<open>State\<close>

datatype color = darkGray | darkGreen | darkRed | red | liveColor | recordColor | futureColor | emptyColor

datatype action_kind = ReleaseAction | ValidateAction | CancelRecordingAction | RenewAction

record action =
  ac_kind :: action_kind
  ac_visible :: bool
  ac_data :: "TunerReservation option"

type_synonym rect = "int \<times> int \<times> color"

record bar =
  ba_width :: int
  ba_pixmap :: "(rect list \<times> string) option"
  ba_actions :: "action list"

type_synonym bar_id = "nat \<times> Activity_enum"

record TRMMonitorGUI =
  gu_monitor :: TRMMonitor
  gu_barTime :: int
  tunerStateIndicatorLabels :: "(string, nat) smap"
  tunerReservationBarLabels :: "(string, (string, bar_id) smap) smap"
  gu_squares :: "(nat, color \<times> color) smap"
  gu_bars :: "bar_id \<Rightarrow> bar"
  gu_tunerStates :: "(string, string) smap"
  gu_log :: string
  gu_boxes :: "string list"

definition TOTAL_TUNER_NUMBER :: nat where
  "TOTAL_TUNER_NUMBER = 4"

definition deviceNames :: "string list" where
  "deviceNames = [''Xi3 Family Room'', ''Xi3 Living Room'', ''Xi3 Bedroom'', ''Xi3 Kitchen'', ''Xi3 Dining Room'']"

definition locatorNames :: "string list" where
  "locatorNames = [''ocap://0xCNN'', ''ocap://0xABC'', ''ocap://0xCBS'', ''ocap://0xNBC'', ''ocap://0xFOX'',
     ''ocap://0xHBO'', ''ocap://QVC'']"

text \<open>
  The first requests of the constructor. The width of the bars in seconds and the client id come
  from the command line; only the last conversion decides whether the client id counts.
\<close>

definition TRMMonitorGUI_new ::
  "(nat \<Rightarrow> string) \<Rightarrow> (bar_id \<Rightarrow> int) \<Rightarrow> u32 option \<Rightarrow> u32 option \<Rightarrow> TRMMonitorGUI" where
  "TRMMonitorGUI_new uuid width clientId barWidth =
     (let mo = TRMMonitor_new (case (clientId, barWidth) of (Some c, Some _) \<Rightarrow> c | _ \<Rightarrow> 0);
          mo' = sendGetAllReservations uuid (sendGetAllTunerStates uuid (sendGetAllTunerIds uuid mo))
      in \<lparr>gu_monitor = mo', gu_barTime = sint (case barWidth of Some b \<Rightarrow> b | None \<Rightarrow> 0),
          tunerStateIndicatorLabels = [], tunerReservationBarLabels = [], gu_squares = [],
          gu_bars = (\<lambda>b. \<lparr>ba_width = width b, ba_pixmap = None, ba_actions = []\<rparr>),
          gu_tunerStates = [], gu_log = '''', gu_boxes = []\<rparr>)"

fun foldE :: "('a \<Rightarrow> 's \<Rightarrow> 's query) \<Rightarrow> 'a list \<Rightarrow> 's \<Rightarrow> 's query" where
  "foldE f [] s = Inr s"
| "foldE f (x # xs) s = ebind (f x s) (foldE f xs)"

definition updBar :: "bar_id \<Rightarrow> (bar \<Rightarrow> bar) \<Rightarrow> TRMMonitorGUI \<Rightarrow> TRMMonitorGUI" where
  "updBar b f gui = gui\<lparr>gu_bars := (gu_bars gui)(b := f (gu_bars gui b))\<rparr>"

section \<open>Drawing\<close>

text \<open>
  Where the rectangle of a reservation begins and how wide it is. Times are compared as unsigned
  numbers of 64 bits, what is left of the duration is a signed one; the scale is a product of type
  \<^verbatim>\<open>int\<close>, and the rectangle is drawn with coordinates of that type. A product that does not fit its type and a division by zero are undefined.
\<close>

definition fits :: "nat \<Rightarrow> int \<Rightarrow> bool" where
  "fits w x \<longleftrightarrow> - (2 ^ (w - 1)) \<le> x \<and> x < 2 ^ (w - 1)"

definition cdiv :: "int \<Rightarrow> int \<Rightarrow> int" where
  "cdiv x y = sgn x * sgn y * (\<bar>x\<bar> div \<bar>y\<bar>)"

definition barDuration :: "u64 \<Rightarrow> TunerReservation \<Rightarrow> int" where
  "barDuration now r =
     (let duration = sint (if r_startTime r < now then r_startTime r + r_duration r - now else r_duration r)
      in if duration < 0 then 0 else duration)"

definition barRect :: "u64 \<Rightarrow> int \<Rightarrow> int \<Rightarrow> TunerReservation \<Rightarrow> (int \<times> int) query" where
  "barRect now width totalDuration r =
     (let scale = totalDuration * 1000; duration = barDuration now r
      in if \<not> fits 32 scale \<or> scale = 0 \<or> \<not> fits 64 (duration * width) then Inl UndefinedBehaviour
         else
           (let startX =
              (if r_startTime r < now then 0
               else sint (ucast (((r_startTime r - now) * of_int width) div of_int scale + 2) :: u32))
            in Inr (startX, sint (of_int (cdiv (duration * width) scale) :: u32))))"

definition barText :: "u64 \<Rightarrow> TunerReservation \<Rightarrow> string" where
  "barText now r =
     (if r_startTime r < now then
        (if a_enum (r_activity r) = kLive then ''   ['' @ r_device r @ '']  -  ['' @ r_serviceLocator r @ '']''
         else ''   ['' @ r_serviceLocator r @ '']'')
      else '''')"

definition barColor :: "u64 \<Rightarrow> TunerReservation \<Rightarrow> color" where
  "barColor now r =
     (if r_startTime r < now then (if a_enum (r_activity r) = kLive then liveColor else recordColor) else futureColor)"

text \<open>Without a reservation the bar is wiped; with one its picture is drawn over.\<close>

definition drawReservationBar :: "u64 \<Rightarrow> bar_id \<Rightarrow> TunerReservation option \<Rightarrow> TRMMonitorGUI \<Rightarrow> TRMMonitorGUI query" where
  "drawReservationBar now b reservation gui =
     (let width = ba_width (gu_bars gui b)
      in case reservation of
           None \<Rightarrow> Inr (updBar b (\<lambda>x. x\<lparr>ba_pixmap := Some ([(0, width, emptyColor)], '''')\<rparr>) gui)
         | Some r \<Rightarrow>
             (case ba_pixmap (gu_bars gui b) of
                None \<Rightarrow> Inl UndefinedBehaviour
              | Some (rects, text) \<Rightarrow>
                  ebind (barRect now width (gu_barTime gui) r) (\<lambda>(x, w).
                    Inr (updBar b (\<lambda>y. y\<lparr>ba_pixmap := Some (rects @ [(x, w, barColor now r)], text @ barText now r)\<rparr>) gui))))"

fun stateColors :: "TunerState \<Rightarrow> color \<times> color" where
  "stateColors tFree = (darkGray, darkGray)"
| "stateColors tLive = (darkGreen, darkGreen)"
| "stateColors tRecord = (darkRed, darkRed)"
| "stateColors tHybrid = (darkGreen, darkRed)"
| "stateColors tEAS = (red, red)"

text \<open>\<^verbatim>\<open>operator []\<close> of \<^verbatim>\<open>QMap\<close> gives a null pointer for an unknown id.\<close>

definition setTunerStateIndicator :: "string \<Rightarrow> TunerState \<Rightarrow> TRMMonitorGUI \<Rightarrow> TRMMonitorGUI query" where
  "setTunerStateIndicator tunerId st gui =
     (case map_of (tunerStateIndicatorLabels gui) tunerId of
        None \<Rightarrow> Inl UndefinedBehaviour
      | Some l \<Rightarrow> Inr (gui\<lparr>gu_squares := smap_put l (stateColors st) (gu_squares gui)\<rparr>))"

definition barOf :: "string \<Rightarrow> string \<Rightarrow> TRMMonitorGUI \<Rightarrow> bar_id query" where
  "barOf tunerId activity gui =
     (case map_of (tunerReservationBarLabels gui) tunerId of
        None \<Rightarrow> Inl UndefinedBehaviour
      | Some m \<Rightarrow> (case map_of m activity of None \<Rightarrow> Inl UndefinedBehaviour | Some b \<Rightarrow> Inr b))"

section \<open>What the monitor reports\<close>

definition all_bars :: "bar_id list" where
  "all_bars = [(1, kLive), (2, kLive), (3, kLive), (4, kLive), (1, kRecord), (2, kRecord), (3, kRecord), (4, kRecord)]"

definition wipeBars :: "u64 \<Rightarrow> TRMMonitorGUI \<Rightarrow> TRMMonitorGUI query" where
  "wipeBars now = foldE (\<lambda>b. drawReservationBar now b None) all_bars"

definition new_actions :: "action list" where
  "new_actions = map (\<lambda>k. \<lparr>ac_kind = k, ac_visible = False, ac_data = None\<rparr>)
     [ReleaseAction, ValidateAction, CancelRecordingAction, RenewAction]"

text \<open>The labels of a tuner.\<close>

definition labelTuner :: "string \<times> nat \<Rightarrow> TRMMonitorGUI \<Rightarrow> TRMMonitorGUI" where
  "labelTuner x gui =
     gui\<lparr>tunerStateIndicatorLabels := smap_put (fst x) (snd x) (tunerStateIndicatorLabels gui),
         tunerReservationBarLabels :=
           smap_put (fst x) [(''Live'', (snd x, kLive)), (''Record'', (snd x, kRecord))] (tunerReservationBarLabels gui)\<rparr>"

text \<open>
  The ids of the tuners: the first four get the labels of the form, and it is not checked that
  there are four. Every time, four more actions are added to each bar.
\<close>

definition onTunerIdsUpdated :: "u64 \<Rightarrow> string list \<Rightarrow> TRMMonitorGUI \<Rightarrow> TRMMonitorGUI query" where
  "onTunerIdsUpdated now tunerIds gui =
     (if length tunerIds < TOTAL_TUNER_NUMBER then Inl UndefinedBehaviour
      else
        ebind (foldE (\<lambda>i. setTunerStateIndicator i tFree) (mo_tunerIds (gu_monitor gui))
          (fold labelTuner (zip tunerIds [1 ..< Suc TOTAL_TUNER_NUMBER]) gui)) (\<lambda>gui1.
        ebind (wipeBars now gui1) (\<lambda>gui2.
          Inr (fold (\<lambda>b. updBar b (\<lambda>x. x\<lparr>ba_actions := ba_actions x @ new_actions\<rparr>))
            (concat (map (\<lambda>p. map snd (snd p)) (tunerReservationBarLabels gui2))) gui2))))"

definition onTunerStatesUpdated :: "(string, string) smap \<Rightarrow> TRMMonitorGUI \<Rightarrow> TRMMonitorGUI query" where
  "onTunerStatesUpdated states =
     foldE (\<lambda>(i, st) gui. ebind (setTunerStateIndicator i (TunerState_at st) gui) (\<lambda>gui'.
       Inr (gui'\<lparr>gu_tunerStates := smap_put i st (gu_tunerStates gui')\<rparr>))) states"

definition setActions :: "bar_id \<Rightarrow> TunerReservation option \<Rightarrow> TRMMonitorGUI \<Rightarrow> TRMMonitorGUI" where
  "setActions b r =
     updBar b (\<lambda>x. x\<lparr>ba_actions := map (\<lambda>a. a\<lparr>ac_visible := r \<noteq> None, ac_data := r\<rparr>) (ba_actions x)\<rparr>)"

definition clearBar :: "u64 \<Rightarrow> string \<Rightarrow> string \<Rightarrow> TRMMonitorGUI \<Rightarrow> TRMMonitorGUI query" where
  "clearBar now tunerId activity gui =
     ebind (barOf tunerId activity gui) (\<lambda>b. drawReservationBar now b None (setActions b None gui))"

definition showReservation :: "u64 \<Rightarrow> string \<Rightarrow> TunerReservation \<Rightarrow> TRMMonitorGUI \<Rightarrow> TRMMonitorGUI query" where
  "showReservation now tunerId r gui =
     ebind (barOf tunerId (Activity_name (a_enum (r_activity r))) gui) (\<lambda>b.
       drawReservationBar now b (Some r) (setActions b (Some r) gui))"

definition showTuner :: "u64 \<Rightarrow> string \<times> TunerReservation list \<Rightarrow> TRMMonitorGUI \<Rightarrow> TRMMonitorGUI query" where
  "showTuner now x gui =
     ebind (clearBar now (fst x) ''Live'' gui) (\<lambda>gui1.
     ebind (clearBar now (fst x) ''Record'' gui1)
       (foldE (showReservation now (fst x)) (snd x)))"

definition onTunerReservationsUpdated ::
  "u64 \<Rightarrow> (string, TunerReservation list) smap \<Rightarrow> TRMMonitorGUI \<Rightarrow> TRMMonitorGUI query" where
  "onTunerReservationsUpdated now rs gui =
     ebind (wipeBars now gui) (foldE (showTuner now) rs)"

definition onStatusMessageReceived :: "string \<Rightarrow> TRMMonitorGUI \<Rightarrow> TRMMonitorGUI" where
  "onStatusMessageReceived msg gui = gui\<lparr>gu_log := msg\<rparr>"

definition conflictMessage :: "string \<Rightarrow> TunerReservation list \<Rightarrow> string" where
  "conflictMessage clientId conflicts =
     ''<b>'' @ clientId @ ''<br>'' @
     ''<b>Requested Activity</b> is in conflict with the following group of activities'' @
     [CHR 0x0D, CHR 0x0A, CHR 0x0D, CHR 0x0A] @ ''<br>'' @ ''<br>'' @ ''<br>'' @
     concat (map (\<lambda>r. ''    '' @ Activity_name (a_enum (r_activity r)) @ '' : '' @ r_serviceLocator r @ ''<br>'' @ ''<br>'') conflicts) @
     ''<br>'' @ ''<br>'' @ ''Please cancel one group and retry your request<br>''"

definition onConflictsReceived :: "string \<Rightarrow> TunerReservation list \<Rightarrow> TRMMonitorGUI \<Rightarrow> TRMMonitorGUI" where
  "onConflictsReceived clientId conflicts gui =
     gui\<lparr>gu_boxes := gu_boxes gui @ [conflictMessage clientId conflicts]\<rparr>"

section \<open>What the user does\<close>

definition onMonitor :: "(TRMMonitor \<Rightarrow> TRMMonitor) \<Rightarrow> TRMMonitorGUI \<Rightarrow> TRMMonitorGUI" where
  "onMonitor f gui = gui\<lparr>gu_monitor := f (gu_monitor gui)\<rparr>"

definition onTunerStateUpdateTimerTimeout :: "(nat \<Rightarrow> string) \<Rightarrow> TRMMonitorGUI \<Rightarrow> TRMMonitorGUI" where
  "onTunerStateUpdateTimerTimeout uuid =
     onMonitor (\<lambda>mo. sendGetAllReservations uuid (sendGetAllTunerStates uuid mo))"

text \<open>An action whose reservation was deleted, or never set, is read through a null pointer.\<close>

definition onAction :: "(nat \<Rightarrow> string) \<Rightarrow> string \<Rightarrow> u64 \<Rightarrow> action \<Rightarrow> TRMMonitorGUI \<Rightarrow> TRMMonitorGUI query" where
  "onAction uuid today now a gui =
     (case ac_data a of
        None \<Rightarrow> Inl UndefinedBehaviour
      | Some r \<Rightarrow>
          Inr (case ac_kind a of
            ReleaseAction \<Rightarrow>
              (if r_token r \<noteq> '''' then onMonitor (sendReleaseTunerReservation uuid (r_token r)) gui else gui)
          | ValidateAction \<Rightarrow>
              (if r_token r \<noteq> '''' then onMonitor (sendValidateTunerReservation uuid ''MonitorUI'' (r_token r)) gui else gui)
          | CancelRecordingAction \<Rightarrow>
              (if r_token r \<noteq> '''' then onMonitor (sendCancelRecording uuid (r_token r)) gui else gui)
          | RenewAction \<Rightarrow>
              onMonitor (sendTunerReserve uuid today (r_device r) now (r_duration r) (r_serviceLocator r)
                (Activity_name (a_enum (r_activity r))) (r_token r)) gui))"

text \<open>The reserve button: the fields of the form, and the activity that is checked, if any.\<close>

definition onReserveButtonClicked ::
  "(nat \<Rightarrow> string) \<Rightarrow> string \<Rightarrow> u64 \<Rightarrow> nat \<Rightarrow> nat \<Rightarrow> nat \<Rightarrow> nat \<Rightarrow> nat \<Rightarrow> nat \<Rightarrow> string option \<Rightarrow>
   TRMMonitorGUI \<Rightarrow> TRMMonitorGUI" where
  "onReserveButtonClicked uuid today now startHour startMin durationHour durationMin device locator activity gui =
     (case activity of
        None \<Rightarrow> gui
      | Some act \<Rightarrow>
          onMonitor (sendTunerReserve uuid today (deviceNames ! device)
            (now + of_nat ((startHour * 60 + startMin * 10) * 1000))
            (of_nat ((durationHour * 60 + durationMin) * 1000)) (locatorNames ! locator) act '''') gui)"

section \<open>What is shown\<close>

text \<open>A bar that shows the reservations \<open>rs\<close>: their rectangles and texts, and the actions of the last one.\<close>

definition bar_draws :: "u64 \<Rightarrow> int \<Rightarrow> int \<Rightarrow> TunerReservation \<Rightarrow> rect" where
  "bar_draws now width barTime r =
     (case barRect now width barTime r of Inr (x, w) \<Rightarrow> (x, w, barColor now r) | Inl _ \<Rightarrow> (0, 0, barColor now r))"

definition shown :: "u64 \<Rightarrow> int \<Rightarrow> TunerReservation list \<Rightarrow> bar \<Rightarrow> bar" where
  "shown now barTime rs b =
     b\<lparr>ba_actions := map (\<lambda>a. a\<lparr>ac_visible := rs \<noteq> [], ac_data := (if rs = [] then None else Some (last rs))\<rparr>) (ba_actions b),
       ba_pixmap := Some ((0, ba_width b, emptyColor) # map (bar_draws now (ba_width b) barTime) rs,
         concat (map (barText now) rs))\<rparr>"

definition of_activity :: "Activity_enum \<Rightarrow> TunerReservation list \<Rightarrow> TunerReservation list" where
  "of_activity a rs = filter (\<lambda>r. a_enum (r_activity r) = a) rs"

text \<open>The window once it knows its tuners: tuner number \<open>k\<close> has the labels of row \<open>k + 1\<close>.\<close>

definition gui_ready :: "string list \<Rightarrow> TRMMonitorGUI \<Rightarrow> bool" where
  "gui_ready ids gui \<longleftrightarrow> length ids = TOTAL_TUNER_NUMBER \<and> distinct ids \<and>
     (\<forall>k < length ids. map_of (tunerStateIndicatorLabels gui) (ids ! k) = Some (Suc k) \<and>
        map_of (tunerReservationBarLabels gui) (ids ! k) =
          Some [(''Live'', (Suc k, kLive)), (''Record'', (Suc k, kRecord))])"

text \<open>Every reservation can be drawn: it is live or a recording and its rectangle is defined.\<close>

definition drawable :: "u64 \<Rightarrow> TRMMonitorGUI \<Rightarrow> nat \<Rightarrow> TunerReservation \<Rightarrow> bool" where
  "drawable now gui k r \<longleftrightarrow> a_enum (r_activity r) \<in> {kLive, kRecord} \<and>
     (\<exists>p. barRect now (ba_width (gu_bars gui (Suc k, a_enum (r_activity r)))) (gu_barTime gui) r = Inr p)"

lemma barOf_ready:
  assumes "gui_ready ids gui" "k < length ids"
  shows "barOf (ids ! k) ''Live'' gui = Inr (Suc k, kLive)" "barOf (ids ! k) ''Record'' gui = Inr (Suc k, kRecord)"
  using assms by (simp_all add: gui_ready_def barOf_def)

lemma showReservation_run:
  assumes "gui_ready ids gui" "k < length ids" "drawable now gui k r" "a = a_enum (r_activity r)"
    and "gu_bars gui (Suc k, a) = shown now (gu_barTime gui) rs b"
  shows "showReservation now (ids ! k) r gui = Inr (gui\<lparr>gu_bars := (gu_bars gui)((Suc k, a) := shown now (gu_barTime gui) (rs @ [r]) b)\<rparr>)"
proof -
  obtain p where p: "barRect now (ba_width b) (gu_barTime gui) r = Inr p"
    using assms(3-5) by (auto simp: drawable_def shown_def)
  have "barOf (ids ! k) (Activity_name (a_enum (r_activity r))) gui = Inr (Suc k, a)"
    using barOf_ready [OF assms(1,2)] assms(3,4) by (auto simp: drawable_def)
  then show ?thesis using p assms(5)
    by (cases p) (simp add: showReservation_def drawReservationBar_def setActions_def updBar_def Let_def shown_def
        bar_draws_def comp_def)
qed

lemma ready_bars: "gui_ready ids (gui\<lparr>gu_bars := f\<rparr>) = gui_ready ids gui"
  by (simp add: gui_ready_def)

lemma of_activity_simps:
  "of_activity a [] = []"
  "of_activity a (r # rs) = (if a_enum (r_activity r) = a then r # of_activity a rs else of_activity a rs)"
  by (simp_all add: of_activity_def)

lemma upd_between: "p \<noteq> q \<Longrightarrow> f(p := x, q := y, p := z) = f(q := y, p := z)"
  by (simp add: fun_eq_iff)

lemma showReservations_run:
  assumes "gui_ready ids gui" "k < length ids" "\<forall>r \<in> set rs. drawable now gui k r"
    and "\<And>a. a \<in> {kLive, kRecord} \<Longrightarrow> gu_bars gui (Suc k, a) = shown now (gu_barTime gui) (prev a) (b a)"
  shows "foldE (showReservation now (ids ! k)) rs gui = Inr (gui\<lparr>gu_bars := (gu_bars gui)
    ((Suc k, kLive) := shown now (gu_barTime gui) (prev kLive @ of_activity kLive rs) (b kLive),
     (Suc k, kRecord) := shown now (gu_barTime gui) (prev kRecord @ of_activity kRecord rs) (b kRecord))\<rparr>)"
  using assms
proof (induction rs arbitrary: gui prev)
  case Nil
  then have "gu_bars gui (Suc k, kLive) = shown now (gu_barTime gui) (prev kLive) (b kLive)"
    "gu_bars gui (Suc k, kRecord) = shown now (gu_barTime gui) (prev kRecord) (b kRecord)" by simp_all
  then show ?case by (simp add: of_activity_simps fun_upd_idem)
next
  case (Cons r rs)
  let ?a = "a_enum (r_activity r)"
  let ?gui = "gui\<lparr>gu_bars := (gu_bars gui)((Suc k, ?a) := shown now (gu_barTime gui) (prev ?a @ [r]) (b ?a))\<rparr>"
  let ?prev = "prev(?a := prev ?a @ [r])"
  have a: "?a \<in> {kLive, kRecord}" using Cons.prems(3) by (simp add: drawable_def)
  have s: "showReservation now (ids ! k) r gui = Inr ?gui"
    using Cons.prems a by (intro showReservation_run) auto
  have d: "drawable now ?gui k r'" if "r' \<in> set rs" for r'
  proof -
    have "ba_width (gu_bars ?gui (Suc k, x)) = ba_width (gu_bars gui (Suc k, x))" for x
      using Cons.prems(4) [OF a] by (simp add: shown_def)
    then show ?thesis using that Cons.prems(3) by (simp add: drawable_def)
  qed
  have e: "gu_bars ?gui (Suc k, x) = shown now (gu_barTime ?gui) (?prev x) (b x)" if "x \<in> {kLive, kRecord}" for x
    using Cons.prems(4) [OF that] by simp
  have f: "gui_ready ids ?gui" using Cons.prems(1) by (simp add: ready_bars)
  have "foldE (showReservation now (ids ! k)) rs ?gui = Inr (?gui\<lparr>gu_bars := (gu_bars ?gui)
    ((Suc k, kLive) := shown now (gu_barTime ?gui) (?prev kLive @ of_activity kLive rs) (b kLive),
     (Suc k, kRecord) := shown now (gu_barTime ?gui) (?prev kRecord @ of_activity kRecord rs) (b kRecord))\<rparr>)"
    by (rule Cons.IH [OF f Cons.prems(2) ballI [OF d]]) (assumption, erule e)
  then show ?case using a s by (elim insertE emptyE) (simp_all add: of_activity_simps upd_between, simp_all add: fun_upd_def)
qed

lemma shown_shown [simp]: "shown now t rs (shown now t' rs' b) = shown now t rs b"
  by (simp add: shown_def comp_def)

lemma ba_width_shown [simp]: "ba_width (shown now t rs b) = ba_width b"
  by (simp add: shown_def)

lemma clearBar_run:
  assumes "barOf i act gui = Inr b"
  shows "clearBar now i act gui = Inr (gui\<lparr>gu_bars := (gu_bars gui)(b := shown now (gu_barTime gui) [] (gu_bars gui b))\<rparr>)"
  using assms by (simp add: clearBar_def drawReservationBar_def setActions_def updBar_def Let_def shown_def)

lemma showTuner_run:
  assumes "gui_ready ids gui" "k < length ids" "\<forall>r \<in> set rs. drawable now gui k r"
  shows "showTuner now (ids ! k, rs) gui = Inr (gui\<lparr>gu_bars := (gu_bars gui)
    ((Suc k, kLive) := shown now (gu_barTime gui) (of_activity kLive rs) (gu_bars gui (Suc k, kLive)),
     (Suc k, kRecord) := shown now (gu_barTime gui) (of_activity kRecord rs) (gu_bars gui (Suc k, kRecord)))\<rparr>)"
proof -
  let ?t = "gu_barTime gui"
  let ?b = "\<lambda>a. gu_bars gui (Suc k, a)"
  let ?bars = "(gu_bars gui)((Suc k, kLive) := shown now ?t [] (?b kLive), (Suc k, kRecord) := shown now ?t [] (?b kRecord))"
  let ?gui = "gui\<lparr>gu_bars := ?bars\<rparr>"
  have ready: "gui_ready ids (gui\<lparr>gu_bars := f\<rparr>)" for f using assms(1) by (simp add: ready_bars)
  have "clearBar now (ids ! k) ''Live'' gui = Inr (gui\<lparr>gu_bars := (gu_bars gui)((Suc k, kLive) := shown now ?t [] (?b kLive))\<rparr>)"
    by (rule clearBar_run [OF barOf_ready(1) [OF assms(1,2)]])
  moreover have "clearBar now (ids ! k) ''Record'' (gui\<lparr>gu_bars := (gu_bars gui)((Suc k, kLive) := shown now ?t [] (?b kLive))\<rparr>) = Inr ?gui"
    using clearBar_run [OF barOf_ready(2) [OF ready assms(2)], of now "(gu_bars gui)((Suc k, kLive) := shown now ?t [] (?b kLive))"]
    by simp
  ultimately have s: "showTuner now (ids ! k, rs) gui = foldE (showReservation now (ids ! k)) rs ?gui"
    by (simp add: showTuner_def)
  have "drawable now ?gui k r" if "r \<in> set rs" for r
    using that assms(3) by (force simp: drawable_def)
  then have "foldE (showReservation now (ids ! k)) rs ?gui = Inr (?gui\<lparr>gu_bars := (gu_bars ?gui)
    ((Suc k, kLive) := shown now (gu_barTime ?gui) ([] @ of_activity kLive rs) (?b kLive),
     (Suc k, kRecord) := shown now (gu_barTime ?gui) ([] @ of_activity kRecord rs) (?b kRecord))\<rparr>)"
    by (intro showReservations_run [OF ready assms(2), where prev = "\<lambda>_. []" and b = ?b]) auto
  then show ?thesis unfolding s by (simp add: upd_between)
qed

lemma showTuners_run:
  assumes "gui_ready ids gui" "distinct (map fst rs)" "set (map fst rs) \<subseteq> set ids"
    and "\<forall>k < length ids. \<forall>l. map_of rs (ids ! k) = Some l \<longrightarrow> (\<forall>r \<in> set l. drawable now gui k r)"
  shows "\<exists>bars. foldE (showTuner now) rs gui = Inr (gui\<lparr>gu_bars := bars\<rparr>) \<and>
    (\<forall>k < length ids. \<forall>a \<in> {kLive, kRecord}. bars (Suc k, a) =
       (case map_of rs (ids ! k) of
          Some l \<Rightarrow> shown now (gu_barTime gui) (of_activity a l) (gu_bars gui (Suc k, a))
        | None \<Rightarrow> gu_bars gui (Suc k, a)))"
  using assms
proof (induction rs arbitrary: gui)
  case Nil
  have "gui = gui\<lparr>gu_bars := gu_bars gui\<rparr>" by simp
  then show ?case by (intro exI [of _ "gu_bars gui"]) simp
next
  case (Cons x rs)
  obtain i l where x: "x = (i, l)" by fastforce
  obtain k where k: "k < length ids" "i = ids ! k" using Cons.prems(3) x by (auto simp: in_set_conv_nth)
  have d: "distinct ids" using Cons.prems(1) by (simp add: gui_ready_def)
  have eq: "ids ! j = i \<longleftrightarrow> j = k" if "j < length ids" for j
    using that k d by (simp add: nth_eq_iff_index_eq)
  let ?bars = "(gu_bars gui)
    ((Suc k, kLive) := shown now (gu_barTime gui) (of_activity kLive l) (gu_bars gui (Suc k, kLive)),
     (Suc k, kRecord) := shown now (gu_barTime gui) (of_activity kRecord l) (gu_bars gui (Suc k, kRecord)))"
  let ?gui = "gui\<lparr>gu_bars := ?bars\<rparr>"
  have "\<forall>r \<in> set l. drawable now gui k r" using Cons.prems(4) k by (simp add: x)
  then have s: "showTuner now x gui = Inr ?gui" using showTuner_run [OF Cons.prems(1) k(1)] by (simp add: x k(2))
  have w: "ba_width (?bars b) = ba_width (gu_bars gui b)" for b by simp
  have "i \<notin> fst ` set rs" using Cons.prems(2) by (simp add: x)
  then have n: "map_of rs i = None" by (simp add: map_of_eq_None_iff)
  have "\<forall>j < length ids. \<forall>l'. map_of rs (ids ! j) = Some l' \<longrightarrow> (\<forall>r \<in> set l'. drawable now ?gui j r)"
    using Cons.prems(4) n eq unfolding drawable_def TRMMonitorGUI.simps w by (fastforce simp: x)
  moreover have "gui_ready ids ?gui" using Cons.prems(1) by (simp only: ready_bars)
  moreover have "distinct (map fst rs)" "set (map fst rs) \<subseteq> set ids" using Cons.prems(2,3) by auto
  ultimately have "\<exists>bars. foldE (showTuner now) rs ?gui = Inr (?gui\<lparr>gu_bars := bars\<rparr>) \<and>
    (\<forall>j < length ids. \<forall>a \<in> {kLive, kRecord}. bars (Suc j, a) =
       (case map_of rs (ids ! j) of
          Some l \<Rightarrow> shown now (gu_barTime ?gui) (of_activity a l) (gu_bars ?gui (Suc j, a)) | None \<Rightarrow> gu_bars ?gui (Suc j, a)))"
    by (intro Cons.IH)
  then obtain bars where bars: "foldE (showTuner now) rs ?gui = Inr (?gui\<lparr>gu_bars := bars\<rparr>)"
    "\<forall>j < length ids. \<forall>a \<in> {kLive, kRecord}. bars (Suc j, a) =
       (case map_of rs (ids ! j) of
          Some l \<Rightarrow> shown now (gu_barTime ?gui) (of_activity a l) (gu_bars ?gui (Suc j, a)) | None \<Rightarrow> gu_bars ?gui (Suc j, a))"
    by blast
  have "bars (Suc j, a) = (case map_of (x # rs) (ids ! j) of
      Some l \<Rightarrow> shown now (gu_barTime gui) (of_activity a l) (gu_bars gui (Suc j, a)) | None \<Rightarrow> gu_bars gui (Suc j, a))"
    if "j < length ids" "a \<in> {kLive, kRecord}" for j a
    using bars(2) that eq [OF that(1)] n k(2) by (auto simp: x split: option.split)
  then show ?case using s bars(1) by (intro exI [of _ bars]) simp
qed

text \<open>Wiping changes the pictures only.\<close>

definition wiped :: "bar \<Rightarrow> bar" where
  "wiped b = b\<lparr>ba_pixmap := Some ([(0, ba_width b, emptyColor)], '''')\<rparr>"

lemma wipe_fold:
  "\<exists>bars. foldE (\<lambda>b. drawReservationBar now b None) bs gui = Inr (gui\<lparr>gu_bars := bars\<rparr>) \<and>
     (\<forall>b. bars b = (if b \<in> set bs then wiped (gu_bars gui b) else gu_bars gui b))"
proof (induction bs arbitrary: gui)
  case Nil
  have "gui = gui\<lparr>gu_bars := gu_bars gui\<rparr>" by simp
  then show ?case by (intro exI [of _ "gu_bars gui"]) simp
next
  case (Cons b bs)
  let ?gui = "gui\<lparr>gu_bars := (gu_bars gui)(b := wiped (gu_bars gui b))\<rparr>"
  obtain bars where "foldE (\<lambda>b. drawReservationBar now b None) bs ?gui = Inr (?gui\<lparr>gu_bars := bars\<rparr>)"
    "\<forall>x. bars x = (if x \<in> set bs then wiped (gu_bars ?gui x) else gu_bars ?gui x)" using Cons.IH [of ?gui] by blast
  moreover have "drawReservationBar now b None gui = Inr ?gui"
    by (simp add: drawReservationBar_def updBar_def wiped_def Let_def)
  moreover have "wiped (wiped x) = wiped x" for x by (simp add: wiped_def)
  ultimately show ?case by (intro exI [of _ bars]) simp
qed

lemma wiped_simps [simp]: "ba_width (wiped b) = ba_width b" "shown now t rs (wiped b) = shown now t rs b"
  by (simp_all add: wiped_def shown_def)

text \<open>
  The window shows what the server reports: once it knows its four tuners, every bar gets the
  rectangles of exactly the reservations of its tuner and activity, in their order, and its actions
  stand for the last of them, or are hidden when there is none; a tuner that is not reported is wiped
  but keeps its old actions. (The reservations are live or recordings, and their rectangles are defined.)
\<close>

theorem gui_shows_reservations:
  assumes "gui_ready ids gui" "smap_ok rs" "set (smap_keys rs) \<subseteq> set ids"
    and "\<forall>k < length ids. \<forall>l. map_of rs (ids ! k) = Some l \<longrightarrow> (\<forall>r \<in> set l. drawable now gui k r)"
  shows "\<exists>bars. onTunerReservationsUpdated now rs gui = Inr (gui\<lparr>gu_bars := bars\<rparr>) \<and>
    (\<forall>k < length ids. \<forall>a \<in> {kLive, kRecord}. bars (Suc k, a) =
       (case map_of rs (ids ! k) of
          Some l \<Rightarrow> shown now (gu_barTime gui) (of_activity a l) (gu_bars gui (Suc k, a))
        | None \<Rightarrow> wiped (gu_bars gui (Suc k, a))))"
proof -
  obtain bars where w: "wipeBars now gui = Inr (gui\<lparr>gu_bars := bars\<rparr>)"
    "\<And>b. bars b = (if b \<in> set all_bars then wiped (gu_bars gui b) else gu_bars gui b)"
    using wipe_fold [of now all_bars gui] unfolding wipeBars_def by blast
  have "(Suc k, a) \<in> set all_bars" if "k < length ids" "a \<in> {kLive, kRecord}" for k a
  proof -
    have "k \<in> {0, 1, 2, 3}" using that(1) assms(1) by (auto simp: gui_ready_def TOTAL_TUNER_NUMBER_def)
    then show ?thesis using that(2) by (auto simp: all_bars_def)
  qed
  then have b: "bars (Suc k, a) = wiped (gu_bars gui (Suc k, a))" if "k < length ids" "a \<in> {kLive, kRecord}" for k a
    using w(2) that by simp
  have width: "ba_width (bars b) = ba_width (gu_bars gui b)" for b by (simp add: w(2))
  let ?gui = "gui\<lparr>gu_bars := bars\<rparr>"
  have "\<forall>k < length ids. \<forall>l. map_of rs (ids ! k) = Some l \<longrightarrow> (\<forall>r \<in> set l. drawable now ?gui k r)"
    using assms(4) by (simp add: drawable_def width)
  then obtain bars' where "foldE (showTuner now) rs ?gui = Inr (?gui\<lparr>gu_bars := bars'\<rparr>)"
    "\<forall>k < length ids. \<forall>a \<in> {kLive, kRecord}. bars' (Suc k, a) =
       (case map_of rs (ids ! k) of
          Some l \<Rightarrow> shown now (gu_barTime ?gui) (of_activity a l) (gu_bars ?gui (Suc k, a)) | None \<Rightarrow> gu_bars ?gui (Suc k, a))"
    using showTuners_run [of ids ?gui rs now] assms(1-3) smap_ok_distinct [of rs] by (auto simp only: ready_bars)
  then show ?thesis using w(1) b
    by (intro exI [of _ bars']) (simp add: onTunerReservationsUpdated_def split: option.split)
qed

text \<open>
  A reservation that is neither live nor a recording brings the window down: there is no bar
  for its activity, and the null pointer is used.
\<close>

theorem gui_unknown_activity:
  assumes "gui_ready ids gui" "i \<in> set ids" "a_enum (r_activity r) \<notin> {kLive, kRecord}"
  shows "onTunerReservationsUpdated now [(i, r # rs)] gui = Inl UndefinedBehaviour"
proof -
  obtain k where k: "k < length ids" "i = ids ! k" using assms(2) by (auto simp: in_set_conv_nth)
  have b: "barOf i (Activity_name (a_enum (r_activity r))) (gui\<lparr>gu_bars := f\<rparr>) = Inl UndefinedBehaviour" for f
    using assms(1,3) k by (cases "a_enum (r_activity r)") (simp_all add: gui_ready_def barOf_def)
  obtain bars where w: "wipeBars now gui = Inr (gui\<lparr>gu_bars := bars\<rparr>)"
    using wipe_fold [of now all_bars gui] unfolding wipeBars_def by blast
  have c: "\<exists>f. clearBar now i act (gui\<lparr>gu_bars := g\<rparr>) = Inr (gui\<lparr>gu_bars := f\<rparr>)" if "act \<in> {''Live'', ''Record''}" for act g
  proof -
    have "\<exists>x. barOf i act (gui\<lparr>gu_bars := g\<rparr>) = Inr x"
      using that barOf_ready [of ids "gui\<lparr>gu_bars := g\<rparr>" k] assms(1) k by (auto simp: ready_bars)
    then show ?thesis using clearBar_run by fastforce
  qed
  obtain f where f: "clearBar now i ''Live'' (gui\<lparr>gu_bars := bars\<rparr>) = Inr (gui\<lparr>gu_bars := f\<rparr>)" using c by blast
  obtain f' where "clearBar now i ''Record'' (gui\<lparr>gu_bars := f\<rparr>) = Inr (gui\<lparr>gu_bars := f'\<rparr>)" using c by blast
  then have "showTuner now (i, r # rs) (gui\<lparr>gu_bars := bars\<rparr>) = Inl UndefinedBehaviour"
    using f b [of f'] by (simp add: showTuner_def showReservation_def)
  then show ?thesis using w by (simp add: onTunerReservationsUpdated_def)
qed

lemma label_keys: "set (smap_keys (tunerStateIndicatorLabels (fold labelTuner xs gui))) =
    set (smap_keys (tunerStateIndicatorLabels gui)) \<union> fst ` set xs"
  by (induction xs arbitrary: gui) (auto simp: labelTuner_def)

lemma indicator_run:
  "(\<exists>gui'. foldE (\<lambda>i. setTunerStateIndicator i st) is gui = Inr gui') \<longleftrightarrow>
     set is \<subseteq> set (smap_keys (tunerStateIndicatorLabels gui))"
proof (induction "is" arbitrary: gui)
  case (Cons i "is")
  have "i \<in> set (smap_keys (tunerStateIndicatorLabels gui)) \<longleftrightarrow> (\<exists>l. map_of (tunerStateIndicatorLabels gui) i = Some l)"
    by (rule map_of_keys)
  then show ?case using Cons.IH by (auto simp: setTunerStateIndicator_def split: option.split)
qed simp

text \<open>
  The window is made for four tuners: the first report of the ids of the tuners is taken if and
  only if there are four of them.
\<close>

theorem gui_four_tuners:
  assumes "distinct ids" "mo_tunerIds (gu_monitor gui) = ids" "tunerStateIndicatorLabels gui = []"
  shows "(\<exists>gui'. onTunerIdsUpdated now ids gui = Inr gui') \<longleftrightarrow> length ids = TOTAL_TUNER_NUMBER"
proof (cases "length ids < TOTAL_TUNER_NUMBER")
  case False
  let ?z = "zip ids [1 ..< Suc TOTAL_TUNER_NUMBER]"
  let ?g = "fold labelTuner ?z gui"
  have m: "gu_monitor (fold labelTuner xs g) = gu_monitor g" for xs g
    by (induction xs arbitrary: g) (simp_all add: labelTuner_def)
  have "fst ` set ?z = set (take TOTAL_TUNER_NUMBER ids)"
    using False by (simp add: set_zip image_Collect set_conv_nth) force
  then have k: "set (smap_keys (tunerStateIndicatorLabels ?g)) = set (take TOTAL_TUNER_NUMBER ids)"
    unfolding label_keys assms(3) by simp
  have "set ids \<subseteq> set (take TOTAL_TUNER_NUMBER ids) \<longleftrightarrow> length ids = TOTAL_TUNER_NUMBER"
  proof
    assume "set ids \<subseteq> set (take TOTAL_TUNER_NUMBER ids)"
    then have "card (set ids) \<le> card (set (take TOTAL_TUNER_NUMBER ids))" by (simp add: card_mono)
    then show "length ids = TOTAL_TUNER_NUMBER" using assms(1) False by (simp add: distinct_card)
  qed simp
  moreover have "\<exists>g'. wipeBars now g = Inr g'" for g
    using wipe_fold [of now all_bars g] unfolding wipeBars_def by blast
  ultimately show ?thesis using False indicator_run [of tFree ids ?g] k assms(2)
    by (auto simp: onTunerIdsUpdated_def query_simps)
qed (simp add: onTunerIdsUpdated_def)

text \<open>A window that knows its four tuners.\<close>

definition example_gui :: TRMMonitorGUI where
  "example_gui = fold labelTuner [(''a'', 1), (''b'', 2), (''c'', 3), (''d'', 4)]
     (TRMMonitorGUI_new (\<lambda>_. ''u'') (\<lambda>_. 550) (Some 1) (Some 3600))"

lemma example_gui_ready: "gui_ready [''a'', ''b'', ''c'', ''d''] example_gui" "gu_barTime example_gui = 3600"
  "ba_width (gu_bars example_gui (1, kLive)) = 550"
proof -
  have bt: "gu_barTime (labelTuner x g) = gu_barTime g" "gu_bars (labelTuner x g) = gu_bars g" for x g
    by (simp_all add: labelTuner_def)
  show "gu_barTime example_gui = 3600" "ba_width (gu_bars example_gui (1, kLive)) = 550"
    by (simp_all add: example_gui_def bt TRMMonitorGUI_new_def Let_def)
  have "tunerStateIndicatorLabels (TRMMonitorGUI_new u w c b) = []" "tunerReservationBarLabels (TRMMonitorGUI_new u w c b) = []" for u w c b
    by (simp_all add: TRMMonitorGUI_new_def Let_def)
  then show "gui_ready [''a'', ''b'', ''c'', ''d''] example_gui"
    by (simp add: example_gui_def labelTuner_def gui_ready_def TOTAL_TUNER_NUMBER_def less_Suc_eq numeral_eq_Suc
        all_conj_distrib nth_Cons')
qed

theorem gui_shows_reservations_witness:
  "\<exists>bars. onTunerReservationsUpdated 1000 [(''a'', [sample_live])] example_gui = Inr (example_gui\<lparr>gu_bars := bars\<rparr>) \<and>
     bars (1, kLive) = shown 1000 3600 [sample_live] (gu_bars example_gui (1, kLive))"
proof -
  have act: "a_enum (r_activity sample_live) = kLive" by code_simp
  have "\<exists>p. barRect 1000 550 3600 sample_live = Inr p"
    by (simp add: barRect_def barDuration_def fits_def sample_live_def TunerReservation_new_def Let_def)
  then have "drawable 1000 example_gui 0 sample_live" using act example_gui_ready by (simp add: drawable_def)
  then have "\<forall>k < length [''a'', ''b'', ''c'', ''d'']. \<forall>l. map_of [(''a'', [sample_live])] ([''a'', ''b'', ''c'', ''d''] ! k) = Some l \<longrightarrow>
      (\<forall>r \<in> set l. drawable 1000 example_gui k r)"
    by (auto simp: nth_Cons' less_Suc_eq)
  then obtain bars where "onTunerReservationsUpdated 1000 [(''a'', [sample_live])] example_gui = Inr (example_gui\<lparr>gu_bars := bars\<rparr>)"
    "\<forall>k < 4. \<forall>a \<in> {kLive, kRecord}. bars (Suc k, a) =
       (case map_of [(''a'', [sample_live])] ([''a'', ''b'', ''c'', ''d''] ! k) of
          Some l \<Rightarrow> shown 1000 (gu_barTime example_gui) (of_activity a l) (gu_bars example_gui (Suc k, a))
        | None \<Rightarrow> wiped (gu_bars example_gui (Suc k, a)))"
    using gui_shows_reservations [OF example_gui_ready(1), of "[(''a'', [sample_live])]" 1000] by (auto simp: smap_ok_def)
  then show ?thesis using act example_gui_ready(2)
    by (intro exI [of _ bars]) (auto simp: of_activity_def dest: spec [of _ 0])
qed

theorem gui_unknown_activity_witness:
  "onTunerReservationsUpdated 1000 [(''b'', [TunerReservation_new ''box'' ''ch1'' 5000 1000 (Activity_new kEAS) ''t'' None])] example_gui =
    Inl UndefinedBehaviour"
  by (rule gui_unknown_activity [OF example_gui_ready(1)]) (simp_all add: TunerReservation_new_def Activity_new_def)

end
