(* ===== verification/Trm_System.thy ===== *)
theory Trm_System
  imports Trm_Inventory Trm_Diag Trm_Route Trm_Gui
begin

text \<open>
  The programs together: the bytes one of them writes are the bytes another one reads. What the
  server answers reaches the window of the monitor, the list of the diagnostics client and the boxes
  behind the proxy.
\<close>

section \<open>The monitor on bytes\<close>


section \<open>Shared lemmas\<close>












section \<open>The window and the server\<close>











section \<open>The diagnostics client and the server\<close>




section \<open>The boxes, the proxy and the server\<close>






section \<open>Seven boxes behind the proxy\<close>




section \<open>A box with four tuners\<close>

















end
