(* ===== verification/Trm_Owners.thy ===== *)
theory Trm_Owners
  imports Trm_Clients
begin

text \<open>
  No reservation outlives the connection of its owner: in every reachable state the owner of a
  reservation is a client bound to an open connection, or the recorder, to which settled
  conflicts are granted whether it is connected or not.
\<close>

definition bound :: "u32 \<Rightarrow> world \<Rightarrow> bool" where
  "bound cid w \<longleftrightarrow> cid = kRecorderClientId \<or> cid \<in> fst ` set (w_clients w)"

definition owners_bound :: "world \<Rightarrow> bool" where
  "owners_bound w \<longleftrightarrow> (\<forall>p \<in> set (attrs (w_mgr w)). bound (snd p) w)"

definition clients_open :: "world \<Rightarrow> bool" where
  "clients_open w \<longleftrightarrow> snd ` set (w_clients w) \<subseteq> set (w_connections w)"

definition owned :: "u32 \<Rightarrow> world \<Rightarrow> bool" where
  "owned cid w \<longleftrightarrow> owners_bound w \<and> clients_open w \<and> bound cid w"

lemmas owned_defs = owned_def owners_bound_def clients_open_def bound_def

section \<open>The executors\<close>

lemma owned_modify:
  "(\<And>m. set (attrs (f m)) \<subseteq> set (attrs m)) \<Longrightarrow> preserves (owned cid) (modify f)"
  unfolding preserves_def owned_def owners_bound_def clients_open_def bound_def modify_def
  by (simp, blast)

lemma owned_system [inv_intros]:
  "preserves (owned cid) GetCurrentEpoch" "preserves (owned cid) GenerateUUID"
  "preserves (owned cid) GetDeviceId" "preserves (owned cid) new_address"
  "preserves (owned cid) emit_reservationUpdated" "preserves (owned cid) (Connection_send c cid' p)"
  by (simp_all add: preserves_def owned_defs GetCurrentEpoch_def GenerateUUID_def GetDeviceId_def
      Let_def new_address_def emit_reservationUpdated_def Connection_send_def)

interpretation owners: handler_invariant "owned cid" "\<lambda>c. c = cid \<or> c = kRecorderClientId" for cid
proof
  show "preserves (owned cid) (releaseReservation tok n)" for tok n
    unfolding releaseReservation_def onTuner_def cancelPreStartTimer_def cancelStartTimer_def
      cancelExpireTimer_def
    by (rule inv_intros owned_modify | auto simp: updTuner_def)+
  show "preserves (owned cid) (mseq (addReservation r tid) (setReservationAttributes (r_token r) c))"
    if c: "c = cid \<or> c = kRecorderClientId" for r tid c
  proof (rule preserves_mseq)
    show "preserves (owned cid) (addReservation r tid)"
      unfolding addReservation_def setTimer_def setPreStartTimer_def setStartTimer_def
        setExpireTimer_def onTuner_def
      by (rule inv_intros owned_modify | simp add: updTuner_def)+
    have "bound (snd p) w'" if "p \<in> set (smap_put (r_token r) c (attrs (w_mgr w)))" "owned cid w"
        "w_clients w' = w_clients w" for p w w'
    proof -
      have "p = (r_token r, c) \<or> p \<in> set (attrs (w_mgr w))" using that(1) set_put_subset by fast
      then show ?thesis using that(2,3) c by (elim disjE) (simp_all add: owned_defs, blast?)
    qed
    then show "preserves (owned cid) (setReservationAttributes (r_token r) c)"
      unfolding setReservationAttributes_def preserves_def
      by (simp add: owned_def owners_bound_def) (simp add: clients_open_def bound_def)
  qed
  show "preserves (owned cid) (modify (updReservation tok f))" for tok f
    by (rule owned_modify) (auto simp: updReservation_def updTuner_def split: option.split)
  show "preserves (owned cid) (modify g)" if "\<And>m. frame_eq m (g m)" for g
    using that by (intro owned_modify) (simp add: frame_eq_def)
qed (auto intro: inv_intros)

lemma owned_recorder: "owned kRecorderClientId w \<longleftrightarrow> owners_bound w \<and> clients_open w"
  by (simp add: owned_def bound_def)

section \<open>The connections\<close>

lemma bind_owned:
  assumes "owned kRecorderClientId w" "c \<in> set (w_connections w)"
  shows "\<exists>w'. bindClient c cid w = (Inr (), w') \<and> w_mgr w' = w_mgr w \<and> owned cid w'"
proof (cases "map_of (w_clients w) cid")
  case None
  have "set (smap_put cid c (w_clients w)) \<subseteq> insert (cid, c) (set (w_clients w))" by (rule set_put_subset)
  moreover have "fst ` set (smap_put cid c (w_clients w)) = insert cid (fst ` set (w_clients w))"
    using set_keys_put [of cid c "w_clients w"] by simp
  ultimately show ?thesis using assms None
    by (fastforce simp: bindClient_def setClients_def owned_defs)
next
  case (Some c')
  then have "cid \<in> fst ` set (w_clients w)" by (force dest: map_of_SomeD)
  with Some show ?thesis using assms by (simp add: bindClient_def setClients_def owned_defs)
qed

lemma unbind_owned:
  assumes ok: "mgr_ok ids (w_mgr w)" and w: "owned kRecorderClientId w"
  shows "owned kRecorderClientId (snd (mseq (releaseClient cid) (setClients (smap_erase cid)) w))"
proof -
  obtain w' where "releaseClient cid w = (Inr (), w')"
    "attrs (w_mgr w') = filter (\<lambda>p. snd p \<noteq> cid) (attrs (w_mgr w))"
    "w_clients w' = w_clients w" "w_connections w' = w_connections w"
    using releaseClient_run [OF ok] by blast
  then show ?thesis using w
    by (force simp: trm_run setClients_def owned_recorder owners_bound_def clients_open_def bound_def)
qed

lemma processPayload_owned:
  assumes ok: "mgr_ok ids (w_mgr w)" and w: "owned cid w"
  shows "owned kRecorderClientId (snd (processPayload c cid p w))"
proof -
  have rec: "owned cid w' \<Longrightarrow> owned kRecorderClientId w'" for w' by (simp add: owned_def bound_def)
  show ?thesis
  proof (cases p)
    case NoPayload
    then show ?thesis using unbind_owned [OF ok rec [OF w], of cid] rec [OF w] by (simp add: processPayload_def)
  next
    case (Payload m)
    have "preserves (owned cid) (ServerMessageProcessor_process cid m)" by (rule owners.process) simp
    from rec [OF preservesD [OF this w]] Payload show ?thesis by (simp add: processPayload_def)
  qed (simp add: processPayload_def rec w)
qed

lemma received_owned:
  assumes ok: "mgr_ok ids (w_mgr w)" and w: "owned kRecorderClientId w" and c: "c \<in> set (w_connections w)"
  shows "owned kRecorderClientId (snd (Server_onMessageReceived c cid p w))"
proof -
  obtain w1 where w1: "Server_onHasMessageToSend cid p w = (Inr (), w1)" "w_mgr w1 = w_mgr w"
    "w_clients w1 = w_clients w" "w_connections w1 = w_connections w"
    by (cases "map_of (w_clients w) kTRMMgrClientId")
      (auto simp: Server_onHasMessageToSend_def Connection_send_def isTRMDiagClient_def)
  have "owned kRecorderClientId w1" using w by (simp add: owned_defs w1)
  then obtain w2 where w2: "bindClient c cid w1 = (Inr (), w2)" "w_mgr w2 = w_mgr w1" "owned cid w2"
    using bind_owned c w1(4) by metis
  have "owned kRecorderClientId (snd (processPayload c cid p w2))"
    using processPayload_owned w2 w1(2) ok by simp
  then show ?thesis unfolding Server_onMessageReceived_def
    by (auto simp: trm_run w1(1) w2(1) split: prod.split sum.split)
qed

lemma disconnected_owned:
  assumes ok: "mgr_ok ids (w_mgr w)" and w: "owned kRecorderClientId w" and c: "c \<in> set (w_connections w)"
  shows "owned kRecorderClientId (snd (Server_onDisconnected c w))"
proof -
  obtain w' where w': "Server_onDisconnected c w = (Inr (), w')"
    "attrs (w_mgr w') = filter (\<lambda>p. snd p \<notin> clients_of c (w_clients w)) (attrs (w_mgr w))"
    "w_clients w' = filter (\<lambda>p. fst p \<notin> clients_of c (w_clients w)) (w_clients w)"
    "w_connections w' = remove1 c (w_connections w)"
    using Server_onDisconnected_run [OF ok c] by blast
  have "owners_bound w'"
    using w unfolding owned_recorder owners_bound_def bound_def w'(2,3) by force
  moreover have "clients_open w'"
  proof -
    have "c' \<in> set (remove1 c (w_connections w))" if "(cid, c') \<in> set (w_clients w')" for cid c'
    proof -
      have "(cid, c') \<in> set (w_clients w)" "c' \<noteq> c" using that by (auto simp: w'(3) clients_of_def)
      then show ?thesis using w by (force simp: owned_recorder clients_open_def)
    qed
    then show ?thesis by (auto simp: clients_open_def w'(4))
  qed
  ultimately show ?thesis by (simp add: w'(1) owned_recorder)
qed


lemma handle_owned:
  assumes ok: "mgr_ok ids (w_mgr w)" and w: "owned kRecorderClientId w" and en: "enabled ev w"
  shows "owned kRecorderClientId (snd (handle ev w))"
proof (cases ev)
  case NewConnection
  then show ?thesis using w
    by (auto simp: Server_onNewConnection_def trm_run new_address_def owned_defs)
next
  case (Received c cid p)
  then show ?thesis using received_owned [OF ok w] en by simp
next
  case (Disconnected c)
  then show ?thesis using disconnected_owned [OF ok w] en by simp
next
  case (Fired k)
  then show ?thesis using preservesD [OF owners.timer_fired w] by simp
next
  case Deliver
  have "owned kRecorderClientId (w\<lparr>w_queue := q\<rparr>)" for q using w by (simp add: owned_defs)
  then show ?thesis using Deliver w preservesD [OF owners.slot] by (simp add: deliver_def split: list.split)
qed

lemma reachable_owned: "reachable e n w \<Longrightarrow> owned kRecorderClientId w"
proof (induction rule: reachable.induct)
  case reachable_initial
  show ?case by (simp add: owned_defs initial_mgr Manager_new_def) (simp add: initial_def GetDeviceId_def Let_def)
next
  case (reachable_step w w')
  then show ?case using handle_owned [OF reachable_mgr_ok] by (auto elim!: step_cases)
qed

end
