(* ===== verification/Trm_Conflict.thy ===== *)
theory Trm_Conflict
  imports Trm_Record
begin

text \<open>
  The life of a recording that conflicts with a live reservation: the viewer is asked, the
  request waits under a temporary token, and its timeout or the answer of the recorder grants
  it. The re-evaluation of pending conflicts may run its loop over the entries present at its
  start, because the loop only appends cancellations of live, which it passes over.
\<close>

section \<open>Opening a conflict\<close>

definition conflict_notice :: "world \<Rightarrow> ReserveTuner \<Rightarrow> TunerReservation \<Rightarrow> NotifyTunerReservationConflicts" where
  "conflict_notice w request live =
     NotifyTunerReservationConflicts_new (e_uuid (w_env w) (Suc (w_uuids w))) live
       (setReservationToken (e_uuid (w_env w) (w_uuids w)) (q_tunerReservation request))"

lemma addPendingRequest_run:
  "\<exists>w'. addPendingRequest uuid kind timeout w = (Inr (), w') \<and>
     pendingRequests (w_mgr w') =
       pendingRequests (w_mgr w) @ [\<lparr>p_addr = w_fresh w, p_uuid = uuid, p_kind = kind\<rparr>] \<and>
     tuners (w_mgr w') = tuners (w_mgr w) \<and> attrs (w_mgr w') = attrs (w_mgr w) \<and>
     uuid \<in> fst ` set (pendingRequestTimers (w_mgr w')) \<and>
     w_clients w' = w_clients w \<and> w_out w' = w_out w"
proof (cases "map_of (pendingRequestTimers (w_mgr w)) uuid")
  case (Some t)
  then have "uuid \<in> fst ` set (pendingRequestTimers (w_mgr w))" by (force dest: map_of_SomeD)
  with Some show ?thesis by (simp add: addPendingRequest_def trm_run new_address_def)
qed (simp add: addPendingRequest_def trm_run new_address_def GetCurrentEpoch_def)

lemma startConflict_run:
  assumes "getParent (r_token live) (w_mgr w) = Inr parent"
    and own: "map_of (attrs (w_mgr w)) (r_token live) = Some owner"
    and c: "map_of (w_clients w) owner = Some co"
  shows "\<exists>w'. startConflict request live cid w = (Inr (), w') \<and>
    pendingRequests (w_mgr w') = pendingRequests (w_mgr w) @
      [\<lparr>p_addr = w_fresh w, p_uuid = e_uuid (w_env w) (w_uuids w),
        p_kind = PendingReserveTunerConflicts cid (conflict_notice w request live) request parent\<rparr>] \<and>
    tuners (w_mgr w') = tuners (w_mgr w) \<and> attrs (w_mgr w') = attrs (w_mgr w) \<and>
    e_uuid (w_env w) (w_uuids w) \<in> fst ` set (pendingRequestTimers (w_mgr w')) \<and>
    w_out w' = w_out w @
      delivered w co owner (M_NotifyTunerReservationConflicts (conflict_notice w request live))"
proof -
  let ?w1 = "w\<lparr>w_uuids := Suc (Suc (w_uuids w))\<rparr>"
  let ?kind = "PendingReserveTunerConflicts cid (conflict_notice w request live) request parent"
  obtain w' where w': "addPendingRequest (e_uuid (w_env w) (w_uuids w)) ?kind
      CONFLICT_RESOLUTION_TIMEOUT_MS ?w1 = (Inr (), w')"
    "pendingRequests (w_mgr w') = pendingRequests (w_mgr w) @
      [\<lparr>p_addr = w_fresh w, p_uuid = e_uuid (w_env w) (w_uuids w), p_kind = ?kind\<rparr>]"
    "tuners (w_mgr w') = tuners (w_mgr w)" "attrs (w_mgr w') = attrs (w_mgr w)"
    "e_uuid (w_env w) (w_uuids w) \<in> fst ` set (pendingRequestTimers (w_mgr w'))"
    "w_clients w' = w_clients w" "w_out w' = w_out w"
    using addPendingRequest_run [of "e_uuid (w_env w) (w_uuids w)" ?kind CONFLICT_RESOLUTION_TIMEOUT_MS ?w1]
    by auto
  have d: "delivered w' = delivered w" by (simp add: fun_eq_iff delivered_def w')
  show ?thesis using assms w' d
    by (simp add: startConflict_def trm_run GenerateUUID_def getReservationAttributes_def Let_def
        conflict_notice_def sendTo_run)
qed

section \<open>Granting a settled conflict\<close>

lemma mseq_assoc: "mseq (mseq a b) c = mseq a (mseq b c)"
  by (simp add: mseq_def)

lemma grant_then:
  assumes ok: "mgr_ok ids (w_mgr w)" and k: "keeps_mgr k"
    and run: "mseq (addReservation r tid) (mseq (setReservationAttributes (r_token r) cid) k) w = (Inr y, w')"
  shows "holds_reservation (w_mgr w') tid r cid"
proof -
  have "mseq (addReservation r tid) (mseq (setReservationAttributes (r_token r) cid) k) =
      mseq (mseq (addReservation r tid) (mseq (setReservationAttributes (r_token r) cid) (ret ()))) k"
    by (simp add: mseq_assoc) (simp add: mseq_def)
  then obtain w1 where "mseq (addReservation r tid) (mseq (setReservationAttributes (r_token r) cid) (ret ())) w
      = (Inr (), w1)" "k w1 = (Inr y, w')"
    using run by (auto simp: mseq_Inr)
  then show ?thesis using grant_holds [OF ok] k unfolding keeps_mgr_def by (metis snd_conv)
qed

lemma keeps_reply: "keeps_mgr (mcatch_all (reply cid m) (ret ()))"
  by (simp add: keeps_mgr_def trm_run sendTo_run split: option.split)

lemma mcatch_throw_Inr: "mcatch sel m (throw e) w = (Inr y, w') \<longleftrightarrow> m w = (Inr y, w')"
  by (auto simp: trm_run split: prod.split sum.split)

lemma grantTimes_mgr: "grantTimes st r w = (Inr r', w') \<Longrightarrow> w_mgr w' = w_mgr w"
  by (auto simp: grantTimes_def grantStart_def run_simps GetCurrentEpoch_def split: if_splits)

definition granted_recording :: "ReserveTuner \<Rightarrow> TunerReservation \<Rightarrow> bool" where
  "granted_recording request rec \<longleftrightarrow>
     same_end (q_tunerReservation request) rec \<and>
     same_but_times (setReservationToken (r_token rec) (q_tunerReservation request)) rec"

lemma grant_tail:
  assumes ok: "mgr_ok ids (w_mgr w)"
    and times: "grantTimes st (setReservationToken tok (q_tunerReservation request)) w = (Inr rec, w1)"
    and run: "mseq (addReservation rec tid) (mseq (setReservationAttributes (r_token rec) cid)
      (mcatch_all (reply cid m) (ret ()))) w1 = (Inr (), w')"
  shows "\<exists>rec. holds_reservation (w_mgr w') tid rec cid \<and> granted_recording request rec"
proof -
  have "holds_reservation (w_mgr w') tid rec cid"
    using grant_then [OF _ keeps_reply run] ok grantTimes_mgr [OF times] by simp
  moreover have "granted_recording request rec"
    using returnsD [OF grantTimes_returns times]
    by (auto simp: granted_recording_def same_end_def same_but_times_def reservation_set_defs) blast+
  ultimately show ?thesis by blast
qed

lemma Execute_GrantRecord_holds:
  assumes ok: "mgr_ok ids (w_mgr w)"
    and act: "a_enum (r_activity (q_tunerReservation request)) = kRecord"
    and run: "Execute_GrantRecord request cid tid w = (Inr (), w')"
  shows "\<exists>rec. holds_reservation (w_mgr w') tid rec cid \<and> granted_recording request rec"
  using run act ok grant_tail [of ids "w\<lparr>w_uuids := Suc (w_uuids w)\<rparr>"]
  unfolding Execute_GrantRecord_def mcatch_throw_Inr
  by (auto simp: Activity_eq_def Let_def mwhen_def mbind_Inr query_Inr ret_Inr GenerateUUID_def
      dest: grant_tail split: if_splits)

section \<open>The answer of the recorder\<close>

definition pending_is :: "PendingRequest list \<Rightarrow> Manager \<Rightarrow> bool" where
  "pending_is ps m \<longleftrightarrow> pendingRequests m = ps"

lemma preserves_pending_modify:
  "(\<And>m. pendingRequests (f m) = pendingRequests m) \<Longrightarrow> preserves (on_mgr (pending_is ps)) (modify f)"
  by (rule preserves_modify) (simp add: pending_is_def)

lemma preserves_pending_grant: "preserves (on_mgr (pending_is ps)) (Execute_GrantRecord request cid tid)"
  unfolding Execute_GrantRecord_def grantTimes_def grantStart_def addReservation_def
    setReservationAttributes_def setTimer_def setPreStartTimer_def setStartTimer_def
    setExpireTimer_def onTuner_def
  by (rule inv_intros preserves_pending_modify | simp add: updTuner_def)+

lemma cancelLiveResponse_grants:
  assumes ok: "mgr_ok ids (w_mgr w)"
    and p: "getPendingRequest (s_uuid s) (w_mgr w) = Inr p" "p_kind p = PendingCancelLive c0 cl request parent"
    and act: "a_enum (r_activity (q_tunerReservation request)) = kRecord"
    and run: "Execute_CancelLiveResponse s cid w = (Inr (), w')"
  shows "\<exists>rec. holds_reservation (w_mgr w') parent rec kRecorderClientId \<and>
      granted_recording request rec \<and>
      pendingRequests (w_mgr w') = remove_first (\<lambda>p. p_uuid p = s_uuid s) (pendingRequests (w_mgr w))"
proof -
  obtain w1 where w1: "Execute_GrantRecord request kRecorderClientId parent w = (Inr (), w1)"
    "removePendingRequest (s_uuid s) w1 = (Inr (), w')"
    using run p getPendingRequest_pending [OF p(1)]
    by (auto simp: Execute_CancelLiveResponse_def Manager_onCancelLiveResponse_def mwhen_def
        mbind_Inr mseq_Inr query_Inr)
  have ps: "pendingRequests (w_mgr w1) = pendingRequests (w_mgr w)"
    using preservesD [OF preserves_pending_grant [of "pendingRequests (w_mgr w)"], of w] w1(1)
    by (simp add: on_mgr_def pending_is_def) (metis snd_conv)
  then have "isPendingRequest (s_uuid s) (w_mgr w1)"
    using getPendingRequest_pending [OF p(1)] by (simp add: isPendingRequest_def)
  note removed = removePendingRequest_run [OF this]
  obtain rec where "holds_reservation (w_mgr w1) parent rec kRecorderClientId" "granted_recording request rec"
    using Execute_GrantRecord_holds [OF ok act w1(1)] by blast
  moreover have "holds_reservation (w_mgr w') parent rec kRecorderClientId =
      holds_reservation (w_mgr w1) parent rec kRecorderClientId"
    using removed w1(2) by (auto simp: holds_reservation_def getTuner_def)
  ultimately show ?thesis using removed w1(2) ps by auto
qed


section \<open>The loop over pending requests\<close>

definition is_cancelLive :: "PendingRequest \<Rightarrow> bool" where
  "is_cancelLive p = (case p_kind p of PendingCancelLive _ _ _ _ \<Rightarrow> True | _ \<Rightarrow> False)"

definition appended :: "PendingRequest list \<Rightarrow> Manager \<Rightarrow> bool" where
  "appended ps m \<longleftrightarrow> (\<exists>new. pendingRequests m = ps @ new \<and> list_all is_cancelLive new)"

lemma appended_modify:
  "(\<And>m. pendingRequests (f m) = pendingRequests m) \<Longrightarrow> preserves (on_mgr (appended ps)) (modify f)"
  by (rule preserves_modify) (simp add: appended_def)

lemma appended_add:
  "preserves (on_mgr (appended ps)) (addPendingRequest uuid (PendingCancelLive c cl q parent) timeout)"
proof (rule preservesI)
  fix w assume "on_mgr (appended ps) w"
  then show "on_mgr (appended ps) (snd (addPendingRequest uuid (PendingCancelLive c cl q parent) timeout w))"
    using addPendingRequest_run [of uuid "PendingCancelLive c cl q parent" timeout w]
    by (auto simp: on_mgr_def appended_def is_cancelLive_def)
qed

lemma appended_timeout: "preserves (on_mgr (appended ps)) (PendingRequest_timeout p)"
  unfolding PendingRequest_timeout_def PendingCancelLive_timeout_def
    PendingReserveTunerConflict_timeout_def PendingCancelRecording_timeout_def
    Manager_onCancelLiveResponse_def conflict_oneToken_def conflict_cancelLive_def
    Execute_GrantRecord_def grantTimes_def grantStart_def addReservation_def
    setReservationAttributes_def setTimer_def setPreStartTimer_def setStartTimer_def
    setExpireTimer_def onTuner_def
  by (rule inv_intros appended_modify appended_add | simp add: updTuner_def)+

lemma reevaluate_appends:
  "reevaluate p acc w = (r, w') \<Longrightarrow>
     \<exists>new. pendingRequests (w_mgr w') = pendingRequests (w_mgr w) @ new \<and> list_all is_cancelLive new"
proof -
  assume run: "reevaluate p acc w = (r, w')"
  have "preserves (on_mgr (appended (pendingRequests (w_mgr w)))) (reevaluate p acc)"
    unfolding reevaluate_def by (rule inv_intros appended_timeout)+
  moreover have "on_mgr (appended (pendingRequests (w_mgr w))) w" by (simp add: on_mgr_def appended_def)
  ultimately have "on_mgr (appended (pendingRequests (w_mgr w))) (snd (reevaluate p acc w))" by (rule preservesD)
  then show ?thesis using run by (simp add: on_mgr_def appended_def)
qed

text \<open>
  The loop of the source, which advances an iterator over the list itself: \<open>i\<close> is the position
  of the iterator and the bound of the loop is the end of the list at that moment.
\<close>

fun reevaluateLoop :: "nat \<Rightarrow> nat \<Rightarrow> string list \<Rightarrow> string list trm" where
  "reevaluateLoop 0 i timedout = throw InvalidOperationException"
| "reevaluateLoop (Suc fuel) i timedout =
     mbind (query (\<lambda>m. Inr (pendingRequests m))) (\<lambda>ps.
       if i < length ps
       then mbind (reevaluate (ps ! i) timedout) (reevaluateLoop fuel (Suc i))
       else ret timedout)"

lemma reevaluateLoop_tail:
  "pendingRequests (w_mgr w) = old @ new \<Longrightarrow> list_all is_cancelLive new \<Longrightarrow> length new < fuel \<Longrightarrow>
     reevaluateLoop fuel (length old) acc w = (Inr acc, w)"
proof (induction new arbitrary: old fuel)
  case Nil
  then show ?case by (cases fuel) (simp_all add: trm_run)
next
  case (Cons p new)
  then obtain f where f: "fuel = Suc f" by (cases fuel) auto
  have "reevaluate p acc w = (Inr acc, w)"
    using Cons.prems(2) by (cases "p_kind p") (auto simp: reevaluate_def is_cancelLive_def)
  then show ?case using Cons.IH [of "old @ [p]" f] Cons.prems f by (simp add: trm_run nth_append)
qed

lemma reevaluateLoop_mfold:
  assumes "pendingRequests (w_mgr w) = old @ ps @ new" "list_all is_cancelLive new"
  shows "\<exists>F. \<forall>fuel \<ge> F. reevaluateLoop fuel (length old) acc w = mfold ps reevaluate acc w"
  using assms
proof (induction ps arbitrary: old new acc w)
  case Nil
  then show ?case using reevaluateLoop_tail [of w old new _ acc] by (intro exI [of _ "Suc (length new)"]) auto
next
  case (Cons p ps)
  obtain r w1 where run: "reevaluate p acc w = (r, w1)" by fastforce
  obtain more where more: "pendingRequests (w_mgr w1) = (old @ [p]) @ ps @ new @ more" "list_all is_cancelLive more"
    using reevaluate_appends [OF run] Cons.prems(1) by auto
  have hd: "reevaluateLoop (Suc f) (length old) acc w =
      (case r of Inl e \<Rightarrow> (Inl e, w1) | Inr acc' \<Rightarrow> reevaluateLoop f (length (old @ [p])) acc' w1)" for f
    using Cons.prems(1) run by (simp add: trm_run nth_append split: sum.split)
  show ?case
  proof (cases r)
    case (Inl e)
    then have "reevaluateLoop fuel (length old) acc w = mfold (p # ps) reevaluate acc w" if "fuel \<ge> 1" for fuel
      using hd that run by (cases fuel) (simp_all add: trm_run)
    then show ?thesis by blast
  next
    case (Inr acc')
    obtain F where F: "\<forall>fuel \<ge> F. reevaluateLoop fuel (length (old @ [p])) acc' w1 = mfold ps reevaluate acc' w1"
      using Cons.IH [OF more(1)] more(2) Cons.prems(2) by auto
    have "reevaluateLoop fuel (length old) acc w = mfold (p # ps) reevaluate acc w" if "fuel \<ge> Suc F" for fuel
    proof -
      from that obtain f where "fuel = Suc f" "f \<ge> F" by (cases fuel) auto
      then show ?thesis using hd F Inr run by (simp add: trm_run)
    qed
    then show ?thesis by blast
  qed
qed

section \<open>What marks a conflict\<close>

lemma isPendingConflict_append:
  "pendingRequests m' = pendingRequests m @ [p] \<Longrightarrow>
     isPendingConflict tok m' \<longleftrightarrow> isPendingConflict tok m \<or> tok \<in> set (conflict_tokens (p_kind p))"
  by (auto simp: isPendingConflict_def list_ex_iff)

lemma conflict_notice_tokens:
  "conflict_tokens (PendingReserveTunerConflicts cid (conflict_notice w request live) request parent) =
     [e_uuid (w_env w) (w_uuids w)]"
  by (simp add: conflict_notice_def NotifyTunerReservationConflicts_new_def setReservationToken_def)

lemma getParent_managed:
  assumes ok: "mgr_ok ids m" and "map_of (attrs m) tok = Some owner"
  shows "\<exists>parent. getParent tok m = Inr parent"
proof -
  have "managed m tok" using assms(2) by (force simp: managed_def dest: map_of_SomeD)
  then show ?thesis using mgr_okD(6) [OF ok] tokens_of_findTuner getParent_Inr [OF ok] by blast
qed

lemma Execute_ReserveTuner_conflict:
  assumes ok: "mgr_ok ids (w_mgr w)"
    and act: "a_enum (r_activity (q_tunerReservation q)) = kRecord" "r_token (q_tunerReservation q) = ''''"
    and run: "reserveRecord q (ReserveTunerResponse_new (q_uuid q)) cid w = (Inr resp, w1)"
    and live: "s_conflicts resp = [live]"
    and own: "map_of (attrs (w_mgr w)) (r_token live) = Some owner" "map_of (w_clients w) owner = Some co"
  shows "\<exists>w' parent. Execute_ReserveTuner q cid w = (Inr (), w') \<and>
    getParent (r_token live) (w_mgr w) = Inr parent \<and>
    pendingRequests (w_mgr w') = pendingRequests (w_mgr w) @
      [\<lparr>p_addr = w_fresh w1, p_uuid = e_uuid (w_env w1) (w_uuids w1),
        p_kind = PendingReserveTunerConflicts cid (conflict_notice w1 q live) q parent\<rparr>] \<and>
    tuners (w_mgr w') = tuners (w_mgr w) \<and> attrs (w_mgr w') = attrs (w_mgr w) \<and>
    e_uuid (w_env w1) (w_uuids w1) \<in> fst ` set (pendingRequestTimers (w_mgr w')) \<and>
    w_out w' = w_out w @
      delivered w co owner (M_NotifyTunerReservationConflicts (conflict_notice w1 q live))"
proof -
  have m: "w_mgr w1 = w_mgr w"
    using reserveRecord_outcome [OF ok act(2) new_response(1) run] live by auto
  have q: "w_out w1 = w_out w" "w_clients w1 = w_clients w"
    using quiet_run [OF quiet_reserve(2) run] by simp_all
  have d: "delivered w1 = delivered w" by (simp add: fun_eq_iff delivered_def q)
  obtain parent where parent: "getParent (r_token live) (w_mgr w) = Inr parent"
    using getParent_managed [OF ok own(1)] by blast
  obtain w' where w': "startConflict q live cid w1 = (Inr (), w')"
    "pendingRequests (w_mgr w') = pendingRequests (w_mgr w1) @
      [\<lparr>p_addr = w_fresh w1, p_uuid = e_uuid (w_env w1) (w_uuids w1),
        p_kind = PendingReserveTunerConflicts cid (conflict_notice w1 q live) q parent\<rparr>]"
    "tuners (w_mgr w') = tuners (w_mgr w1)" "attrs (w_mgr w') = attrs (w_mgr w1)"
    "e_uuid (w_env w1) (w_uuids w1) \<in> fst ` set (pendingRequestTimers (w_mgr w'))"
    "w_out w' = w_out w1 @
      delivered w1 co owner (M_NotifyTunerReservationConflicts (conflict_notice w1 q live))"
    using startConflict_run [of live w1 parent owner co q cid] parent own m q by auto
  have "Execute_ReserveTuner q cid w = (Inr (), w')"
    using act run live w'(1)
    by (simp add: Execute_ReserveTuner_def Execute_ReserveRecord_def Activity_eq_def trm_run Let_def)
  then show ?thesis using w' m q d parent by simp
qed

end
