(* ===== verification/Trm_Device.thy ===== *)
theory Trm_Device
  imports Trm_Decode "HOL-Library.Sublist"
begin

text \<open>
  Where the device id comes from: the output of a script or the answer of the authentication
  server, both JSON (\<^verbatim>\<open>GetDeviceId\<close> and two decoders in \<^verbatim>\<open>JanssonParser.cpp\<close>, \<^verbatim>\<open>GetAuthToken\<close> in
  \<^verbatim>\<open>Util.cpp\<close>). The line the script prints and the bytes the server sends are arguments;
  \<^verbatim>\<open>GetDeviceId\<close> of \<open>Trm_World\<close> is the same function with the outcome of each attempt as a
  parameter.
\<close>

section \<open>The answer of the server\<close>

text \<open>\<^verbatim>\<open>std::string::find\<close>.\<close>

fun find_sub :: "string \<Rightarrow> string \<Rightarrow> nat option" where
  "find_sub p [] = (if p = [] then Some 0 else None)"
| "find_sub p (c # s) =
     (if prefix p (c # s) then Some 0 else map_option Suc (find_sub p s))"

definition crlf2 :: string where
  "crlf2 = [CHR 0x0D, CHR 0x0A, CHR 0x0D, CHR 0x0A]"

text \<open>The body is kept in a static variable once it has been read.\<close>

definition GetAuthToken :: "string \<Rightarrow> string \<Rightarrow> string" where
  "GetAuthToken responseBody response =
     (if responseBody \<noteq> '''' then responseBody
      else if response \<noteq> '''' \<and> find_sub ''200 OK'' response \<noteq> None then
        (case find_sub crlf2 response of
           Some startPos \<Rightarrow> drop (startPos + 4) response
         | None \<Rightarrow> responseBody)
      else responseBody)"

section \<open>The decoders\<close>

record GenerateAuthTokenResponse =
  g_deviceId :: string
  g_authToken :: string

record GenerateAuthTokenResponseFromAuthService =
  f_deviceId :: string
  f_partnerId :: string

text \<open>
  Assignment of a member to a string, if the member is there: a member that is no string is a null
  pointer, which the assignment follows.
\<close>

definition member_text :: "'j jansson \<Rightarrow> 'j option \<Rightarrow> string \<Rightarrow> string query" where
  "member_text J v s =
     (case v of
        None \<Rightarrow> Inr s
      | Some x \<Rightarrow> (case j_string_value J x of None \<Rightarrow> Inl UndefinedBehaviour | Some t \<Rightarrow> Inr t))"

definition JsonDecode_GenerateAuthTokenResponse ::
  "'j jansson \<Rightarrow> u8 list \<Rightarrow> GenerateAuthTokenResponse \<Rightarrow> GenerateAuthTokenResponse query" where
  "JsonDecode_GenerateAuthTokenResponse J bs response =
     (if bs = [] then Inr response
      else (case j_load J bs of
              None \<Rightarrow> Inr response
            | Some parent \<Rightarrow>
                (case j_get J parent ''data'' of
                   None \<Rightarrow> Inr response
                 | Some data \<Rightarrow>
                     ebind (member_text J (j_get J data ''deviceId'') (g_deviceId response)) (\<lambda>deviceId.
                     ebind (member_text J (j_get J data ''authToken'') (g_authToken response)) (\<lambda>authToken.
                       Inr \<lparr>g_deviceId = deviceId, g_authToken = authToken\<rparr>)))))"

definition JsonDecode_GenerateAuthTokenResponseFromAuthService ::
  "'j jansson \<Rightarrow> u8 list \<Rightarrow> GenerateAuthTokenResponseFromAuthService \<Rightarrow>
     GenerateAuthTokenResponseFromAuthService query" where
  "JsonDecode_GenerateAuthTokenResponseFromAuthService J bs response =
     (if bs = [] then Inr response
      else (case j_load J bs of
              None \<Rightarrow> Inr response
            | Some parent \<Rightarrow>
                ebind (member_text J (j_get J parent ''deviceId'') (f_deviceId response)) (\<lambda>deviceId.
                ebind (member_text J (j_get J parent ''partnerId'') (f_partnerId response)) (\<lambda>partnerId.
                  Inr \<lparr>f_deviceId = deviceId, f_partnerId = partnerId\<rparr>))))"

section \<open>The device id\<close>

text \<open>The static variables of \<^verbatim>\<open>GetDeviceId\<close> and \<^verbatim>\<open>GetAuthToken\<close>.\<close>

record device_statics =
  v_deviceId :: string
  v_responseBody :: string

text \<open>
  One call: \<open>script\<close> is the line read from the script, \<open>None\<close> when it cannot be started or prints
  nothing; \<open>answer\<close> is what the server sends when it is asked.
\<close>

definition GetDeviceId_call ::
  "'j jansson \<Rightarrow> string option \<Rightarrow> string \<Rightarrow> device_statics \<Rightarrow> device_statics query" where
  "GetDeviceId_call J script answer st =
     (if v_deviceId st \<noteq> '''' then Inr st
      else ebind (case script of
                    None \<Rightarrow> Inr ''''
                  | Some line \<Rightarrow>
                      ebind (JsonDecode_GenerateAuthTokenResponseFromAuthService J (string_bytes line)
                               \<lparr>f_deviceId = '''', f_partnerId = ''''\<rparr>) (\<lambda>r. Inr (f_deviceId r))) (\<lambda>deviceId.
           if deviceId \<noteq> '''' then Inr (st\<lparr>v_deviceId := deviceId\<rparr>)
           else let body = GetAuthToken (v_responseBody st) answer in
             ebind (JsonDecode_GenerateAuthTokenResponse J (string_bytes body)
                      \<lparr>g_deviceId = '''', g_authToken = ''''\<rparr>) (\<lambda>r.
               Inr \<lparr>v_deviceId = g_deviceId r, v_responseBody = body\<rparr>)))"

lemma find_sub_sound: "find_sub p s = Some i \<Longrightarrow> prefix p (drop i s)"
  by (induction p s arbitrary: i rule: find_sub.induct) (auto split: if_splits)

lemma find_sub_first: "find_sub p s = Some i \<Longrightarrow> j < i \<Longrightarrow> \<not> prefix p (drop j s)"
proof (induction p s arbitrary: i j rule: find_sub.induct)
  case (2 p c s)
  then show ?case by (cases j) (auto split: if_splits)
qed (auto split: if_splits)

lemma find_sub_complete: "prefix p (drop i s) \<Longrightarrow> i \<le> length s \<Longrightarrow> find_sub p s \<noteq> None"
proof (induction p s arbitrary: i rule: find_sub.induct)
  case (2 p c s)
  then show ?case by (cases i) auto
qed simp

lemma find_sub_eq:
  assumes "prefix p (drop i s)" "i \<le> length s" "\<And>j. j < i \<Longrightarrow> \<not> prefix p (drop j s)"
  shows "find_sub p s = Some i"
proof -
  obtain k where k: "find_sub p s = Some k" using find_sub_complete [OF assms(1,2)] by auto
  have "\<not> k < i" using assms(3) find_sub_sound [OF k] by blast
  moreover have "\<not> i < k" using assms(1) find_sub_first [OF k] by blast
  ultimately show ?thesis using k by simp
qed

lemma GetAuthToken_body:
  assumes "sublist ''200 OK'' h" "\<And>j. j < length h \<Longrightarrow> \<not> prefix crlf2 (drop j (h @ crlf2))"
  shows "GetAuthToken '''' (h @ crlf2 @ body) = body"
proof -
  have h: "prefix crlf2 (drop j (h @ crlf2 @ body)) \<longleftrightarrow> prefix crlf2 (drop j (h @ crlf2))" if "j \<le> length h" for j
  proof -
    have "drop j (h @ crlf2 @ body) = drop j (h @ crlf2) @ body" "4 \<le> length (drop j (h @ crlf2))"
      using that by (simp_all add: crlf2_def)
    then have "take 4 (drop j (h @ crlf2 @ body)) = take 4 (drop j (h @ crlf2))" by (simp only: take_append) simp
    moreover have "prefix crlf2 xs \<longleftrightarrow> take (length crlf2) xs = crlf2" for xs
      using take_is_prefix [of "length crlf2" xs] by (auto elim!: prefixE)
    moreover have "length crlf2 = 4" by (simp add: crlf2_def)
    ultimately show ?thesis by metis
  qed
  have "find_sub crlf2 (h @ crlf2 @ body) = Some (length h)"
    using assms(2) h by (intro find_sub_eq) auto
  moreover have "find_sub ''200 OK'' (h @ crlf2 @ body) \<noteq> None"
  proof -
    obtain a b where "h = a @ ''200 OK'' @ b" using assms(1) by (auto simp: sublist_def)
    then show ?thesis by (intro find_sub_complete [of _ "length a"]) auto
  qed
  ultimately show ?thesis by (simp add: GetAuthToken_def) (simp add: crlf2_def)
qed

text \<open>
  When the script gives no id, the id is the one the authentication server sends: from an
  answer with status 200 whose header ends at the first empty line, the body is decoded, and its
  member \<^verbatim>\<open>data.deviceId\<close> is the id from then on, with the body kept.
\<close>

theorem device_id_from_server:
  assumes "script = None \<or> (\<exists>line. script = Some line \<and> j_load J (string_bytes line) = None)"
    and "sublist ''200 OK'' h" "\<forall>j < length h. \<not> prefix crlf2 (drop j (h @ crlf2))" "body \<noteq> ''''"
    and "j_load J (string_bytes body) = Some p" "j_get J p ''data'' = Some d"
    and "j_get J d ''deviceId'' = Some x" "j_string_value J x = Some i" "j_get J d ''authToken'' = None"
  shows "GetDeviceId_call J script (h @ crlf2 @ body) \<lparr>v_deviceId = '''', v_responseBody = ''''\<rparr> =
    Inr \<lparr>v_deviceId = i, v_responseBody = body\<rparr>"
proof -
  let ?r = "\<lparr>f_deviceId = '''', f_partnerId = ''''\<rparr>"
  have "JsonDecode_GenerateAuthTokenResponseFromAuthService J (string_bytes line) ?r = Inr ?r"
    if "j_load J (string_bytes line) = None" for line
    using that by (simp add: JsonDecode_GenerateAuthTokenResponseFromAuthService_def)
  moreover have "string_bytes body \<noteq> []" using assms(4) by (simp add: string_bytes_def)
  then have "JsonDecode_GenerateAuthTokenResponse J (string_bytes body) \<lparr>g_deviceId = '''', g_authToken = ''''\<rparr> =
      Inr \<lparr>g_deviceId = i, g_authToken = ''''\<rparr>"
    using assms(5-9) by (simp add: JsonDecode_GenerateAuthTokenResponse_def member_text_def)
  ultimately show ?thesis
    using assms(1) GetAuthToken_body [of h body] assms(2,3) by (auto simp: GetDeviceId_call_def)
qed

lemma string_bytes_chars: "string_bytes (map (\<lambda>b. char_of (unat b)) bs) = bs"
proof -
  have "(of_nat (of_char (char_of (unat b) :: char)) :: u8) = b" for b :: u8
  proof -
    have "unat b < 256" using unsigned_less [of b] by simp
    then show ?thesis by simp
  qed
  then show ?thesis by (simp add: string_bytes_def comp_def)
qed

theorem device_id_from_server_witness:
  "GetDeviceId_call jansson_ref None
      (''HTTP/1.0 200 OK'' @ crlf2 @ map (\<lambda>b. char_of (unat b))
        (dump_json (JObject [(''data'', JObject [(''deviceId'', JString ''P1'')])])))
      \<lparr>v_deviceId = '''', v_responseBody = ''''\<rparr> =
    Inr \<lparr>v_deviceId = ''P1'', v_responseBody = map (\<lambda>b. char_of (unat b))
        (dump_json (JObject [(''data'', JObject [(''deviceId'', JString ''P1'')])]))\<rparr>"
proof (rule device_id_from_server [where d = "JObject [(''deviceId'', JString ''P1'')]" and x = "JString ''P1''"])
  let ?p = "JObject [(''data'', JObject [(''deviceId'', JString ''P1'')])]"
  show "j_load jansson_ref (string_bytes (map (\<lambda>b. char_of (unat b)) (dump_json ?p))) = Some ?p"
    by (simp only: string_bytes_chars jansson_ref_def jansson.simps json_load_dump)
  show "sublist ''200 OK'' ''HTTP/1.0 200 OK''"
    unfolding sublist_def by (intro exI [of _ "''HTTP/1.0 ''"] exI [of _ "''''"]) simp
  show "\<forall>j < length ''HTTP/1.0 200 OK''. \<not> prefix crlf2 (drop j (''HTTP/1.0 200 OK'' @ crlf2))"
    by (simp add: crlf2_def All_less_Suc numeral_eq_Suc)
qed (simp_all add: jansson_ref_def json_items_def)

end
