(* ===== verification/Trm_Fcgi.thy ===== *)
theory Trm_Fcgi
  imports Trm_Connection
begin

text \<open>
  The FastCGI proxy (\<^verbatim>\<open>proxy/fcgiproxy.c\<close>) passes the body of a web request to the server, with a header
  in front, and the next message of the server back as the answer. The results of system and
  FastCGI calls are arguments, so are the bytes of a buffer that were never written. How both
  proxies connect to the server is modelled here too.
\<close>

section \<open>Connecting\<close>

definition ECONNREFUSED :: int where
  "ECONNREFUSED = 111"

text \<open>
  \<open>conn k\<close> is the result of the \<open>k\<close>-th call of \<^verbatim>\<open>connect\<close>. The counter is a static variable: what is left
  of it is the third component, the second the number of calls.
\<close>

function connectLoop :: "(nat \<Rightarrow> int) \<Rightarrow> nat \<Rightarrow> nat \<Rightarrow> int \<times> nat \<times> nat" where
  "connectLoop conn k retry_count =
     (if conn k = ECONNREFUSED \<and> retry_count > 0 then connectLoop conn (Suc k) (retry_count - 1)
      else (conn k, Suc k, retry_count))"
  by pat_completeness auto
termination
  by (relation "measure (\<lambda>(conn, k, retry_count). retry_count)") auto

declare connectLoop.simps [simp del]

text \<open>The WebSocket proxy: whether the socket is connected, and the counter.\<close>

definition connect_to_trm :: "(nat \<Rightarrow> int) \<Rightarrow> nat \<Rightarrow> bool \<times> nat" where
  "connect_to_trm conn retry_count =
     (let (socket_error, _, retry_count') = connectLoop conn 0 retry_count in (socket_error = 0, retry_count'))"

text \<open>The FastCGI proxy gives up when the flags cannot be set.\<close>

definition fcgi_connect_to_trm :: "(nat \<Rightarrow> int) \<Rightarrow> bool \<Rightarrow> nat \<Rightarrow> bool \<times> nat" where
  "fcgi_connect_to_trm conn flags_set retry_count =
     (let (socket_error, _, retry_count') = connectLoop conn 0 retry_count
      in (socket_error = 0 \<and> flags_set, retry_count'))"

section \<open>The loop over requests\<close>

text \<open>\<^verbatim>\<open>strtol\<close> with base 10.\<close>

fun digits_value :: "string \<Rightarrow> int \<Rightarrow> int" where
  "digits_value [] acc = acc"
| "digits_value (c # s) acc =
     (if CHR ''0'' \<le> c \<and> c \<le> CHR ''9'' then digits_value s (acc * 10 + of_char c - 48) else acc)"

definition strtol :: "string \<Rightarrow> int" where
  "strtol s =
     (let s' = dropWhile (\<lambda>c. c \<in> {CHR '' '', CHR 0x09, CHR 0x0A, CHR 0x0B, CHR 0x0C, CHR 0x0D}) s;
          v = (case s' of
                 [] \<Rightarrow> 0
               | c # r \<Rightarrow>
                   if c = CHR ''-'' then - digits_value r 0
                   else if c = CHR ''+'' then digits_value r 0 else digits_value s' 0)
      in min (2 ^ 63 - 1) (max (- (2 ^ 63)) v))"

text \<open>An answer: the length in the HTTP header, and the bytes that follow.\<close>

type_synonym fcgi_reply = "int \<times> u8 list"

record fcgi =
  fc_is_connected :: bool
  fc_message_id :: u32
  fc_retry_count :: nat
  fc_toTrm :: "u8 list list"
  fc_replies :: "fcgi_reply option list"

text \<open>The start of the program.\<close>

definition fcgi_start :: "(nat \<Rightarrow> int) \<Rightarrow> bool \<Rightarrow> fcgi" where
  "fcgi_start conn flags_set =
     (let (ok, retry) = fcgi_connect_to_trm conn flags_set 10
      in \<lparr>fc_is_connected = ok, fc_message_id = 0x1000, fc_retry_count = retry, fc_toTrm = [], fc_replies = []\<rparr>)"

text \<open>What the calls of one round give.\<close>

record fcgi_io =
  io_content_length :: "string option"
  io_body :: "u8 list"
  io_write :: int
  io_header :: "u8 list"
  io_count :: int
  io_payload :: "u8 list"
  io_buf :: "nat \<Rightarrow> u8"
  io_connect :: "nat \<Rightarrow> int"
  io_flags_set :: bool

definition payload_length_of :: "string option \<Rightarrow> int" where
  "payload_length_of cl = (case cl of None \<Rightarrow> 0 | Some s \<Rightarrow> sint (of_int (strtol s) :: u32))"

text \<open>A buffer of \<open>n\<close> bytes of which only \<open>bs\<close> was filled.\<close>

definition buffer :: "(nat \<Rightarrow> u8) \<Rightarrow> int \<Rightarrow> u8 list \<Rightarrow> u8 list" where
  "buffer junk n bs = bs @ map junk [length bs ..< nat n]"

text \<open>Reading the answer, whatever message it is.\<close>

definition fcgi_answer :: "fcgi_io \<Rightarrow> int \<Rightarrow> (int \<times> bool \<times> fcgi_reply option) query" where
  "fcgi_answer io payload_length =
     (if length (io_header io) = kHeaderLength then
        (let h = io_header io; n = sint (be_word (h ! 12) (h ! 13) (h ! 14) (h ! 15))
         in if n < 0 then Inl UndefinedBehaviour
            else if io_count io \<noteq> 0 then Inr (n, True, Some (n, buffer (io_buf io) n (io_payload io)))
            else Inr (n, False, None))
      else Inr (payload_length, False, None))"

text \<open>
  A request with its body. The result of \<^verbatim>\<open>write\<close> counts as success unless it is 0, so an error, -1, does
  too. A negative length makes the buffer shorter than the header, one close to \<open>2 ^ 31\<close> overflows the sum.
\<close>

definition fcgi_request :: "fcgi_io \<Rightarrow> int \<Rightarrow> fcgi \<Rightarrow> (int \<times> bool \<times> fcgi_reply option \<times> fcgi) query" where
  "fcgi_request io payload_length st =
     (let message_id = fc_message_id st + 1;
          header = Header_serialize \<lparr>h_type = 0x1401, h_clientId = message_id, h_payloadLength = of_int payload_length\<rparr>;
          st1 = st\<lparr>fc_message_id := message_id\<rparr>;
          packet = header @ buffer (io_buf io) payload_length (io_body io);
          st2 = st1\<lparr>fc_toTrm := fc_toTrm st1 @ [take (nat (io_write io)) packet]\<rparr>
      in if payload_length < 0 \<or> payload_length + 16 \<ge> 2 ^ 31 then Inl UndefinedBehaviour
         else if io_write io \<noteq> 0 then
           ebind (fcgi_answer io payload_length) (\<lambda>(n, ok, reply). Inr (n, ok, reply, st2))
         else Inr (payload_length, False, None, st1))"

text \<open>After a failure the answer announces a body and has none. The old socket is not closed.\<close>

definition fcgi_reconnect :: "fcgi_io \<Rightarrow> int \<Rightarrow> fcgi \<Rightarrow> fcgi" where
  "fcgi_reconnect io payload_length st =
     (let (ok, retry) = fcgi_connect_to_trm (io_connect io) (io_flags_set io) (fc_retry_count st)
      in st\<lparr>fc_is_connected := ok, fc_retry_count := retry, fc_toTrm := [],
            fc_replies := fc_replies st @ [Some (payload_length, [])]\<rparr>)"

text \<open>A request without a body gets no answer at all.\<close>

definition fcgi_round :: "fcgi_io \<Rightarrow> fcgi \<Rightarrow> fcgi query" where
  "fcgi_round io st =
     (let payload_length = payload_length_of (io_content_length io)
      in if payload_length = 0 then Inr (st\<lparr>fc_replies := fc_replies st @ [None]\<rparr>)
         else if payload_length > 0 \<and> payload_length + 16 < 2 ^ 31 \<and> io_body io = [] then
           Inr (st\<lparr>fc_message_id := fc_message_id st + 1, fc_replies := fc_replies st @ [None]\<rparr>)
         else ebind (fcgi_request io payload_length st) (\<lambda>(n, ok, reply, st').
           if ok then Inr (st'\<lparr>fc_replies := fc_replies st' @ [reply]\<rparr>)
           else Inr (fcgi_reconnect io n st')))"

text \<open>The loop: a round for each accepted request, as long as the server is connected.\<close>

fun fcgi_main :: "fcgi_io list \<Rightarrow> fcgi \<Rightarrow> fcgi query" where
  "fcgi_main [] st = Inr st"
| "fcgi_main (io # ios) st = (if fc_is_connected st then ebind (fcgi_round io st) (fcgi_main ios) else Inr st)"

section \<open>Properties\<close>

lemma connectLoop_run:
  "\<exists>j \<le> n. connectLoop conn k n = (conn (k + j), Suc (k + j), n - j) \<and> (conn (k + j) \<noteq> ECONNREFUSED \<or> j = n)"
proof (induction n arbitrary: k)
  case 0
  then show ?case by (simp add: connectLoop.simps)
next
  case (Suc n)
  show ?case
  proof (cases "conn k = ECONNREFUSED")
    case True
    obtain j where "j \<le> n" "connectLoop conn (Suc k) n = (conn (Suc k + j), Suc (Suc k + j), n - j)"
      "conn (Suc k + j) \<noteq> ECONNREFUSED \<or> j = n" using Suc.IH by blast
    then show ?thesis using True
      by (intro exI [of _ "Suc j"]) (simp add: connectLoop.simps [of conn k])
  qed (simp add: connectLoop.simps [of conn k] exI [of _ 0])
qed

text \<open>
  C38. Connecting to the server ends: whatever \<^verbatim>\<open>connect\<close> returns, it is called at most once more than the
  counter says, the result is that of the last call, and the loop stops before only at a result other
  than \<^verbatim>\<open>ECONNREFUSED\<close>. As \<^verbatim>\<open>connect\<close> returns 0 or -1 and puts the cause into \<^verbatim>\<open>errno\<close>, it is called exactly once: there is no retry.
\<close>

theorem connect_ends:
  assumes "connectLoop conn 0 n = (r, calls, n')"
  shows "0 < calls \<and> calls \<le> Suc n \<and> calls + n' = Suc n \<and> r = conn (calls - 1) \<and> (r \<noteq> ECONNREFUSED \<or> calls = Suc n) \<and>
    ((\<forall>k. conn k \<in> {0, -1}) \<longrightarrow> calls = 1 \<and> n' = n)"
proof -
  obtain j where j: "j \<le> n" "r = conn j" "calls = Suc j" "n' = n - j" "conn j \<noteq> ECONNREFUSED \<or> j = n"
    using connectLoop_run [of n conn 0] assms by auto
  moreover have "connectLoop conn 0 n = (conn 0, Suc 0, n)" if "\<forall>k. conn k \<in> {0, -1}"
    using that [rule_format, of 0] by (auto simp: connectLoop.simps [of conn 0] ECONNREFUSED_def)
  ultimately show ?thesis using assms by auto
qed

theorem connect_ends_witness:
  "connectLoop (\<lambda>k. if k < 3 then 111 else 0) 0 10 = (0, 4, 7) \<and> (4::nat) + 7 = Suc 10"
proof -
  have "connectLoop (\<lambda>k. if k < 3 then 111 else 0) 0 10 = (0, 4, 7)" by code_simp
  then show ?thesis using connect_ends by fastforce
qed

text \<open>
  A round in which nothing fails: the body arrives whole and is written whole, and the next
  message \<open>m\<close> of the server, addressed to the client \<open>cid\<close>, is read whole.
\<close>

definition good_io :: "(message \<Rightarrow> u8 list) \<Rightarrow> (string \<times> u8 list) \<times> (message \<times> u32) \<Rightarrow> fcgi_io" where
  "good_io encode x =
     (let bs = SerializeMessage encode (fst (snd x)) (snd (snd x))
      in \<lparr>io_content_length = Some (fst (fst x)), io_body = snd (fst x), io_write = 16 + int (length (snd (fst x))),
          io_header = take kHeaderLength bs, io_count = int (length (encode (fst (snd x)))),
          io_payload = drop kHeaderLength bs, io_buf = (\<lambda>_. 0), io_connect = (\<lambda>_. 0), io_flags_set = True\<rparr>)"

definition good_request :: "(message \<Rightarrow> u8 list) \<Rightarrow> (string \<times> u8 list) \<times> (message \<times> u32) \<Rightarrow> bool" where
  "good_request encode x \<longleftrightarrow>
     strtol (fst (fst x)) = int (length (snd (fst x))) \<and> snd (fst x) \<noteq> [] \<and> length (snd (fst x)) + 16 < 2 ^ 31 \<and>
     encode (fst (snd x)) \<noteq> [] \<and> length (encode (fst (snd x))) < 2 ^ 31"

definition request_header :: "u32 \<Rightarrow> u8 list \<Rightarrow> Header" where
  "request_header i body = \<lparr>h_type = 0x1401, h_clientId = i, h_payloadLength = of_int (int (length body))\<rparr>"

lemma round_good:
  assumes "good_request encode x"
  shows "fcgi_round (good_io encode x) st = Inr (st\<lparr>fc_message_id := fc_message_id st + 1,
     fc_toTrm := fc_toTrm st @ [frame (request_header (fc_message_id st + 1) (snd (fst x)), snd (fst x))],
     fc_replies := fc_replies st @ [Some (int (length (encode (fst (snd x)))), encode (fst (snd x)))]\<rparr>)"
proof -
  obtain cl body m cid where x: "x = ((cl, body), (m, cid))" by (metis prod.collapse)
  note g = assms [unfolded good_request_def x, simplified]
  have p: "payload_length_of (Some cl) = int (length body)"
    using g sint_length [of "length body"] by (simp add: payload_length_of_def)
  have l: "length (encode m) < 2 ^ 32" using g by simp
  note h = reads_header [of encode m, OF l, of cid]
  have n: "sint w = int (length (encode m))" if "unat w = length (encode m)" for w :: u32
  proof -
    have "(of_nat (length (encode m)) :: u32) = w" by (simp flip: that)
    then show ?thesis using sint_length [of "length (encode m)"] g by auto
  qed
  show ?thesis using g p h n
    by (simp add: x fcgi_round_def good_io_def fcgi_request_def fcgi_answer_def buffer_def Let_def frame_def
        request_header_def kHeaderLength_def)
qed

lemma main_good:
  "\<forall>x \<in> set xs. good_request encode x \<Longrightarrow> fc_is_connected st \<Longrightarrow>
   \<exists>st'. fcgi_main (map (good_io encode) xs) st = Inr st' \<and> fc_is_connected st' \<and>
     fc_replies st' = fc_replies st @ map (\<lambda>x. Some (int (length (encode (fst (snd x)))), encode (fst (snd x)))) xs \<and>
     fc_toTrm st' = fc_toTrm st @ map2 (\<lambda>k x. frame (request_header (fc_message_id st + of_nat k) (snd (fst x)), snd (fst x)))
       [1 ..< Suc (length xs)] xs"
proof (induction xs arbitrary: st)
  case (Cons x xs)
  let ?st = "st\<lparr>fc_message_id := fc_message_id st + 1,
     fc_toTrm := fc_toTrm st @ [frame (request_header (fc_message_id st + 1) (snd (fst x)), snd (fst x))],
     fc_replies := fc_replies st @ [Some (int (length (encode (fst (snd x)))), encode (fst (snd x)))]\<rparr>"
  have "map2 (\<lambda>k x. f (of_nat k :: u32) x) [1 ..< Suc (length (x # xs))] (x # xs) =
      f 1 x # map2 (\<lambda>k x. f (1 + of_nat k) x) [1 ..< Suc (length xs)] xs" for f :: "u32 \<Rightarrow> _ \<Rightarrow> u8 list"
  proof -
    have "[1 ..< Suc (length (x # xs))] = 1 # map Suc [1 ..< Suc (length xs)]"
      by (simp add: map_Suc_upt upt_conv_Cons del: upt_Suc)
    then show ?thesis by (simp add: zip_map1 case_prod_beta)
  qed
  from this [of "\<lambda>k x. frame (request_header (fc_message_id st + k) (snd (fst x)), snd (fst x))"]
  show ?case using Cons.IH [of ?st] Cons.prems round_good [of encode x st] by (auto simp: add.assoc)
qed simp

text \<open>
  C39. The FastCGI proxy answers by turn, not by id: when no call fails, the \<open>k\<close>-th request reaches the
  server, however the bytes are cut, as a message of the \<open>k\<close>-th new client id with the body of the request,
  and its answer is the \<open>k\<close>-th message of the server, whatever that is and whoever it is addressed to.
\<close>

theorem fcgi_answers_by_turn:
  assumes "\<forall>x \<in> set xs. good_request encode x" "fc_is_connected st" "fc_toTrm st = []"
  shows "\<exists>st'. fcgi_main (map (good_io encode) xs) st = Inr st' \<and> fc_is_connected st' \<and>
     fc_replies st' = fc_replies st @ map (\<lambda>(_, m, _). Some (int (length (encode m)), encode m)) xs \<and>
     (\<forall>chunks. concat chunks = concat (fc_toTrm st') \<longrightarrow>
        map Server_unpack (c_received (fold arrive chunks Connection_new)) =
          map2 (\<lambda>k ((_, body), _). Inr (fc_message_id st + of_nat k, body)) [1 ..< Suc (length xs)] xs)"
proof -
  let ?F = "map2 (\<lambda>k x. (request_header (fc_message_id st + of_nat k) (snd (fst x)), snd (fst x))) [1 ..< Suc (length xs)] xs"
  obtain st' where st': "fcgi_main (map (good_io encode) xs) st = Inr st'" "fc_is_connected st'"
    "fc_replies st' = fc_replies st @ map (\<lambda>x. Some (int (length (encode (fst (snd x)))), encode (fst (snd x)))) xs"
    "fc_toTrm st' = map frame ?F"
    using main_good [OF assms(1,2)] assms(3) by (auto simp: case_prod_beta comp_def)
  have unpack: "Server_unpack (frame (request_header i body, body)) = Inr (i, body)" for i body
    using deserialize_serialize [of "request_header i body" "[]"]
    by (simp add: Server_unpack_def frame_def kHeaderLength_def request_header_def)
  have "framed (request_header i (snd (fst x)), snd (fst x))" if "x \<in> set xs" for i x
    using that assms(1) by (auto simp: framed_def request_header_def good_request_def unsigned_of_nat take_bit_nat_eq_self)
  then have "\<forall>f \<in> set ?F. framed f" by (auto dest: set_zip_rightD)
  then have "c_received (fold arrive chunks Connection_new) = map frame ?F"
    if "concat chunks = concat (fc_toTrm st')" for chunks
    using that arrive_chunks [of Connection_new ?F chunks] st'(4) by (simp add: Connection_new_start)
  then show ?thesis using st' by (auto simp: case_prod_beta comp_def unpack)
qed

definition example_requests :: "((string \<times> u8 list) \<times> (message \<times> u32)) list" where
  "example_requests =
     [((''2'', [65, 66]), (M_GetVersion \<lparr>q_uuid = ''q'', q_device = [], q_token = []\<rparr>, 0x1001)),
      ((''1'', [67]), (M_GetVersion \<lparr>q_uuid = ''r'', q_device = [], q_token = []\<rparr>, 0x1001))]"

theorem fcgi_answers_by_turn_witness:
  "\<exists>st'. fcgi_main (map (good_io (\<lambda>_. [123, 125])) example_requests) (fcgi_start (\<lambda>_. 0) True) = Inr st' \<and>
     fc_replies st' = [Some (2, [123, 125]), Some (2, [123, 125])] \<and>
     map Server_unpack (c_received (fold arrive [concat (fc_toTrm st')] Connection_new)) = [Inr (0x1001, [65, 66]), Inr (0x1002, [67])]"
proof -
  have g: "\<forall>x \<in> set example_requests. good_request (\<lambda>_. [123, 125]) x"
    by (simp add: example_requests_def good_request_def strtol_def)
  have s: "fc_is_connected (fcgi_start (\<lambda>_. 0) True)" "fc_toTrm (fcgi_start (\<lambda>_. 0) True) = []"
    "fc_replies (fcgi_start (\<lambda>_. 0) True) = []" "fc_message_id (fcgi_start (\<lambda>_. 0) True) = 0x1000"
    by (simp_all add: fcgi_start_def fcgi_connect_to_trm_def connectLoop.simps ECONNREFUSED_def)
  let ?r = "map (good_io (\<lambda>_. [123, 125])) example_requests"
  obtain st' where st': "fcgi_main ?r (fcgi_start (\<lambda>_. 0) True) = Inr st'"
    "fc_replies st' = map (\<lambda>(_, m, _). Some (int (length [123, 125 :: u8]), [123, 125])) example_requests"
    "\<And>chunks. concat chunks = concat (fc_toTrm st') \<Longrightarrow> map Server_unpack (c_received (fold arrive chunks Connection_new)) =
       map2 (\<lambda>k ((_, body), _). Inr (0x1000 + of_nat k, body)) [1 ..< Suc (length example_requests)] example_requests"
    using fcgi_answers_by_turn [OF g s(1,2)] unfolding s by auto
  show ?thesis
  proof (intro exI conjI)
    show "fcgi_main ?r (fcgi_start (\<lambda>_. 0) True) = Inr st'" by (rule st'(1))
    show "fc_replies st' = [Some (2, [123, 125]), Some (2, [123, 125])]" by (simp add: st'(2) example_requests_def)
    show "map Server_unpack (c_received (fold arrive [concat (fc_toTrm st')] Connection_new)) = [Inr (0x1001, [65, 66]), Inr (0x1002, [67])]"
      by (subst st'(3)) (simp_all add: example_requests_def upt_rec)
  qed
qed

text \<open>
  A request with a negative length is not rejected: the header is written past the end of a
  buffer that is too short for it.
\<close>

theorem negative_length_overflows:
  assumes "io_content_length io = Some s" "strtol s < 0" "- (2 ^ 31) \<le> strtol s"
  shows "fcgi_round io st = Inl UndefinedBehaviour"
proof -
  have "payload_length_of (Some s) = strtol s" using assms(2,3)
    by (simp add: payload_length_of_def signed_of_int signed_take_bit_int_eq_self)
  then show ?thesis using assms by (simp add: fcgi_round_def fcgi_request_def Let_def)
qed

theorem negative_length_overflows_witness:
  "fcgi_round ((good_io (\<lambda>_. []) (hd example_requests))\<lparr>io_content_length := Some ''-12''\<rparr>) (fcgi_start (\<lambda>_. 0) True) =
     Inl UndefinedBehaviour"
  by (rule negative_length_overflows [of _ "''-12''"]) (simp_all add: strtol_def)

end
