(* ===== verification/Trm_Setup.thy ===== *)
theory Trm_Setup
  imports Trm_Proxy
begin

text \<open>
  How the WebSocket proxy is set up (\<^verbatim>\<open>main\<close> of \<^verbatim>\<open>wsproxy/main.cpp\<close>, the constructor of \<^verbatim>\<open>WebSocketProxy\<close> and
  the functions before it in \<^verbatim>\<open>qt_websocketproxy.cpp\<close>, \<^verbatim>\<open>setUpServer\<close>): its arguments, the addresses it binds to, the
  certificate and pass code it takes, and the servers it starts. Which files exist, what commands
  print, what settings say and what the calls of the Qt, TLS and socket libraries give is the record \<open>system\<close>.
\<close>

section \<open>The system\<close>

record system =
  y_exists :: "string \<Rightarrow> bool"
  y_generated :: bool
  y_run :: "string \<Rightarrow> string list option"
  y_setting :: "string \<Rightarrow> string option"
  y_NOTRMSSL :: int
  y_rfc :: "string \<Rightarrow> string option"
  y_listen :: "string \<Rightarrow> nat \<Rightarrow> bool"
  y_ctx_new :: bool
  y_ecdh :: bool
  y_ca :: "string \<Rightarrow> bool"
  y_open :: "string \<Rightarrow> bool"
  y_parse :: "string \<Rightarrow> string \<Rightarrow> bool"
  y_use_certificate :: "string \<Rightarrow> bool"
  y_use_key :: "string \<Rightarrow> bool"
  y_key_matches :: "string \<Rightarrow> bool"
  y_socket :: int
  y_reuse :: bool
  y_bind :: "string \<Rightarrow> nat \<Rightarrow> bool"
  y_listen_socket :: bool

definition DYNAMIC_PASSCODE_UTILITY :: string where
  "DYNAMIC_PASSCODE_UTILITY = ''/usr/bin/rdkssacli''"

definition STATIC_PASSCODE_UTILITY :: string where
  "STATIC_PASSCODE_UTILITY = ''/usr/bin/GetConfigFile''"

definition DYNAMIC_PASSCODE_ARG :: string where
  "DYNAMIC_PASSCODE_ARG = quoted ''{STOR=GET,SRC=kquhqtoczcbx,DST=/dev/stdout}''"

definition STATIC_PASSCODE_ARG_FILE :: string where
  "STATIC_PASSCODE_ARG_FILE = ''/tmp/.cfgStaticxpki''"

section \<open>Certificates\<close>

text \<open>
  The lines of the output as \<^verbatim>\<open>fgets\<close> reads them. The last one read is the result; reading stops
  behind line 1026. When the command cannot be started the result keeps its value.
\<close>

definition executeCommand :: "system \<Rightarrow> string \<Rightarrow> string \<Rightarrow> string" where
  "executeCommand sys command out =
     (case y_run sys command of
        None \<Rightarrow> out
      | Some lines \<Rightarrow> (case take 1026 lines of [] \<Rightarrow> '''' | l # ls \<Rightarrow> last (l # ls)))"

definition passcode :: "system \<Rightarrow> string \<Rightarrow> string" where
  "passcode sys command = removeAll (CHR 0x0A) (executeCommand sys command '''')"

text \<open>Whether there is a certificate, its file and its pass code.\<close>

definition staticKeyAndPass :: "system \<Rightarrow> string \<Rightarrow> bool \<times> string \<times> string" where
  "staticKeyAndPass sys staticKey =
     (if \<not> y_exists sys staticKey then (False, '''', '''')
      else if \<not> y_exists sys STATIC_PASSCODE_UTILITY then (False, '''', '''')
      else if \<not> y_generated sys
        then (False, '''', executeCommand sys (STATIC_PASSCODE_UTILITY @ '' '' @ STATIC_PASSCODE_ARG_FILE) '''')
      else
        (let pass = passcode sys (''cat '' @ STATIC_PASSCODE_ARG_FILE)
         in if pass \<noteq> '''' then (True, staticKey, pass) else (False, '''', pass)))"

definition selectPk12KeyAndPass :: "system \<Rightarrow> string \<Rightarrow> string \<Rightarrow> bool \<times> string \<times> string" where
  "selectPk12KeyAndPass sys dynKey staticKey =
     (if \<not> y_exists sys dynKey then staticKeyAndPass sys staticKey
      else
        (let pass = (if y_exists sys DYNAMIC_PASSCODE_UTILITY
                     then passcode sys (DYNAMIC_PASSCODE_UTILITY @ '' '' @ DYNAMIC_PASSCODE_ARG) else '''')
         in if pass \<noteq> '''' then (True, dynKey, pass) else staticKeyAndPass sys staticKey))"

section \<open>Parameters\<close>

datatype TRM_RFC_PARAM_TYPE = RFC_PARM_mTLS | RFC_PARM_qtPort

text \<open>\<open>None\<close> stands for a parameter that cannot be read; the port is then enabled, the check of clients is not.\<close>

fun rfc_name :: "TRM_RFC_PARAM_TYPE \<Rightarrow> string" where
  "rfc_name RFC_PARM_mTLS = ''Device.DeviceInfo.X_RDKCENTRAL-COM_RFC.Feature.TRM.EnableMTLS''"
| "rfc_name RFC_PARM_qtPort = ''Device.DeviceInfo.X_RDKCENTRAL-COM_RFC.Feature.TRMQtSecurePort.Enable''"

definition is_TRM_RFC_param_enable :: "system \<Rightarrow> TRM_RFC_PARAM_TYPE \<Rightarrow> bool" where
  "is_TRM_RFC_param_enable sys t =
     (case y_rfc sys (rfc_name t) of
        Some v \<Rightarrow> take 4 v = ''true''
      | None \<Rightarrow> t = RFC_PARM_qtPort)"

text \<open>
  Whether TLS is on, from the status of \<^verbatim>\<open>system\<close>: it is off if the script ends by itself with the exit
  status 1 of a feature that is enabled.
\<close>

definition WEXITSTATUS :: "int \<Rightarrow> int" where
  "WEXITSTATUS r = r div 256 mod 256"

definition WIFEXITED :: "int \<Rightarrow> bool" where
  "WIFEXITED r \<longleftrightarrow> r mod 128 = 0"

definition rfc_get_trmssl_status :: "system \<Rightarrow> bool" where
  "rfc_get_trmssl_status sys \<longleftrightarrow> \<not> (WEXITSTATUS (y_NOTRMSSL sys) = 1 \<and> WIFEXITED (y_NOTRMSSL sys))"

section \<open>OpenSSL servers\<close>

record SSL_CTX =
  cx_ca :: string
  cx_pk12 :: string
  cx_verify :: bool
  cx_depth :: nat

text \<open>
  The context of a server, and how many contexts are left without an owner: some of the branches
  that give up do not free it. Peers must always have a certificate.
\<close>

definition get_server_context_pk12 :: "system \<Rightarrow> string \<Rightarrow> string \<Rightarrow> string \<Rightarrow> SSL_CTX option \<times> nat" where
  "get_server_context_pk12 sys ca_pem cert_pk12 pass =
     (if \<not> y_ctx_new sys then (None, 0)
      else if \<not> y_ecdh sys then (None, 0)
      else if \<not> y_ca sys ca_pem then (None, 0)
      else if \<not> y_open sys cert_pk12 then (None, 1)
      else if \<not> y_parse sys cert_pk12 pass then (None, 1)
      else if \<not> y_use_certificate sys cert_pk12 then (None, 1)
      else if \<not> y_use_key sys cert_pk12 then (None, 1)
      else if \<not> y_key_matches sys cert_pk12 then (None, 0)
      else (Some \<lparr>cx_ca = ca_pem, cx_pk12 = cert_pk12, cx_verify = True, cx_depth = 2\<rparr>, 0))"

definition get_socket :: "system \<Rightarrow> string \<Rightarrow> nat \<Rightarrow> int" where
  "get_socket sys ip port =
     (if y_socket sys < 0 then -1
      else if \<not> y_reuse sys then -1
      else if \<not> y_bind sys ip port then -1
      else if \<not> y_listen_socket sys then -1
      else y_socket sys)"

text \<open>
  \<^verbatim>\<open>setUpServer\<close>: its result and, when a thread accepts connections, the context and the socket. It
  reports success when the socket cannot be opened.
\<close>

definition setUpServer :: "system \<Rightarrow> string \<Rightarrow> nat \<Rightarrow> string \<Rightarrow> string \<Rightarrow> string \<Rightarrow> int \<times> (SSL_CTX \<times> int) option" where
  "setUpServer sys ip port ca key pass =
     (if port < 1 \<or> port > 65535 then (-1, None)
      else
        (case fst (get_server_context_pk12 sys ca key pass) of
           None \<Rightarrow> (-1, None)
         | Some ctx \<Rightarrow>
             (let listen_fd = get_socket sys ip port
              in if listen_fd < 0 then (0, None) else (0, Some (ctx, listen_fd)))))"

section \<open>Servers\<close>

datatype PeerVerifyMode = VerifyPeer | QueryPeer

text \<open>
  What is listening: a WebSocket server with its address, port and, when it is secure, whether it
  verifies its peers; an OpenSSL server with its address, certificate and pass code, and the
  context and the socket if it could be opened.
\<close>

record servers =
  sv_web :: "(string \<times> nat \<times> PeerVerifyMode option) list"
  sv_proxyServers :: "(string, PeerVerifyMode option) smap"
  sv_ssl :: "(string, string \<times> string \<times> (SSL_CTX \<times> int) option) smap"
  sv_deleted :: "string list"

definition servers_none :: servers where
  "servers_none = \<lparr>sv_web = [], sv_proxyServers = [], sv_ssl = [], sv_deleted = []\<rparr>"

definition listenOn :: "system \<Rightarrow> string \<Rightarrow> nat \<Rightarrow> PeerVerifyMode option \<Rightarrow> servers \<Rightarrow> servers" where
  "listenOn sys ip port mode sv =
     (if y_listen sys ip port
      then sv\<lparr>sv_web := sv_web sv @ [(ip, port, mode)], sv_proxyServers := smap_put ip mode (sv_proxyServers sv)\<rparr>
      else sv)"

definition startSsl :: "system \<Rightarrow> string \<Rightarrow> string \<Rightarrow> servers \<Rightarrow> servers" where
  "startSsl sys ca ip sv =
     (let (available, key, pass) =
            selectPk12KeyAndPass sys
              (case y_setting sys ''CA_SERVER_XPKI_DYNAMIC_CERTIFICATE'' of Some s \<Rightarrow> s | None \<Rightarrow> '''')
              (case y_setting sys ''CA_SERVER_XPKI_STATIC_CERTIFICATE'' of Some s \<Rightarrow> s | None \<Rightarrow> '''')
      in if available then
           (let (r, server) = setUpServer sys ip 9990 ca key pass
            in if r = 0 then sv\<lparr>sv_ssl := smap_put ip (key, pass, server) (sv_ssl sv)\<rparr> else sv)
         else sv)"

text \<open>The loop over the addresses: it stops when the private key is missing.\<close>

fun secureServers :: "system \<Rightarrow> string \<Rightarrow> string \<Rightarrow> nat \<Rightarrow> string list \<Rightarrow> servers \<Rightarrow> servers" where
  "secureServers sys ca key port [] sv = sv"
| "secureServers sys ca key port (ip # ips) sv =
     (if map_of (sv_proxyServers sv) ip = None then
        (if is_TRM_RFC_param_enable sys RFC_PARM_qtPort then
           (if \<not> y_exists sys key then sv
            else
              secureServers sys ca key port ips
                (startSsl sys ca ip
                  (listenOn sys ip port
                    (Some (if is_TRM_RFC_param_enable sys RFC_PARM_mTLS then VerifyPeer else QueryPeer)) sv)))
         else secureServers sys ca key port ips (startSsl sys ca ip sv))
      else secureServers sys ca key port ips sv)"

text \<open>The command that removes the key is printed into a buffer of 256 bytes.\<close>

definition delete_file :: "string \<Rightarrow> servers \<Rightarrow> servers query" where
  "delete_file fileName sv =
     (if length (''rm '' @ fileName) \<ge> 256 then Inl UndefinedBehaviour
      else Inr (sv\<lparr>sv_deleted := sv_deleted sv @ [fileName]\<rparr>))"

definition secureStart :: "system \<Rightarrow> string list \<Rightarrow> nat \<Rightarrow> servers query" where
  "secureStart sys boundIPs port =
     (if rfc_get_trmssl_status sys then
        (case (y_setting sys ''CA_CHAIN_CERTIFICATE'', y_setting sys ''CA_SERVER_PRIVATE_KEY'',
               y_setting sys ''CA_SERVER_PUBLIC_CERTIFICATE'') of
           (Some ca, Some key, Some cert) \<Rightarrow> delete_file key (secureServers sys ca key port boundIPs servers_none)
         | _ \<Rightarrow> Inr servers_none)
      else Inr servers_none)"

text \<open>The servers without TLS, one port below.\<close>

definition plainServers :: "system \<Rightarrow> string list \<Rightarrow> nat \<Rightarrow> servers \<Rightarrow> servers" where
  "plainServers sys boundIPs port = fold (\<lambda>ip. listenOn sys ip port None) boundIPs"

definition WebSocketProxy_servers :: "system \<Rightarrow> string list \<Rightarrow> nat \<Rightarrow> servers query" where
  "WebSocketProxy_servers sys boundIPs port =
     ebind (secureStart sys boundIPs port) (\<lambda>sv. Inr (plainServers sys boundIPs (port - 1) sv))"

section \<open>The program\<close>

definition TRM_WS_PROXY_LISTENING_PORT :: nat where
  "TRM_WS_PROXY_LISTENING_PORT = 9989"

fun contains :: "string \<Rightarrow> string \<Rightarrow> bool" where
  "contains pat [] \<longleftrightarrow> pat = []"
| "contains pat (c # s) \<longleftrightarrow> take (length pat) (c # s) = pat \<or> contains pat s"

text \<open>
  The arguments behind the name of the program: bound addresses and the log file. An option is
  recognised anywhere in an argument; one without a value is read beyond the end.
\<close>

fun parseArgs :: "string list \<Rightarrow> string list \<times> string option \<Rightarrow> (string list \<times> string option) query" where
  "parseArgs [] r = Inr r"
| "parseArgs [a] r =
     (if contains ''-bound'' a then Inl UndefinedBehaviour
      else if contains ''--debugconfig'' a then Inr (fst r, None) else Inr r)"
| "parseArgs (a # b # args) r =
     (if contains ''-bound'' a then parseArgs args (fst r @ [b], snd r)
      else if contains ''--debugconfig'' a then parseArgs args (fst r, Some b)
      else parseArgs (b # args) r)"

text \<open>An address of an interface: its text, whether it is IPv4 and whether it is a loopback address.\<close>

definition getIPFromInterface :: "(string \<times> bool \<times> bool) list option \<Rightarrow> bool \<Rightarrow> string option" where
  "getIPFromInterface interface isLoopback =
     (case interface of
        None \<Rightarrow> None
      | Some addresses \<Rightarrow> map_option fst (List.find (\<lambda>(a, ipv4, lo). ipv4 \<and> lo = isLoopback) addresses))"

text \<open>The MoCA interface is tried ten times; \<open>moca k\<close> is what it is when \<open>k\<close> more attempts are left.\<close>

fun mocaLoop :: "(nat \<Rightarrow> (string \<times> bool \<times> bool) list option) \<Rightarrow> nat \<Rightarrow> string list" where
  "mocaLoop moca 0 = []"
| "mocaLoop moca (Suc n) =
     (case getIPFromInterface (moca n) False of Some ip \<Rightarrow> [ip] | None \<Rightarrow> mocaLoop moca n)"

definition defaultIPs ::
  "(string \<times> bool \<times> bool) list option \<Rightarrow> (nat \<Rightarrow> (string \<times> bool \<times> bool) list option) option \<Rightarrow> string list" where
  "defaultIPs lo moca =
     (case getIPFromInterface lo True of Some ip \<Rightarrow> [ip] | None \<Rightarrow> []) @
     (case moca of Some m \<Rightarrow> mocaLoop m 10 | None \<Rightarrow> [])"

text \<open>What \<^verbatim>\<open>main\<close> starts; nothing when there are fewer than two arguments.\<close>

definition proxy_main ::
  "system \<Rightarrow> string list \<Rightarrow> (string \<times> bool \<times> bool) list option \<Rightarrow>
   (nat \<Rightarrow> (string \<times> bool \<times> bool) list option) option \<Rightarrow> servers option query" where
  "proxy_main sys args lo moca =
     ebind (parseArgs args ([], None)) (\<lambda>(boundIPs, _).
       if length args < 2 then Inr None
       else ebind (WebSocketProxy_servers sys (if boundIPs = [] then defaultIPs lo moca else boundIPs)
         TRM_WS_PROXY_LISTENING_PORT) (\<lambda>sv. Inr (Some sv)))"

section \<open>Properties\<close>

definition dynamic_pass :: "system \<Rightarrow> string" where
  "dynamic_pass sys = passcode sys (DYNAMIC_PASSCODE_UTILITY @ '' '' @ DYNAMIC_PASSCODE_ARG)"

definition static_pass :: "system \<Rightarrow> string" where
  "static_pass sys = passcode sys (''cat '' @ STATIC_PASSCODE_ARG_FILE)"

lemma staticKeyAndPass_cases:
  "staticKeyAndPass sys k = (True, key, pass) \<longleftrightarrow>
     key = k \<and> pass = static_pass sys \<and> pass \<noteq> '''' \<and> y_exists sys k \<and> y_exists sys STATIC_PASSCODE_UTILITY \<and> y_generated sys"
  by (auto simp: staticKeyAndPass_def static_pass_def Let_def)

text \<open>
  The dynamic certificate is taken whenever it can be used: there is a certificate exactly if the dynamic
  one exists with a pass code or, failing that, the static one does, and the file and the pass code
  belong together; a pass code is never empty and has no line end.
\<close>

theorem pk12_selected:
  "selectPk12KeyAndPass sys dyn static = (True, key, pass) \<longleftrightarrow>
    (let dynamic = y_exists sys dyn \<and> y_exists sys DYNAMIC_PASSCODE_UTILITY \<and> dynamic_pass sys \<noteq> ''''
     in pass \<noteq> '''' \<and> CHR 0x0A \<notin> set pass \<and>
        (if dynamic then key = dyn \<and> pass = dynamic_pass sys
         else key = static \<and> pass = static_pass sys \<and> y_exists sys static \<and>
           y_exists sys STATIC_PASSCODE_UTILITY \<and> y_generated sys))"
proof -
  have n: "CHR 0x0A \<notin> set (dynamic_pass sys)" "CHR 0x0A \<notin> set (static_pass sys)"
    by (simp_all add: dynamic_pass_def static_pass_def passcode_def)
  show ?thesis using n unfolding selectPk12KeyAndPass_def dynamic_pass_def [symmetric]
    by (auto simp: staticKeyAndPass_cases Let_def)
qed













text \<open>The set-up ends unless the name of the key is too long.\<close>

theorem set_up_ends:
  assumes "\<And>key. y_setting sys ''CA_SERVER_PRIVATE_KEY'' = Some key \<Longrightarrow> length key < 253"
  shows "\<exists>sv. WebSocketProxy_servers sys ips port = Inr sv"
proof -
  have "\<exists>sv. secureStart sys ips port = Inr sv"
    using assms by (fastforce simp: secureStart_def delete_file_def split: option.split)
  then show ?thesis by (auto simp: WebSocketProxy_servers_def)
qed





end
