(* ===== verification/Trm_Start.thy ===== *)
theory Trm_Start
  imports Trm_Fcgi Trm_Setup Trm_Gui Trm_Device
begin

text \<open>
  How the programs start: the arguments of the server and of the monitor (\<^verbatim>\<open>qtapp/srv/main.cpp\<close>,
  \<^verbatim>\<open>qtapp/gui/main.cpp\<close>), and the loops that wait for a server without a bound (\<^verbatim>\<open>Client::Client\<close>, \<^verbatim>\<open>connect_to_trm\<close> of
  \<^verbatim>\<open>diag/Helper.cpp\<close>, \<^verbatim>\<open>connect_to_authServer\<close> of \<^verbatim>\<open>Util.cpp\<close>). The results of the system calls are arguments.
\<close>

section \<open>Waiting for a server\<close>

text \<open>The first number from \<open>k\<close> on with the property; \<open>None\<close> when the search does not end.\<close>

partial_function (option) first_from :: "(nat \<Rightarrow> bool) \<Rightarrow> nat \<Rightarrow> nat option" where
  "first_from p k = (if p k then Some k else first_from p (Suc k))"

lemma first_from_sound:
  assumes "first_from p k = Some j"
  shows "k \<le> j \<and> p j \<and> (\<forall>i. k \<le> i \<and> i < j \<longrightarrow> \<not> p i)"
proof (induction rule: first_from.raw_induct [OF _ assms])
  case (1 f p k j)
  show ?case
  proof (cases "p k")
    case False
    then have "f p (Suc k) = Some j" using 1(2) by simp
    then have "Suc k \<le> j \<and> p j \<and> (\<forall>i. Suc k \<le> i \<and> i < j \<longrightarrow> \<not> p i)" by (rule 1(1))
    then show ?thesis using False by (metis Suc_leD le_antisym not_less_eq_eq)
  qed (use 1(2) in auto)
qed

lemma first_from_complete:
  assumes "p (k + n)" "\<And>i. i < n \<Longrightarrow> \<not> p (k + i)"
  shows "first_from p k = Some (k + n)"
  using assms
proof (induction n arbitrary: k)
  case 0
  then show ?case by (subst first_from.simps) simp
next
  case (Suc n)
  have "\<not> p k" using Suc.prems(2) [of 0] by simp
  moreover have "first_from p (Suc k) = Some (Suc k + n)"
    using Suc.prems(1) Suc.prems(2) [of "Suc _"] by (intro Suc.IH) simp_all
  ultimately show ?case by (subst first_from.simps) simp
qed

lemma first_from_ends: "(\<exists>j. first_from p k = Some j) \<longleftrightarrow> (\<exists>j \<ge> k. p j)"
proof
  assume "\<exists>j \<ge> k. p j"
  then have "\<exists>n. p (k + n)" by (metis le_Suc_ex)
  then obtain n where "p (k + n)" "\<And>i. i < n \<Longrightarrow> \<not> p (k + i)" using exists_least_iff [of "\<lambda>n. p (k + n)"] by auto
  then show "\<exists>j. first_from p k = Some j" using first_from_complete [of p k n] by blast
qed (use first_from_sound in blast)

text \<open>
  The loop of the constructor of \<^verbatim>\<open>Client\<close>: \<open>up k\<close> tells whether the \<open>k\<close>-th attempt connects. The result is the
  number of the attempt that did.
\<close>

definition Client_connect :: "(nat \<Rightarrow> bool) \<Rightarrow> nat option" where
  "Client_connect up = first_from up 0"

text \<open>
  The other two loops: the counter of retries is declared in the body of the loop, so it is 10
  again at each round. The result is that of the last call of \<^verbatim>\<open>connect\<close> and the number of calls.
\<close>

definition connectAgain :: "(nat \<Rightarrow> int) \<Rightarrow> (int \<times> nat) option" where
  "connectAgain conn =
     map_option (\<lambda>j. (conn j, Suc j)) (first_from (\<lambda>k. \<not> (conn k = ECONNREFUSED \<and> (10 :: int) > 0)) 0)"

text \<open>The result and the descriptor.\<close>

definition connect_to_authServer :: "int \<Rightarrow> (nat \<Rightarrow> int) \<Rightarrow> bool \<Rightarrow> int \<Rightarrow> (int \<times> int) option" where
  "connect_to_authServer socket_fd conn flags_set auth_fd =
     (if socket_fd < 0 then Some (-1, auth_fd)
      else
        map_option (\<lambda>(socket_error, _).
          if socket_error = 0 then (if flags_set then (0, socket_fd) else (-1, -1)) else (socket_error, -1))
          (connectAgain conn))"

text \<open>
  The exchange with the server for tokens in \<^verbatim>\<open>GetAuthToken\<close>: what \<^verbatim>\<open>write\<close> returns and what the calls of
  \<^verbatim>\<open>read\<close> return, at most 64 bytes each, up to the first that returns nothing. The number of bytes to write
  is a static variable, set at the first call.
\<close>

definition auth_exchange :: "int \<Rightarrow> (nat \<Rightarrow> int) \<Rightarrow> bool \<Rightarrow> int \<Rightarrow> int \<Rightarrow> string list \<Rightarrow> string option" where
  "auth_exchange socket_fd conn flags_set writeCount written reads =
     map_option (\<lambda>(_, auth_fd).
       if auth_fd \<ge> 0 \<and> written = writeCount then concat (takeWhile (\<lambda>s. s \<noteq> '''') reads) else '''')
       (connect_to_authServer socket_fd conn flags_set (-1))"

text \<open>
  The diagnostics client keeps its descriptor when a read or a write fails, and connects it
  again. \<open>conn fd\<close> gives the results of \<^verbatim>\<open>connect\<close> on the descriptor \<open>fd\<close>; \<open>new\<close> is the result of \<^verbatim>\<open>socket\<close>.
\<close>

record diag_socket =
  trm_diag_fd :: int
  ds_connected :: bool

definition diag_connect_to_trm :: "int \<Rightarrow> (int \<Rightarrow> nat \<Rightarrow> int) \<Rightarrow> diag_socket \<Rightarrow> (int \<times> diag_socket) option" where
  "diag_connect_to_trm new conn s =
     (if ds_connected s then Some (0, s)
      else
        (let socket_fd = (if trm_diag_fd s = -1 then new else trm_diag_fd s)
         in map_option (\<lambda>(socket_error, _).
              if socket_error = 0 then (0, \<lparr>trm_diag_fd = socket_fd, ds_connected = True\<rparr>)
              else (socket_error, s\<lparr>trm_diag_fd := -1\<rparr>)) (connectAgain (conn socket_fd))))"

text \<open>
  \<^verbatim>\<open>TRMMgrHelperImpl::init\<close>: whether it has run, the socket, and the descriptors for which reader threads were started.
  The result of connecting is not looked at.
\<close>

definition Helper_init :: "int \<Rightarrow> (int \<Rightarrow> nat \<Rightarrow> int) \<Rightarrow> bool \<times> diag_socket \<Rightarrow> ((bool \<times> diag_socket) \<times> int list) option" where
  "Helper_init new conn x =
     (if fst x then Some (x, [])
      else map_option (\<lambda>(_, s). ((True, s), [trm_diag_fd s])) (diag_connect_to_trm new conn (snd x)))"

section \<open>Arguments\<close>

text \<open>
  The options of the server: port, address and log file. An option is recognised anywhere in an
  argument; one without a value is read beyond the end. \<open>toInt\<close> is the conversion of Qt, which gives 0 for text
  that is not a number.
\<close>

fun srvArgs ::
  "(string \<Rightarrow> int) \<Rightarrow> string list \<Rightarrow> int \<times> string \<times> string option \<Rightarrow> (int \<times> string \<times> string option) query" where
  "srvArgs toInt [] r = Inr r"
| "srvArgs toInt [a] r =
     (if contains ''-port'' a \<or> contains ''-ip'' a then Inl UndefinedBehaviour
      else if contains ''-debugconfig'' a then Inr (fst r, fst (snd r), None) else Inr r)"
| "srvArgs toInt (a # b # args) r =
     (if contains ''-port'' a then srvArgs toInt args (toInt b, snd r)
      else if contains ''-ip'' a then srvArgs toInt args (fst r, b, snd (snd r))
      else if contains ''-debugconfig'' a then srvArgs toInt args (fst r, fst (snd r), Some b)
      else srvArgs toInt (b # args) r)"

text \<open>The address and the port of the server, if it is started.\<close>

definition srv_main :: "(string \<Rightarrow> int) \<Rightarrow> string list \<Rightarrow> (string \<times> int) option query" where
  "srv_main toInt args =
     ebind (srvArgs toInt args (-1, '''', None)) (\<lambda>(portNumber, hostAddressStr, _).
       if portNumber < 0 \<or> portNumber > 65535 \<or> hostAddressStr = '''' then Inr None
       else Inr (Some (hostAddressStr, portNumber)))"

record gui_args =
  ga_port :: int
  ga_ip :: string
  ga_clientId :: string
  ga_barWidth :: string

fun guiArgs :: "(string \<Rightarrow> int) \<Rightarrow> string list \<Rightarrow> gui_args \<Rightarrow> gui_args query" where
  "guiArgs toInt [] r = Inr r"
| "guiArgs toInt [a] r =
     (if contains ''-port'' a \<or> contains ''-ip'' a \<or> contains ''-clientId'' a \<or> contains ''-barWidth'' a
      then Inl UndefinedBehaviour else Inr r)"
| "guiArgs toInt (a # b # args) r =
     (if contains ''-port'' a then guiArgs toInt args (r\<lparr>ga_port := toInt b\<rparr>)
      else if contains ''-ip'' a then guiArgs toInt args (r\<lparr>ga_ip := b\<rparr>)
      else if contains ''-clientId'' a then guiArgs toInt args (r\<lparr>ga_clientId := b\<rparr>)
      else if contains ''-barWidth'' a then guiArgs toInt args (r\<lparr>ga_barWidth := b\<rparr>)
      else guiArgs toInt (b # args) r)"

text \<open>
  The window that is opened: \<open>toUInt base\<close> is the conversion of Qt, \<open>None\<close> when the text is not a number.
\<close>

definition gui_main ::
  "(string \<Rightarrow> int) \<Rightarrow> (nat \<Rightarrow> string \<Rightarrow> u32 option) \<Rightarrow> (nat \<Rightarrow> string) \<Rightarrow> (bar_id \<Rightarrow> int) \<Rightarrow> string list \<Rightarrow>
   TRMMonitorGUI option query" where
  "gui_main toInt toUInt uuid width args =
     ebind (guiArgs toInt args \<lparr>ga_port = -1, ga_ip = '''', ga_clientId = '''', ga_barWidth = ''''\<rparr>) (\<lambda>r.
       if ga_port r < 0 \<or> ga_port r > 65535 \<or> ga_ip r = '''' then Inr None
       else
         (let clientId = (if ga_clientId r = '''' then ''FFFFF001'' else ga_clientId r);
              barWidth = (if ga_barWidth r = '''' then ''3600'' else ga_barWidth r)
          in Inr (Some (TRMMonitorGUI_new uuid width (toUInt 16 clientId) (toUInt 10 barWidth)))))"

section \<open>Properties\<close>

text \<open>
  The loop of the diagnostics client and of the reader of tokens has no bound: it ends if and only if some call of
  \<^verbatim>\<open>connect\<close> returns something other than \<^verbatim>\<open>ECONNREFUSED\<close>. As \<^verbatim>\<open>connect\<close> returns 0 or -1, that is the first call.
\<close>

theorem connect_again_ends:
  "((\<exists>r. connectAgain conn = Some r) \<longleftrightarrow> (\<exists>k. conn k \<noteq> ECONNREFUSED)) \<and>
   (conn 0 \<in> {0, -1} \<longrightarrow> connectAgain conn = Some (conn 0, 1))"
proof -
  have "(\<exists>r. connectAgain conn = Some r) \<longleftrightarrow> (\<exists>k. conn k \<noteq> ECONNREFUSED)"
    using first_from_ends [of "\<lambda>k. conn k \<noteq> ECONNREFUSED" 0] by (auto simp: connectAgain_def)
  moreover have "connectAgain conn = Some (conn 0, 1)" if "conn 0 \<in> {0, -1}"
    using that first_from_complete [of "\<lambda>k. conn k \<noteq> ECONNREFUSED" 0 0] by (auto simp: connectAgain_def ECONNREFUSED_def)
  ultimately show ?thesis by blast
qed

text \<open>The monitor waits for its server as long as it takes.\<close>

theorem client_waits: "Client_connect up = Some k \<longleftrightarrow> up k \<and> (\<forall>i < k. \<not> up i)"
proof
  assume "up k \<and> (\<forall>i < k. \<not> up i)"
  then show "Client_connect up = Some k" using first_from_complete [of up 0 k] by (simp add: Client_connect_def)
qed (use first_from_sound [of up 0 k] in \<open>simp add: Client_connect_def\<close>)

text \<open>
  When the connection of the diagnostics client is lost, the first attempt to connect always
  fails: the old socket cannot be connected again (\<^verbatim>\<open>EISCONN\<close>). It is closed, and the second attempt has a new one.
\<close>

theorem diag_reconnects:
  assumes "\<not> ds_connected s" "trm_diag_fd s \<noteq> -1" "conn (trm_diag_fd s) 0 = -1"
  shows "\<exists>s1. diag_connect_to_trm new conn s = Some (-1, s1) \<and> \<not> ds_connected s1 \<and>
    (conn new 0 = 0 \<longrightarrow> diag_connect_to_trm new conn s1 = Some (0, \<lparr>trm_diag_fd = new, ds_connected = True\<rparr>))"
proof -
  have "connectAgain (conn (trm_diag_fd s)) = Some (-1, 1)"
    using connect_again_ends [of "conn (trm_diag_fd s)"] assms(3) by simp
  then have "diag_connect_to_trm new conn s = Some (-1, s\<lparr>trm_diag_fd := -1\<rparr>)"
    using assms by (simp add: diag_connect_to_trm_def)
  moreover have "connectAgain (conn new) = Some (0, 1)" if "conn new 0 = 0"
    using connect_again_ends [of "conn new"] that by simp
  ultimately show ?thesis using assms(1) by (auto simp: diag_connect_to_trm_def)
qed

text \<open>
  The diagnostics client starts one reader thread and connects once, however often it is initialised; when the server
  is not there the thread still starts, with the descriptor -1.
\<close>

theorem init_once:
  assumes "conn new 0 \<in> {0, -1}" "\<not> ds_connected s" "trm_diag_fd s = -1"
  shows "\<exists>x. Helper_init new conn (False, s) = Some (x, [if conn new 0 = 0 then new else -1]) \<and>
    (\<forall>new' conn'. Helper_init new' conn' x = Some (x, []))"
proof -
  have "connectAgain (conn new) = Some (conn new 0, 1)" using connect_again_ends [of "conn new"] assms(1) by blast
  then show ?thesis using assms by (auto simp: Helper_init_def diag_connect_to_trm_def)
qed

lemma srvArgs_from:
  assumes "srvArgs toInt args r = Inr (p, ip, d)"
  shows "(p = fst r \<or> p \<in> toInt ` set args) \<and> (ip = fst (snd r) \<or> ip \<in> set args)"
  using assms
proof (induction toInt args r rule: srvArgs.induct)
  case (3 toInt a b args r)
  consider "contains ''-port'' a" | "\<not> contains ''-port'' a" "contains ''-ip'' a"
    | "\<not> contains ''-port'' a" "\<not> contains ''-ip'' a" "contains ''-debugconfig'' a"
    | "\<not> contains ''-port'' a" "\<not> contains ''-ip'' a" "\<not> contains ''-debugconfig'' a" by blast
  then show ?case
  proof cases
    case 1
    then show ?thesis using 3(1) 3(5) by auto
  next
    case 2
    then show ?thesis using 3(2) 3(5) by auto
  next
    case 3
    then show ?thesis using "3.IH"(3) "3.prems" by auto
  next
    case 4
    then show ?thesis using 3(4) 3(5) by auto
  qed
qed (auto split: if_splits)

text \<open>
  The server is started with a port that exists and an address, both from the arguments. A port
  that is not a number is taken for 0 and accepted.
\<close>

theorem srv_main_starts:
  "(srv_main toInt args = Inr (Some (ip, port)) \<longrightarrow> 0 \<le> port \<and> port \<le> 65535 \<and> ip \<noteq> '''' \<and> ip \<in> set args \<and> port \<in> toInt ` set args) \<and>
   (ip \<noteq> '''' \<and> toInt p = 0 \<longrightarrow> srv_main toInt [''-port'', p, ''-ip'', ip] = Inr (Some (ip, 0)))"
proof (intro conjI impI)
  assume "srv_main toInt args = Inr (Some (ip, port))"
  then obtain d where "srvArgs toInt args (-1, '''', None) = Inr (port, ip, d)" "0 \<le> port" "port \<le> 65535" "ip \<noteq> ''''"
    by (cases "srvArgs toInt args (-1, '''', None)") (auto simp: srv_main_def split: if_splits)
  then show "0 \<le> port" "port \<le> 65535" "ip \<noteq> ''''" "ip \<in> set args" "port \<in> toInt ` set args"
    using srvArgs_from by force+
next
  assume "ip \<noteq> '''' \<and> toInt p = 0"
  then show "srv_main toInt [''-port'', p, ''-ip'', ip] = Inr (Some (ip, 0))" by (simp add: srv_main_def)
qed

end
