(* ===== verification/Spec2Isabelle.thy ===== *)
theory Spec2Isabelle
  imports Trm_System Trm_Owners Trm_Conflict Trm_Device Trm_Fcgi Trm_Setup Trm_Start
begin

text \<open>
  \<^bold>\<open>The Tuner Reservation Manager.\<close>

  \<^bold>\<open>The program.\<close> The server (\<^verbatim>\<open>qtapp/srv\<close>) shares a few tuners among viewers and a recorder.
  Clients connect over TCP; each message is a 16-byte header and a JSON payload
  (\<^verbatim>\<open>common/src/Header.cpp\<close>, \<^verbatim>\<open>qtapp/common/Connection.cpp\<close>). \<^verbatim>\<open>Server\<close> binds client ids to
  connections and passes every decoded message through \<^verbatim>\<open>ServerMessageProcessor\<close> to an \<^verbatim>\<open>Execute\<close>
  function of \<^verbatim>\<open>Executors.cpp\<close>, which works on the tables of the singleton \<^verbatim>\<open>Manager\<close>: the tuners with
  their reservations, the owner of each reservation, three timers per reservation and the list
  of pending requests with their timers. Timers call back into \<^verbatim>\<open>ReservationTimerTask.cpp\<close>;
  \<^verbatim>\<open>Manager::reservationUpdated\<close> is a queued signal with one slot in \<^verbatim>\<open>Manager\<close> (it reviews the pending
  conflicts) and one in \<^verbatim>\<open>Server\<close> (it notifies the clients).

  \<^bold>\<open>The theories.\<close>
  \<^item> \<open>Trm_Prelude\<close>: exceptions as the left of a sum, the combinators for queries that may throw,
    \<^verbatim>\<open>std::map\<close> as a sorted association list (\<open>smap\<close>), words and list lemmas.
  \<^item> \<open>Trm_Enum\<close>: \<^verbatim>\<open>Enum.h\<close>, \<^verbatim>\<open>Activity\<close>, \<^verbatim>\<open>TunerState\<close>, \<^verbatim>\<open>ResponseStatus\<close>, \<^verbatim>\<open>Klass\<close>; a locale for a table
    of enumerators, interpreted on each of the four tables.
  \<^item> \<open>Trm_Tuner\<close>: \<^verbatim>\<open>TunerReservation\<close> and \<^verbatim>\<open>Tuner\<close>, with the abstract state of a tuner.
  \<^item> \<open>Trm_Messages\<close>: the messages of \<^verbatim>\<open>Messages.h\<close>. \<open>Trm_Header\<close>, \<open>Trm_Connection\<close>: bytes on the wire.
  \<^item> \<open>Trm_Json\<close>: the operations of the jansson library as a parameter, their laws as a locale, and a
    small library that has the laws. \<open>Trm_Codec\<close>, \<open>Trm_Decode\<close>: the encoders and decoders of
    \<^verbatim>\<open>JanssonParser.cpp\<close> and \<^verbatim>\<open>JsonDecoder.cpp\<close>. \<open>Trm_Wire\<close>: what arrives of an encoded message.
    \<open>Trm_Session\<close>: the server's slot on bytes and its refinement to the slot on decoded messages.
    \<open>Trm_Device\<close>: how the device id is read.
  \<^item> \<open>Trm_Monitor\<close>, \<open>Trm_Diag\<close>: two clients of the server, the monitor (\<^verbatim>\<open>qtapp/gui/TRMMonitor.cpp\<close>) and the
    diagnostics client (\<^verbatim>\<open>diag\<close>), the latter reading the bytes the server writes.
  \<^item> \<open>Trm_OpenSsl\<close>, \<open>Trm_Proxy\<close>: the WebSocket proxy (\<^verbatim>\<open>wsproxy\<close>) with its OpenSSL servers, through which boxes reach
    the server. \<open>Trm_Route\<close>: its events, the reachable states and their invariants. \<open>Trm_Setup\<close>: its arguments, its
    choice of a certificate and the servers it starts.
  \<^item> \<open>Trm_Fcgi\<close>: connecting to the server (\<^verbatim>\<open>connect_to_trm\<close> of both proxies) and the FastCGI proxy (\<^verbatim>\<open>proxy/fcgiproxy.c\<close>).
  \<^item> \<open>Trm_Gui\<close>: the window of the monitor (\<^verbatim>\<open>qtapp/gui/TRMMonitorGUI.cpp\<close>). \<open>Trm_Start\<close>: the arguments of server and monitor, and
    the loops that wait for a server.
  \<^item> \<open>Trm_Timer\<close>: \<^verbatim>\<open>Timer.h\<close> and \<^verbatim>\<open>QtTimer.h\<close> on 64- and 32-bit words.
  \<^item> \<open>Trm_World\<close>: the state of the whole server, the monad \<open>trm\<close> of stateful code that may throw
    (the state changes made before an exception stay), sending, the clock and the uuids.
  \<^item> \<open>Trm_Manager\<close>: \<^verbatim>\<open>Manager.cpp\<close> without its slots and time-outs; \<open>Trm_Tables\<close>: what its operations do to the tables.
  \<^item> \<open>Trm_Filter\<close>: \<^verbatim>\<open>Filter.cpp\<close>. \<open>Trm_Reserve\<close>: \<^verbatim>\<open>reserveLive\<close>, \<^verbatim>\<open>reserveRecord\<close> and the search for
    conflicts. \<open>Trm_Execute\<close>: the other executors, \<^verbatim>\<open>ReservationTimerTask.cpp\<close>, the slots and the
    time-outs of pending requests.
  \<^item> \<open>Trm_Server\<close>: \<^verbatim>\<open>Server.cpp\<close> and \<^verbatim>\<open>ServerMessageProcessor.cpp\<close>, the events of the server, the
    inductive step relation and the reachable states.
  \<^item> \<open>Trm_Invariant\<close>: a locale for what is kept by every handler, its extension to the steps of the server, and
    the interpretations for the agreement of the tables and for the environment.
    \<open>Trm_Owners\<close> interprets it again for the owners of reservations.
  \<^item> \<open>Trm_Live\<close>, \<open>Trm_Safety\<close>, \<open>Trm_Clients\<close>, \<open>Trm_Record\<close>, \<open>Trm_Conflict\<close>, \<open>Trm_Inventory\<close>: the behaviour of the
    executors, slots and timer tasks. \<open>Trm_Scenario\<close>: concrete reachable states for the witnesses.
  \<^item> \<open>Trm_System\<close>: the programs together on bytes: the window of the monitor, the diagnostics client and the boxes behind
    the proxy, each with the server.

  \<^bold>\<open>The environment.\<close> The clock and the uuid library are functions from the number of the call to a value, in
  the record \<open>env\<close> that every theorem quantifies over; so the theorems hold for a clock that jumps and for
  uuids that repeat. The jansson library is the record \<open>jansson\<close>; theorems that need its documented
  behaviour have the hypothesis \<open>jansson_laws\<close>, which \<open>jansson_ref\<close> satisfies. Its members may come in any
  order. What follows a null pointer or a failed cast is the outcome \<open>UndefinedBehaviour\<close>, which no
  handler catches.

  \<^bold>\<open>What is shown.\<close> This theory: the tables agree in every reachable state and owners are connected; what
  live and recording requests may do; release, disconnection and time-outs remove exactly what they
  should; how a conflict between a recording and a viewer is opened and settled; every message is
  handled and live requests are answered. \<open>Trm_Inventory\<close>: the answers to the requests that list, validate and release.
  \<open>Trm_Tuner\<close>, \<open>Trm_Timer\<close>, \<open>Trm_Enum\<close>, \<open>Trm_Header\<close>, \<open>Trm_Connection\<close>, \<open>Trm_Device\<close>: the components by themselves.
  \<open>Trm_Session\<close>: the codec round trip, and that bytes which arrive in any chunks run the server as the
  decoded messages do, so that the theorems on the event loop speak about bytes.
  \<open>Trm_Route\<close>: the proxy keeps its boxes apart, and where it does not. The composition of proxy and
  server is in this theory (what is released when a box goes) and in \<open>Trm_System\<close>: what a program writes is what the other
  one reads, so a live request of a box is answered to that box, and the window and the list of the diagnostics client
  show exactly the reservations the server holds. \<open>Trm_Setup\<close>: which ports the proxy opens.
  \<open>Trm_Fcgi\<close>: connecting ends, and the FastCGI proxy answers by turn. \<open>Trm_Gui\<close>: the bars of the window show the
  reservations the server reports.
  A few theorems state behaviour that differs from what the code means to do.

  \<^bold>\<open>Loops.\<close> Loops over containers are structural recursion over the container as it is when the loop starts, where
  the body does not change it. The one loop that walks a list its own body may extend
  (\<^verbatim>\<open>Manager::onReservationUpdated\<close>) is written over a snapshot, and with fuel and an index as well; the two are proved equal for
  all sufficiently large fuel. The reading loop of a connection and the loop that
  connects a proxy to the server are functions with termination proofs. The unbounded loops of the proxies are given by the list of what their
  blocking calls return, or by the events of a step relation. Loops that wait for a server without a
  bound are partial functions: not ending is the value \<open>None\<close>, and it is shown when they end.

  \<^bold>\<open>Not modelled.\<close> Logging and printing; Qt's own event loop, threads and sockets (an event is one
  atomic step); the JSON text itself, which the library reads and writes; the integer through which
  \<^verbatim>\<open>JsonDecoder\<close> passes the pointer to a document (pointers are taken to fit); the Qt, OpenSSL and
  FastCGI libraries, of which only the results of the calls appear; the layout of the windows; the
  test program of \<^verbatim>\<open>diag\<close>.
\<close>

section \<open>The tables of the manager\<close>

text \<open>
  C1. In every state the server can reach, under any sequence of connections, messages,
  disconnections, timer events and deliveries of queued signals, and any readings of the clock
  and the id generator, the tables of the manager agree with each other: the tuners are those
  of the start and each files its reservations under their own tokens; the tables of owners and
  of pre-start, start and expiration timers have the same tokens; and each of these tokens is
  held by some tuner.
\<close>

theorem tables_agree:
  assumes "reachable e n w"
  shows "mgr_ok (getTunerIds (Manager_new n)) (w_mgr w)"
  using assms by (rule reachable_mgr_ok)

theorem tables_agree_witness: "mgr_ok (getTunerIds (Manager_new 2)) (w_mgr box_conflict)"
  by (rule tables_agree [OF box_conflict_reachable])

text \<open>
  C5. A release is atomic. It either succeeds, and then the token has no owner and no timer left
  while every other token keeps its reservation, its owner and its timers; or it throws
  \<^verbatim>\<open>ItemNotFoundException\<close> for a token without an owner, and then nothing has changed.
\<close>

theorem release_atomic:
  assumes "reachable e n w" "releaseReservation tok notify w = (q, w')"
  shows "(q = Inr () \<and> managed (w_mgr w) tok \<and> \<not> managed (w_mgr w') tok \<and>
            map_of (expireTimers (w_mgr w')) tok = None \<and>
            map_of (startTimers (w_mgr w')) tok = None \<and>
            map_of (preStartTimers (w_mgr w')) tok = None \<and>
            (\<forall>tok'. tok' = tok \<or>
               getReservation tok' (w_mgr w') = getReservation tok' (w_mgr w) \<and>
               map_of (attrs (w_mgr w')) tok' = map_of (attrs (w_mgr w)) tok' \<and>
               map_of (expireTimers (w_mgr w')) tok' = map_of (expireTimers (w_mgr w)) tok' \<and>
               map_of (startTimers (w_mgr w')) tok' = map_of (startTimers (w_mgr w)) tok' \<and>
               map_of (preStartTimers (w_mgr w')) tok' = map_of (preStartTimers (w_mgr w)) tok')) \<or>
         (q = Inl ItemNotFoundException \<and> \<not> managed (w_mgr w) tok \<and> w' = w)"
proof (cases "managed (w_mgr w) tok")
  case True
  note ok = reachable_mgr_ok [OF assms(1)]
  have run: "q = Inr ()" "w_mgr w' = released tok (w_mgr w)"
    using releaseReservation_managed [OF ok True, of notify] assms(2) by auto
  have "tok \<in> tokens_of (w_mgr w)" using mgr_okD(6) [OF ok] True by blast
  then obtain tid t where f: "findTuner tok (tuners (w_mgr w)) = Some (tid, t)"
    using tokens_of_findTuner by blast
  show ?thesis using True run released_other [of _ tok "w_mgr w"]
    by (auto simp: released_def f managed_def)
qed (use releaseReservation_unmanaged [OF reachable_mgr_ok [OF assms(1)], of tok notify] assms(2) in auto)

theorem release_atomic_witness:
  "\<not> managed (w_mgr (snd (releaseReservation ''u'' True box_live))) ''u''"
proof -
  have "managed (w_mgr box_live) ''u''" by code_simp
  then show ?thesis
    using release_atomic [OF box_live_reachable, of "''u''" True "fst (releaseReservation ''u'' True box_live)"
        "snd (releaseReservation ''u'' True box_live)"] by auto
qed

text \<open>
  C17. Granting a reservation and releasing it again is a round trip: for a token that no tuner
  holds, adding the reservation to a tuner, filing its owner and releasing it leave the manager
  exactly as it was, whenever the addition is accepted.
\<close>

theorem grant_release_round_trip:
  assumes "reachable e n w" "r_token r \<notin> tokens_of (w_mgr w)"
    and "fst (addReservation r tid w) = Inr ()"
  shows "w_mgr (snd (mseq (addReservation r tid)
      (mseq (setReservationAttributes (r_token r) cid) (releaseReservation (r_token r) b)) w)) = w_mgr w"
proof -
  note ok = reachable_mgr_ok [OF assms(1)]
  obtain t where t: "map_of (tuners (w_mgr w)) tid = Some t"
    using assms(3) addReservation_run [OF ok, of r tid] by (auto split: option.splits)
  have add: "fst (Tuner_addReservation r t) = Inr ()" "\<not> managed (w_mgr w) (r_token r)"
    using assms(3) addReservation_run [OF ok, of r tid] t by (auto split: if_splits)
  let ?g = "(granted (w_env w) (w_clock w) r tid (w_mgr w))\<lparr>attrs := smap_put (r_token r) cid (attrs (w_mgr w))\<rparr>"
  let ?w1 = "w\<lparr>w_clock := w_clock w + 4, w_mgr := ?g\<rparr>"
  have "mgr_ok (getTunerIds (Manager_new n)) ?g" by (rule mgr_ok_granted [OF ok t add(1)])
  moreover have "managed ?g (r_token r)" by (simp add: managed_def)
  ultimately have "w_mgr (snd (releaseReservation (r_token r) b ?w1)) = released (r_token r) ?g"
    using releaseReservation_managed [of "getTunerIds (Manager_new n)" ?w1 "r_token r" b] by simp
  moreover have "attrs (granted (w_env w) (w_clock w) r tid (w_mgr w)) = attrs (w_mgr w)"
    by (simp add: granted_def)
  ultimately show ?thesis
    using addReservation_run [OF ok, of r tid] t add released_granted [OF ok assms(2) t add(1)]
    by (simp add: trm_run setReservationAttributes_def)
qed

theorem grant_release_round_trip_witness:
  "w_mgr (snd (mseq (addReservation sample_record ''TunerId-1'')
      (mseq (setReservationAttributes (r_token sample_record) 9)
        (releaseReservation (r_token sample_record) True)) box_live)) = w_mgr box_live"
  by (rule grant_release_round_trip [OF box_live_reachable]) code_simp+

text \<open>
  C2. No reservation outlives the connection of its owner: in every reachable state the owner of
  a reservation is a client bound to an open connection, or the recorder, to which settled
  conflicts are granted even while it is away.
\<close>

theorem owners_connected:
  assumes "reachable e n w" "map_of (attrs (w_mgr w)) tok = Some cid"
  shows "cid = kRecorderClientId \<or> (\<exists>c \<in> set (w_connections w). map_of (w_clients w) cid = Some c)"
proof -
  have "owned kRecorderClientId w" by (rule reachable_owned [OF assms(1)])
  then have b: "bound cid w" and o: "snd ` set (w_clients w) \<subseteq> set (w_connections w)"
    using map_of_SomeD [OF assms(2)] by (force simp: owned_recorder owners_bound_def clients_open_def)+
  show ?thesis
  proof (cases "map_of (w_clients w) cid")
    case None
    then show ?thesis using b by (simp add: bound_def map_of_eq_None_iff)
  next
    case (Some c)
    then show ?thesis using o map_of_SomeD [OF Some] by force
  qed
qed

theorem owners_connected_witness:
  "\<exists>c \<in> set (w_connections box_conflict). map_of (w_clients box_conflict) 8 = Some c"
proof -
  have "map_of (attrs (w_mgr box_conflict)) ''uuu'' = Some 8" by (simp add: box_conflict_eval)
  then show ?thesis using owners_connected [OF box_conflict_reachable] by (fastforce simp: kRecorderClientId_def)
qed

section \<open>Granting live reservations and recordings\<close>

text \<open>
  C3. What a live request may do. When \<^verbatim>\<open>reserveLive\<close> returns, either the response carries a
  reservation that is now held by a tuner and owned by the requester, and the tuner was one a
  live reservation may use: free, or recording the very channel that is asked for, or already
  used for live by the same device; the tuner reserved for the host changes hands only to the
  host, unless the device stays on its own tuner. Or no reservation, owner, timer or pending
  request has changed, and the response reports the conflicts or that there are no resources.
\<close>

theorem live_request_outcome:
  assumes "reachable e n w"
    and "reserveLive request (ReserveTunerResponse_new (q_uuid request)) cid w = (Inr resp, w')"
  shows "(\<exists>tid. live_place request (w_mgr w) tid \<and>
            holds_reservation (w_mgr w') tid (s_tunerReservation resp) cid \<and>
            s_conflicts resp = [] \<and> s_status resp = sOk \<and>
            (w_deviceId w \<noteq> '''' \<longrightarrow> is_own request (w_mgr w) tid \<or>
               (localTuner (w_mgr w') = tid \<longleftrightarrow> q_device request = w_deviceId w))) \<or>
         (upto_local (w_mgr w) (w_mgr w') \<and>
            s_status resp = (if s_conflicts resp = [] then sInsufficientResource else sOk))"
  using reserveLive_outcome [OF reachable_mgr_ok [OF assms(1)] assms(2)] unfolding new_response by blast

theorem live_request_outcome_witness:
  "\<exists>tid. live_place (live_on ''tab'' ''ch2'') (w_mgr box_live) tid"
proof -
  let ?r = "reserveLive (live_on ''tab'' ''ch2'')
    (ReserveTunerResponse_new (q_uuid (live_on ''tab'' ''ch2''))) 8 box_live"
  have "\<not> isl (fst ?r)" by code_simp
  moreover have "localTuner (w_mgr (snd ?r)) = ''TunerId-0'' \<and> attrs (w_mgr (snd ?r)) \<noteq> attrs (w_mgr box_live)"
    by code_simp
  then have "\<not> upto_local (w_mgr box_live) (w_mgr (snd ?r))" by (auto simp: upto_local_def)
  ultimately show ?thesis
    using live_request_outcome [OF box_live_reachable run_value [of "\<lambda>w. reserveLive (live_on ''tab'' ''ch2'')
    (ReserveTunerResponse_new (q_uuid (live_on ''tab'' ''ch2''))) 8 w" box_live]] by blast
qed

text \<open>
  C4. What a new recording request may do. When \<^verbatim>\<open>reserveRecord\<close> returns, either the recording is
  held by a tuner and owned by the recorder, on a tuner that was free; or on one whose
  recordings end before the new one starts and that is hybrid on the same channel or only
  records; or that is live on the same channel with nothing else planned; or that waits to
  record this channel. Or the manager is unchanged, the status is InsufficientResource, and
  there is exactly one conflict to resolve, which is a live reservation.
\<close>

theorem record_request_outcome:
  assumes "reachable e n w" "r_token (q_tunerReservation request) = ''''"
    and "reserveRecord request (ReserveTunerResponse_new (q_uuid request)) cid w = (Inr resp, w')"
  shows "(\<exists>tid. record_place request (w_mgr w) tid \<and>
            holds_reservation (w_mgr w') tid (s_tunerReservation resp) cid \<and>
            s_conflicts resp = [] \<and> s_status resp = sOk) \<or>
         (w_mgr w' = w_mgr w \<and> s_status resp = sInsufficientResource \<and>
            (\<exists>live. s_conflicts resp = [live] \<and> a_enum (r_activity live) = kLive))"
  using reserveRecord_outcome [OF reachable_mgr_ok [OF assms(1)] assms(2) new_response(1) assms(3)]
  unfolding new_response by blast

theorem record_request_outcome_witness:
  "\<exists>live. s_conflicts (projr (fst (reserveRecord (record_on ''ch3'')
     (ReserveTunerResponse_new (q_uuid (record_on ''ch3''))) kRecorderClientId box_full))) = [live] \<and>
     a_enum (r_activity live) = kLive"
proof -
  let ?m = "reserveRecord (record_on ''ch3'')
    (ReserveTunerResponse_new (q_uuid (record_on ''ch3''))) kRecorderClientId"
  have "\<not> isl (fst (?m box_full))" "s_conflicts (projr (fst (?m box_full))) \<noteq> []"
    "r_token (q_tunerReservation (record_on ''ch3'')) = ''''" by code_simp+
  then show ?thesis
    using record_request_outcome [OF box_full_reachable _ run_value [of ?m box_full]] by auto
qed

text \<open>
  Resolving a conflict moves the start of the recording but not its end: the times computed
  for the granted recording differ from the requested ones in start and duration only, and the
  end is the same, or the duration is 0 when the requested end has passed.
\<close>

theorem grant_keeps_end:
  assumes "grantTimes st r w = (Inr r', w')"
  shows "(r_startTime r' + r_duration r' = r_startTime r + r_duration r \<or>
          r_duration r' = 0 \<and> r_startTime r' > r_startTime r + r_duration r) \<and>
         (\<exists>s d. r' = setDuration d (setStartTime s r))"
  using returnsD [OF grantTimes_returns assms] by (simp add: same_end_def same_but_times_def)

theorem grant_keeps_end_witness:
  "\<exists>s d. projr (fst (grantTimes tLive sample_record box_conflict)) = setDuration d (setStartTime s sample_record)"
proof -
  have "\<not> isl (fst (grantTimes tLive sample_record box_conflict))" by code_simp
  then show ?thesis
    using grant_keeps_end [OF run_value [of "grantTimes tLive sample_record" box_conflict]] by blast
qed

section \<open>Clients and connections\<close>





text \<open>
  C9. A live request of a connected client gets exactly one response, with the uuid of the
  request; the only other outcome is a failed assertion, after the search for a tuner ended in an
  exception that has no status of its own, and then nothing at all is sent.
\<close>

theorem live_request_answered:
  assumes "a_enum (r_activity (q_tunerReservation q)) = kLive"
    and "map_of (w_clients w) cid = Some c"
    and "Execute_ReserveTuner q cid w = (r, w')"
  shows "(r = Inr () \<and> (\<exists>resp. s_uuid resp = q_uuid q \<and>
            w_out w' = w_out w @ delivered w c cid (M_ReserveTunerResponse resp))) \<or>
         (r = Inl AssertionFailureException \<and> w_out w' = w_out w \<and> (\<exists>e. live_refused q cid w e))"
  using assms by (rule Execute_ReserveTuner_live_response)

theorem live_request_answered_witness:
  "\<exists>resp. s_uuid resp = ''q'' \<and>
     w_out (snd (Execute_ReserveTuner (live_on ''host'' ''ch9'') 7 box_live)) =
       w_out box_live @ delivered box_live 0 7 (M_ReserveTunerResponse resp)"
proof -
  let ?r = "Execute_ReserveTuner (live_on ''host'' ''ch9'') 7 box_live"
  have "a_enum (r_activity (q_tunerReservation (live_on ''host'' ''ch9''))) = kLive"
    "fst ?r = Inr ()" "q_uuid (live_on ''host'' ''ch9'') = ''q''" by code_simp+
  then show ?thesis
    using live_request_answered [OF _ box_live_client, of "live_on ''host'' ''ch9''" "fst ?r" "snd ?r"]
    by (simp add: prod_eq_iff)
qed



text \<open>
  A client stays bound to the connection of its first message: a message with its id that
  arrives on another connection does not move it, and unknown clients become bound to the
  connection they write on.
\<close>

theorem client_binding:
  "map_of (w_clients (snd (bindClient c cid w))) cid' =
     (case map_of (w_clients w) cid' of
        Some c' \<Rightarrow> Some c'
      | None \<Rightarrow> if cid' = cid then Some c else None)"
  by (auto simp: bindClient_def setClients_def split: option.split)

text \<open>
  The diagnostics client, when connected, gets a copy of everything: each message sent to a
  client is followed by the same message on the diagnostics connection, under the client's own
  id, and without a diagnostics client nothing is added.
\<close>

theorem diagnostics_copy:
  assumes "map_of (w_clients w) cid = Some c"
  shows "sendTo cid cid m w =
    (Inr (), w\<lparr>w_out := w_out w @ [\<lparr>o_connection = c, o_clientId = cid, o_payload = Payload m\<rparr>] @
       (case map_of (w_clients w) kTRMMgrClientId of
          None \<Rightarrow> []
        | Some d \<Rightarrow> [\<lparr>o_connection = d, o_clientId = cid, o_payload = Payload m\<rparr>])\<rparr>)"
  using assms by (simp add: sendTo_run delivered_def)

theorem diagnostics_copy_witness:
  "fst (sendTo 7 7 (M_ReserveTuner (live_on ''host'' ''ch9'')) box_live) = Inr ()"
  using diagnostics_copy [OF box_live_client] by simp

section \<open>Timers and pending requests\<close>

text \<open>
  C19. When the start timer of an idle reservation fires, the task returns and the reservation is
  active afterwards, whatever the notifications on the way run into; the tables still agree.
\<close>

theorem start_timer_activates:
  assumes "reachable e n w" "getReservation tok (w_mgr w) = Inr r" "r_state r = IDLE"
  shows "\<exists>w' r'. ReservationStartTimerTask_run tok w = (Inr (), w') \<and>
    getReservation tok (w_mgr w') = Inr r' \<and> r_state r' = ACTIVE \<and>
    mgr_ok (getTunerIds (Manager_new n)) (w_mgr w')"
  using start_activates [OF reachable_mgr_ok [OF assms(1)] assms(2,3)] unfolding is_active_def by blast

theorem start_timer_activates_witness:
  "\<exists>w' r'. ReservationStartTimerTask_run ''u'' box_one = (Inr (), w') \<and>
    getReservation ''u'' (w_mgr w') = Inr r' \<and> r_state r' = ACTIVE \<and>
    mgr_ok (getTunerIds (Manager_new 2)) (w_mgr w')"
proof (rule start_timer_activates [OF box_one_reachable])
  show "getReservation ''u'' (w_mgr box_one) = Inr (projr (getReservation ''u'' (w_mgr box_one)))" by code_simp
  show "r_state (projr (getReservation ''u'' (w_mgr box_one))) = IDLE" by code_simp
qed



text \<open>
  C21. A viewer who cancels a pending recording settles the conflict: the recorder is told
  UserCancellation for its request, the viewer gets Ok, in this order; the pending request is
  removed and no tuner is touched.
\<close>

theorem viewer_cancels_recording:
  assumes "getPendingRequest (q_token q) (w_mgr w) = Inr p"
    "p_kind p = PendingReserveTunerConflicts owner n req parent"
    and "map_of (w_clients w) owner = Some co" "map_of (w_clients w) cid = Some c"
  shows "\<exists>w'. cancelPendingConflict q cid w = (Inr (), w') \<and>
    pendingRequests (w_mgr w') = remove_first (\<lambda>p. p_uuid p = q_token q) (pendingRequests (w_mgr w)) \<and>
    tuners (w_mgr w') = tuners (w_mgr w) \<and>
    w_out w' = w_out w @
      delivered w co owner (M_ReserveTunerResponse
        ((ReserveTunerResponse_new (q_uuid req))\<lparr>s_status := sUserCancellation\<rparr>)) @
      delivered w c cid (M_CancelRecordingResponse
        ((CancelRecordingResponse_new (q_uuid q) (q_token q))\<lparr>s_status := sOk, s_canceled := True\<rparr>))"
  using assms by (rule cancelPendingConflict_run)

theorem viewer_cancels_recording_witness:
  "\<exists>w'. cancelPendingConflict (CancelRecording_new ''x'' ''uuuuu'') 7 box_conflict = (Inr (), w') \<and>
     tuners (w_mgr w') = tuners (w_mgr box_conflict)"
proof -
  let ?p = "hd (pendingRequests (w_mgr box_conflict))"
  have "getPendingRequest (q_token (CancelRecording_new ''x'' ''uuuuu'')) (w_mgr box_conflict) = Inr ?p"
    by code_simp
  moreover have "case p_kind ?p of PendingReserveTunerConflicts owner n req parent \<Rightarrow> owner = kRecorderClientId | _ \<Rightarrow> False"
    by code_simp
  moreover have "map_of (w_clients box_conflict) kRecorderClientId = Some 2" "map_of (w_clients box_conflict) 7 = Some 0"
    by code_simp+
  ultimately show ?thesis
    using viewer_cancels_recording by (cases "p_kind ?p") (auto, blast)
qed

section \<open>Conflicts between recordings and live\<close>

text \<open>
  C7. A recording that conflicts with a live reservation opens a pending request and asks the
  viewer: the request waits under the next uuid as temporary token, with a timer; the owner of
  the live reservation gets one notification with the live reservation and the recording under
  that token, nobody else gets a message, and no reservation is touched.
\<close>

theorem recording_conflict_asks:
  assumes "reachable e n w"
    and "a_enum (r_activity (q_tunerReservation q)) = kRecord" "r_token (q_tunerReservation q) = ''''"
    and "reserveRecord q (ReserveTunerResponse_new (q_uuid q)) cid w = (Inr resp, w1)"
    and "s_conflicts resp = [live]"
    and "map_of (attrs (w_mgr w)) (r_token live) = Some owner" "map_of (w_clients w) owner = Some co"
  shows "\<exists>w' parent. Execute_ReserveTuner q cid w = (Inr (), w') \<and>
    getParent (r_token live) (w_mgr w) = Inr parent \<and>
    pendingRequests (w_mgr w') = pendingRequests (w_mgr w) @
      [\<lparr>p_addr = w_fresh w1, p_uuid = e_uuid (w_env w1) (w_uuids w1),
        p_kind = PendingReserveTunerConflicts cid (conflict_notice w1 q live) q parent\<rparr>] \<and>
    tuners (w_mgr w') = tuners (w_mgr w) \<and> attrs (w_mgr w') = attrs (w_mgr w) \<and>
    e_uuid (w_env w1) (w_uuids w1) \<in> fst ` set (pendingRequestTimers (w_mgr w')) \<and>
    w_out w' = w_out w @
      delivered w co owner (M_NotifyTunerReservationConflicts (conflict_notice w1 q live))"
  using Execute_ReserveTuner_conflict [OF reachable_mgr_ok [OF assms(1)] assms(2-)] .

theorem recording_conflict_asks_witness:
  "\<exists>w'. Execute_ReserveTuner (record_on ''ch3'') kRecorderClientId box_full = (Inr (), w') \<and>
     tuners (w_mgr w') = tuners (w_mgr box_full)"
proof -
  let ?m = "reserveRecord (record_on ''ch3'') (ReserveTunerResponse_new (q_uuid (record_on ''ch3'')))
    kRecorderClientId"
  let ?live = "projr (getReservation ''u'' (w_mgr box_full))"
  have run: "\<not> isl (fst (?m box_full))" "s_conflicts (projr (fst (?m box_full))) = [?live]"
    "r_token ?live = ''u''" by code_simp+
  have "map_of (attrs (w_mgr box_full)) (r_token ?live) = Some 7" "map_of (w_clients box_full) 7 = Some 0"
    unfolding run(3) by (simp_all add: box_full_eval)
  moreover have "a_enum (r_activity (q_tunerReservation (record_on ''ch3''))) = kRecord"
    "r_token (q_tunerReservation (record_on ''ch3'')) = ''''" by code_simp+
  ultimately show ?thesis
    using recording_conflict_asks [OF box_full_reachable _ _ run_value [of ?m box_full, OF run(1)] run(2)] by blast
qed



text \<open>
  C20. The loop of \<^verbatim>\<open>Manager::onReservationUpdated\<close>, which advances an iterator over the list of
  pending requests while its body may append to that list, ends, and it does what a loop over
  the requests present at its start does.
\<close>

theorem pending_loop_equivalent:
  "\<exists>F. \<forall>fuel. fuel < F \<or>
     reevaluateLoop fuel 0 [] w = mfold (pendingRequests (w_mgr w)) reevaluate [] w"
proof -
  obtain F where "\<forall>fuel \<ge> F. reevaluateLoop fuel 0 [] w = mfold (pendingRequests (w_mgr w)) reevaluate [] w"
    using reevaluateLoop_mfold [of w "[]" "pendingRequests (w_mgr w)" "[]" "[]"] by auto
  then show ?thesis by (metis not_le)
qed

text \<open>
  Opening a conflict marks the temporary token of the recording as in conflict and no other
  token: the live reservation that is in the way does not count as in conflict, so the next
  recording may be offered the same one again.
\<close>

theorem conflict_marks_recording_only:
  assumes "map_of (attrs (w_mgr w)) (r_token live) = Some owner" "map_of (w_clients w) owner = Some co"
    and "getParent (r_token live) (w_mgr w) = Inr parent"
  shows "isPendingConflict tok (w_mgr (snd (startConflict request live cid w))) \<longleftrightarrow>
    isPendingConflict tok (w_mgr w) \<or> tok = e_uuid (w_env w) (w_uuids w)"
proof -
  obtain w' where "startConflict request live cid w = (Inr (), w')"
    "pendingRequests (w_mgr w') = pendingRequests (w_mgr w) @
      [\<lparr>p_addr = w_fresh w, p_uuid = e_uuid (w_env w) (w_uuids w),
        p_kind = PendingReserveTunerConflicts cid (conflict_notice w request live) request parent\<rparr>]"
    using startConflict_run [OF assms(3,1,2)] by blast
  then show ?thesis using isPendingConflict_append [of "w_mgr w'" "w_mgr w" _ tok]
    by (simp add: conflict_notice_tokens del: conflict_tokens.simps)
qed

theorem conflict_marks_recording_only_witness:
  "\<not> isPendingConflict ''u'' (w_mgr (snd (startConflict (record_on ''ch3'')
     (projr (getReservation ''u'' (w_mgr box_full))) kRecorderClientId box_full)))"
proof -
  let ?live = "projr (getReservation ''u'' (w_mgr box_full))"
  have "r_token ?live = ''u''" "getParent ''u'' (w_mgr box_full) = Inr ''TunerId-0''"
    "\<not> isPendingConflict ''u'' (w_mgr box_full)" "''u'' \<noteq> e_uuid (w_env box_full) (w_uuids box_full)"
    by code_simp+
  moreover have "map_of (attrs (w_mgr box_full)) ''u'' = Some 7" "map_of (w_clients box_full) 7 = Some 0"
    by (simp_all add: box_full_eval)
  ultimately show ?thesis
    using conflict_marks_recording_only [of box_full ?live 7 0 "''TunerId-0''"] by simp
qed

end
